(* ===== verification/Prelude.thy ===== *)
theory Prelude
  imports Main "HOL-Library.State_Monad"
begin

section \<open>Shared types, effects and lemmas\<close>

text \<open>
  What every component theory uses: Go's error values, \<open>int64\<close> arithmetic with the
  wrap-around written out, decimal printing (\<open>strconv.Itoa\<close>, \<open>%d\<close>), and the effect
  of a Go function body: a state transformer whose result is an error or a value, with the
  idiom \<open>if err := m; err != nil { return wrap(err) }\<close> as a combinator. The second half is
  the calculus the components' proofs run on: \<open>wp\<close> (weakest precondition equations, in
  the collection \<open>wp_simps\<close>) and \<open>keeps\<close> (parts of the state an operation does not
  touch, in the collection \<open>keeps_intros\<close>).
\<close>

named_theorems wp_simps "weakest precondition equations"
named_theorems keeps_intros "introduction rules for preserved parts of the state"
named_theorems sql_simps "equations of the table operations"

subsection \<open>Error values\<close>

text \<open>
  Go's \<open>error\<close>: a message (\<open>fmt.Errorf\<close> without \<open>%w\<close>), a wrapped error
  (\<open>fmt.Errorf("ctx: %w", err)\<close>), or an error that a package outside the repository
  returns: no row, a database failure, Redis, HTTP, NATS, and \<open>encoding/json\<close>.
\<close>

datatype error =
    ErrMsg string
  | ErrWrap string error
  | ErrNoRows
  | ErrDB
  | ErrRedis
  | ErrHTTP
  | ErrNATS
  | ErrJSON

subsection \<open>Machine integers\<close>

text \<open>
  An \<open>int64\<close> is an \<open>int\<close> in \<open>[-2^63, 2^63)\<close>; every arithmetic operation of
  the code is followed by \<open>wrap64\<close>. Go's \<open>/\<close> and \<open>%\<close> truncate towards zero.
\<close>

type_synonym int64 = int

definition wrap64 :: "int \<Rightarrow> int64" where
  "wrap64 x = (x + 2 ^ 63) mod 2 ^ 64 - 2 ^ 63"

definition is_int64 :: "int \<Rightarrow> bool" where
  "is_int64 x \<longleftrightarrow> - (2 ^ 63) \<le> x \<and> x < 2 ^ 63"

definition go_div :: "int \<Rightarrow> int \<Rightarrow> int" where
  "go_div a b = sgn a * sgn b * (\<bar>a\<bar> div \<bar>b\<bar>)"

definition go_mod :: "int \<Rightarrow> int \<Rightarrow> int" where
  "go_mod a b = a - go_div a b * b"

lemma wrap64_id [simp]: "is_int64 x \<Longrightarrow> wrap64 x = x"
  by (simp add: is_int64_def wrap64_def)

lemma is_int64_wrap64 [simp]: "is_int64 (wrap64 x)"
proof -
  have "0 \<le> (x + 2 ^ 63) mod 2 ^ 64" "(x + 2 ^ 63) mod 2 ^ 64 < (2 :: int) ^ 64" by simp_all
  then show ?thesis by (simp add: is_int64_def wrap64_def)
qed

lemma wrap64_mod: "wrap64 x mod 2 ^ 64 = x mod 2 ^ 64"
  by (simp add: wrap64_def mod_diff_left_eq)

lemma wrap64_eq_iff: "wrap64 x = wrap64 y \<longleftrightarrow> x mod 2 ^ 64 = y mod 2 ^ 64"
proof
  assume "wrap64 x = wrap64 y"
  then show "x mod 2 ^ 64 = y mod 2 ^ 64" by (metis wrap64_mod)
next
  assume "x mod 2 ^ 64 = y mod 2 ^ 64"
  then have "(x + 2 ^ 63) mod 2 ^ 64 = (y + 2 ^ 63) mod 2 ^ 64" by (metis mod_add_left_eq)
  then show "wrap64 x = wrap64 y" by (simp add: wrap64_def)
qed

lemma wrap64_zero_iff: "wrap64 x = 0 \<longleftrightarrow> x mod 2 ^ 64 = 0"
  using wrap64_eq_iff [of x 0] by (simp add: is_int64_def)

lemma wrap64_add_left [simp]: "wrap64 (wrap64 x + y) = wrap64 (x + y)"
  by (simp only: wrap64_eq_iff) (metis mod_add_left_eq wrap64_mod)

lemma wrap64_add_right [simp]: "wrap64 (x + wrap64 y) = wrap64 (x + y)"
  by (simp only: wrap64_eq_iff) (metis mod_add_right_eq wrap64_mod)

lemma wrap64_diff_left [simp]: "wrap64 (wrap64 x - y) = wrap64 (x - y)"
  by (simp only: wrap64_eq_iff) (metis mod_diff_left_eq wrap64_mod)

lemma wrap64_diff_right [simp]: "wrap64 (x - wrap64 y) = wrap64 (x - y)"
  by (simp only: wrap64_eq_iff) (metis mod_diff_right_eq wrap64_mod)

lemma go_div_nonneg: "0 \<le> a \<Longrightarrow> 0 < b \<Longrightarrow> go_div a b = a div b"
  by (cases "a = 0") (auto simp: go_div_def sgn_if)

lemma go_mod_nonneg: "0 \<le> a \<Longrightarrow> 0 < b \<Longrightarrow> go_mod a b = a mod b"
  by (simp add: go_mod_def go_div_nonneg minus_div_mult_eq_mod)

subsection \<open>Decimal printing\<close>

definition digit_char :: "nat \<Rightarrow> char" where
  "digit_char d = char_of (48 + d)"

fun show_nat :: "nat \<Rightarrow> string" where
  "show_nat n = (if n < 10 then [digit_char n] else show_nat (n div 10) @ [digit_char (n mod 10)])"

declare show_nat.simps [simp del]

definition show_int :: "int \<Rightarrow> string" where
  "show_int i = (if i < 0 then CHR ''-'' # show_nat (nat (- i)) else show_nat (nat i))"

lemma digit_char_simps [simp]:
  "digit_char 0 = CHR ''0''" "digit_char (Suc 0) = CHR ''1''" "digit_char 1 = CHR ''1''"
  "digit_char 2 = CHR ''2''" "digit_char 3 = CHR ''3''" "digit_char 4 = CHR ''4''"
  "digit_char 5 = CHR ''5''" "digit_char 6 = CHR ''6''" "digit_char 7 = CHR ''7''"
  "digit_char 8 = CHR ''8''" "digit_char 9 = CHR ''9''"
  by (simp_all add: digit_char_def char_of_def bit_Suc_0_iff)

lemma show_nat_not_Nil [simp]: "show_nat n \<noteq> []"
  by (subst show_nat.simps) simp

text \<open>Reading the digits back: printing is injective.\<close>

definition read_digits :: "string \<Rightarrow> nat" where
  "read_digits s = foldl (\<lambda>n c. 10 * n + (of_char c - 48)) 0 s"

lemma of_char_digit: "d < 10 \<Longrightarrow> of_char (digit_char d) = (48 + d :: nat)"
  by (simp add: digit_char_def)

lemma read_show_nat: "read_digits (show_nat n) = n"
proof (induction n rule: show_nat.induct)
  case (1 n)
  show ?case
  proof (cases "n < 10")
    case True
    then show ?thesis by (subst show_nat.simps) (simp add: read_digits_def of_char_digit)
  next
    case False
    with 1 have "read_digits (show_nat (n div 10)) = n div 10" by simp
    with False show ?thesis by (subst show_nat.simps) (simp add: read_digits_def of_char_digit)
  qed
qed

lemma show_nat_inj: "show_nat m = show_nat n \<longleftrightarrow> m = n"
  by (metis read_show_nat)

lemma show_nat_digits: "c \<in> set (show_nat n) \<Longrightarrow> \<exists>d < 10. c = digit_char d"
proof (induction n rule: show_nat.induct)
  case (1 n)
  show ?case
  proof (cases "n < 10")
    case True
    then show ?thesis using 1(2) by (subst (asm) show_nat.simps) auto
  next
    case False
    then have "c \<in> set (show_nat (n div 10)) \<or> c = digit_char (n mod 10)"
      using 1(2) by (subst (asm) show_nat.simps) auto
    then show ?thesis using 1(1) [OF False] by (metis mod_less_divisor zero_less_numeral)
  qed
qed

lemma digit_not_punctuation: "d < 10 \<Longrightarrow> digit_char d \<noteq> CHR ''.'' \<and> digit_char d \<noteq> CHR ''-''"
  using of_char_digit [of d] by (auto dest: arg_cong [where f = "of_char :: char \<Rightarrow> nat"])

lemma show_nat_no_punctuation: "CHR ''.'' \<notin> set (show_nat n)" "CHR ''-'' \<notin> set (show_nat n)"
  by (auto dest!: show_nat_digits dest: digit_not_punctuation)

subsection \<open>Go function bodies\<close>

text \<open>
  A body is a value of the library's state monad; a fallible body returns \<open>Inl\<close> the error
  or \<open>Inr\<close> the value. \<open>call ctx m k\<close> is the idiom that returns the wrapped error of
  \<open>m\<close> early and otherwise continues with \<open>k\<close>; \<open>try_call\<close> returns the error as it
  is. \<open>foreach\<close> is a \<open>for range\<close> loop without early exit.
\<close>

type_synonym ('s, 'a) res = "('s, error + 'a) state"

abbreviation ret :: "'a \<Rightarrow> ('s, 'a) state" where
  "ret \<equiv> State_Monad.return"

definition ok :: "'a \<Rightarrow> ('s, 'a) res" where
  "ok x = ret (Inr x)"

definition fail :: "error \<Rightarrow> ('s, 'a) res" where
  "fail e = ret (Inl e)"

definition try_call :: "('s, 'a) res \<Rightarrow> ('a \<Rightarrow> ('s, 'b) res) \<Rightarrow> ('s, 'b) res" where
  "try_call m k = do { r \<leftarrow> m; (case r of Inl e \<Rightarrow> fail e | Inr x \<Rightarrow> k x) }"

definition call :: "string \<Rightarrow> ('s, 'a) res \<Rightarrow> ('a \<Rightarrow> ('s, 'b) res) \<Rightarrow> ('s, 'b) res" where
  "call ctx m k = do { r \<leftarrow> m; (case r of Inl e \<Rightarrow> fail (ErrWrap ctx e) | Inr x \<Rightarrow> k x) }"

text \<open>Reading and writing a part of the state.\<close>

definition gets :: "('s \<Rightarrow> 'a) \<Rightarrow> ('s, 'a) state" where
  "gets f = State_Monad.State (\<lambda>s. (f s, s))"

definition modify :: "('s \<Rightarrow> 's) \<Rightarrow> ('s, unit) state" where
  "modify f = State_Monad.State (\<lambda>s. ((), f s))"

primrec foreach :: "('a \<Rightarrow> ('s, unit) state) \<Rightarrow> 'a list \<Rightarrow> ('s, unit) state" where
  "foreach f [] = ret ()"
| "foreach f (x # xs) = do { f x; foreach f xs }"

subsection \<open>Weakest preconditions\<close>

definition wp :: "('s, 'a) state \<Rightarrow> ('a \<Rightarrow> 's \<Rightarrow> bool) \<Rightarrow> 's \<Rightarrow> bool" where
  "wp m Q s = (case run_state m s of (a, s') \<Rightarrow> Q a s')"

lemma wp_return [wp_simps]: "wp (ret x) Q s = Q x s"
  by (simp add: wp_def)

lemma wp_ret: "wp (ret x) Q = Q x"
  by (rule ext) (simp add: wp_return)

lemma wp_bind [wp_simps]: "wp (State_Monad.bind m k) Q s = wp m (\<lambda>a. wp (k a) Q) s"
  by (simp add: wp_def split: prod.splits)

lemma wp_if [wp_simps]: "wp (if b then m else n) Q s = (if b then wp m Q s else wp n Q s)"
  by simp

lemma wp_sum [wp_simps]:
  "wp (case r of Inl e \<Rightarrow> f e | Inr x \<Rightarrow> g x) Q s = (case r of Inl e \<Rightarrow> wp (f e) Q s | Inr x \<Rightarrow> wp (g x) Q s)"
  by (cases r) simp_all

lemma wp_option [wp_simps]:
  "wp (case r of None \<Rightarrow> f | Some x \<Rightarrow> g x) Q s = (case r of None \<Rightarrow> wp f Q s | Some x \<Rightarrow> wp (g x) Q s)"
  by (cases r) simp_all

lemma wp_ok [wp_simps]: "wp (ok x) Q s = Q (Inr x) s"
  by (simp add: ok_def wp_return)

lemma wp_fail [wp_simps]: "wp (fail e) Q s = Q (Inl e) s"
  by (simp add: fail_def wp_return)

lemma wp_try_call [wp_simps]:
  "wp (try_call m k) Q s = wp m (\<lambda>r t. case r of Inl e \<Rightarrow> Q (Inl e) t | Inr x \<Rightarrow> wp (k x) Q t) s"
  by (auto simp: try_call_def wp_def fail_def split: prod.splits sum.splits)

lemma wp_call [wp_simps]:
  "wp (call c m k) Q s = wp m (\<lambda>r t. case r of Inl e \<Rightarrow> Q (Inl (ErrWrap c e)) t | Inr x \<Rightarrow> wp (k x) Q t) s"
  by (auto simp: call_def wp_def fail_def split: prod.splits sum.splits)

lemma wp_gets [wp_simps]: "wp (gets f) Q s = Q (f s) s"
  by (simp add: gets_def wp_def)

lemma wp_modify [wp_simps]: "wp (modify f) Q s = Q () (f s)"
  by (simp add: modify_def wp_def)

lemma wp_mono: "wp m Q s \<Longrightarrow> (\<And>a t. Q a t \<Longrightarrow> R a t) \<Longrightarrow> wp m R s"
  by (auto simp: wp_def split: prod.splits)

lemma wp_conj: "wp m (\<lambda>a t. P a t \<and> Q a t) s \<longleftrightarrow> wp m P s \<and> wp m Q s"
  by (auto simp: wp_def split: prod.splits)

lemma wp_run: "wp m Q s \<Longrightarrow> run_state m s = (a, t) \<Longrightarrow> Q a t"
  by (simp add: wp_def)

lemma wp_runI: "(\<And>a t. run_state m s = (a, t) \<Longrightarrow> Q a t) \<Longrightarrow> wp m Q s"
  by (auto simp: wp_def split: prod.splits)

subsection \<open>Frames and invariants\<close>

text \<open>
  \<open>keeps f m\<close>: the body leaves the part \<open>f\<close> of the state as it was, on every path.
  \<open>preserves I m\<close>: the body keeps the invariant \<open>I\<close>.
\<close>

definition keeps :: "('s \<Rightarrow> 'b) \<Rightarrow> ('s, 'a) state \<Rightarrow> bool" where
  "keeps f m \<longleftrightarrow> (\<forall>s. f (snd (run_state m s)) = f s)"

definition preserves :: "('s \<Rightarrow> bool) \<Rightarrow> ('s, 'a) state \<Rightarrow> bool" where
  "preserves I m \<longleftrightarrow> (\<forall>s. I s \<longrightarrow> I (snd (run_state m s)))"

lemma keepsI: "(\<And>s. f (snd (run_state m s)) = f s) \<Longrightarrow> keeps f m"
  by (simp add: keeps_def)

lemma keepsD: "keeps f m \<Longrightarrow> f (snd (run_state m s)) = f s"
  by (simp add: keeps_def)

lemma keeps_run: "keeps f m \<Longrightarrow> run_state m s = (a, t) \<Longrightarrow> f t = f s"
  by (metis keepsD snd_conv)

lemma keeps_return [keeps_intros]: "keeps f (ret x)"
  by (simp add: keeps_def)

lemma keeps_bind [keeps_intros]:
  "keeps f m \<Longrightarrow> (\<And>a. keeps f (k a)) \<Longrightarrow> keeps f (State_Monad.bind m k)"
  by (auto simp: keeps_def split: prod.splits) (metis snd_conv)

lemma keeps_ok [keeps_intros]: "keeps f (ok x)"
  by (simp add: ok_def keeps_return)

lemma keeps_fail [keeps_intros]: "keeps f (fail e)"
  by (simp add: fail_def keeps_return)

lemma keeps_if [keeps_intros]: "keeps f m \<Longrightarrow> keeps f n \<Longrightarrow> keeps f (if b then m else n)"
  by simp

lemma keeps_sum [keeps_intros]:
  "(\<And>e. keeps f (g e)) \<Longrightarrow> (\<And>x. keeps f (h x)) \<Longrightarrow> keeps f (case r of Inl e \<Rightarrow> g e | Inr x \<Rightarrow> h x)"
  by (cases r) simp_all

lemma keeps_option [keeps_intros]:
  "keeps f g \<Longrightarrow> (\<And>x. keeps f (h x)) \<Longrightarrow> keeps f (case r of None \<Rightarrow> g | Some x \<Rightarrow> h x)"
  by (cases r) simp_all

lemma keeps_prod [keeps_intros]:
  "(\<And>x y. keeps f (g x y)) \<Longrightarrow> keeps f (case p of (x, y) \<Rightarrow> g x y)"
  by (cases p) simp

lemma keeps_try_call [keeps_intros]:
  "keeps f m \<Longrightarrow> (\<And>x. keeps f (k x)) \<Longrightarrow> keeps f (try_call m k)"
  by (simp add: try_call_def keeps_bind keeps_sum keeps_fail)

lemma keeps_call [keeps_intros]:
  "keeps f m \<Longrightarrow> (\<And>x. keeps f (k x)) \<Longrightarrow> keeps f (call c m k)"
  by (simp add: call_def keeps_bind keeps_sum keeps_fail)

lemma keeps_gets [keeps_intros]: "keeps f (gets g)"
  by (simp add: keeps_def gets_def)

lemma keeps_modify [keeps_intros]: "(\<And>s. f (g s) = f s) \<Longrightarrow> keeps f (modify g)"
  by (simp add: keeps_def modify_def)

lemma keeps_foreach [keeps_intros]: "(\<And>x. keeps f (g x)) \<Longrightarrow> keeps f (foreach g xs)"
  by (induction xs) (simp_all add: keeps_return keeps_bind)

lemma preserves_keeps: "keeps f m \<Longrightarrow> preserves (\<lambda>s. P (f s)) m"
  by (simp add: keeps_def preserves_def)

lemma preserves_bind: "preserves I m \<Longrightarrow> (\<And>a. preserves I (k a)) \<Longrightarrow> preserves I (State_Monad.bind m k)"
  by (fastforce simp: preserves_def split: prod.splits)

lemma preserves_foreach: "(\<And>x. preserves I (g x)) \<Longrightarrow> preserves I (foreach g xs)"
  by (induction xs) (simp_all add: preserves_bind, simp add: preserves_def)

lemma preservesD: "preserves I m \<Longrightarrow> I s \<Longrightarrow> run_state m s = (a, t) \<Longrightarrow> I t"
  by (metis preserves_def snd_conv)

end
