(* ===== verification/Json.thy ===== *)
theory Json
  imports Prelude
begin

section \<open>JSON documents and struct decoding\<close>

text \<open>
  A request or reply body is modelled by the document it parses to. \<open>bytes\<close> is a Go
  \<open>[]byte\<close>: nil, a JSON document, or bytes that \<open>encoding/json\<close> rejects. Number
  literals without fraction or exponent are \<open>JInt\<close>; any other literal is
  \<open>JFloat m e\<close>, the float64 \<open>m * 2^e\<close> it denotes.

  The decoders below are what \<open>json.Unmarshal\<close> does for the field types the repository's
  structs use: a key matches a field up to ASCII case, the last matching key wins,
  \<open>null\<close> leaves a scalar as it was, a value of the wrong type is an error
  (\<open>None\<close>), a missing field keeps its zero value.
\<close>

datatype json =
    JNull
  | JBool bool
  | JInt int
  | JFloat int int
  | JStr string
  | JArr "json list"
  | JObj "(string \<times> json) list"

datatype bytes = NilBytes | Doc json | Junk string

type_synonym fields = "(string \<times> json) list"

definition lower_char :: "char \<Rightarrow> char" where
  "lower_char c = (let n = (of_char c :: nat) in if 65 \<le> n \<and> n \<le> 90 then char_of (n + 32) else c)"

definition key_match :: "string \<Rightarrow> string \<Rightarrow> bool" where
  "key_match f k \<longleftrightarrow> f = k \<or> map lower_char f = map lower_char k"

fun unmarshal :: "bytes \<Rightarrow> json option" where
  "unmarshal (Doc j) = Some j"
| "unmarshal NilBytes = None"
| "unmarshal (Junk s) = None"

fun as_fields :: "json \<Rightarrow> fields option" where
  "as_fields (JObj kvs) = Some kvs"
| "as_fields JNull = Some []"
| "as_fields _ = None"

fun dec_string_from :: "string \<Rightarrow> string \<Rightarrow> fields \<Rightarrow> string option" where
  "dec_string_from acc f [] = Some acc"
| "dec_string_from acc f ((k, v) # kvs) =
     (if key_match f k
      then (case v of JStr s \<Rightarrow> dec_string_from s f kvs
                    | JNull \<Rightarrow> dec_string_from acc f kvs
                    | _ \<Rightarrow> None)
      else dec_string_from acc f kvs)"

fun dec_int_from :: "int \<Rightarrow> string \<Rightarrow> fields \<Rightarrow> int64 option" where
  "dec_int_from acc f [] = Some acc"
| "dec_int_from acc f ((k, v) # kvs) =
     (if key_match f k
      then (case v of JInt i \<Rightarrow> (if is_int64 i then dec_int_from i f kvs else None)
                    | JNull \<Rightarrow> dec_int_from acc f kvs
                    | _ \<Rightarrow> None)
      else dec_int_from acc f kvs)"

fun dec_bool_from :: "bool \<Rightarrow> string \<Rightarrow> fields \<Rightarrow> bool option" where
  "dec_bool_from acc f [] = Some acc"
| "dec_bool_from acc f ((k, v) # kvs) =
     (if key_match f k
      then (case v of JBool b \<Rightarrow> dec_bool_from b f kvs
                    | JNull \<Rightarrow> dec_bool_from acc f kvs
                    | _ \<Rightarrow> None)
      else dec_bool_from acc f kvs)"

text \<open>A nested struct: the fields of every matching object, in order.\<close>

fun dec_struct_from :: "fields \<Rightarrow> string \<Rightarrow> fields \<Rightarrow> fields option" where
  "dec_struct_from acc f [] = Some acc"
| "dec_struct_from acc f ((k, v) # kvs) =
     (if key_match f k
      then (case v of JObj o1 \<Rightarrow> dec_struct_from (acc @ o1) f kvs
                    | JNull \<Rightarrow> dec_struct_from acc f kvs
                    | _ \<Rightarrow> None)
      else dec_struct_from acc f kvs)"

text \<open>A pointer to a struct: nil until an object is seen, nil again after \<open>null\<close>.\<close>

fun dec_ptr_from :: "fields option \<Rightarrow> string \<Rightarrow> fields \<Rightarrow> fields option option" where
  "dec_ptr_from acc f [] = Some acc"
| "dec_ptr_from acc f ((k, v) # kvs) =
     (if key_match f k
      then (case v of JObj o1 \<Rightarrow> dec_ptr_from (Some (case acc of None \<Rightarrow> o1 | Some o2 \<Rightarrow> o2 @ o1)) f kvs
                    | JNull \<Rightarrow> dec_ptr_from None f kvs
                    | _ \<Rightarrow> None)
      else dec_ptr_from acc f kvs)"

text \<open>A pointer to a string, and a slice (\<open>null\<close> gives the nil slice).\<close>

fun dec_str_ptr_from :: "string option \<Rightarrow> string \<Rightarrow> fields \<Rightarrow> string option option" where
  "dec_str_ptr_from acc f [] = Some acc"
| "dec_str_ptr_from acc f ((k, v) # kvs) =
     (if key_match f k
      then (case v of JStr s \<Rightarrow> dec_str_ptr_from (Some s) f kvs
                    | JNull \<Rightarrow> dec_str_ptr_from None f kvs
                    | _ \<Rightarrow> None)
      else dec_str_ptr_from acc f kvs)"

fun dec_list_from :: "json list \<Rightarrow> string \<Rightarrow> fields \<Rightarrow> json list option" where
  "dec_list_from acc f [] = Some acc"
| "dec_list_from acc f ((k, v) # kvs) =
     (if key_match f k
      then (case v of JArr xs \<Rightarrow> dec_list_from xs f kvs
                    | JNull \<Rightarrow> dec_list_from [] f kvs
                    | _ \<Rightarrow> None)
      else dec_list_from acc f kvs)"

text \<open>A \<open>json.RawMessage\<close> or \<open>interface{}\<close> field: the last matching value as it is.\<close>

fun dec_any_from :: "json option \<Rightarrow> string \<Rightarrow> fields \<Rightarrow> json option" where
  "dec_any_from acc f [] = acc"
| "dec_any_from acc f ((k, v) # kvs) = dec_any_from (if key_match f k then Some v else acc) f kvs"

abbreviation dec_string :: "string \<Rightarrow> fields \<Rightarrow> string option" where
  "dec_string \<equiv> dec_string_from []"

abbreviation dec_int :: "string \<Rightarrow> fields \<Rightarrow> int64 option" where
  "dec_int \<equiv> dec_int_from 0"

abbreviation dec_bool :: "string \<Rightarrow> fields \<Rightarrow> bool option" where
  "dec_bool \<equiv> dec_bool_from False"

abbreviation dec_struct :: "string \<Rightarrow> fields \<Rightarrow> fields option" where
  "dec_struct \<equiv> dec_struct_from []"

abbreviation dec_ptr :: "string \<Rightarrow> fields \<Rightarrow> fields option option" where
  "dec_ptr \<equiv> dec_ptr_from None"

abbreviation dec_str_ptr :: "string \<Rightarrow> fields \<Rightarrow> string option option" where
  "dec_str_ptr \<equiv> dec_str_ptr_from None"

abbreviation dec_list :: "string \<Rightarrow> fields \<Rightarrow> json list option" where
  "dec_list \<equiv> dec_list_from []"

abbreviation dec_any :: "string \<Rightarrow> fields \<Rightarrow> json option" where
  "dec_any \<equiv> dec_any_from None"

text \<open>\<open>json.Unmarshal(data, &struct)\<close> as far as the struct's outer fields.\<close>

definition unmarshal_fields :: "bytes \<Rightarrow> fields option" where
  "unmarshal_fields b = Option.bind (unmarshal b) as_fields"

lemma key_match_refl [simp]: "key_match f f"
  by (simp add: key_match_def)

text \<open>A type error in one matching key makes the decoder fail whatever came before.\<close>

lemma dec_int_from_append:
  "dec_int_from acc f (xs @ ys) = Option.bind (dec_int_from acc f xs) (\<lambda>a. dec_int_from a f ys)"
  by (induction acc f xs rule: dec_int_from.induct) (auto split: json.splits)

lemma dec_string_from_append:
  "dec_string_from acc f (xs @ ys) = Option.bind (dec_string_from acc f xs) (\<lambda>a. dec_string_from a f ys)"
  by (induction acc f xs rule: dec_string_from.induct) (auto split: json.splits)

lemma dec_int_from_range: "is_int64 acc \<Longrightarrow> dec_int_from acc f kvs = Some i \<Longrightarrow> is_int64 i"
  by (induction acc f kvs rule: dec_int_from.induct) (auto split: json.splits if_splits)

lemma dec_int_range: "dec_int f kvs = Some i \<Longrightarrow> is_int64 i"
  by (erule dec_int_from_range [rotated]) (simp add: is_int64_def)

subsection \<open>float64 values of integer literals\<close>

text \<open>
  \<open>interface{}\<close> decoding reads every number as a float64. An integer below \<open>2^53\<close> is
  exact; above, it is rounded to 53 significant bits, half to even.
\<close>

fun bit_len :: "nat \<Rightarrow> nat" where
  "bit_len n = (if n = 0 then 0 else Suc (bit_len (n div 2)))"

declare bit_len.simps [simp del]

definition round_even :: "nat \<Rightarrow> nat \<Rightarrow> nat" where
  "round_even q d = (let r = q mod d; k = q div d
     in if 2 * r < d \<or> (2 * r = d \<and> even k) then k else Suc k)"

definition float_of_int :: "int \<Rightarrow> int" where
  "float_of_int i = (let n = nat \<bar>i\<bar>; e = bit_len n - 53
     in sgn i * int (round_even n (2 ^ e) * 2 ^ e))"

text \<open>\<open>int64(f)\<close> truncates; outside the range of int64 the result is the amd64 one.\<close>

definition trunc_float :: "int \<Rightarrow> int \<Rightarrow> int" where
  "trunc_float m e = (if 0 \<le> e then m * 2 ^ nat e else sgn m * (\<bar>m\<bar> div 2 ^ nat (- e)))"

definition int64_of_float :: "int \<Rightarrow> int64" where
  "int64_of_float i = (if is_int64 i then i else - (2 ^ 63))"

lemma bit_len_bound: "n < 2 ^ k \<Longrightarrow> bit_len n \<le> k"
proof (induction k arbitrary: n)
  case 0
  then show ?case by (simp add: bit_len.simps)
next
  case (Suc k)
  show ?case
  proof (cases "n = 0")
    case False
    from Suc.prems have "n div 2 < 2 ^ k" by simp
    then have "bit_len (n div 2) \<le> k" by (rule Suc.IH)
    then show ?thesis by (subst bit_len.simps) simp
  qed (simp add: bit_len.simps)
qed

lemma float_of_int_exact: "\<bar>i\<bar> < 2 ^ 53 \<Longrightarrow> float_of_int i = i"
proof -
  assume "\<bar>i\<bar> < 2 ^ 53"
  then have "nat \<bar>i\<bar> < 2 ^ 53" by simp
  then have "bit_len (nat \<bar>i\<bar>) \<le> 53" by (rule bit_len_bound)
  then show ?thesis by (simp add: float_of_int_def round_even_def Let_def mult_sgn_abs)
qed

end
