(* ===== verification/Domain.thy ===== *)
theory Domain
  imports Json
begin

section \<open>Domain types (\<open>internal/domain\<close>)\<close>

text \<open>
  The structs as records (field prefix = the struct), the string enumerations as datatypes
  with the declared constants, and the conversion \<open>string(status)\<close>. A timestamp is an
  \<open>int\<close> of nanoseconds since the epoch, a \<open>*T\<close> an option, a \<open>[]byte\<close> a
  \<open>bytes\<close>. \<open>PaymentMethod\<close> stays a string: requests fill it unchecked.
\<close>

type_synonym time = int

definition Second :: int where "Second = 1000000000"
definition Minute :: int where "Minute = 60 * Second"
definition Hour :: int where "Hour = 60 * Minute"

lemmas duration_defs = Second_def Minute_def Hour_def

subsection \<open>Statuses\<close>

datatype pi_status =
    PICreated | PIRequiresAction | PIProcessing | PISucceeded | PIFailed | PIExpired
  | PIPartiallyRefunded | PIRefunded

datatype attempt_status =
    AttemptPending | AttemptRequiresAction | AttemptProcessing | AttemptSucceeded | AttemptFailed

datatype payout_status = PayoutPending | PayoutSucceeded | PayoutFailed

datatype refund_status = RefundPending | RefundSucceeded | RefundFailed

datatype delivery_status = DeliveryPending | DeliveryDelivered | DeliveryFailed

datatype webhook_status = WebhookReceived | WebhookProcessed | WebhookFailed | WebhookIgnored

datatype merchant_status = MerchantActive | MerchantInactive

fun pi_status_str :: "pi_status \<Rightarrow> string" where
  "pi_status_str PICreated = ''created''"
| "pi_status_str PIRequiresAction = ''requires_action''"
| "pi_status_str PIProcessing = ''processing''"
| "pi_status_str PISucceeded = ''succeeded''"
| "pi_status_str PIFailed = ''failed''"
| "pi_status_str PIExpired = ''expired''"
| "pi_status_str PIPartiallyRefunded = ''partially_refunded''"
| "pi_status_str PIRefunded = ''refunded''"

fun attempt_status_str :: "attempt_status \<Rightarrow> string" where
  "attempt_status_str AttemptPending = ''pending''"
| "attempt_status_str AttemptRequiresAction = ''requires_action''"
| "attempt_status_str AttemptProcessing = ''processing''"
| "attempt_status_str AttemptSucceeded = ''succeeded''"
| "attempt_status_str AttemptFailed = ''failed''"

lemma pi_status_str_inj: "pi_status_str s = pi_status_str t \<longleftrightarrow> s = t"
  by (cases s; cases t) simp_all

lemma attempt_status_str_inj: "attempt_status_str s = attempt_status_str t \<longleftrightarrow> s = t"
  by (cases s; cases t) simp_all

text \<open>The statuses are finitely many, so a statement over all of them evaluates.\<close>

instantiation pi_status :: enum
begin
definition enum_pi_status :: "pi_status list" where
  "enum_pi_status = [PICreated, PIRequiresAction, PIProcessing, PISucceeded, PIFailed, PIExpired,
     PIPartiallyRefunded, PIRefunded]"
definition enum_all_pi_status :: "(pi_status \<Rightarrow> bool) \<Rightarrow> bool" where
  "enum_all_pi_status P = list_all P enum_class.enum"
definition enum_ex_pi_status :: "(pi_status \<Rightarrow> bool) \<Rightarrow> bool" where
  "enum_ex_pi_status P = list_ex P enum_class.enum"
instance
proof
  have all: "s \<in> set (enum_class.enum :: pi_status list)" for s
    by (cases s) (simp_all add: enum_pi_status_def)
  then show "(UNIV :: pi_status set) = set enum_class.enum" by auto
  show "distinct (enum_class.enum :: pi_status list)" by (simp add: enum_pi_status_def)
  show "enum_class.enum_all P \<longleftrightarrow> Ball UNIV P" for P :: "pi_status \<Rightarrow> bool"
    using all by (auto simp: enum_all_pi_status_def list_all_iff)
  show "enum_class.enum_ex P \<longleftrightarrow> Bex UNIV P" for P :: "pi_status \<Rightarrow> bool"
    using all by (auto simp: enum_ex_pi_status_def list_ex_iff)
qed
end

subsection \<open>Structs\<close>

record payment_intent =
  pi_ID :: string
  pi_MerchantID :: string
  pi_Amount :: int64
  pi_Currency :: string
  pi_Status :: pi_status
  pi_Method :: string
  pi_CustomerRef :: string
  pi_CustomerPhone :: string
  pi_CustomerEmail :: string
  pi_IdempotencyKey :: string
  pi_Metadata :: bytes
  pi_ExpiresAt :: "time option"
  pi_CreatedAt :: time
  pi_UpdatedAt :: time

record attempt =
  att_ID :: string
  att_PaymentIntentID :: string
  att_PSP :: string
  att_PSPReference :: string
  att_PSPTransactionID :: string
  att_Status :: attempt_status
  att_SequenceNo :: int
  att_RawRequest :: bytes
  att_RawResponse :: bytes
  att_RequestPayload :: bytes
  att_CallbackPayload :: bytes
  att_CreatedAt :: time
  att_UpdatedAt :: time

record ledger_entry =
  le_ID :: string
  le_AccountID :: string
  le_EntryType :: string
  le_Amount :: int64
  le_Currency :: string
  le_ReferenceType :: string
  le_ReferenceID :: string
  le_PostedAt :: time

record payout =
  po_ID :: string
  po_MerchantID :: string
  po_Amount :: int64
  po_Currency :: string
  po_Rail :: string
  po_Status :: payout_status
  po_PSPReference :: "string option"
  po_CreatedAt :: time
  po_UpdatedAt :: time

record refund =
  rf_ID :: string
  rf_PaymentIntentID :: string
  rf_AttemptID :: "string option"
  rf_Amount :: int64
  rf_Currency :: string
  rf_Status :: refund_status
  rf_Reason :: "string option"
  rf_PSPReference :: "string option"
  rf_CreatedAt :: time
  rf_UpdatedAt :: time

record merchant =
  mch_ID :: string
  mch_Code :: string
  mch_LegalName :: string
  mch_Country :: string
  mch_DefaultCurrency :: string
  mch_Status :: merchant_status
  mch_SettlementConfig :: bytes
  mch_CreatedAt :: time

record api_key =
  ak_ID :: string
  ak_MerchantID :: string
  ak_Name :: string
  ak_KeyHash :: string
  ak_KeyPrefix :: string
  ak_Environment :: string
  ak_CreatedAt :: time

record checkout_session =
  cs_ID :: string
  cs_PaymentIntentID :: string
  cs_PublicToken :: string
  cs_UIConfig :: bytes
  cs_ExpiresAt :: time
  cs_CreatedAt :: time

record webhook_event_row =
  we_ID :: string
  we_PSP :: string
  we_EventType :: string
  we_PSPReference :: string
  we_DedupKey :: string
  we_Payload :: bytes
  we_ProcessingStatus :: webhook_status
  we_ReceivedAt :: time

record webhook_endpoint =
  ep_ID :: string
  ep_MerchantID :: string
  ep_URL :: string
  ep_Events :: int
  ep_Status :: string
  ep_CreatedAt :: time

text \<open>
  The response columns of \<open>webhook_deliveries\<close> are NULL until the first
  \<open>UpdateStatus\<close>; the option of \<open>wd_ResponseStatus\<close> and \<open>wd_DurationMs\<close> is
  that NULL.
\<close>

record webhook_delivery =
  wd_ID :: string
  wd_WebhookEventID :: "string option"
  wd_EndpointID :: string
  wd_URL :: string
  wd_Status :: delivery_status
  wd_RequestHeaders :: bytes
  wd_RequestBody :: bytes
  wd_ResponseStatus :: "int option"
  wd_ResponseBody :: bytes
  wd_DurationMs :: "int option"
  wd_Attempt :: int
  wd_MaxAttempts :: int
  wd_NextRetryAt :: "time option"
  wd_CreatedAt :: time
  wd_UpdatedAt :: time

record notification =
  nt_ID :: string
  nt_MerchantID :: string
  nt_Tone :: string
  nt_Title :: string
  nt_Body :: string
  nt_Category :: string
  nt_Unread :: bool
  nt_CreatedAt :: time

text \<open>The merchant portal: users and their sessions, customers, the team.\<close>

record user =
  us_ID :: string
  us_MerchantID :: string
  us_Name :: string
  us_Email :: string
  us_PasswordHash :: string
  us_Title :: string
  us_Phone :: string
  us_Role :: string
  us_CreatedAt :: time

record session =
  ss_ID :: string
  ss_UserID :: string
  ss_MerchantID :: string
  ss_Token :: string
  ss_ExpiresAt :: time
  ss_CreatedAt :: time

record customer =
  cu_ID :: string
  cu_MerchantID :: string
  cu_Name :: string
  cu_Company :: string
  cu_Email :: string
  cu_Phone :: string
  cu_Location :: string
  cu_VolumeMinor :: int64
  cu_LTVMinor :: int64
  cu_Status :: string
  cu_PaymentMethod :: string
  cu_JoinedAt :: time
  cu_CreatedAt :: time

record team_member =
  mb_ID :: string
  mb_MerchantID :: string
  mb_UserID :: string
  mb_Name :: string
  mb_Email :: string
  mb_Role :: string
  mb_LastActive :: "time option"
  mb_Initials :: string
  mb_CreatedAt :: time

record team_invitation =
  iv_ID :: string
  iv_MerchantID :: string
  iv_Email :: string
  iv_Role :: string
  iv_Token :: string
  iv_ExpiresAt :: time
  iv_CreatedAt :: time

record notification_preferences =
  np_MerchantID :: string
  np_Preferences :: bytes
  np_UpdatedAt :: time

subsection \<open>Domain errors (\<open>errors.go\<close>)\<close>

datatype domain_error =
    ErrInsufficientBalance string
  | ErrInvalidStateTransition string string
  | ErrConnectorNotAvailable string
  | ErrIdempotencyConflict string
  | ErrValidation string string
  | ErrNotFound string string

fun domain_error_Error :: "domain_error \<Rightarrow> string" where
  "domain_error_Error (ErrInsufficientBalance a) = ''insufficient balance in account '' @ a"
| "domain_error_Error (ErrInvalidStateTransition f t) =
     ''invalid state transition from '' @ f @ '' to '' @ t"
| "domain_error_Error (ErrConnectorNotAvailable p) = ''connector '' @ p @ '' is not available''"
| "domain_error_Error (ErrIdempotencyConflict k) =
     ''idempotency key '' @ k @ '' already used with a different payload''"
| "domain_error_Error (ErrValidation f m) = ''validation error on '' @ f @ '': '' @ m"
| "domain_error_Error (ErrNotFound r i) = r @ '' not found: '' @ i"

end
