(* ===== verification/ConnectorTypes.thy ===== *)
theory ConnectorTypes
  imports Domain
begin

section \<open>Messages between the engine, the connectors and the bus\<close>

text \<open>
  The request and result structs of \<open>internal/connector/connector.go\<close> and the event that the
  notification dispatcher publishes (\<open>internal/notification/dispatcher.go\<close>).
\<close>

record capabilities =
  cap_SupportsCollection :: bool
  cap_SupportsPayout :: bool
  cap_SupportsRefund :: bool
  cap_SupportedCurrencies :: "string list"
  cap_SupportedCountries :: "string list"
  cap_ConfirmationStyle :: string

record collection_request =
  cq_PaymentIntentID :: string
  cq_Amount :: int64
  cq_Currency :: string
  cq_Method :: string
  cq_CustomerPhone :: string
  cq_CustomerEmail :: string
  cq_CallbackURL :: string
  cq_IdempotencyKey :: string

record next_action =
  na_Type :: string
  na_URL :: string

record collection_result =
  cr_PSPReference :: string
  cr_Status :: string
  cr_NextAction :: "next_action option"
  cr_RawRequest :: bytes
  cr_RawResponse :: bytes

record status_result =
  sr_Supported :: bool
  sr_Status :: string
  sr_Amount :: int64
  sr_Currency :: string

record refund_request =
  rq_PaymentIntentID :: string
  rq_AttemptID :: string
  rq_PSPReference :: string
  rq_Amount :: int64
  rq_Currency :: string
  rq_Reason :: string

record refund_result =
  rs_PSPReference :: string
  rs_Status :: string

record payout_request =
  pq_MerchantID :: string
  pq_Amount :: int64
  pq_Currency :: string
  pq_TargetCurrency :: string
  pq_BankAccountRef :: string
  pq_IdempotencyKey :: string

record payout_result =
  pr_PSPReference :: string
  pr_Status :: string

record webhook_event =
  ev_PSP :: string
  ev_EventType :: string
  ev_PSPReference :: string
  ev_PSPTransactionID :: string
  ev_DedupKey :: string
  ev_Status :: string
  ev_Amount :: int64
  ev_Currency :: string
  ev_RawPayload :: bytes

record notification_event =
  ne_EventType :: string
  ne_PIID :: string
  ne_MerchantID :: string
  ne_Amount :: int64
  ne_Currency :: string
  ne_PSP :: string
  ne_PSPReference :: string
  ne_Status :: string
  ne_Timestamp :: string

end
