(* ===== verification/Routing.thy ===== *)
theory Routing
  imports Domain
begin

section \<open>Routing: circuit breaker and rule engine (\<open>internal/routing\<close>)\<close>

text \<open>
  The circuit breaker keeps one state per PSP in a map; \<open>RecordFailure\<close>,
  \<open>RecordSuccess\<close> and \<open>IsAvailable\<close> take the clock reading that the code gets from
  \<open>time.Now\<close>. The rule engine scans its rules in list order and asks the breaker.
  The locale \<open>breaker\<close> states what the router relies on; it is interpreted on the
  circuit breaker of the code.
\<close>

subsection \<open>Circuit breaker\<close>

record breaker_config =
  bc_Threshold :: int
  bc_Cooldown :: int

record breaker_state =
  bs_Failures :: int
  bs_LastFailure :: time
  bs_Open :: bool
  bs_Cooldown :: int

record circuit_breaker =
  cb_states :: "string \<rightharpoonup> breaker_state"
  cb_thresholds :: "string \<rightharpoonup> breaker_config"

text \<open>The zero \<open>time.Time\<close> is year 1; \<open>time.Since\<close> saturates at the int64 range.\<close>

definition zero_time :: time where
  "zero_time = - 62135596800 * Second"

definition time_Since :: "time \<Rightarrow> time \<Rightarrow> int64" where
  "time_Since now t = max (- (2 ^ 63)) (min (2 ^ 63 - 1) (now - t))"

definition NewCircuitBreaker :: circuit_breaker where
  "NewCircuitBreaker = \<lparr>cb_states = Map.empty, cb_thresholds = Map.empty\<rparr>"

definition SetConfig :: "string \<Rightarrow> int \<Rightarrow> int \<Rightarrow> circuit_breaker \<Rightarrow> circuit_breaker" where
  "SetConfig psp threshold cooldown cb =
     cb\<lparr>cb_thresholds := (cb_thresholds cb)(psp \<mapsto> \<lparr>bc_Threshold = threshold, bc_Cooldown = cooldown\<rparr>)\<rparr>"

definition RecordFailure :: "time \<Rightarrow> string \<Rightarrow> circuit_breaker \<Rightarrow> circuit_breaker" where
  "RecordFailure now psp cb =
     (case cb_states cb psp of
        None \<Rightarrow>
          (let cooldown = (case cb_thresholds cb psp of None \<Rightarrow> 60 * Second | Some cfg \<Rightarrow> bc_Cooldown cfg)
           in cb\<lparr>cb_states := (cb_states cb)(psp \<mapsto>
                \<lparr>bs_Failures = 1, bs_LastFailure = zero_time, bs_Open = False, bs_Cooldown = cooldown\<rparr>)\<rparr>)
      | Some s \<Rightarrow>
          (let s1 = s\<lparr>bs_Failures := bs_Failures s + 1, bs_LastFailure := now\<rparr>;
               threshold = (case cb_thresholds cb psp of None \<Rightarrow> 5 | Some cfg \<Rightarrow> bc_Threshold cfg);
               s2 = (if threshold \<le> bs_Failures s1 \<and> \<not> bs_Open s1 then s1\<lparr>bs_Open := True\<rparr> else s1)
           in cb\<lparr>cb_states := (cb_states cb)(psp \<mapsto> s2)\<rparr>))"

definition RecordSuccess :: "string \<Rightarrow> circuit_breaker \<Rightarrow> circuit_breaker" where
  "RecordSuccess psp cb =
     (case cb_states cb psp of
        None \<Rightarrow> cb
      | Some s \<Rightarrow> cb\<lparr>cb_states := (cb_states cb)(psp \<mapsto> s\<lparr>bs_Failures := 0, bs_Open := False\<rparr>)\<rparr>)"

definition IsAvailable :: "time \<Rightarrow> string \<Rightarrow> circuit_breaker \<Rightarrow> bool \<times> circuit_breaker" where
  "IsAvailable now psp cb =
     (case cb_states cb psp of
        None \<Rightarrow> (True, cb)
      | Some s \<Rightarrow>
          if \<not> bs_Open s then (True, cb)
          else if bs_Cooldown s < time_Since now (bs_LastFailure s)
          then (True, cb\<lparr>cb_states := (cb_states cb)(psp \<mapsto> s\<lparr>bs_Open := False, bs_Failures := 0\<rparr>)\<rparr>)
          else (False, cb))"

definition State_cb :: "string \<Rightarrow> circuit_breaker \<Rightarrow> breaker_state" where
  "State_cb psp cb =
     (case cb_states cb psp of
        Some s \<Rightarrow> s
      | None \<Rightarrow> \<lparr>bs_Failures = 0, bs_LastFailure = zero_time, bs_Open = False, bs_Cooldown = 0\<rparr>)"

lemmas breaker_defs = NewCircuitBreaker_def SetConfig_def RecordFailure_def RecordSuccess_def
  IsAvailable_def State_cb_def

subsection \<open>What the router relies on\<close>

text \<open>
  A failed query changes nothing, a positive one stays positive, queries of different PSPs
  do not influence each other.
\<close>

locale breaker =
  fixes avail :: "time \<Rightarrow> string \<Rightarrow> 'c \<Rightarrow> bool \<times> 'c"
  assumes refused_pure: "\<not> fst (avail t p c) \<Longrightarrow> snd (avail t p c) = c"
    and available_stable: "fst (avail t p c) \<Longrightarrow> fst (avail t' p (snd (avail t p c)))"
    and query_other: "p \<noteq> q \<Longrightarrow> fst (avail t' q (snd (avail t p c))) = fst (avail t' q c)"

text \<open>The two scans of the router over a fallback list, generic in the query.\<close>

fun pick_fallback ::
  "(time \<Rightarrow> string \<Rightarrow> 'c \<Rightarrow> bool \<times> 'c) \<Rightarrow> (string \<Rightarrow> bool) \<Rightarrow> time \<Rightarrow> string list \<Rightarrow> 'c \<Rightarrow> string option \<times> 'c" where
  "pick_fallback q ex now [] c = (None, c)"
| "pick_fallback q ex now (fb # fbs) c =
     (if ex fb then pick_fallback q ex now fbs c
      else case q now fb c of (a, c1) \<Rightarrow> if a then (Some fb, c1) else pick_fallback q ex now fbs c1)"

fun available_fallbacks ::
  "(time \<Rightarrow> string \<Rightarrow> 'c \<Rightarrow> bool \<times> 'c) \<Rightarrow> (string \<Rightarrow> bool) \<Rightarrow> time \<Rightarrow> string list \<Rightarrow> 'c \<Rightarrow> string list \<times> 'c" where
  "available_fallbacks q ex now [] c = ([], c)"
| "available_fallbacks q ex now (fb # fbs) c =
     (if ex fb then available_fallbacks q ex now fbs c
      else case q now fb c of (a, c1) \<Rightarrow>
             (case available_fallbacks q ex now fbs c1 of (rest, c2) \<Rightarrow> (if a then fb # rest else rest, c2)))"

context breaker
begin

lemma stable_under_query:
  "fst (avail t p c) \<Longrightarrow> fst (avail t p (snd (avail t' q c)))"
  by (cases "p = q"; cases "fst (avail t' q c)") (auto simp: refused_pure available_stable query_other)

lemma refused_after_query:
  "\<not> fst (avail t p (snd (avail t q c))) \<Longrightarrow> \<not> fst (avail t p c)"
  using stable_under_query by blast

lemma same_answer: "fst (avail t p (snd (avail t q c))) = fst (avail t p c)"
  by (cases "p = q"; cases "fst (avail t q c)") (auto simp: refused_pure available_stable query_other)

text \<open>\<open>pick_fallback\<close> returns the first fallback that is not excluded and available.\<close>

lemma pick_fallback_find:
  "fst (pick_fallback avail ex t fbs c) = find (\<lambda>fb. \<not> ex fb \<and> fst (avail t fb c)) fbs"
proof (induction fbs arbitrary: c)
  case (Cons fb fbs)
  then show ?case by (auto simp: refused_pure split: prod.split)
    (metis fst_conv snd_conv refused_pure)
qed simp

text \<open>\<open>available_fallbacks\<close> is a filter, with the answers of the state before the scan.\<close>

lemma available_fallbacks_filter:
  "fst (available_fallbacks avail ex t fbs c) = filter (\<lambda>fb. \<not> ex fb \<and> fst (avail t fb c)) fbs"
proof (induction fbs arbitrary: c)
  case (Cons fb fbs)
  have "filter (\<lambda>x. \<not> ex x \<and> fst (avail t x (snd (avail t fb c)))) fbs = filter (\<lambda>x. \<not> ex x \<and> fst (avail t x c)) fbs"
    by (simp add: same_answer)
  then show ?case using Cons.IH [of "snd (avail t fb c)"] Cons.IH [of c]
    by (auto split: prod.split)
qed simp

end

interpretation cb: breaker IsAvailable
  by unfold_locales (auto simp: IsAvailable_def split: option.splits if_splits)

subsection \<open>Rule engine\<close>

record route_request =
  rr_MerchantID :: string
  rr_Currency :: string
  rr_Country :: string
  rr_Method :: string
  rr_Amount :: int64

record route_decision =
  rd_Primary :: string
  rd_Fallbacks :: "string list"
  rd_Reason :: string

record condition =
  c_Currency :: string
  c_Method :: string
  c_Country :: string
  c_Merchant :: string

record rule =
  rl_Priority :: int
  rl_Conditions :: condition
  rl_PrimaryPSP :: string
  rl_Fallbacks :: "string list"
  rl_Enabled :: bool

record routing_engine =
  re_rules :: "rule list"
  re_cb :: circuit_breaker
  re_excluded :: "string \<Rightarrow> bool"

definition matchCondition :: "condition \<Rightarrow> route_request \<Rightarrow> bool" where
  "matchCondition c req =
     (if c_Currency c \<noteq> [] \<and> c_Currency c \<noteq> rr_Currency req then False
      else if c_Method c \<noteq> [] \<and> c_Method c \<noteq> rr_Method req then False
      else if c_Country c \<noteq> [] \<and> c_Country c \<noteq> rr_Country req then False
      else if c_Merchant c \<noteq> [] \<and> c_Merchant c \<noteq> rr_MerchantID req then False
      else True)"

definition defaultRules :: "rule list" where
  "defaultRules =
     [\<lparr>rl_Priority = 1,
       rl_Conditions = \<lparr>c_Currency = ''KES'', c_Method = ''mpesa_stk'', c_Country = '''', c_Merchant = ''''\<rparr>,
       rl_PrimaryPSP = ''mpesa'', rl_Fallbacks = [], rl_Enabled = True\<rparr>,
      \<lparr>rl_Priority = 3,
       rl_Conditions = \<lparr>c_Currency = '''', c_Method = ''card'', c_Country = '''', c_Merchant = ''''\<rparr>,
       rl_PrimaryPSP = ''paystack'', rl_Fallbacks = [], rl_Enabled = True\<rparr>]"

definition NewEngine :: "circuit_breaker \<Rightarrow> routing_engine" where
  "NewEngine cb = \<lparr>re_rules = defaultRules, re_cb = cb, re_excluded = (\<lambda>_. False)\<rparr>"

text \<open>The loop of \<open>Route\<close> over the rules; the breaker is the state it threads.\<close>

fun route_rules ::
  "time \<Rightarrow> route_request \<Rightarrow> (string \<Rightarrow> bool) \<Rightarrow> rule list \<Rightarrow> circuit_breaker \<Rightarrow> (error + route_decision) \<times> circuit_breaker" where
  "route_rules now req ex [] cb =
     (Inl (ErrMsg (''no routing rule matched for method='' @ rr_Method req @ '' currency='' @ rr_Currency req
        @ '' country='' @ rr_Country req)), cb)"
| "route_rules now req ex (rule # rules) cb =
     (if \<not> rl_Enabled rule then route_rules now req ex rules cb
      else if \<not> matchCondition (rl_Conditions rule) req then route_rules now req ex rules cb
      else if ex (rl_PrimaryPSP rule) then route_rules now req ex rules cb
      else case IsAvailable now (rl_PrimaryPSP rule) cb of (a, cb1) \<Rightarrow>
        if \<not> a
        then (case pick_fallback IsAvailable ex now (rl_Fallbacks rule) cb1 of
                (Some fb, cb2) \<Rightarrow>
                  (Inr \<lparr>rd_Primary = fb, rd_Fallbacks = [],
                     rd_Reason = ''circuit breaker open for '' @ rl_PrimaryPSP rule @ '', fell back to '' @ fb\<rparr>, cb2)
              | (None, cb2) \<Rightarrow>
                  (Inl (ErrMsg (''no available connector for method='' @ rr_Method req @ '' currency=''
                     @ rr_Currency req)), cb2))
        else (case available_fallbacks IsAvailable ex now (rl_Fallbacks rule) cb1 of (fbs, cb2) \<Rightarrow>
                (Inr \<lparr>rd_Primary = rl_PrimaryPSP rule, rd_Fallbacks = fbs,
                   rd_Reason = ''rule priority '' @ show_int (rl_Priority rule) @ '' matched''\<rparr>, cb2)))"

definition Route :: "time \<Rightarrow> route_request \<Rightarrow> routing_engine \<Rightarrow> (error + route_decision) \<times> routing_engine" where
  "Route now req e =
     (case route_rules now req (re_excluded e) (re_rules e) (re_cb e) of (r, cb) \<Rightarrow> (r, e\<lparr>re_cb := cb\<rparr>))"


subsection \<open>Runs of the circuit breaker\<close>

text \<open>A history of calls, and the breaker they lead to.\<close>

datatype breaker_op = OpFailure string time | OpSuccess string | OpQuery string time

fun breaker_step :: "circuit_breaker \<Rightarrow> breaker_op \<Rightarrow> circuit_breaker" where
  "breaker_step cb (OpFailure p t) = RecordFailure t p cb"
| "breaker_step cb (OpSuccess p) = RecordSuccess p cb"
| "breaker_step cb (OpQuery p t) = snd (IsAvailable t p cb)"

definition breaker_run :: "circuit_breaker \<Rightarrow> breaker_op list \<Rightarrow> circuit_breaker" where
  "breaker_run cb ops = foldl breaker_step cb ops"

definition failures_since_success :: "string \<Rightarrow> breaker_op list \<Rightarrow> int" where
  "failures_since_success p ops =
     int (length (filter (\<lambda>x. case x of OpFailure q _ \<Rightarrow> q = p | _ \<Rightarrow> False) (takeWhile (\<lambda>x. x \<noteq> OpSuccess p) (rev ops))))"

definition threshold_of :: "circuit_breaker \<Rightarrow> string \<Rightarrow> int" where
  "threshold_of cb p = (case cb_thresholds cb p of None \<Rightarrow> 5 | Some cfg \<Rightarrow> bc_Threshold cfg)"

lemma failures_since_success_snoc:
  "failures_since_success p (ops @ [x]) =
     (if x = OpSuccess p then 0
      else failures_since_success p ops + (case x of OpFailure q _ \<Rightarrow> (if q = p then 1 else 0) | _ \<Rightarrow> 0))"
  by (cases x) (simp_all add: failures_since_success_def)

lemma failures_since_success_nonneg [simp]: "0 \<le> failures_since_success p ops"
  by (simp add: failures_since_success_def)

text \<open>
  The invariant of a run that starts with no recorded failure: the counter never exceeds the
  failures since the last success, and an open state has reached its threshold.
\<close>

definition breaker_inv :: "circuit_breaker \<Rightarrow> breaker_op list \<Rightarrow> circuit_breaker \<Rightarrow> bool" where
  "breaker_inv cb0 ops cb \<longleftrightarrow> cb_thresholds cb = cb_thresholds cb0 \<and>
     (\<forall>p s. cb_states cb p = Some s \<longrightarrow>
        0 \<le> bs_Failures s \<and> bs_Failures s \<le> failures_since_success p ops \<and>
        (bs_Open s \<longrightarrow> threshold_of cb0 p \<le> bs_Failures s \<and> 1 \<le> bs_Failures s))"

lemma breaker_inv_step:
  assumes "breaker_inv cb0 ops cb"
  shows "breaker_inv cb0 (ops @ [x]) (breaker_step cb x)"
  using assms
  by (cases x)
    (fastforce simp: breaker_inv_def breaker_defs failures_since_success_snoc threshold_of_def Let_def
      split: option.splits if_splits)+

lemma breaker_inv_run:
  assumes "cb_states cb0 = Map.empty"
  shows "breaker_inv cb0 ops (breaker_run cb0 ops)"
proof (induction ops rule: rev_induct)
  case Nil
  then show ?case using assms by (simp add: breaker_inv_def breaker_run_def)
next
  case (snoc x ops)
  from breaker_inv_step [OF this, of x] show ?case by (simp add: breaker_run_def)
qed

subsection \<open>Properties\<close>

text \<open>the circuit breaker refuses a PSP only after failures: starting from a breaker that has
  recorded nothing, whatever calls are made, a PSP that \<open>IsAvailable\<close> refuses has failed at
  least once and at least threshold times since its last recorded success.\<close>

theorem breaker_refuses_only_after_failures:
  assumes "cb_states cb0 = Map.empty"
    and "\<not> fst (IsAvailable now p (breaker_run cb0 ops))"
  shows "1 \<le> failures_since_success p ops \<and> threshold_of cb0 p \<le> failures_since_success p ops"
proof -
  from assms(2) obtain s where s: "cb_states (breaker_run cb0 ops) p = Some s" and "bs_Open s"
    by (auto simp: IsAvailable_def split: option.splits if_splits)
  with breaker_inv_run [OF assms(1), of ops] have "threshold_of cb0 p \<le> bs_Failures s" "1 \<le> bs_Failures s"
    "bs_Failures s \<le> failures_since_success p ops" by (auto simp: breaker_inv_def)
  then show ?thesis by linarith
qed

theorem breaker_refuses_only_after_failures_witness:
  "\<not> fst (IsAvailable 7 ''mpesa'' (breaker_run NewCircuitBreaker (map (OpFailure ''mpesa'') [1, 2, 3, 4, 5]))) \<and>
   5 \<le> failures_since_success ''mpesa'' (map (OpFailure ''mpesa'') [1, 2, 3, 4, 5])"
proof -
  have e: "cb_states NewCircuitBreaker = Map.empty" by (simp add: NewCircuitBreaker_def)
  have r: "\<not> fst (IsAvailable 7 ''mpesa'' (breaker_run NewCircuitBreaker (map (OpFailure ''mpesa'') [1, 2, 3, 4, 5])))"
    by (simp add: breaker_run_def breaker_defs Let_def time_Since_def duration_defs)
  from breaker_refuses_only_after_failures [OF e r] show ?thesis
    using r by (simp add: threshold_of_def NewCircuitBreaker_def)
qed

text \<open>a refused PSP comes back: from any breaker state, once the cooldown has passed since the
  last failure, every query of that PSP answers yes, and the breaker forgets the failures.\<close>

theorem breaker_recovers:
  assumes "cb_states cb p = Some s" and "bs_Cooldown s < 2 ^ 63 - 1"
    and "bs_LastFailure s + bs_Cooldown s < now"
  shows "fst (IsAvailable now p cb) \<and>
    (bs_Open s \<longrightarrow> bs_Failures (State_cb p (snd (IsAvailable now p cb))) = 0) \<and>
    \<not> bs_Open (State_cb p (snd (IsAvailable now p cb)))"
  using assms by (auto simp: IsAvailable_def State_cb_def time_Since_def)

theorem breaker_recovers_witness:
  "fst (IsAvailable 61 ''mpesa'' \<lparr>cb_states = [''mpesa'' \<mapsto> \<lparr>bs_Failures = 5, bs_LastFailure = 0, bs_Open = True,
     bs_Cooldown = 60\<rparr>], cb_thresholds = Map.empty\<rparr>)"
  using breaker_recovers [of "\<lparr>cb_states = [''mpesa'' \<mapsto> \<lparr>bs_Failures = 5, bs_LastFailure = 0, bs_Open = True,
     bs_Cooldown = 60\<rparr>], cb_thresholds = Map.empty\<rparr>" "''mpesa''" "\<lparr>bs_Failures = 5, bs_LastFailure = 0, bs_Open = True,
     bs_Cooldown = 60\<rparr>" 61] by simp

text \<open>the first recorded failure of a PSP never opens its breaker, whatever threshold is
  configured (a threshold of one needs a second failure).\<close>

theorem breaker_first_failure_never_opens:
  assumes "cb_states cb p = None"
  shows "fst (IsAvailable now' p (RecordFailure now p (SetConfig p threshold cooldown cb)))"
  using assms by (simp add: breaker_defs)

theorem breaker_first_failure_never_opens_witness:
  "fst (IsAvailable 1 ''mpesa'' (RecordFailure 0 ''mpesa'' (SetConfig ''mpesa'' 1 60 NewCircuitBreaker)))"
  by (rule breaker_first_failure_never_opens) (simp add: NewCircuitBreaker_def)

definition rule_applies :: "(string \<Rightarrow> bool) \<Rightarrow> route_request \<Rightarrow> rule \<Rightarrow> bool" where
  "rule_applies ex req r \<longleftrightarrow> rl_Enabled r \<and> matchCondition (rl_Conditions r) req \<and> \<not> ex (rl_PrimaryPSP r)"

definition usable :: "routing_engine \<Rightarrow> time \<Rightarrow> string \<Rightarrow> bool" where
  "usable e now p \<longleftrightarrow> \<not> re_excluded e p \<and> fst (IsAvailable now p (re_cb e))"

text \<open>The declarative reading of \<open>Route\<close>, on the breaker as it is before the call.\<close>

definition route_choice :: "time \<Rightarrow> route_request \<Rightarrow> routing_engine \<Rightarrow> (string \<times> string list) option" where
  "route_choice now req e =
     (case find (rule_applies (re_excluded e) req) (re_rules e) of
        None \<Rightarrow> None
      | Some r \<Rightarrow>
          if usable e now (rl_PrimaryPSP r)
          then Some (rl_PrimaryPSP r, filter (usable e now) (rl_Fallbacks r))
          else map_option (\<lambda>fb. (fb, [])) (find (usable e now) (rl_Fallbacks r)))"

definition decision_of :: "error + route_decision \<Rightarrow> (string \<times> string list) option" where
  "decision_of r = (case r of Inl _ \<Rightarrow> None | Inr d \<Rightarrow> Some (rd_Primary d, rd_Fallbacks d))"

lemma route_rules_decision:
  "decision_of (fst (route_rules now req ex rules cb)) =
     (case find (rule_applies ex req) rules of
        None \<Rightarrow> None
      | Some r \<Rightarrow>
          if fst (IsAvailable now (rl_PrimaryPSP r) cb)
          then Some (rl_PrimaryPSP r, filter (\<lambda>fb. \<not> ex fb \<and> fst (IsAvailable now fb cb)) (rl_Fallbacks r))
          else map_option (\<lambda>fb. (fb, [])) (find (\<lambda>fb. \<not> ex fb \<and> fst (IsAvailable now fb cb)) (rl_Fallbacks r)))"
proof (induction rules)
  case (Cons r rules)
  obtain a c1 where q: "IsAvailable now (rl_PrimaryPSP r) cb = (a, c1)" by fastforce
  have c1: "c1 = snd (IsAvailable now (rl_PrimaryPSP r) cb)" by (simp add: q)
  obtain o1 c2 where pick: "pick_fallback IsAvailable ex now (rl_Fallbacks r) c1 = (o1, c2)" by fastforce
  obtain fs c3 where fbs: "available_fallbacks IsAvailable ex now (rl_Fallbacks r) c1 = (fs, c3)" by fastforce
  have o1: "o1 = find (\<lambda>fb. \<not> ex fb \<and> fst (IsAvailable now fb cb)) (rl_Fallbacks r)"
    using cb.pick_fallback_find [of ex now "rl_Fallbacks r" c1] unfolding pick by (simp add: c1 cb.same_answer)
  have fs: "fs = filter (\<lambda>fb. \<not> ex fb \<and> fst (IsAvailable now fb cb)) (rl_Fallbacks r)"
    using cb.available_fallbacks_filter [of ex now "rl_Fallbacks r" c1] unfolding fbs by (simp add: c1 cb.same_answer)
  show ?case
  proof (cases "rule_applies ex req r")
    case True
    then show ?thesis
      by (cases o1) (simp_all add: q pick fbs fs o1 [symmetric] rule_applies_def decision_of_def)
  next
    case False
    then show ?thesis using Cons.IH by (auto simp: rule_applies_def)
  qed
qed (simp add: decision_of_def)

lemma usable_eq: "usable e now = (\<lambda>p. \<not> re_excluded e p \<and> fst (IsAvailable now p (re_cb e)))"
  by (rule ext) (simp add: usable_def)

lemma find_rule_applies: "find (rule_applies ex req) rs = Some r \<Longrightarrow> \<not> ex (rl_PrimaryPSP r)"
  by (auto simp: find_Some_iff rule_applies_def)

lemma Route_decision: "decision_of (fst (Route now req e)) = route_choice now req e"
proof -
  have "decision_of (fst (Route now req e)) = decision_of (fst (route_rules now req (re_excluded e) (re_rules e) (re_cb e)))"
    by (simp add: Route_def split: prod.split)
  then show ?thesis
    by (auto simp: route_rules_decision route_choice_def usable_eq dest: find_rule_applies split: option.split)
qed

text \<open>C38: \<open>Route\<close> decides by the first enabled rule that matches the request and whose primary
  is not excluded: its primary with the usable fallbacks when the breaker lets it through, else its
  first usable fallback, else an error; all answers are those of the breaker before the call, although
  the scan itself updates it.\<close>

theorem Route_refines_choice: "decision_of (fst (Route now req e)) = route_choice now req e"
  by (rule Route_decision)

text \<open>what \<open>Route\<close> returns can be used: the primary and every fallback of a decision are not
  excluded and the breaker lets them through.\<close>

theorem Route_only_usable:
  assumes "fst (Route now req e) = Inr d" and "p = rd_Primary d \<or> p \<in> set (rd_Fallbacks d)"
  shows "\<not> re_excluded e p \<and> fst (IsAvailable now p (re_cb e))"
proof -
  have "route_choice now req e = Some (rd_Primary d, rd_Fallbacks d)"
    using Route_decision [of now req e] assms(1) by (simp add: decision_of_def)
  with assms(2) have "usable e now p"
    by (auto simp: route_choice_def find_Some_iff dest!: sym [of _ "rd_Fallbacks d"] split: option.splits if_splits)
  then show ?thesis by (simp add: usable_def)
qed

text \<open>A route request for the witnesses.\<close>

definition card_request :: route_request where
  "card_request = \<lparr>rr_MerchantID = ''m1'', rr_Currency = ''NGN'', rr_Country = '''', rr_Method = ''card'', rr_Amount = 500\<rparr>"

theorem Route_only_usable_witness:
  "fst (IsAvailable 5 ''paystack'' (re_cb (NewEngine NewCircuitBreaker)))"
proof -
  have "fst (Route 5 card_request (NewEngine NewCircuitBreaker)) =
      Inr \<lparr>rd_Primary = ''paystack'', rd_Fallbacks = [], rd_Reason = ''rule priority 3 matched''\<rparr>"
    by (simp add: Route_def NewEngine_def defaultRules_def card_request_def matchCondition_def
        IsAvailable_def NewCircuitBreaker_def show_int_def show_nat.simps)
  from Route_only_usable [OF this, of "''paystack''"] show ?thesis by simp
qed

text \<open>The routes a freshly started engine takes: M-Pesa for \<open>mpesa_stk\<close> in KES, Paystack for
  \<open>card\<close> in any currency, and an error for every other method.\<close>

theorem default_routes:
  "decision_of (fst (Route now req (NewEngine NewCircuitBreaker))) =
     (if rr_Method req = ''mpesa_stk'' \<and> rr_Currency req = ''KES'' then Some (''mpesa'', [])
      else if rr_Method req = ''card'' then Some (''paystack'', []) else None)"
  by (simp add: Route_decision route_choice_def NewEngine_def defaultRules_def rule_applies_def
      matchCondition_def usable_def IsAvailable_def NewCircuitBreaker_def eq_commute [of "rr_Method req"]
      eq_commute [of "rr_Currency req"])

end
