(* ===== verification/Risk.thy ===== *)
theory Risk
  imports Domain
begin

section \<open>Risk engine (\<open>internal/risk/engine.go\<close>)\<close>

text \<open>
  The velocity table maps a key to the times of its accepted attempts, oldest first; a check
  drops the times outside the window, refuses when \<open>maxAttempts\<close> remain, and otherwise
  appends the current time. \<open>Evaluate\<close> is the amount test followed by the phone and the
  email check. Each \<open>checkVelocity\<close> reads the clock once (the argument \<open>now\<close>;
  \<open>Evaluate\<close> takes the two readings \<open>t1\<close> and \<open>t2\<close>).
\<close>

record risk_request =
  rk_MerchantID :: string
  rk_Amount :: int64
  rk_Currency :: string
  rk_Method :: string
  rk_CustomerPhone :: string
  rk_CustomerEmail :: string

record risk_engine =
  velocities :: "string \<Rightarrow> time list"
  maxAttempts :: nat
  risk_window :: int
  maxAmount :: int64

definition NewRiskEngine :: risk_engine where
  "NewRiskEngine = \<lparr>velocities = (\<lambda>_. []), maxAttempts = 10, risk_window = 1 * Minute, maxAmount = 100000000\<rparr>"

definition checkVelocity :: "time \<Rightarrow> string \<Rightarrow> risk_engine \<Rightarrow> (error + unit) \<times> risk_engine" where
  "checkVelocity now key e =
     (let cutoff = now - risk_window e;
          recent = filter (\<lambda>t. cutoff < t) (velocities e key);
          e1 = e\<lparr>velocities := (velocities e)(key := recent)\<rparr>
      in if maxAttempts e \<le> length recent
         then (Inl (ErrMsg (''rate limit exceeded for '' @ key @ '': '' @ show_nat (length recent) @ '' attempts in 1m0s'')), e1)
         else (Inr (), e1\<lparr>velocities := (velocities e1)(key := velocities e1 key @ [now])\<rparr>))"

definition Evaluate :: "time \<Rightarrow> time \<Rightarrow> risk_request \<Rightarrow> risk_engine \<Rightarrow> (error + unit) \<times> risk_engine" where
  "Evaluate t1 t2 req e =
     (if rk_Amount req \<le> 0 then (Inl (ErrMsg ''amount must be positive''), e)
      else if maxAmount e < rk_Amount req
      then (Inl (ErrMsg (''amount exceeds maximum: '' @ show_int (rk_Amount req) @ '' > '' @ show_int (maxAmount e))), e)
      else
        (case (if rk_CustomerPhone req \<noteq> [] then checkVelocity t1 (''phone:'' @ rk_CustomerPhone req) e else (Inr (), e)) of
           (Inl err, e1) \<Rightarrow> (Inl err, e1)
         | (Inr _, e1) \<Rightarrow>
             (case (if rk_CustomerEmail req \<noteq> [] then checkVelocity t2 (''email:'' @ rk_CustomerEmail req) e1 else (Inr (), e1)) of
                (Inl err, e2) \<Rightarrow> (Inl err, e2)
              | (Inr _, e2) \<Rightarrow> (Inr (), e2))))"

subsection \<open>Runs of the velocity check\<close>

text \<open>A sequence of calls (time, key); the accepted calls are collected in order.\<close>

definition velocity_step :: "(time \<times> string) list \<times> risk_engine \<Rightarrow> time \<times> string \<Rightarrow> (time \<times> string) list \<times> risk_engine" where
  "velocity_step s c =
     (case checkVelocity (fst c) (snd c) (snd s) of
        (Inl _, e) \<Rightarrow> (fst s, e)
      | (Inr _, e) \<Rightarrow> (fst s @ [c], e))"

definition velocity_run :: "risk_engine \<Rightarrow> (time \<times> string) list \<Rightarrow> (time \<times> string) list \<times> risk_engine" where
  "velocity_run e calls = foldl velocity_step ([], e) calls"

definition accepted_at :: "string \<Rightarrow> (time \<times> string) list \<Rightarrow> time list" where
  "accepted_at k acc = map fst (filter (\<lambda>c. snd c = k) acc)"

definition in_window :: "time \<Rightarrow> int \<Rightarrow> time list \<Rightarrow> time list" where
  "in_window T w ts = filter (\<lambda>t. T - w < t \<and> t \<le> T) ts"

lemma accepted_at_snoc:
  "accepted_at k (acc @ [c]) = accepted_at k acc @ (if snd c = k then [fst c] else [])"
  by (simp add: accepted_at_def)

text \<open>
  The invariant of a run whose calls come in time order, the last one at \<open>tlast\<close>: what the
  table holds for a key agrees with the accepted calls on every window that starts at
  \<open>tlast\<close> or later, and no window holds more accepted calls than the limit.
\<close>

definition velocity_inv :: "risk_engine \<Rightarrow> time \<Rightarrow> (time \<times> string) list \<times> risk_engine \<Rightarrow> bool" where
  "velocity_inv e0 tlast s \<longleftrightarrow>
     maxAttempts (snd s) = maxAttempts e0 \<and> risk_window (snd s) = risk_window e0 \<and>
     (\<forall>k. (\<forall>t \<in> set (accepted_at k (fst s)). t \<le> tlast) \<and>
          (\<forall>T\<ge>tlast. filter (\<lambda>t. T - risk_window e0 < t) (velocities (snd s) k)
                    = filter (\<lambda>t. T - risk_window e0 < t) (accepted_at k (fst s))) \<and>
          (\<forall>T. length (in_window T (risk_window e0) (accepted_at k (fst s))) \<le> maxAttempts e0))"

lemma filter_cutoff_filter:
  "c' \<le> c \<Longrightarrow> filter (\<lambda>t. c < t) (filter (\<lambda>t. c' < t) ts) = filter (\<lambda>t. (c :: int) < t) ts"
  by (induction ts) auto

text \<open>A window that ends at or after every accepted time holds no more than the recent list.\<close>

lemma window_at_most_recent:
  "\<forall>t \<in> set ts. t \<le> now \<Longrightarrow> now \<le> T \<Longrightarrow>
   length (in_window T w ts) \<le> length (filter (\<lambda>t. now - w < t) ts)"
  unfolding in_window_def by (induction ts) auto

lemma window_before_now:
  "T < now \<Longrightarrow> in_window T w (ts @ [now]) = in_window T w ts"
  by (simp add: in_window_def)

lemma velocity_inv_step:
  assumes inv: "velocity_inv e0 tlast s" and mono: "tlast \<le> fst c"
  shows "velocity_inv e0 (fst c) (velocity_step s c)"
proof -
  obtain acc e where s: "s = (acc, e)" by fastforce
  obtain t k where c: "c = (t, k)" by fastforce
  let ?w = "risk_window e0" and ?r = "filter (\<lambda>u. t - risk_window e0 < u) (velocities e k)"
  have cfg: "maxAttempts e = maxAttempts e0" "risk_window e = ?w" using inv by (simp_all add: velocity_inv_def s)
  have le: "u \<in> set (accepted_at q acc) \<Longrightarrow> u \<le> t" for u q
    using inv mono by (fastforce simp: velocity_inv_def s c)
  have tab: "tlast \<le> T \<Longrightarrow> filter (\<lambda>u. T - ?w < u) (velocities e q) = filter (\<lambda>u. T - ?w < u) (accepted_at q acc)" for T q
    using inv by (simp add: velocity_inv_def s)
  have cap: "length (in_window T ?w (accepted_at q acc)) \<le> maxAttempts e0" for T q
    using inv by (simp add: velocity_inv_def s)
  have pruned: "t \<le> T \<Longrightarrow> filter (\<lambda>u. T - ?w < u) ?r = filter (\<lambda>u. T - ?w < u) (accepted_at k acc)" for T
    using filter_cutoff_filter [of "t - ?w" "T - ?w"] tab [of T k] mono by (simp add: c)
  have keep: "t \<le> T \<Longrightarrow> filter (\<lambda>u. T - ?w < u) (velocities e q) = filter (\<lambda>u. T - ?w < u) (accepted_at q acc)" for T q
    using tab mono by (simp add: c)
  show ?thesis
  proof (cases "maxAttempts e0 \<le> length ?r")
    case True
    then have "velocity_step s c = (acc, e\<lparr>velocities := (velocities e)(k := ?r)\<rparr>)"
      by (simp add: velocity_step_def checkVelocity_def s c cfg Let_def)
    then show ?thesis using le keep pruned cap by (auto simp: velocity_inv_def cfg c)
  next
    case False
    then have st: "velocity_step s c = (acc @ [(t, k)], e\<lparr>velocities := (velocities e)(k := ?r @ [t])\<rparr>)"
      by (simp add: velocity_step_def checkVelocity_def s c cfg Let_def)
    have r: "?r = filter (\<lambda>u. t - ?w < u) (accepted_at k acc)" using keep [of t k] by simp
    have new: "length (in_window T ?w (accepted_at k acc @ [t])) \<le> maxAttempts e0" for T
    proof (cases "T < t")
      case True
      then show ?thesis using cap [of T k] by (simp add: window_before_now)
    next
      case ge: False
      have "length (in_window T ?w (accepted_at k acc)) \<le> length ?r"
        unfolding r by (rule window_at_most_recent) (use le ge in auto)
      then show ?thesis using False by (simp add: in_window_def)
    qed
    show ?thesis unfolding velocity_inv_def st
      using le keep pruned cap new by (auto simp: cfg c accepted_at_snoc)
  qed
qed

lemma velocity_inv_run:
  assumes "velocities e0 = (\<lambda>_. [])" and "sorted (map fst calls)" and "\<forall>c \<in> set calls. fst c \<le> tlast"
  shows "velocity_inv e0 tlast (velocity_run e0 calls)"
  using assms(2,3)
proof (induction calls arbitrary: tlast rule: rev_induct)
  case Nil
  then show ?case using assms(1) by (simp add: velocity_run_def velocity_inv_def accepted_at_def in_window_def)
next
  case (snoc c calls)
  from snoc.prems have "sorted (map fst calls)" "\<forall>d \<in> set calls. fst d \<le> fst c"
    by (auto simp: sorted_append)
  then have "velocity_inv e0 (fst c) (velocity_run e0 calls)" by (rule snoc.IH)
  then have "velocity_inv e0 (fst c) (velocity_run e0 (calls @ [c]))"
    using velocity_inv_step [of e0 "fst c" "velocity_run e0 calls" c] by (simp add: velocity_run_def)
  then show ?case using snoc.prems(2) by (fastforce simp: velocity_inv_def)
qed

subsection \<open>Properties\<close>

text \<open>C39: the velocity limit holds for every window: whatever sequence of checks is made in time
  order from a fresh engine, for every key and every point in time \<open>T\<close> at most
  \<open>maxAttempts\<close> of them are accepted in the window that ends at \<open>T\<close>.\<close>

theorem velocity_limit:
  assumes "velocities e = (\<lambda>_. [])" and "sorted (map fst calls)"
  shows "length (in_window T (risk_window e) (accepted_at k (fst (velocity_run e calls)))) \<le> maxAttempts e"
proof -
  have "\<forall>c \<in> set calls. fst c \<le> Max (insert 0 (fst ` set calls))" by simp
  with assms have "velocity_inv e (Max (insert 0 (fst ` set calls))) (velocity_run e calls)"
    by (rule velocity_inv_run)
  then show ?thesis by (simp add: velocity_inv_def)
qed

theorem velocity_limit_witness:
  "length (in_window 11 Minute (accepted_at ''k'' (fst (velocity_run NewRiskEngine (map (\<lambda>t. (t, ''k'')) [0..11]))))) \<le> 10"
proof -
  have "velocities NewRiskEngine = (\<lambda>_. [])" "risk_window NewRiskEngine = Minute" "maxAttempts NewRiskEngine = 10"
    by (simp_all add: NewRiskEngine_def)
  moreover have "sorted (map fst (map (\<lambda>t. (t, ''k'')) [0..11 :: int]))" by (simp add: upto.simps)
  ultimately show ?thesis using velocity_limit [of NewRiskEngine "map (\<lambda>t. (t, ''k'')) [0..11]" 11 "''k''"] by simp
qed

text \<open>No attempt is refused without cause: if fewer than \<open>maxAttempts\<close> attempts of a key are on
  record in the window that ends now, the check accepts, and records exactly this attempt.\<close>

theorem velocity_accepts:
  assumes "length (filter (\<lambda>t. now - risk_window e < t) (velocities e k)) < maxAttempts e"
  shows "fst (checkVelocity now k e) = Inr () \<and>
    velocities (snd (checkVelocity now k e)) k = filter (\<lambda>t. now - risk_window e < t) (velocities e k) @ [now] \<and>
    (\<forall>q. q \<noteq> k \<longrightarrow> velocities (snd (checkVelocity now k e)) q = velocities e q)"
  using assms by (simp add: checkVelocity_def Let_def)

theorem velocity_accepts_witness: "fst (checkVelocity 5 ''k'' NewRiskEngine) = Inr ()"
  using velocity_accepts [of 5 NewRiskEngine "''k''"] by (simp add: NewRiskEngine_def)

text \<open>a request that \<open>Evaluate\<close> lets through has an amount between 1 and the maximum, and had
  room in the window of its phone and of its email.\<close>

theorem Evaluate_accepts_only:
  assumes "fst (Evaluate t1 t2 req e) = Inr ()"
  shows "0 < rk_Amount req \<and> rk_Amount req \<le> maxAmount e \<and>
    (rk_CustomerPhone req \<noteq> [] \<longrightarrow>
       length (filter (\<lambda>t. t1 - risk_window e < t) (velocities e (''phone:'' @ rk_CustomerPhone req))) < maxAttempts e) \<and>
    (rk_CustomerEmail req \<noteq> [] \<longrightarrow>
       length (filter (\<lambda>t. t2 - risk_window e < t) (velocities e (''email:'' @ rk_CustomerEmail req))) < maxAttempts e)"
  using assms
  by (auto simp: Evaluate_def checkVelocity_def Let_def not_less split: if_splits sum.splits prod.splits)

theorem Evaluate_accepts_only_witness:
  "(700 :: int) \<le> maxAmount NewRiskEngine"
proof -
  have "fst (Evaluate 1 2 \<lparr>rk_MerchantID = ''m'', rk_Amount = 700, rk_Currency = ''KES'', rk_Method = ''card'',
      rk_CustomerPhone = ''0700'', rk_CustomerEmail = ''a@b.c''\<rparr> NewRiskEngine) = Inr ()"
    by (simp add: Evaluate_def checkVelocity_def NewRiskEngine_def)
  from Evaluate_accepts_only [OF this] show ?thesis by simp
qed

end
