(* ===== verification/World.thy ===== *)
theory World
  imports ConnectorTypes Routing Risk
begin

section \<open>The world a handler runs in\<close>

text \<open>
  A handler's state: the database tables, Redis, the NATS stream, the HTTP requests sent so far,
  the in-memory engines, and the timers started with \<open>time.AfterFunc\<close>. Everything that
  comes from outside the repository is an oracle, indexed by the number of the external call:
  fresh UUIDs, clock readings, whether a database or Redis call is carried out, refused, or
  carried out without its acknowledgement arriving (\<open>Unacked\<close>), which of several matching
  rows a query without \<open>ORDER BY\<close> returns first, HTTP replies, whether NATS
  accepts a message, whether \<open>net/http\<close> accepts a URL, the bytes of \<open>crypto/rand\<close>,
  the hashes of \<open>bcrypt\<close> and which passwords match them, and the texts that
  \<open>time.Format\<close> and \<open>fmt\<close> print for values the model does not print itself.
  A theorem about a handler therefore holds for every schedule of failures.
\<close>

datatype outcome = Done | Refused | Unacked

record http_request =
  hr_Method :: string
  hr_URL :: string
  hr_Header :: "(string \<times> string) list"
  hr_Body :: bytes

text \<open>A reply: status, body, and the announced \<open>ContentLength\<close> (-1 when unknown).\<close>

datatype http_reply = HttpFail | HttpResp int bytes int

record environment =
  o_uuid :: "nat \<Rightarrow> string"
  o_clock :: "nat \<Rightarrow> time"
  o_db :: "nat \<Rightarrow> outcome"
  o_row :: "nat \<Rightarrow> nat"
  o_redis :: "nat \<Rightarrow> outcome"
  o_http :: "nat \<Rightarrow> http_request \<Rightarrow> http_reply"
  o_nats :: "nat \<Rightarrow> bool"
  o_url_ok :: "string \<Rightarrow> bool"
  o_fmt_time :: "string \<Rightarrow> time \<Rightarrow> string"
  o_fmt :: "json \<Rightarrow> string"
  o_rand :: "nat \<Rightarrow> (nat \<Rightarrow> nat) option"
  o_bcrypt :: "nat \<Rightarrow> string \<Rightarrow> string option"
  o_bcrypt_match :: "string \<Rightarrow> string \<Rightarrow> bool"

record db =
  t_payment_intents :: "payment_intent list"
  t_attempts :: "attempt list"
  t_ledger_entries :: "ledger_entry list"
  t_payouts :: "payout list"
  t_refunds :: "refund list"
  t_merchants :: "merchant list"
  t_api_keys :: "api_key list"
  t_checkout_sessions :: "checkout_session list"
  t_webhook_events :: "webhook_event_row list"
  t_webhook_endpoints :: "webhook_endpoint list"
  t_webhook_deliveries :: "webhook_delivery list"
  t_notifications :: "notification list"
  t_users :: "user list"
  t_sessions :: "session list"
  t_customers :: "customer list"
  t_team_members :: "team_member list"
  t_team_invitations :: "team_invitation list"
  t_notification_preferences :: "notification_preferences list"

datatype bus_message = BusWebhook webhook_event | BusNotification string notification_event

record timer =
  tm_FireAt :: time
  tm_PIID :: string
  tm_AttemptID :: string
  tm_PSP :: string

text \<open>The portal keeps the sign-up codes it has sent in memory (\<open>otpStore\<close>), by phone.\<close>

record signup_data =
  sd_Name :: string
  sd_Role :: string
  sd_Email :: string
  sd_Company :: string
  sd_Country :: string
  sd_Currency :: string
  sd_Phone :: string
  sd_Password :: string

record otp_entry =
  oe_Code :: string
  oe_ExpiresAt :: time
  oe_Data :: signup_data

record world =
  w_env :: environment
  w_step :: nat
  w_db :: db
  w_redis :: "string \<rightharpoonup> json \<times> time"
  w_bus :: "bus_message list"
  w_http :: "http_request list"
  w_router :: routing_engine
  w_risk :: risk_engine
  w_mpesa_token :: "string \<times> time"
  w_timers :: "timer list"
  w_otp :: "string \<rightharpoonup> otp_entry"

type_synonym 'a go = "(world, 'a) state"
type_synonym 'a goE = "(world, 'a) res"

definition empty_db :: db where
  "empty_db = \<lparr>t_payment_intents = [], t_attempts = [], t_ledger_entries = [], t_payouts = [], t_refunds = [],
     t_merchants = [], t_api_keys = [], t_checkout_sessions = [], t_webhook_events = [], t_webhook_endpoints = [],
     t_webhook_deliveries = [], t_notifications = [], t_users = [], t_sessions = [], t_customers = [],
     t_team_members = [], t_team_invitations = [], t_notification_preferences = []\<rparr>"

subsection \<open>External calls\<close>

definition next_step :: "world \<Rightarrow> world" where
  "next_step w = w\<lparr>w_step := Suc (w_step w)\<rparr>"

text \<open>Every external call takes the next index, with which the oracles are read.\<close>

definition uuid_New :: "string go" where
  "uuid_New = State_Monad.State (\<lambda>w. (o_uuid (w_env w) (w_step w), next_step w))"

definition time_Now :: "time go" where
  "time_Now = State_Monad.State (\<lambda>w. (o_clock (w_env w) (w_step w), next_step w))"

text \<open>
  A statement gets the database's \<open>now()\<close> and the tables and returns the error of a violated
  constraint or the new tables with the number of rows affected.
\<close>

type_synonym stmt = "time \<Rightarrow> db \<Rightarrow> error + db \<times> nat"

definition run_stmt :: "stmt \<Rightarrow> outcome \<Rightarrow> time \<Rightarrow> db \<Rightarrow> (error + nat) \<times> db" where
  "run_stmt st out now d =
     (case st now d of
        Inl e \<Rightarrow> ((case out of Done \<Rightarrow> Inl e | _ \<Rightarrow> Inl ErrDB), d)
      | Inr (d1, n) \<Rightarrow> (case out of Done \<Rightarrow> (Inr n, d1) | Refused \<Rightarrow> (Inl ErrDB, d) | Unacked \<Rightarrow> (Inl ErrDB, d1)))"

definition db_Exec :: "stmt \<Rightarrow> nat goE" where
  "db_Exec st = State_Monad.State (\<lambda>w.
     (let out = o_db (w_env w) (w_step w); now = o_clock (w_env w) (w_step w);
          (r, d) = run_stmt st out now (w_db w)
      in (r, next_step (w\<lparr>w_db := d\<rparr>))))"

definition db_Query :: "(time \<Rightarrow> db \<Rightarrow> error + 'a) \<Rightarrow> 'a goE" where
  "db_Query q = State_Monad.State (\<lambda>w.
     ((case o_db (w_env w) (w_step w) of
         Done \<Rightarrow> q (o_clock (w_env w) (w_step w)) (w_db w)
       | _ \<Rightarrow> Inl ErrDB), next_step w))"

text \<open>\<open>QueryRow(...).Scan(...)\<close>: one of the matching rows, \<open>pgx.ErrNoRows\<close> without any.\<close>

definition sql_one :: "nat \<Rightarrow> 'r list \<Rightarrow> error + 'r" where
  "sql_one i rows = (if rows = [] then Inl ErrNoRows else Inr (rows ! (i mod length rows)))"

definition db_QueryRow :: "(time \<Rightarrow> db \<Rightarrow> 'r list) \<Rightarrow> 'r goE" where
  "db_QueryRow q = State_Monad.State (\<lambda>w.
     ((case o_db (w_env w) (w_step w) of
         Done \<Rightarrow> sql_one (o_row (w_env w) (w_step w)) (q (o_clock (w_env w) (w_step w)) (w_db w))
       | _ \<Rightarrow> Inl ErrDB), next_step w))"

definition http_Do :: "http_request \<Rightarrow> http_reply go" where
  "http_Do req = State_Monad.State (\<lambda>w.
     (o_http (w_env w) (w_step w) req, next_step (w\<lparr>w_http := w_http w @ [req]\<rparr>)))"

text \<open>\<open>http.NewRequestWithContext\<close>: fails only on a URL that does not parse.\<close>

definition http_NewRequest :: "string \<Rightarrow> string \<Rightarrow> (string \<times> string) list \<Rightarrow> bytes \<Rightarrow> http_request goE" where
  "http_NewRequest meth url hdr body = State_Monad.State (\<lambda>w.
     (if o_url_ok (w_env w) url
      then Inr \<lparr>hr_Method = meth, hr_URL = url, hr_Header = hdr, hr_Body = body\<rparr> else Inl ErrHTTP, w))"

definition nats_Publish :: "bus_message \<Rightarrow> unit goE" where
  "nats_Publish m = State_Monad.State (\<lambda>w.
     (if o_nats (w_env w) (w_step w)
      then (Inr (), next_step (w\<lparr>w_bus := w_bus w @ [m]\<rparr>)) else (Inl ErrNATS, next_step w)))"

text \<open>Redis \<open>SET key value EX ttl\<close> and \<open>GET\<close>, which answers \<open>None\<close> (redis.Nil)
  for a missing or expired key.\<close>

definition redis_Set :: "string \<Rightarrow> json \<Rightarrow> int \<Rightarrow> unit goE" where
  "redis_Set key v ttl = State_Monad.State (\<lambda>w.
     (let k = w_step w; w1 = next_step (w\<lparr>w_redis := (w_redis w)(key \<mapsto> (v, o_clock (w_env w) k + ttl))\<rparr>)
      in case o_redis (w_env w) k of
           Done \<Rightarrow> (Inr (), w1) | Unacked \<Rightarrow> (Inl ErrRedis, w1) | Refused \<Rightarrow> (Inl ErrRedis, next_step w)))"

definition redis_Get :: "string \<Rightarrow> json option goE" where
  "redis_Get key = State_Monad.State (\<lambda>w.
     (let k = w_step w
      in ((case o_redis (w_env w) k of
             Done \<Rightarrow> Inr (case w_redis w key of
                              None \<Rightarrow> None
                            | Some (v, expiry) \<Rightarrow> if o_clock (w_env w) k < expiry then Some v else None)
           | _ \<Rightarrow> Inl ErrRedis), next_step w)))"

text \<open>\<open>rand.Read\<close> of \<open>n\<close> bytes, and \<open>bcrypt.GenerateFromPassword\<close> and
  \<open>bcrypt.CompareHashAndPassword\<close>.\<close>

definition rand_Read :: "nat \<Rightarrow> nat list option go" where
  "rand_Read n = State_Monad.State (\<lambda>w.
     (map_option (\<lambda>f. map (\<lambda>i. f i mod 256) [0..<n]) (o_rand (w_env w) (w_step w)), next_step w))"

definition bcrypt_Generate :: "string \<Rightarrow> string option go" where
  "bcrypt_Generate password = State_Monad.State (\<lambda>w. (o_bcrypt (w_env w) (w_step w) password, next_step w))"

definition bcrypt_Compare :: "string \<Rightarrow> string \<Rightarrow> bool go" where
  "bcrypt_Compare hash password = State_Monad.State (\<lambda>w. (o_bcrypt_match (w_env w) hash password, w))"

text \<open>Printing and in-memory engines.\<close>

definition fmt_time :: "string \<Rightarrow> time \<Rightarrow> string go" where
  "fmt_time layout t = State_Monad.State (\<lambda>w. (o_fmt_time (w_env w) layout t, w))"

definition with_risk :: "(risk_engine \<Rightarrow> 'a \<times> risk_engine) \<Rightarrow> 'a go" where
  "with_risk f = State_Monad.State (\<lambda>w. case f (w_risk w) of (a, e) \<Rightarrow> (a, w\<lparr>w_risk := e\<rparr>))"

definition with_router :: "(routing_engine \<Rightarrow> 'a \<times> routing_engine) \<Rightarrow> 'a go" where
  "with_router f = State_Monad.State (\<lambda>w. case f (w_router w) of (a, e) \<Rightarrow> (a, w\<lparr>w_router := e\<rparr>))"

lemmas external_defs = uuid_New_def time_Now_def db_Exec_def db_Query_def db_QueryRow_def http_Do_def http_NewRequest_def
  nats_Publish_def redis_Set_def redis_Get_def fmt_time_def with_risk_def with_router_def rand_Read_def bcrypt_Generate_def bcrypt_Compare_def

subsection \<open>Projections of a step\<close>

lemma next_step_simps [simp]:
  "w_env (next_step w) = w_env w" "w_step (next_step w) = Suc (w_step w)" "w_db (next_step w) = w_db w"
  "w_redis (next_step w) = w_redis w" "w_bus (next_step w) = w_bus w" "w_http (next_step w) = w_http w"
  "w_router (next_step w) = w_router w" "w_risk (next_step w) = w_risk w"
  "w_mpesa_token (next_step w) = w_mpesa_token w" "w_timers (next_step w) = w_timers w"
  "w_otp (next_step w) = w_otp w"
  by (simp_all add: next_step_def)

subsection \<open>Preconditions of the external calls\<close>

lemma wp_uuid_New [wp_simps]: "wp uuid_New Q w = Q (o_uuid (w_env w) (w_step w)) (next_step w)"
  by (simp add: wp_def uuid_New_def)

lemma wp_time_Now [wp_simps]: "wp time_Now Q w = Q (o_clock (w_env w) (w_step w)) (next_step w)"
  by (simp add: wp_def time_Now_def)

lemma wp_db_Exec [wp_simps]:
  "wp (db_Exec st) Q w =
     (case run_stmt st (o_db (w_env w) (w_step w)) (o_clock (w_env w) (w_step w)) (w_db w) of
        (r, d) \<Rightarrow> Q r (next_step (w\<lparr>w_db := d\<rparr>)))"
  by (simp add: wp_def db_Exec_def Let_def split: prod.split)

lemma wp_db_Query [wp_simps]:
  "wp (db_Query q) Q w =
     Q (case o_db (w_env w) (w_step w) of
          Done \<Rightarrow> q (o_clock (w_env w) (w_step w)) (w_db w) | _ \<Rightarrow> Inl ErrDB) (next_step w)"
  by (simp add: wp_def db_Query_def)

lemma wp_db_QueryRow [wp_simps]:
  "wp (db_QueryRow q) Q w =
     Q (case o_db (w_env w) (w_step w) of
          Done \<Rightarrow> sql_one (o_row (w_env w) (w_step w)) (q (o_clock (w_env w) (w_step w)) (w_db w))
        | _ \<Rightarrow> Inl ErrDB) (next_step w)"
  by (simp add: wp_def db_QueryRow_def)

lemma wp_http_Do [wp_simps]:
  "wp (http_Do req) Q w = Q (o_http (w_env w) (w_step w) req) (next_step (w\<lparr>w_http := w_http w @ [req]\<rparr>))"
  by (simp add: wp_def http_Do_def)

lemma wp_http_NewRequest [wp_simps]:
  "wp (http_NewRequest m u h b) Q w =
     Q (if o_url_ok (w_env w) u then Inr \<lparr>hr_Method = m, hr_URL = u, hr_Header = h, hr_Body = b\<rparr> else Inl ErrHTTP) w"
  by (simp add: wp_def http_NewRequest_def)

lemma wp_nats_Publish [wp_simps]:
  "wp (nats_Publish m) Q w =
     (if o_nats (w_env w) (w_step w) then Q (Inr ()) (next_step (w\<lparr>w_bus := w_bus w @ [m]\<rparr>))
      else Q (Inl ErrNATS) (next_step w))"
  by (simp add: wp_def nats_Publish_def)

lemma wp_redis_Get [wp_simps]:
  "wp (redis_Get key) Q w =
     Q (case o_redis (w_env w) (w_step w) of
          Done \<Rightarrow> Inr (case w_redis w key of None \<Rightarrow> None
                        | Some (v, expiry) \<Rightarrow> if o_clock (w_env w) (w_step w) < expiry then Some v else None)
        | _ \<Rightarrow> Inl ErrRedis) (next_step w)"
  by (simp add: wp_def redis_Get_def Let_def)

lemma wp_redis_Set [wp_simps]:
  "wp (redis_Set key v ttl) Q w =
     (let w1 = next_step (w\<lparr>w_redis := (w_redis w)(key \<mapsto> (v, o_clock (w_env w) (w_step w) + ttl))\<rparr>)
      in case o_redis (w_env w) (w_step w) of
           Done \<Rightarrow> Q (Inr ()) w1 | Unacked \<Rightarrow> Q (Inl ErrRedis) w1 | Refused \<Rightarrow> Q (Inl ErrRedis) (next_step w))"
  by (simp add: wp_def redis_Set_def Let_def split: outcome.split)

lemma wp_fmt_time [wp_simps]: "wp (fmt_time l t) Q w = Q (o_fmt_time (w_env w) l t) w"
  by (simp add: wp_def fmt_time_def)

lemma wp_rand_Read [wp_simps]:
  "wp (rand_Read n) Q w = Q (map_option (\<lambda>f. map (\<lambda>i. f i mod 256) [0..<n]) (o_rand (w_env w) (w_step w))) (next_step w)"
  by (simp add: wp_def rand_Read_def)

lemma wp_bcrypt [wp_simps]:
  "wp (bcrypt_Generate p) R w = R (o_bcrypt (w_env w) (w_step w) p) (next_step w)"
  "wp (bcrypt_Compare h p) Q w = Q (o_bcrypt_match (w_env w) h p) w"
  by (simp_all add: wp_def bcrypt_Generate_def bcrypt_Compare_def)

lemma wp_with_risk [wp_simps]: "wp (with_risk f) Q w = (case f (w_risk w) of (a, e) \<Rightarrow> Q a (w\<lparr>w_risk := e\<rparr>))"
  by (simp add: wp_def with_risk_def split: prod.split)

lemma wp_with_router [wp_simps]: "wp (with_router f) Q w = (case f (w_router w) of (a, e) \<Rightarrow> Q a (w\<lparr>w_router := e\<rparr>))"
  by (simp add: wp_def with_router_def split: prod.split)

text \<open>The row read is one of the matching rows, and the only one if there is only one.\<close>

lemma sql_one_Inr: "sql_one i rows = Inr r \<Longrightarrow> r \<in> set rows"
  by (auto simp: sql_one_def split: if_splits)

lemma sql_one_single [simp]: "sql_one i [r] = Inr r"
  by (simp add: sql_one_def)

lemma sql_one_Nil [simp]: "sql_one i [] = Inl ErrNoRows"
  by (simp add: sql_one_def)

subsection \<open>What an external call leaves alone\<close>

lemma keeps_uuid_New [keeps_intros]: "(\<And>w. f (next_step w) = f w) \<Longrightarrow> keeps f uuid_New"
  by (rule keepsI) (simp add: uuid_New_def)

lemma keeps_time_Now [keeps_intros]: "(\<And>w. f (next_step w) = f w) \<Longrightarrow> keeps f time_Now"
  by (rule keepsI) (simp add: time_Now_def)

lemma keeps_db_Query [keeps_intros]: "(\<And>w. f (next_step w) = f w) \<Longrightarrow> keeps f (db_Query q)"
  by (rule keepsI) (simp add: db_Query_def)

lemma keeps_db_QueryRow [keeps_intros]: "(\<And>w. f (next_step w) = f w) \<Longrightarrow> keeps f (db_QueryRow q)"
  by (rule keepsI) (simp add: db_QueryRow_def)

lemma keeps_db_Exec:
  assumes "\<And>w. f (next_step w) = f w"
    and "\<And>w now d n. st now (w_db w) = Inr (d, n) \<Longrightarrow> f (w\<lparr>w_db := d\<rparr>) = f w"
    and "\<And>w. f (w\<lparr>w_db := w_db w\<rparr>) = f w"
  shows "keeps f (db_Exec st)"
  by (rule keepsI)
    (auto simp: db_Exec_def run_stmt_def Let_def assms split: sum.split prod.split outcome.split)

lemma keeps_http_Do [keeps_intros]:
  "(\<And>w. f (next_step w) = f w) \<Longrightarrow> (\<And>w x. f (w\<lparr>w_http := x\<rparr>) = f w) \<Longrightarrow> keeps f (http_Do req)"
  by (rule keepsI) (simp add: http_Do_def)

lemma keeps_http_NewRequest [keeps_intros]: "keeps f (http_NewRequest m u h b)"
  by (rule keepsI) (simp add: http_NewRequest_def)

lemma keeps_nats_Publish [keeps_intros]:
  "(\<And>w. f (next_step w) = f w) \<Longrightarrow> (\<And>w x. f (w\<lparr>w_bus := x\<rparr>) = f w) \<Longrightarrow> keeps f (nats_Publish m)"
  by (rule keepsI) (simp add: nats_Publish_def)

lemma keeps_redis_Get [keeps_intros]: "(\<And>w. f (next_step w) = f w) \<Longrightarrow> keeps f (redis_Get k)"
  by (rule keepsI) (simp add: redis_Get_def Let_def)

lemma keeps_redis_Set [keeps_intros]:
  "(\<And>w. f (next_step w) = f w) \<Longrightarrow> (\<And>w x. f (w\<lparr>w_redis := x\<rparr>) = f w) \<Longrightarrow> keeps f (redis_Set k v ttl)"
  by (rule keepsI) (simp add: redis_Set_def Let_def split: outcome.split)

lemma keeps_fmt_time [keeps_intros]: "keeps f (fmt_time l t)"
  by (rule keepsI) (simp add: fmt_time_def)

lemma keeps_rand_bcrypt [keeps_intros]:
  "(\<And>w. f (next_step w) = f w) \<Longrightarrow> keeps f (rand_Read n)" "(\<And>w. f (next_step w) = f w) \<Longrightarrow> keeps f (bcrypt_Generate p)"
  "keeps f (bcrypt_Compare h p)"
  by (rule keepsI; simp add: rand_Read_def bcrypt_Generate_def bcrypt_Compare_def)+

lemma keeps_with_risk [keeps_intros]: "(\<And>w x. f (w\<lparr>w_risk := x\<rparr>) = f w) \<Longrightarrow> keeps f (with_risk g)"
  by (rule keepsI) (simp add: with_risk_def split: prod.split)

lemma keeps_with_router [keeps_intros]: "(\<And>w x. f (w\<lparr>w_router := x\<rparr>) = f w) \<Longrightarrow> keeps f (with_router g)"
  by (rule keepsI) (simp add: with_router_def split: prod.split)

subsection \<open>A request and its reply\<close>

text \<open>
  Build a request and send it: a URL that does not parse is returned as it is, a transport error
  is wrapped with the caller's context.
\<close>

definition http_send :: "string \<Rightarrow> string \<Rightarrow> string \<Rightarrow> (string \<times> string) list \<Rightarrow> bytes \<Rightarrow> (int \<times> bytes) goE" where
  "http_send ctx meth url hdr body =
     try_call (http_NewRequest meth url hdr body) (\<lambda>req. do {
       rep \<leftarrow> http_Do req;
       (case rep of HttpFail \<Rightarrow> fail (ErrWrap ctx ErrHTTP) | HttpResp status reply len \<Rightarrow> ok (status, reply)) })"

lemma keeps_http_send [keeps_intros]:
  "(\<And>w. f (next_step w) = f w) \<Longrightarrow> (\<And>w x. f (w\<lparr>w_http := x\<rparr>) = f w) \<Longrightarrow> keeps f (http_send c m u h b)"
  unfolding http_send_def
  by (intro keeps_try_call keeps_http_NewRequest keeps_bind keeps_http_Do)
    (auto intro: keeps_fail keeps_ok split: http_reply.split)

subsection \<open>Concrete environments\<close>

text \<open>
  The environment the examples evaluate in: identifiers count the external calls, the clock
  advances a second per call, every call is carried out; \<open>http\<close> answers the HTTP requests
  and \<open>bad\<close> names the database calls that are refused.
\<close>

definition calm_env :: "(nat \<Rightarrow> http_request \<Rightarrow> http_reply) \<Rightarrow> nat list \<Rightarrow> environment" where
  "calm_env http bad = \<lparr>o_uuid = show_nat, o_clock = (\<lambda>k. int k * Second),
     o_db = (\<lambda>k. if k \<in> set bad then Refused else Done), o_row = (\<lambda>_. 0), o_redis = (\<lambda>_. Done),
     o_http = http, o_nats = (\<lambda>_. True), o_url_ok = (\<lambda>_. True), o_fmt_time = (\<lambda>l t. show_int t),
     o_fmt = (\<lambda>_. []), o_rand = (\<lambda>k. Some (\<lambda>i. k + i)), o_bcrypt = (\<lambda>k p. Some (''$2a$'' @ p)),
     o_bcrypt_match = (\<lambda>h p. h = ''$2a$'' @ p)\<rparr>"

definition start_world :: "environment \<Rightarrow> db \<Rightarrow> world" where
  "start_world env d = \<lparr>w_env = env, w_step = 0, w_db = d, w_redis = Map.empty, w_bus = [], w_http = [],
     w_router = NewEngine NewCircuitBreaker, w_risk = NewRiskEngine, w_mpesa_token = ([], 0), w_timers = [],
     w_otp = Map.empty\<rparr>"

definition no_http :: "nat \<Rightarrow> http_request \<Rightarrow> http_reply" where
  "no_http k r = HttpFail"

definition calm_world :: world where
  "calm_world = start_world (calm_env no_http []) empty_db"

end
