(* ===== verification/Repository.thy ===== *)
theory Repository
  imports World "HOL-Library.List_Lexorder" "HOL-Library.Char_ord"
begin

section \<open>Tables and repositories (\<open>internal/repository\<close>)\<close>

text \<open>
  A table is the list of its rows. An \<open>INSERT\<close> appends a row unless a constraint of the
  migrations refuses it (primary keys, unique indexes, the two CHECKs of
  \<open>ledger_entries\<close>, JSON columns that hold JSON); foreign keys and the syntax of UUID
  columns only make more statements fail and are covered by the environment's \<open>Refused\<close>.
  An \<open>UPDATE ... WHERE\<close> maps over the rows and reports how many matched. Each method of
  the repositories is the statement its source executes. The interfaces at the end say what the
  rest of the program relies on: a row created can be read back, an update reaches the rows of
  that key and no other, keys stay unique.
\<close>

subsection \<open>Statements\<close>

definition table_insert :: "(db \<Rightarrow> 'r list) \<Rightarrow> (('r list \<Rightarrow> 'r list) \<Rightarrow> db \<Rightarrow> db) \<Rightarrow>
    ('r \<Rightarrow> bool) \<Rightarrow> ('r \<Rightarrow> 'r \<Rightarrow> bool) \<Rightarrow> 'r \<Rightarrow> stmt" where
  "table_insert get upd chk clash r now d =
     (if chk r \<and> \<not> list_ex (\<lambda>x. clash x r) (get d) then Inr (upd (\<lambda>rs. rs @ [r]) d, 1) else Inl ErrDB)"

definition table_update :: "(db \<Rightarrow> 'r list) \<Rightarrow> (('r list \<Rightarrow> 'r list) \<Rightarrow> db \<Rightarrow> db) \<Rightarrow>
    ('r \<Rightarrow> bool) \<Rightarrow> (time \<Rightarrow> 'r \<Rightarrow> 'r) \<Rightarrow> stmt" where
  "table_update get upd P f now d =
     Inr (upd (map (\<lambda>r. if P r then f now r else r)) d, length (filter P (get d)))"

definition table_delete :: "(db \<Rightarrow> 'r list) \<Rightarrow> (('r list \<Rightarrow> 'r list) \<Rightarrow> db \<Rightarrow> db) \<Rightarrow> ('r \<Rightarrow> bool) \<Rightarrow> stmt" where
  "table_delete get upd P now d = Inr (upd (filter (\<lambda>r. \<not> P r)) d, length (filter P (get d)))"

text \<open>\<open>Exec\<close> where the code ignores the command tag.\<close>

definition db_exec :: "stmt \<Rightarrow> unit goE" where
  "db_exec st = try_call (db_Exec st) (\<lambda>_. ok ())"

text \<open>\<open>ORDER BY ... LIMIT n OFFSET m\<close>: PostgreSQL refuses a negative bound.\<close>

definition order_desc :: "('r \<Rightarrow> int) \<Rightarrow> 'r list \<Rightarrow> 'r list" where
  "order_desc k = sort_key (\<lambda>r. - k r)"

definition page :: "int \<Rightarrow> int \<Rightarrow> 'r list \<Rightarrow> error + 'r list" where
  "page limit offset rows =
     (if limit < 0 \<or> offset < 0 then Inl ErrDB else Inr (take (nat limit) (drop (nat offset) rows)))"

fun jsonb_ok :: "bytes \<Rightarrow> bool" where
  "jsonb_ok (Junk s) = False"
| "jsonb_ok _ = True"

text \<open>A \<open>SUM\<close> is a numeric; scanning one outside int64 is an error.\<close>

definition scan_int64 :: "int \<Rightarrow> error + int64" where
  "scan_int64 i = (if is_int64 i then Inr i else Inl ErrDB)"

subsection \<open>Payment intents (\<open>paymentintent.go\<close>)\<close>

record transaction_filter =
  tf_Status :: string
  tf_Method :: string
  tf_DateFrom :: "time option"
  tf_DateTo :: "time option"
  tf_Limit :: int
  tf_Offset :: int

record daily_volume_row =
  dv_Date :: int
  dv_Volume :: int64
  dv_Count :: int
  dv_Successful :: int
  dv_Failed :: int

definition pi_clash :: "payment_intent \<Rightarrow> payment_intent \<Rightarrow> bool" where
  "pi_clash x r \<longleftrightarrow> pi_ID x = pi_ID r \<or>
     (pi_MerchantID x = pi_MerchantID r \<and> pi_IdempotencyKey x = pi_IdempotencyKey r)"

definition PI_Create :: "payment_intent \<Rightarrow> unit goE" where
  "PI_Create r = db_exec (table_insert t_payment_intents t_payment_intents_update
     (\<lambda>p. jsonb_ok (pi_Metadata p)) pi_clash r)"

definition PI_GetByID :: "string \<Rightarrow> payment_intent goE" where
  "PI_GetByID i = db_QueryRow (\<lambda>now d. filter (\<lambda>p. pi_ID p = i) (t_payment_intents d))"

definition PI_UpdateStatus :: "string \<Rightarrow> pi_status \<Rightarrow> unit goE" where
  "PI_UpdateStatus i st = db_exec (table_update t_payment_intents t_payment_intents_update
     (\<lambda>p. pi_ID p = i) (\<lambda>now p. p\<lparr>pi_Status := st, pi_UpdatedAt := now\<rparr>))"

definition PI_UpdateStatusSafe :: "string \<Rightarrow> pi_status \<Rightarrow> pi_status \<Rightarrow> bool goE" where
  "PI_UpdateStatusSafe i frm st =
     try_call (db_Exec (table_update t_payment_intents t_payment_intents_update
         (\<lambda>p. pi_ID p = i \<and> pi_Status p = frm) (\<lambda>now p. p\<lparr>pi_Status := st, pi_UpdatedAt := now\<rparr>)))
       (\<lambda>n. ok (0 < n))"

definition PI_ListByMerchant :: "string \<Rightarrow> int \<Rightarrow> int \<Rightarrow> payment_intent list goE" where
  "PI_ListByMerchant m limit offset = db_Query (\<lambda>now d.
     page limit offset (order_desc pi_CreatedAt (filter (\<lambda>p. pi_MerchantID p = m) (t_payment_intents d))))"

definition filter_matches :: "string \<Rightarrow> transaction_filter \<Rightarrow> payment_intent \<Rightarrow> bool" where
  "filter_matches m f p \<longleftrightarrow> pi_MerchantID p = m \<and>
     (tf_Status f \<noteq> [] \<longrightarrow> pi_status_str (pi_Status p) = tf_Status f) \<and>
     (tf_Method f \<noteq> [] \<longrightarrow> pi_Method p = tf_Method f) \<and>
     (case tf_DateFrom f of None \<Rightarrow> True | Some t \<Rightarrow> t \<le> pi_CreatedAt p) \<and>
     (case tf_DateTo f of None \<Rightarrow> True | Some t \<Rightarrow> pi_CreatedAt p \<le> t)"

definition filter_limit :: "transaction_filter \<Rightarrow> int" where
  "filter_limit f = (if tf_Limit f \<le> 0 \<or> 100 < tf_Limit f then 20 else tf_Limit f)"

definition filter_offset :: "transaction_filter \<Rightarrow> int" where
  "filter_offset f = (if tf_Offset f < 0 then 0 else tf_Offset f)"

definition PI_ListByMerchantFiltered :: "string \<Rightarrow> transaction_filter \<Rightarrow> payment_intent list goE" where
  "PI_ListByMerchantFiltered m f = db_Query (\<lambda>now d.
     page (filter_limit f) (filter_offset f)
       (order_desc pi_CreatedAt (filter (filter_matches m f) (t_payment_intents d))))"

definition day_of :: "time \<Rightarrow> int" where
  "day_of t = t div (24 * Hour)"

definition volume_row :: "payment_intent list \<Rightarrow> int \<Rightarrow> error + daily_volume_row" where
  "volume_row ps day =
     (let g = filter (\<lambda>p. day_of (pi_CreatedAt p) = day) ps
      in case scan_int64 (sum_list (map pi_Amount g)) of
           Inl e \<Rightarrow> Inl e
         | Inr v \<Rightarrow> Inr \<lparr>dv_Date = day, dv_Volume = v, dv_Count = int (length g),
             dv_Successful = int (length (filter (\<lambda>p. pi_Status p = PISucceeded) g)),
             dv_Failed = int (length (filter (\<lambda>p. pi_Status p = PIFailed) g))\<rparr>)"

fun scan_all :: "('a \<Rightarrow> error + 'b) \<Rightarrow> 'a list \<Rightarrow> error + 'b list" where
  "scan_all f [] = Inr []"
| "scan_all f (x # xs) = (case f x of Inl e \<Rightarrow> Inl e | Inr y \<Rightarrow>
     (case scan_all f xs of Inl e \<Rightarrow> Inl e | Inr ys \<Rightarrow> Inr (y # ys)))"

definition daily_volume :: "string \<Rightarrow> time \<Rightarrow> payment_intent list \<Rightarrow> error + daily_volume_row list" where
  "daily_volume m since rows =
     (let ps = filter (\<lambda>p. pi_MerchantID p = m \<and> since \<le> pi_CreatedAt p) rows;
          days = rev (sort (remdups (map (\<lambda>p. day_of (pi_CreatedAt p)) ps)))
      in scan_all (volume_row ps) days)"

definition PI_DailyVolume :: "string \<Rightarrow> time \<Rightarrow> daily_volume_row list goE" where
  "PI_DailyVolume m since = db_Query (\<lambda>now d. daily_volume m since (t_payment_intents d))"

subsection \<open>Attempts (\<open>attempt.go\<close>)\<close>

record attempt_row =
  ar_ID :: string
  ar_PaymentIntentID :: string
  ar_PSP :: string
  ar_PSPReference :: string
  ar_Status :: attempt_status
  ar_Amount :: int64
  ar_Currency :: string
  ar_CreatedAt :: time

definition attempt_check :: "attempt \<Rightarrow> bool" where
  "attempt_check a \<longleftrightarrow> jsonb_ok (att_RawRequest a) \<and> jsonb_ok (att_RawResponse a) \<and>
     jsonb_ok (att_RequestPayload a) \<and> jsonb_ok (att_CallbackPayload a)"

definition Attempt_Create :: "attempt \<Rightarrow> unit goE" where
  "Attempt_Create a = db_exec (table_insert t_attempts t_attempts_update attempt_check
     (\<lambda>x r. att_ID x = att_ID r) a)"

definition Attempt_GetByID :: "string \<Rightarrow> attempt goE" where
  "Attempt_GetByID i = db_QueryRow (\<lambda>now d. filter (\<lambda>a. att_ID a = i) (t_attempts d))"

definition Attempt_GetByPSPReference :: "string \<Rightarrow> string \<Rightarrow> attempt goE" where
  "Attempt_GetByPSPReference psp ref =
     db_QueryRow (\<lambda>now d. filter (\<lambda>a. att_PSP a = psp \<and> att_PSPReference a = ref) (t_attempts d))"

definition Attempt_UpdateCallbackPayload :: "string \<Rightarrow> bytes \<Rightarrow> unit goE" where
  "Attempt_UpdateCallbackPayload i b = db_exec (\<lambda>now d.
     if jsonb_ok b
     then table_update t_attempts t_attempts_update (\<lambda>a. att_ID a = i)
            (\<lambda>now a. a\<lparr>att_CallbackPayload := b, att_UpdatedAt := now\<rparr>) now d
     else Inl ErrDB)"

definition Attempt_UpdatePSPTransactionID :: "string \<Rightarrow> string \<Rightarrow> unit goE" where
  "Attempt_UpdatePSPTransactionID i t = db_exec (table_update t_attempts t_attempts_update
     (\<lambda>a. att_ID a = i) (\<lambda>now a. a\<lparr>att_PSPTransactionID := t, att_UpdatedAt := now\<rparr>))"

definition Attempt_UpdateStatus :: "string \<Rightarrow> attempt_status \<Rightarrow> unit goE" where
  "Attempt_UpdateStatus i st = db_exec (table_update t_attempts t_attempts_update
     (\<lambda>a. att_ID a = i) (\<lambda>now a. a\<lparr>att_Status := st, att_UpdatedAt := now\<rparr>))"

definition Attempt_ListByPaymentIntent :: "string \<Rightarrow> attempt list goE" where
  "Attempt_ListByPaymentIntent i = db_Query (\<lambda>now d.
     Inr (sort_key att_SequenceNo (filter (\<lambda>a. att_PaymentIntentID a = i) (t_attempts d))))"

definition attempt_rows :: "time \<Rightarrow> time \<Rightarrow> db \<Rightarrow> attempt_row list" where
  "attempt_rows t0 t1 d = sort_key ar_CreatedAt (concat (map (\<lambda>a.
     map (\<lambda>p. \<lparr>ar_ID = att_ID a, ar_PaymentIntentID = att_PaymentIntentID a, ar_PSP = att_PSP a,
            ar_PSPReference = att_PSPReference a, ar_Status = att_Status a, ar_Amount = pi_Amount p,
            ar_Currency = pi_Currency p, ar_CreatedAt = att_CreatedAt a\<rparr>)
       (filter (\<lambda>p. pi_ID p = att_PaymentIntentID a) (t_payment_intents d)))
     (filter (\<lambda>a. t0 \<le> att_CreatedAt a \<and> att_CreatedAt a < t1) (t_attempts d))))"

definition Attempt_ListByDateRange :: "time \<Rightarrow> time \<Rightarrow> attempt_row list goE" where
  "Attempt_ListByDateRange t0 t1 = db_Query (\<lambda>now d. Inr (attempt_rows t0 t1 d))"

subsection \<open>Ledger entries (\<open>ledger.go\<close>)\<close>

definition entry_check :: "ledger_entry \<Rightarrow> bool" where
  "entry_check e \<longleftrightarrow> le_EntryType e \<in> {''debit'', ''credit''} \<and> 0 < le_Amount e"

definition ledger_insert :: "ledger_entry \<Rightarrow> stmt" where
  "ledger_insert = table_insert t_ledger_entries t_ledger_entries_update entry_check (\<lambda>x r. le_ID x = le_ID r)"

fun Ledger_InsertEntries :: "ledger_entry list \<Rightarrow> unit goE" where
  "Ledger_InsertEntries [] = ok ()"
| "Ledger_InsertEntries (e # es) = try_call (db_Exec (ledger_insert e)) (\<lambda>_. Ledger_InsertEntries es)"

definition Ledger_GetByAccount :: "string \<Rightarrow> int \<Rightarrow> int \<Rightarrow> ledger_entry list goE" where
  "Ledger_GetByAccount acct limit offset = db_Query (\<lambda>now d.
     page limit offset (order_desc le_PostedAt (filter (\<lambda>e. le_AccountID e = acct) (t_ledger_entries d))))"

definition Ledger_GetByReference :: "string \<Rightarrow> string \<Rightarrow> ledger_entry list goE" where
  "Ledger_GetByReference ty ref = db_Query (\<lambda>now d.
     Inr (sort_key le_PostedAt
       (filter (\<lambda>e. le_ReferenceType e = ty \<and> le_ReferenceID e = ref) (t_ledger_entries d))))"

definition signed_amount :: "ledger_entry \<Rightarrow> int" where
  "signed_amount e = (if le_EntryType e = ''credit'' then le_Amount e else - le_Amount e)"

definition account_sum :: "string \<Rightarrow> ledger_entry list \<Rightarrow> int" where
  "account_sum acct es = sum_list (map signed_amount (filter (\<lambda>e. le_AccountID e = acct) es))"

definition Ledger_Balance :: "string \<Rightarrow> int64 goE" where
  "Ledger_Balance acct = db_Query (\<lambda>now d. scan_int64 (account_sum acct (t_ledger_entries d)))"

subsection \<open>Payouts and refunds (\<open>payout.go\<close>, \<open>refund.go\<close>)\<close>

definition Payout_Create :: "payout \<Rightarrow> unit goE" where
  "Payout_Create r = db_exec (table_insert t_payouts t_payouts_update (\<lambda>_. True)
     (\<lambda>x r. po_ID x = po_ID r) r)"

definition Payout_GetByID :: "string \<Rightarrow> payout goE" where
  "Payout_GetByID i = db_QueryRow (\<lambda>now d. filter (\<lambda>p. po_ID p = i) (t_payouts d))"

definition Payout_ListByMerchant :: "string \<Rightarrow> int \<Rightarrow> int \<Rightarrow> payout list goE" where
  "Payout_ListByMerchant m limit offset = db_Query (\<lambda>now d.
     page limit offset (order_desc po_CreatedAt (filter (\<lambda>p. po_MerchantID p = m) (t_payouts d))))"

definition Payout_UpdateStatus :: "string \<Rightarrow> payout_status \<Rightarrow> unit goE" where
  "Payout_UpdateStatus i st = db_exec (table_update t_payouts t_payouts_update
     (\<lambda>p. po_ID p = i) (\<lambda>now p. p\<lparr>po_Status := st, po_UpdatedAt := now\<rparr>))"

definition Refund_Create :: "refund \<Rightarrow> unit goE" where
  "Refund_Create r = db_exec (table_insert t_refunds t_refunds_update (\<lambda>_. True)
     (\<lambda>x r. rf_ID x = rf_ID r) r)"

definition Refund_GetByID :: "string \<Rightarrow> refund goE" where
  "Refund_GetByID i = db_QueryRow (\<lambda>now d. filter (\<lambda>r. rf_ID r = i) (t_refunds d))"

definition Refund_UpdateStatus :: "string \<Rightarrow> refund_status \<Rightarrow> unit goE" where
  "Refund_UpdateStatus i st = db_exec (table_update t_refunds t_refunds_update
     (\<lambda>r. rf_ID r = i) (\<lambda>now r. r\<lparr>rf_Status := st, rf_UpdatedAt := now\<rparr>))"

definition Refund_ListByPaymentIntent :: "string \<Rightarrow> refund list goE" where
  "Refund_ListByPaymentIntent i = db_Query (\<lambda>now d.
     Inr (order_desc rf_CreatedAt (filter (\<lambda>r. rf_PaymentIntentID r = i) (t_refunds d))))"

subsection \<open>Merchants and API keys (\<open>merchant.go\<close>)\<close>

definition Merchant_Create :: "merchant \<Rightarrow> unit goE" where
  "Merchant_Create m = db_exec (table_insert t_merchants t_merchants_update
     (\<lambda>r. jsonb_ok (mch_SettlementConfig r)) (\<lambda>x r. mch_ID x = mch_ID r \<or> mch_Code x = mch_Code r) m)"

definition Merchant_GetByID :: "string \<Rightarrow> merchant goE" where
  "Merchant_GetByID i = db_QueryRow (\<lambda>now d. filter (\<lambda>m. mch_ID m = i) (t_merchants d))"

definition Merchant_UpdateSettlementConfig :: "string \<Rightarrow> bytes \<Rightarrow> unit goE" where
  "Merchant_UpdateSettlementConfig i cfg = db_exec (\<lambda>now d.
     if jsonb_ok cfg
     then table_update t_merchants t_merchants_update (\<lambda>m. mch_ID m = i)
            (\<lambda>now m. m\<lparr>mch_SettlementConfig := cfg\<rparr>) now d
     else Inl ErrDB)"

definition Merchant_Update :: "merchant \<Rightarrow> unit goE" where
  "Merchant_Update m = db_exec (table_update t_merchants t_merchants_update (\<lambda>x. mch_ID x = mch_ID m)
     (\<lambda>now x. x\<lparr>mch_LegalName := mch_LegalName m, mch_Country := mch_Country m,
        mch_DefaultCurrency := mch_DefaultCurrency m\<rparr>))"

definition Merchant_ListAll :: "merchant list goE" where
  "Merchant_ListAll = db_Query (\<lambda>now d. Inr (sort_key mch_LegalName (t_merchants d)))"

definition Merchant_CreateAPIKey :: "api_key \<Rightarrow> unit goE" where
  "Merchant_CreateAPIKey k = db_exec (table_insert t_api_keys t_api_keys_update (\<lambda>_. True)
     (\<lambda>x r. ak_ID x = ak_ID r) k)"

definition Merchant_ListAPIKeys :: "string \<Rightarrow> api_key list goE" where
  "Merchant_ListAPIKeys m = db_Query (\<lambda>now d.
     Inr (order_desc ak_CreatedAt (filter (\<lambda>k. ak_MerchantID k = m) (t_api_keys d))))"

definition Merchant_GetAPIKeyByHash :: "string \<Rightarrow> api_key goE" where
  "Merchant_GetAPIKeyByHash h = db_QueryRow (\<lambda>now d. filter (\<lambda>k. ak_KeyHash k = h) (t_api_keys d))"

definition Merchant_GetAPIKeyByPrefix :: "string \<Rightarrow> api_key goE" where
  "Merchant_GetAPIKeyByPrefix p = db_QueryRow (\<lambda>now d. filter (\<lambda>k. ak_KeyPrefix k = p) (t_api_keys d))"

definition Merchant_DeleteAPIKey :: "string \<Rightarrow> string \<Rightarrow> unit goE" where
  "Merchant_DeleteAPIKey i m = db_exec (table_delete t_api_keys t_api_keys_update
     (\<lambda>k. ak_ID k = i \<and> ak_MerchantID k = m))"

subsection \<open>Checkout sessions (\<open>checkout.go\<close>)\<close>

definition Checkout_Create :: "checkout_session \<Rightarrow> unit goE" where
  "Checkout_Create c = db_exec (table_insert t_checkout_sessions t_checkout_sessions_update
     (\<lambda>c. jsonb_ok (cs_UIConfig c)) (\<lambda>x r. cs_ID x = cs_ID r \<or> cs_PublicToken x = cs_PublicToken r) c)"

definition Checkout_GetByToken :: "string \<Rightarrow> checkout_session goE" where
  "Checkout_GetByToken t = db_QueryRow (\<lambda>now d. filter (\<lambda>c. cs_PublicToken c = t) (t_checkout_sessions d))"

definition Checkout_GetByPaymentIntent :: "string \<Rightarrow> checkout_session goE" where
  "Checkout_GetByPaymentIntent i =
     db_QueryRow (\<lambda>now d. filter (\<lambda>c. cs_PaymentIntentID c = i) (t_checkout_sessions d))"

subsection \<open>Webhook events, endpoints and deliveries\<close>

definition WebhookEvent_Create :: "webhook_event_row \<Rightarrow> unit goE" where
  "WebhookEvent_Create e = db_exec (table_insert t_webhook_events t_webhook_events_update
     (\<lambda>e. jsonb_ok (we_Payload e)) (\<lambda>x r. we_ID x = we_ID r \<or> we_DedupKey x = we_DedupKey r) e)"

definition WebhookEvent_GetByDedupKey :: "string \<Rightarrow> webhook_event_row goE" where
  "WebhookEvent_GetByDedupKey k = db_QueryRow (\<lambda>now d. filter (\<lambda>e. we_DedupKey e = k) (t_webhook_events d))"

definition WebhookEvent_UpdateProcessingStatus :: "string \<Rightarrow> webhook_status \<Rightarrow> unit goE" where
  "WebhookEvent_UpdateProcessingStatus i st = db_exec (table_update t_webhook_events t_webhook_events_update
     (\<lambda>e. we_ID e = i) (\<lambda>now e. e\<lparr>we_ProcessingStatus := st\<rparr>))"

definition WebhookEvent_GetByID :: "string \<Rightarrow> webhook_event_row goE" where
  "WebhookEvent_GetByID i = db_QueryRow (\<lambda>now d. filter (\<lambda>e. we_ID e = i) (t_webhook_events d))"

definition events_of_merchant :: "string \<Rightarrow> db \<Rightarrow> webhook_event_row list" where
  "events_of_merchant m d = concat (map (\<lambda>e. concat (map (\<lambda>a. concat (map (\<lambda>p.
       if att_PSPReference a = we_PSPReference e \<and> pi_ID p = att_PaymentIntentID a \<and> pi_MerchantID p = m
       then [e] else []) (t_payment_intents d))) (t_attempts d))) (t_webhook_events d))"

definition WebhookEvent_ListByMerchant :: "string \<Rightarrow> int \<Rightarrow> webhook_event_row list goE" where
  "WebhookEvent_ListByMerchant m limit = db_Query (\<lambda>now d.
     page limit 0 (order_desc we_ReceivedAt (events_of_merchant m d)))"

definition Endpoint_Create :: "webhook_endpoint \<Rightarrow> unit goE" where
  "Endpoint_Create e = db_exec (table_insert t_webhook_endpoints t_webhook_endpoints_update (\<lambda>_. True)
     (\<lambda>x r. ep_ID x = ep_ID r) e)"

definition Endpoint_ListByMerchant :: "string \<Rightarrow> webhook_endpoint list goE" where
  "Endpoint_ListByMerchant m = db_Query (\<lambda>now d.
     Inr (order_desc ep_CreatedAt (filter (\<lambda>e. ep_MerchantID e = m) (t_webhook_endpoints d))))"

definition Endpoint_GetByID :: "string \<Rightarrow> webhook_endpoint goE" where
  "Endpoint_GetByID i = db_QueryRow (\<lambda>now d. filter (\<lambda>e. ep_ID e = i) (t_webhook_endpoints d))"

text \<open>Scanning NULL into the int fields of \<open>domain.WebhookDelivery\<close> is an error.\<close>

definition scan_delivery :: "webhook_delivery \<Rightarrow> error + webhook_delivery" where
  "scan_delivery w = (if wd_ResponseStatus w = None \<or> wd_DurationMs w = None then Inl ErrDB else Inr w)"

definition Delivery_Create :: "webhook_delivery \<Rightarrow> unit goE" where
  "Delivery_Create w = db_exec (table_insert t_webhook_deliveries t_webhook_deliveries_update
     (\<lambda>w. jsonb_ok (wd_RequestHeaders w)) (\<lambda>x r. wd_ID x = wd_ID r)
     (w\<lparr>wd_ResponseStatus := None, wd_ResponseBody := NilBytes, wd_DurationMs := None\<rparr>))"

definition Delivery_GetByID :: "string \<Rightarrow> webhook_delivery goE" where
  "Delivery_GetByID i =
     try_call (db_QueryRow (\<lambda>now d. filter (\<lambda>w. wd_ID w = i) (t_webhook_deliveries d)))
       (\<lambda>w. ret (scan_delivery w))"

definition Delivery_ListByEvent :: "string \<Rightarrow> webhook_delivery list goE" where
  "Delivery_ListByEvent ev = db_Query (\<lambda>now d.
     scan_all scan_delivery
       (sort_key wd_CreatedAt (filter (\<lambda>w. wd_WebhookEventID w = Some ev) (t_webhook_deliveries d))))"

definition Delivery_UpdateStatus :: "string \<Rightarrow> delivery_status \<Rightarrow> int \<Rightarrow> bytes \<Rightarrow> int \<Rightarrow> unit goE" where
  "Delivery_UpdateStatus i st code body ms = db_exec (table_update t_webhook_deliveries t_webhook_deliveries_update
     (\<lambda>w. wd_ID w = i) (\<lambda>now w. w\<lparr>wd_Status := st, wd_ResponseStatus := Some code,
        wd_ResponseBody := body, wd_DurationMs := Some ms, wd_UpdatedAt := now\<rparr>))"

definition Delivery_ScheduleRetry :: "string \<Rightarrow> time \<Rightarrow> unit goE" where
  "Delivery_ScheduleRetry i t = db_exec (table_update t_webhook_deliveries t_webhook_deliveries_update
     (\<lambda>w. wd_ID w = i) (\<lambda>now w. w\<lparr>wd_NextRetryAt := Some t, wd_UpdatedAt := now\<rparr>))"

definition delivery_due :: "time \<Rightarrow> webhook_delivery \<Rightarrow> bool" where
  "delivery_due t w \<longleftrightarrow> wd_Status w = DeliveryFailed \<and>
     (case wd_NextRetryAt w of None \<Rightarrow> False | Some n \<Rightarrow> n \<le> t)"

definition Delivery_DueForRetry :: "time \<Rightarrow> int \<Rightarrow> webhook_delivery list goE" where
  "Delivery_DueForRetry t limit = db_Query (\<lambda>now d.
     case page limit 0 (sort_key (\<lambda>w. case wd_NextRetryAt w of None \<Rightarrow> 0 | Some n \<Rightarrow> n)
                         (filter (delivery_due t) (t_webhook_deliveries d))) of
       Inl e \<Rightarrow> Inl e
     | Inr ws \<Rightarrow> scan_all scan_delivery ws)"

subsection \<open>Notifications (\<open>portal.go\<close>)\<close>

definition Notification_Create :: "notification \<Rightarrow> unit goE" where
  "Notification_Create n = db_exec (table_insert t_notifications t_notifications_update (\<lambda>_. True)
     (\<lambda>x r. nt_ID x = nt_ID r) n)"

definition Notification_ListByMerchant :: "string \<Rightarrow> notification list goE" where
  "Notification_ListByMerchant m = db_Query (\<lambda>now d.
     Inr (order_desc nt_CreatedAt (filter (\<lambda>n. nt_MerchantID n = m) (t_notifications d))))"

definition Notification_MarkAllRead :: "string \<Rightarrow> unit goE" where
  "Notification_MarkAllRead m = db_exec (table_update t_notifications t_notifications_update
     (\<lambda>n. nt_MerchantID n = m) (\<lambda>now n. n\<lparr>nt_Unread := False\<rparr>))"

subsection \<open>Preconditions and frames of the statements\<close>

lemma wp_db_exec [wp_simps]:
  "wp (db_exec st) Q w =
     (case run_stmt st (o_db (w_env w) (w_step w)) (o_clock (w_env w) (w_step w)) (w_db w) of
        (r, d) \<Rightarrow> Q (map_sum id (\<lambda>_. ()) r) (next_step (w\<lparr>w_db := d\<rparr>)))"
  by (simp add: db_exec_def wp_simps split: prod.split sum.split)

lemma keeps_db_exec:
  assumes "\<And>w. f (next_step w) = f w"
    and "\<And>w now d n. st now (w_db w) = Inr (d, n) \<Longrightarrow> f (w\<lparr>w_db := d\<rparr>) = f w"
  shows "keeps f (db_exec st)"
  unfolding db_exec_def
  by (rule keeps_try_call [OF keeps_db_Exec [of f st, OF assms] keeps_ok]) simp_all

lemma keeps_insert [keeps_intros]:
  "(\<And>w. f (next_step w) = f w) \<Longrightarrow> (\<And>w g. f (w\<lparr>w_db := upd g (w_db w)\<rparr>) = f w) \<Longrightarrow>
     keeps f (db_exec (table_insert get upd chk clash r))"
  by (rule keeps_db_exec) (auto simp: table_insert_def split: if_splits)

lemma keeps_update [keeps_intros]:
  "(\<And>w. f (next_step w) = f w) \<Longrightarrow> (\<And>w g. f (w\<lparr>w_db := upd g (w_db w)\<rparr>) = f w) \<Longrightarrow>
     keeps f (db_exec (table_update get upd P g))"
  by (rule keeps_db_exec) (auto simp: table_update_def)

lemma keeps_update_Exec [keeps_intros]:
  "(\<And>w. f (next_step w) = f w) \<Longrightarrow> (\<And>w g. f (w\<lparr>w_db := upd g (w_db w)\<rparr>) = f w) \<Longrightarrow>
     keeps f (db_Exec (table_update get upd P g))"
  by (rule keeps_db_Exec) (auto simp: table_update_def)

lemma keeps_update_if [keeps_intros]:
  "(\<And>w. f (next_step w) = f w) \<Longrightarrow> (\<And>w g. f (w\<lparr>w_db := upd g (w_db w)\<rparr>) = f w) \<Longrightarrow>
     keeps f (db_exec (\<lambda>now d. if b then table_update get upd P g now d else Inl e))"
  by (rule keeps_db_exec) (auto simp: table_update_def split: if_splits)

lemma keeps_delete [keeps_intros]:
  "(\<And>w. f (next_step w) = f w) \<Longrightarrow> (\<And>w g. f (w\<lparr>w_db := upd g (w_db w)\<rparr>) = f w) \<Longrightarrow>
     keeps f (db_exec (table_delete get upd P))"
  by (rule keeps_db_exec) (auto simp: table_delete_def)

lemmas pi_repo_defs = PI_Create_def PI_GetByID_def PI_UpdateStatus_def PI_UpdateStatusSafe_def
  PI_ListByMerchant_def PI_ListByMerchantFiltered_def PI_DailyVolume_def
lemmas attempt_repo_defs = Attempt_Create_def Attempt_GetByID_def Attempt_GetByPSPReference_def
  Attempt_UpdateCallbackPayload_def Attempt_UpdatePSPTransactionID_def Attempt_UpdateStatus_def
  Attempt_ListByPaymentIntent_def Attempt_ListByDateRange_def
lemmas payout_repo_defs = Payout_Create_def Payout_GetByID_def Payout_ListByMerchant_def Payout_UpdateStatus_def
  Refund_Create_def Refund_GetByID_def Refund_UpdateStatus_def Refund_ListByPaymentIntent_def
lemmas merchant_repo_defs = Merchant_Create_def Merchant_GetByID_def Merchant_UpdateSettlementConfig_def
  Merchant_Update_def Merchant_ListAll_def Merchant_CreateAPIKey_def Merchant_ListAPIKeys_def
  Merchant_GetAPIKeyByHash_def Merchant_GetAPIKeyByPrefix_def Merchant_DeleteAPIKey_def
lemmas webhook_repo_defs = WebhookEvent_Create_def WebhookEvent_GetByDedupKey_def
  WebhookEvent_UpdateProcessingStatus_def WebhookEvent_GetByID_def WebhookEvent_ListByMerchant_def
  Endpoint_Create_def Endpoint_ListByMerchant_def Endpoint_GetByID_def Delivery_Create_def Delivery_GetByID_def
  Delivery_ListByEvent_def Delivery_UpdateStatus_def Delivery_ScheduleRetry_def Delivery_DueForRetry_def
lemmas misc_repo_defs = Checkout_Create_def Checkout_GetByToken_def Checkout_GetByPaymentIntent_def
  Notification_Create_def Notification_ListByMerchant_def Notification_MarkAllRead_def
  Ledger_GetByAccount_def Ledger_GetByReference_def Ledger_Balance_def
lemmas repo_defs = pi_repo_defs attempt_repo_defs payout_repo_defs merchant_repo_defs webhook_repo_defs
  misc_repo_defs

text \<open>Every query leaves the tables alone, and so does every failed one.\<close>

lemma run_stmt_cases:
  "run_stmt st out now d = (r, d1) \<Longrightarrow>
     (\<exists>n. st now d = Inr (d1, n) \<and> (r = Inr n \<or> r = Inl ErrDB)) \<or> (d1 = d \<and> (\<exists>e. r = Inl e))"
  by (auto simp: run_stmt_def split: sum.splits outcome.splits)

lemma wp_insert_rule:
  assumes lens: "\<And>f d. get (upd f d) = f (get d)"
    and stays: "\<And>e v. get (w_db v) = get (w_db w) \<Longrightarrow> Q (Inl e) v"
    and grows: "\<And>res v. get (w_db v) = get (w_db w) @ [r] \<Longrightarrow> chk r \<Longrightarrow>
        \<forall>x \<in> set (get (w_db w)). \<not> clash x r \<Longrightarrow> (\<forall>e. res = Inl e \<longrightarrow> e = ErrDB) \<Longrightarrow> Q res v"
  shows "wp (db_exec (table_insert get upd chk clash r)) Q w"
proof -
  have "Q (map_sum id (\<lambda>_. ()) res) (next_step (w\<lparr>w_db := d\<rparr>))"
    if run: "run_stmt (table_insert get upd chk clash r) (o_db (w_env w) (w_step w))
      (o_clock (w_env w) (w_step w)) (w_db w) = (res, d)" for res d
    using run_stmt_cases [OF run]
  proof
    assume "\<exists>n. table_insert get upd chk clash r (o_clock (w_env w) (w_step w)) (w_db w) = Inr (d, n) \<and>
      (res = Inr n \<or> res = Inl ErrDB)"
    then show ?thesis
      by (auto simp: table_insert_def list_ex_iff split: if_splits intro!: grows simp: lens)
  next
    assume "d = w_db w \<and> (\<exists>e. res = Inl e)"
    then obtain e where "d = w_db w" "res = Inl e" by blast
    moreover have "Q (Inl e) (next_step (w\<lparr>w_db := w_db w\<rparr>))" by (rule stays) simp
    ultimately show ?thesis by simp
  qed
  then show ?thesis by (auto simp: wp_simps split: prod.split)
qed

lemma wp_update_rule:
  assumes lens: "\<And>f d. get (upd f d) = f (get d)"
    and stays: "\<And>v. get (w_db v) = get (w_db w) \<Longrightarrow> Q (Inl ErrDB) v"
    and maps: "\<And>res v now. get (w_db v) = map (\<lambda>x. if P x then f now x else x) (get (w_db w)) \<Longrightarrow> Q res v"
  shows "wp (db_exec (table_update get upd P f)) Q w"
  by (auto simp: wp_simps run_stmt_def table_update_def lens split: outcome.split
      intro: stays maps [of _ "o_clock (w_env w) (w_step w)"])

lemma wp_fetch_rule:
  assumes "\<And>e v. w_db v = w_db w \<Longrightarrow> w_bus v = w_bus w \<Longrightarrow> Q (Inl e) v"
    and "\<And>r v. w_db v = w_db w \<Longrightarrow> w_bus v = w_bus w \<Longrightarrow>
      r \<in> set (q (o_clock (w_env w) (w_step w)) (w_db w)) \<Longrightarrow> Q (Inr r) v"
  shows "wp (db_QueryRow q) Q w"
  using assms by (auto simp: wp_simps sql_one_def split: outcome.split)

text \<open>The three rules in the form in which a repository's promise is stated.\<close>

lemma insert_law:
  assumes lens: "\<And>f d. get (upd f d) = f (get d)" and clash: "\<And>x. key x = key r \<Longrightarrow> clash x r"
  shows "wp (db_exec (table_insert get upd chk clash r)) (\<lambda>res v.
      (get (w_db v) = get (w_db w) @ [r] \<and> key r \<notin> key ` set (get (w_db w))) \<or>
      (get (w_db v) = get (w_db w) \<and> (\<exists>e. res = Inl e))) w"
proof (rule wp_insert_rule [where get = get and upd = upd])
  fix res :: "error + unit" and v :: world
  assume "get (w_db v) = get (w_db w) @ [r]" "\<forall>x \<in> set (get (w_db w)). \<not> clash x r"
  with clash have "key r \<notin> key ` set (get (w_db w))" by force
  with \<open>get (w_db v) = get (w_db w) @ [r]\<close>
  show "get (w_db v) = get (w_db w) @ [r] \<and> key r \<notin> key ` set (get (w_db w)) \<or>
      get (w_db v) = get (w_db w) \<and> (\<exists>e. res = Inl e)" by blast
qed (simp_all add: lens)

lemma select_law:
  assumes "\<And>now d r. r \<in> set (q now d) \<Longrightarrow> r \<in> set (get d) \<and> P r"
  shows "wp (db_QueryRow q) (\<lambda>res v. get (w_db v) = get (w_db w) \<and>
      (\<forall>r. res = Inr r \<longrightarrow> r \<in> set (get (w_db w)) \<and> P r)) w"
  by (rule wp_fetch_rule) (use assms in auto)

lemma update_law:
  assumes lens: "\<And>f d. get (upd f d) = f (get d)"
    and f: "\<And>now r. key (f now r) = key r \<and> status (f now r) = s"
  shows "wp (db_exec (table_update get upd (\<lambda>r. key r = k) f)) (\<lambda>res v.
      (\<exists>f. get (w_db v) = map (\<lambda>r. if key r = k then f r else r) (get (w_db w)) \<and>
           (\<forall>r. key (f r) = key r \<and> status (f r) = s)) \<or>
      (get (w_db v) = get (w_db w) \<and> (\<exists>e. res = Inl e))) w"
proof (rule wp_update_rule [where get = get and upd = upd])
  fix res :: "error + unit" and v :: world and now
  assume "get (w_db v) = map (\<lambda>x. if key x = k then f now x else x) (get (w_db w))"
  with f show "(\<exists>f. get (w_db v) = map (\<lambda>r. if key r = k then f r else r) (get (w_db w)) \<and>
           (\<forall>r. key (f r) = key r \<and> status (f r) = s)) \<or>
      (get (w_db v) = get (w_db w) \<and> (\<exists>e. res = Inl e))"
    by (intro disjI1 exI [of _ "f now"]) blast
qed (simp_all add: lens)

subsection \<open>What a repository promises\<close>

locale keyed_table =
  fixes rows :: "world \<Rightarrow> 'r list" and key :: "'r \<Rightarrow> string" and stored :: "'r \<Rightarrow> 'r"
    and create :: "'r \<Rightarrow> unit goE" and fetch :: "string \<Rightarrow> 'r goE"
  assumes stored_key: "key (stored r) = key r"
    and create_law: "wp (create r) (\<lambda>res v.
        (rows v = rows w @ [stored r] \<and> key r \<notin> key ` set (rows w)) \<or>
        (rows v = rows w \<and> (\<exists>e. res = Inl e))) w"
    and fetch_law: "wp (fetch k) (\<lambda>res v. rows v = rows w \<and>
        (\<forall>r. res = Inr r \<longrightarrow> r \<in> set (rows w) \<and> key r = k)) w"
begin

definition unique_keys :: "world \<Rightarrow> bool" where
  "unique_keys w \<longleftrightarrow> distinct (map key (rows w))"

lemma unique_row: "unique_keys w \<Longrightarrow> r \<in> set (rows w) \<Longrightarrow> s \<in> set (rows w) \<Longrightarrow> key r = key s \<Longrightarrow> r = s"
  by (auto simp: unique_keys_def distinct_map dest: inj_onD)

lemma create_unique_keys: "unique_keys w \<Longrightarrow> wp (create r) (\<lambda>_. unique_keys) w"
  by (rule wp_mono [OF create_law]) (auto simp: unique_keys_def stored_key)

lemma create_duplicate_fails: "key r \<in> key ` set (rows w) \<Longrightarrow> wp (create r) (\<lambda>res v. rows v = rows w \<and> (\<exists>e. res = Inl e)) w"
  by (rule wp_mono [OF create_law]) auto

lemma create_then_fetch:
  assumes "unique_keys w"
  shows "wp (try_call (create r) (\<lambda>_. fetch (key r))) (\<lambda>res v. \<forall>x. res = Inr x \<longrightarrow> x = stored r) w"
  unfolding wp_try_call
proof (rule wp_mono [OF wp_conj [THEN iffD2, OF conjI, OF create_law create_unique_keys [OF assms]]])
  fix res v
  assume *: "((rows v = rows w @ [stored r] \<and> key r \<notin> key ` set (rows w)) \<or>
    rows v = rows w \<and> (\<exists>e. res = Inl e)) \<and> unique_keys v"
  show "case res of Inl e \<Rightarrow> \<forall>x. Inl e = Inr x \<longrightarrow> x = stored r
    | Inr y \<Rightarrow> wp (fetch (key r)) (\<lambda>res v. \<forall>x. res = Inr x \<longrightarrow> x = stored r) v"
  proof (cases res)
    case (Inr y)
    with * have "stored r \<in> set (rows v)" "unique_keys v" by auto
    then have "wp (fetch (key r)) (\<lambda>res v. \<forall>x. res = Inr x \<longrightarrow> x = stored r) v"
      by (intro wp_mono [OF fetch_law]) (auto dest: unique_row [of v _ "stored r"] simp: stored_key)
    with Inr show ?thesis by simp
  qed simp
qed

end

locale status_table = keyed_table rows key stored create fetch
  for rows :: "world \<Rightarrow> 'r list" and key stored create fetch +
  fixes status :: "'r \<Rightarrow> 's" and set_status :: "string \<Rightarrow> 's \<Rightarrow> unit goE"
  assumes set_law: "wp (set_status k s) (\<lambda>res v.
      (\<exists>f. rows v = map (\<lambda>r. if key r = k then f r else r) (rows w) \<and>
           (\<forall>r. key (f r) = key r \<and> status (f r) = s)) \<or>
      (rows v = rows w \<and> (\<exists>e. res = Inl e))) w"
begin

lemma set_unique_keys: "unique_keys w \<Longrightarrow> wp (set_status k s) (\<lambda>_. unique_keys) w"
  by (rule wp_mono [OF set_law]) (auto simp: unique_keys_def comp_def cong: if_cong split: if_splits
      simp: if_distrib [of key])

lemma set_other: "r \<in> set (rows w) \<Longrightarrow> key r \<noteq> k \<Longrightarrow> wp (set_status k s) (\<lambda>_ v. r \<in> set (rows v)) w"
  by (rule wp_mono [OF set_law]) force

lemma set_keys: "wp (set_status k s) (\<lambda>_ v. map key (rows v) = map key (rows w)) w"
  by (rule wp_mono [OF set_law]) (auto simp: comp_def if_distrib [of key] cong: if_cong)

lemma set_then_fetch:
  "wp (try_call (set_status k s) (\<lambda>_. fetch k)) (\<lambda>res v. \<forall>x. res = Inr x \<longrightarrow> status x = s \<and> key x = k) w"
  unfolding wp_try_call
proof (rule wp_mono [OF set_law])
  fix res v
  assume *: "(\<exists>f. rows v = map (\<lambda>r. if key r = k then f r else r) (rows w) \<and>
      (\<forall>r. key (f r) = key r \<and> status (f r) = s)) \<or> (rows v = rows w \<and> (\<exists>e. res = Inl e))"
  show "case res of Inl e \<Rightarrow> \<forall>x. Inl e = Inr x \<longrightarrow> status x = s \<and> key x = k
    | Inr y \<Rightarrow> wp (fetch k) (\<lambda>res v. \<forall>x. res = Inr x \<longrightarrow> status x = s \<and> key x = k) v"
  proof (cases res)
    case (Inr y)
    with * obtain f where f: "rows v = map (\<lambda>r. if key r = k then f r else r) (rows w)"
      "\<And>r. key (f r) = key r \<and> status (f r) = s" by blast
    have "\<forall>x \<in> set (rows v). key x = k \<longrightarrow> status x = s"
    proof (intro ballI impI)
      fix x
      assume "x \<in> set (rows v)" "key x = k"
      then obtain r where "x = (if key r = k then f r else r)" unfolding f(1) by (auto simp only: set_map)
      with f(2) [of r] \<open>key x = k\<close> show "status x = s" by (cases "key r = k") simp_all
    qed
    then have "wp (fetch k) (\<lambda>res v. \<forall>x. res = Inr x \<longrightarrow> status x = s \<and> key x = k) v"
      by - (rule wp_mono [OF fetch_law], simp)
    with Inr show ?thesis by simp
  qed simp
qed

end

subsection \<open>The repositories keep the promise\<close>

interpretation pi_table: status_table "\<lambda>w. t_payment_intents (w_db w)" pi_ID "\<lambda>r. r" PI_Create PI_GetByID
  pi_Status PI_UpdateStatus
  by unfold_locales
    (simp_all only: PI_Create_def PI_GetByID_def PI_UpdateStatus_def,
     rule insert_law [where get = t_payment_intents and key = pi_ID], simp, simp add: pi_clash_def,
     rule select_law [where get = t_payment_intents], simp,
     rule update_law [where get = t_payment_intents and key = pi_ID and status = pi_Status], simp_all)

interpretation attempt_table: status_table "\<lambda>w. t_attempts (w_db w)" att_ID "\<lambda>r. r" Attempt_Create Attempt_GetByID
  att_Status Attempt_UpdateStatus
  by unfold_locales
    (simp_all only: Attempt_Create_def Attempt_GetByID_def Attempt_UpdateStatus_def,
     rule insert_law [where get = t_attempts and key = att_ID], simp, simp,
     rule select_law [where get = t_attempts], simp,
     rule update_law [where get = t_attempts and key = att_ID and status = att_Status], simp_all)

interpretation payout_table: status_table "\<lambda>w. t_payouts (w_db w)" po_ID "\<lambda>r. r" Payout_Create Payout_GetByID
  po_Status Payout_UpdateStatus
  by unfold_locales
    (simp_all only: Payout_Create_def Payout_GetByID_def Payout_UpdateStatus_def,
     rule insert_law [where get = t_payouts and key = po_ID], simp, simp,
     rule select_law [where get = t_payouts], simp,
     rule update_law [where get = t_payouts and key = po_ID and status = po_Status], simp_all)

interpretation refund_table: status_table "\<lambda>w. t_refunds (w_db w)" rf_ID "\<lambda>r. r" Refund_Create Refund_GetByID
  rf_Status Refund_UpdateStatus
  by unfold_locales
    (simp_all only: Refund_Create_def Refund_GetByID_def Refund_UpdateStatus_def,
     rule insert_law [where get = t_refunds and key = rf_ID], simp, simp,
     rule select_law [where get = t_refunds], simp,
     rule update_law [where get = t_refunds and key = rf_ID and status = rf_Status], simp_all)

interpretation event_table: status_table "\<lambda>w. t_webhook_events (w_db w)" we_ID "\<lambda>r. r" WebhookEvent_Create WebhookEvent_GetByID
  we_ProcessingStatus WebhookEvent_UpdateProcessingStatus
  by unfold_locales
    (simp_all only: WebhookEvent_Create_def WebhookEvent_GetByID_def WebhookEvent_UpdateProcessingStatus_def,
     rule insert_law [where get = t_webhook_events and key = we_ID], simp, simp,
     rule select_law [where get = t_webhook_events], simp,
     rule update_law [where get = t_webhook_events and key = we_ID and status = we_ProcessingStatus], simp_all)

interpretation merchant_table: keyed_table "\<lambda>w. t_merchants (w_db w)" mch_ID "\<lambda>r. r" Merchant_Create Merchant_GetByID
  by unfold_locales
    (simp_all only: Merchant_Create_def Merchant_GetByID_def,
     rule insert_law [where get = t_merchants and key = mch_ID], simp, simp,
     rule select_law [where get = t_merchants], simp)

interpretation session_table: keyed_table "\<lambda>w. t_checkout_sessions (w_db w)" cs_PublicToken "\<lambda>r. r" Checkout_Create Checkout_GetByToken
  by unfold_locales
    (simp_all only: Checkout_Create_def Checkout_GetByToken_def,
     rule insert_law [where get = t_checkout_sessions and key = cs_PublicToken], simp, simp,
     rule select_law [where get = t_checkout_sessions], simp)

interpretation endpoint_table: keyed_table "\<lambda>w. t_webhook_endpoints (w_db w)" ep_ID "\<lambda>r. r" Endpoint_Create Endpoint_GetByID
  by unfold_locales
    (simp_all only: Endpoint_Create_def Endpoint_GetByID_def,
     rule insert_law [where get = t_webhook_endpoints and key = ep_ID], simp, simp,
     rule select_law [where get = t_webhook_endpoints], simp)

end
