(* ===== verification/Ledger.thy ===== *)
theory Ledger
  imports Repository "HOL-Library.Sublist"
begin

section \<open>Double-entry ledger (\<open>internal/ledger\<close>)\<close>

text \<open>
  The account names, the entry groups the five \<open>Post...\<close> operations build, the balance check
  in wrapping \<open>int64\<close> arithmetic, and the insertion of a group entry by entry, outside a
  transaction. The specification of an operation is its list of \<open>posting\<close>s: the locale
  \<open>poster\<close> derives from it the effect on every balance, that a posting that returns keeps the
  trial balance of every currency, and that the ledger only grows.
\<close>

subsection \<open>Accounts (\<open>accounts.go\<close>)\<close>

definition AccountPSPClearingMpesa :: string where "AccountPSPClearingMpesa = ''psp_clearing:mpesa''"
definition AccountPSPClearingPaystack :: string where "AccountPSPClearingPaystack = ''psp_clearing:paystack''"
definition AccountMerchantAvailable :: string where "AccountMerchantAvailable = ''merchant:%s:available''"
definition AccountMerchantInTransit :: string where "AccountMerchantInTransit = ''merchant:%s:in_transit''"
definition AccountMerchantSettled :: string where "AccountMerchantSettled = ''merchant:%s:settled''"
definition AccountPlatformFees :: string where "AccountPlatformFees = ''platform:fees''"
definition AccountPlatformOperating :: string where "AccountPlatformOperating = ''platform:operating''"

fun formatAccount :: "string \<Rightarrow> string \<Rightarrow> string" where
  "formatAccount [] i = []"
| "formatAccount [c] i = [c]"
| "formatAccount (c # d # t) i =
     (if c = CHR ''%'' \<and> d = CHR ''s'' then i @ formatAccount t i else c # formatAccount (d # t) i)"

definition MerchantAvailable :: "string \<Rightarrow> string" where
  "MerchantAvailable m = formatAccount AccountMerchantAvailable m"

definition MerchantInTransit :: "string \<Rightarrow> string" where
  "MerchantInTransit m = formatAccount AccountMerchantInTransit m"

definition MerchantSettled :: "string \<Rightarrow> string" where
  "MerchantSettled m = formatAccount AccountMerchantSettled m"

definition pspClearingAccount :: "string \<Rightarrow> string" where
  "pspClearingAccount psp =
     (if psp = ''mpesa'' then AccountPSPClearingMpesa
      else if psp = ''paystack'' then AccountPSPClearingPaystack
      else ''psp_clearing:'' @ psp)"

subsection \<open>The balance check (\<open>validateBalanced\<close>)\<close>

definition post_balance :: "(string \<rightharpoonup> int64) \<Rightarrow> ledger_entry \<Rightarrow> (string \<rightharpoonup> int64)" where
  "post_balance m e =
     (let old = (case m (le_Currency e) of None \<Rightarrow> 0 | Some b \<Rightarrow> b)
      in m(le_Currency e \<mapsto>
           (if le_EntryType e = ''debit'' then wrap64 (old + le_Amount e) else wrap64 (old - le_Amount e))))"

definition balances_of :: "ledger_entry list \<Rightarrow> (string \<rightharpoonup> int64)" where
  "balances_of es = foldl post_balance Map.empty es"

text \<open>The loop over the map: Go leaves its order open, which decides only the currency named in
  the message; here it is the order in which the currencies appear.\<close>

definition validateBalanced :: "ledger_entry list \<Rightarrow> error + unit" where
  "validateBalanced es =
     (case find (\<lambda>c. balances_of es c \<noteq> Some 0) (remdups (map le_Currency es)) of
        None \<Rightarrow> Inr ()
      | Some c \<Rightarrow> Inl (ErrMsg (''unbalanced ledger entries for '' @ c @ '': net='' @
          show_int (case balances_of es c of None \<Rightarrow> 0 | Some b \<Rightarrow> b))))"

subsection \<open>Postings (\<open>engine.go\<close>)\<close>

record posting =
  pg_AccountID :: string
  pg_EntryType :: string
  pg_Amount :: int64

definition entry :: "string \<Rightarrow> time \<Rightarrow> string \<Rightarrow> string \<Rightarrow> string \<Rightarrow> string \<Rightarrow> string \<Rightarrow> int64 \<Rightarrow> ledger_entry" where
  "entry i now cur refty ref acct ty amt =
     \<lparr>le_ID = i, le_AccountID = acct, le_EntryType = ty, le_Amount = amt, le_Currency = cur,
      le_ReferenceType = refty, le_ReferenceID = ref, le_PostedAt = now\<rparr>"

definition postBalanced :: "ledger_entry list \<Rightarrow> unit goE" where
  "postBalanced es = (case validateBalanced es of Inl e \<Rightarrow> fail e | Inr _ \<Rightarrow> Ledger_InsertEntries es)"

definition PostCollection :: "string \<Rightarrow> string \<Rightarrow> string \<Rightarrow> int64 \<Rightarrow> string \<Rightarrow> int64 \<Rightarrow> unit goE" where
  "PostCollection merchantID piID psp amt cur fee = do {
     now \<leftarrow> time_Now;
     let pspAccount = pspClearingAccount psp;
     let merchantAccount = MerchantAvailable merchantID;
     i1 \<leftarrow> uuid_New;
     i2 \<leftarrow> uuid_New;
     let entries = [entry i1 now cur ''attempt'' piID pspAccount ''debit'' amt,
                    entry i2 now cur ''attempt'' piID merchantAccount ''credit'' amt];
     (if 0 < fee
      then do {
        i3 \<leftarrow> uuid_New;
        i4 \<leftarrow> uuid_New;
        postBalanced (entries @ [entry i3 now cur ''fee'' piID merchantAccount ''debit'' fee,
                                 entry i4 now cur ''fee'' piID AccountPlatformFees ''credit'' fee]) }
      else postBalanced entries) }"

text \<open>The other four operations build one debit and one credit.\<close>

definition post_pair :: "string \<Rightarrow> string \<Rightarrow> string \<Rightarrow> string \<Rightarrow> int64 \<Rightarrow> string \<Rightarrow> unit goE" where
  "post_pair refty ref debit credit amt cur = do {
     now \<leftarrow> time_Now;
     i1 \<leftarrow> uuid_New;
     i2 \<leftarrow> uuid_New;
     postBalanced [entry i1 now cur refty ref debit ''debit'' amt,
                   entry i2 now cur refty ref credit ''credit'' amt] }"

definition PostRefund :: "string \<Rightarrow> string \<Rightarrow> string \<Rightarrow> int64 \<Rightarrow> string \<Rightarrow> unit goE" where
  "PostRefund merchantID piID psp amt cur =
     post_pair ''refund'' piID (MerchantAvailable merchantID) (pspClearingAccount psp) amt cur"

definition PostPayoutInit :: "string \<Rightarrow> string \<Rightarrow> int64 \<Rightarrow> string \<Rightarrow> unit goE" where
  "PostPayoutInit merchantID payoutID amt cur =
     post_pair ''payout'' payoutID (MerchantAvailable merchantID) (MerchantInTransit merchantID) amt cur"

definition PostPayoutComplete :: "string \<Rightarrow> string \<Rightarrow> int64 \<Rightarrow> string \<Rightarrow> unit goE" where
  "PostPayoutComplete merchantID payoutID amt cur =
     post_pair ''payout'' payoutID (MerchantInTransit merchantID) AccountPlatformOperating amt cur"

definition PostPayoutReversal :: "string \<Rightarrow> string \<Rightarrow> int64 \<Rightarrow> string \<Rightarrow> unit goE" where
  "PostPayoutReversal merchantID payoutID amt cur =
     post_pair ''payout'' payoutID (MerchantInTransit merchantID) (MerchantAvailable merchantID) amt cur"

definition Balance :: "string \<Rightarrow> int64 goE" where
  "Balance acct = Ledger_Balance acct"

lemmas post_defs = PostRefund_def PostPayoutInit_def PostPayoutComplete_def PostPayoutReversal_def

subsection \<open>Account names never collide\<close>

lemma MerchantAvailable_eq: "MerchantAvailable m = ''merchant:'' @ m @ '':available''"
  by (simp add: MerchantAvailable_def AccountMerchantAvailable_def)

lemma MerchantInTransit_eq: "MerchantInTransit m = ''merchant:'' @ m @ '':in_transit''"
  by (simp add: MerchantInTransit_def AccountMerchantInTransit_def)

lemma MerchantSettled_eq: "MerchantSettled m = ''merchant:'' @ m @ '':settled''"
  by (simp add: MerchantSettled_def AccountMerchantSettled_def)

lemma pspClearingAccount_eq: "pspClearingAccount psp = ''psp_clearing:'' @ psp"
  by (simp add: pspClearingAccount_def AccountPSPClearingMpesa_def AccountPSPClearingPaystack_def)

lemma append_ends_differ: "last s \<noteq> last t \<Longrightarrow> s \<noteq> [] \<Longrightarrow> t \<noteq> [] \<Longrightarrow> xs @ s \<noteq> ys @ t"
  by (metis last_appendR)

lemma account_kinds_disjoint [simp]:
  "MerchantAvailable m \<noteq> pspClearingAccount p" "pspClearingAccount p \<noteq> MerchantAvailable m"
  "MerchantInTransit m \<noteq> pspClearingAccount p" "pspClearingAccount p \<noteq> MerchantInTransit m"
  "MerchantAvailable m \<noteq> AccountPlatformFees" "AccountPlatformFees \<noteq> MerchantAvailable m"
  "MerchantAvailable m \<noteq> AccountPlatformOperating" "AccountPlatformOperating \<noteq> MerchantAvailable m"
  "MerchantInTransit m \<noteq> AccountPlatformOperating" "AccountPlatformOperating \<noteq> MerchantInTransit m"
  "MerchantInTransit m \<noteq> AccountPlatformFees" "AccountPlatformFees \<noteq> MerchantInTransit m"
  "pspClearingAccount p \<noteq> AccountPlatformFees" "AccountPlatformFees \<noteq> pspClearingAccount p"
  by (simp_all add: MerchantAvailable_eq MerchantInTransit_eq pspClearingAccount_eq AccountPlatformFees_def
      AccountPlatformOperating_def)

lemma available_not_in_transit [simp]:
  "MerchantAvailable m \<noteq> MerchantInTransit n" "MerchantInTransit n \<noteq> MerchantAvailable m"
proof -
  have "m @ '':available'' \<noteq> n @ '':in_transit''" by (rule append_ends_differ) simp_all
  then show "MerchantAvailable m \<noteq> MerchantInTransit n"
    by (simp only: MerchantAvailable_eq MerchantInTransit_eq append_same_eq same_append_eq) simp
  then show "MerchantInTransit n \<noteq> MerchantAvailable m" by metis
qed

lemma account_inj [simp]:
  "MerchantAvailable m = MerchantAvailable n \<longleftrightarrow> m = n"
  "MerchantInTransit m = MerchantInTransit n \<longleftrightarrow> m = n"
  "pspClearingAccount p = pspClearingAccount q \<longleftrightarrow> p = q"
  by (simp_all add: MerchantAvailable_eq MerchantInTransit_eq pspClearingAccount_eq)

subsection \<open>What the balance check decides\<close>

definition debit_amount :: "ledger_entry \<Rightarrow> int" where
  "debit_amount e = (if le_EntryType e = ''debit'' then le_Amount e else - le_Amount e)"

text \<open>The trial balance of a currency: debits less credits, in unbounded integers.\<close>

definition net :: "string \<Rightarrow> ledger_entry list \<Rightarrow> int" where
  "net c es = sum_list (map debit_amount (filter (\<lambda>e. le_Currency e = c) es))"

lemma net_simps [simp]:
  "net c [] = 0" "net c (e # es) = (if le_Currency e = c then debit_amount e else 0) + net c es"
  "net c (es @ fs) = net c es + net c fs"
  by (simp_all add: net_def)

lemma balances_of_eq:
  "balances_of es c = (if c \<in> le_Currency ` set es then Some (wrap64 (net c es)) else None)"
proof (induction es rule: rev_induct)
  case (snoc e es)
  have net0: "net c es = 0" if "c \<notin> le_Currency ` set es"
  proof -
    from that have none: "filter (\<lambda>e. le_Currency e = c) es = []" by (auto simp: filter_empty_conv)
    show ?thesis by (simp only: net_def none) simp
  qed
  show ?case
    using snoc.IH net0
    by (auto simp: balances_of_def post_balance_def Let_def debit_amount_def
        split: if_splits option.splits)
qed (simp add: balances_of_def)

lemma find_None_iff': "find P xs = None \<longleftrightarrow> (\<forall>x \<in> set xs. \<not> P x)"
  by (auto simp: find_None_iff)

lemma validateBalanced_iff: "validateBalanced es = Inr () \<longleftrightarrow> (\<forall>c. net c es mod 2 ^ 64 = 0)"
proof -
  have outside: "net c es = 0" if "c \<notin> le_Currency ` set es" for c
  proof -
    from that have none: "filter (\<lambda>e. le_Currency e = c) es = []" by (auto simp: filter_empty_conv)
    show ?thesis by (simp only: net_def none) simp
  qed
  have "validateBalanced es = Inr () \<longleftrightarrow>
      find (\<lambda>c. balances_of es c \<noteq> Some 0) (remdups (map le_Currency es)) = None"
    by (auto simp: validateBalanced_def split: option.splits)
  also have "\<dots> \<longleftrightarrow> (\<forall>c \<in> le_Currency ` set es. wrap64 (net c es) = 0)"
    by (simp add: find_None_iff' balances_of_eq)
  also have "\<dots> \<longleftrightarrow> (\<forall>c. net c es mod 2 ^ 64 = 0)"
    unfolding wrap64_zero_iff by (metis mod_0 outside)
  finally show ?thesis .
qed

text \<open>Within half of the wrap-around the check is exact.\<close>

lemma mod64_small_zero: "\<bar>x\<bar> < 2 ^ 64 \<Longrightarrow> x mod 2 ^ 64 = 0 \<longleftrightarrow> x = (0 :: int)"
proof
  assume "\<bar>x\<bar> < 2 ^ 64" "x mod 2 ^ 64 = 0"
  then show "x = 0" by (metis abs_ge_zero abs_of_nonneg dvd_imp_mod_0 mod_0_imp_dvd zdvd_imp_le
        linorder_not_less abs_dvd_iff dvd_abs_iff zero_less_abs_iff)
qed simp

subsection \<open>Inserting a group\<close>

lemma ledger_insert_Exec:
  assumes "\<And>e' v. w_db v = w_db w \<Longrightarrow> Q (Inl e') v"
    and "\<And>r v. w_db v = (w_db w)\<lparr>t_ledger_entries := t_ledger_entries (w_db w) @ [e]\<rparr> \<Longrightarrow>
      entry_check e \<Longrightarrow> \<forall>x \<in> set (t_ledger_entries (w_db w)). le_ID x \<noteq> le_ID e \<Longrightarrow> Q r v"
  shows "wp (db_Exec (ledger_insert e)) Q w"
proof -
  have upd: "t_ledger_entries_update (\<lambda>rs. rs @ [e]) d = d\<lparr>t_ledger_entries := t_ledger_entries d @ [e]\<rparr>" for d :: db
    by simp
  show ?thesis
    using assms
    by (auto simp: wp_simps run_stmt_def ledger_insert_def table_insert_def list_ex_iff upd
        split: outcome.split)
qed

lemma wp_InsertEntries:
  assumes "\<And>n (res :: error + unit) v. n \<le> length es \<Longrightarrow>
      w_db v = (w_db w)\<lparr>t_ledger_entries := t_ledger_entries (w_db w) @ take n es\<rparr> \<Longrightarrow>
      (\<forall>e \<in> set (take n es). entry_check e) \<Longrightarrow> (res = Inr () \<longrightarrow> n = length es) \<Longrightarrow> Q res v"
  shows "wp (Ledger_InsertEntries es) Q w"
  using assms
proof (induction es arbitrary: w)
  case Nil
  show ?case by (simp add: wp_simps) (rule Nil.prems [of 0], simp_all)
next
  case (Cons e es)
  show ?case
    unfolding Ledger_InsertEntries.simps wp_try_call
  proof (rule ledger_insert_Exec)
    fix e' and v :: world
    assume "w_db v = w_db w"
    then show "case Inl e' of Inl e \<Rightarrow> Q (Inl e) v | Inr x \<Rightarrow> wp (Ledger_InsertEntries es) Q v"
      by simp (rule Cons.prems [of 0], simp_all)
  next
    fix r :: "error + nat" and v :: world
    assume v: "w_db v = (w_db w)\<lparr>t_ledger_entries := t_ledger_entries (w_db w) @ [e]\<rparr>" "entry_check e"
    show "case r of Inl e \<Rightarrow> Q (Inl e) v | Inr x \<Rightarrow> wp (Ledger_InsertEntries es) Q v"
    proof (cases r)
      case (Inl e')
      then show ?thesis by simp (rule Cons.prems [of 1], simp_all add: v)
    next
      case (Inr x)
      have "wp (Ledger_InsertEntries es) Q v"
      proof (rule Cons.IH)
        fix n and res :: "error + unit" and u :: world
        assume "n \<le> length es"
          "w_db u = (w_db v)\<lparr>t_ledger_entries := t_ledger_entries (w_db v) @ take n es\<rparr>"
          "\<forall>e \<in> set (take n es). entry_check e" "res = Inr () \<longrightarrow> n = length es"
        then show "Q res u" by (intro Cons.prems [of "Suc n"]) (simp_all add: v)
      qed
      with Inr show ?thesis by simp
    qed
  qed
qed

lemma keeps_InsertEntries [keeps_intros]:
  "(\<And>w. f (next_step w) = f w) \<Longrightarrow>
   (\<And>w g. f (w\<lparr>w_db := t_ledger_entries_update g (w_db w)\<rparr>) = f w) \<Longrightarrow> keeps f (Ledger_InsertEntries es)"
  by (induction es)
    (auto intro!: keeps_ok keeps_try_call keeps_db_Exec
      simp: ledger_insert_def table_insert_def split: if_splits)

lemma keeps_postBalanced [keeps_intros]:
  "(\<And>w. f (next_step w) = f w) \<Longrightarrow>
   (\<And>w g. f (w\<lparr>w_db := t_ledger_entries_update g (w_db w)\<rparr>) = f w) \<Longrightarrow> keeps f (postBalanced es)"
  by (auto simp: postBalanced_def intro!: keeps_intros)

subsection \<open>Specification of a posting\<close>

definition line :: "string \<Rightarrow> string \<Rightarrow> int64 \<Rightarrow> posting" where
  "line acct ty amt = \<lparr>pg_AccountID = acct, pg_EntryType = ty, pg_Amount = amt\<rparr>"

definition line_of :: "ledger_entry \<Rightarrow> posting" where
  "line_of e = line (le_AccountID e) (le_EntryType e) (le_Amount e)"

definition line_signed :: "posting \<Rightarrow> int" where
  "line_signed l = (if pg_EntryType l = ''credit'' then pg_Amount l else - pg_Amount l)"

definition lines_sum :: "string \<Rightarrow> posting list \<Rightarrow> int" where
  "lines_sum a ls = sum_list (map line_signed (filter (\<lambda>l. pg_AccountID l = a) ls))"

definition collection_lines :: "string \<Rightarrow> string \<Rightarrow> int64 \<Rightarrow> int64 \<Rightarrow> posting list" where
  "collection_lines m psp amt fee =
     [line (pspClearingAccount psp) ''debit'' amt, line (MerchantAvailable m) ''credit'' amt] @
     (if 0 < fee then [line (MerchantAvailable m) ''debit'' fee, line AccountPlatformFees ''credit'' fee] else [])"

definition pair_lines :: "string \<Rightarrow> string \<Rightarrow> int64 \<Rightarrow> posting list" where
  "pair_lines debit credit amt = [line debit ''debit'' amt, line credit ''credit'' amt]"

definition ledger :: "world \<Rightarrow> ledger_entry list" where
  "ledger w = t_ledger_entries (w_db w)"

text \<open>The book: a balance per account; every operation moves money between two accounts.\<close>

type_synonym book = "string \<Rightarrow> int"

definition move :: "string \<Rightarrow> string \<Rightarrow> int \<Rightarrow> book \<Rightarrow> book" where
  "move src dst x b = (\<lambda>a. b a - (if a = src then x else 0) + (if a = dst then x else 0))"

definition book_of :: "world \<Rightarrow> book" where
  "book_of w = (\<lambda>a. account_sum a (ledger w))"

lemma line_simps [simp]:
  "pg_AccountID (line a t x) = a" "pg_EntryType (line a t x) = t" "pg_Amount (line a t x) = x"
  by (simp_all add: line_def)

lemma lines_sum_simps [simp]:
  "lines_sum a [] = 0" "lines_sum a (l # ls) = (if pg_AccountID l = a then line_signed l else 0) + lines_sum a ls"
  "lines_sum a (ls @ ks) = lines_sum a ls + lines_sum a ks"
  by (simp_all add: lines_sum_def)

lemma account_sum_simps [simp]:
  "account_sum a [] = 0"
  "account_sum a (e # es) = (if le_AccountID e = a then signed_amount e else 0) + account_sum a es"
  "account_sum a (es @ fs) = account_sum a es + account_sum a fs"
  by (simp_all add: account_sum_def)

lemma account_sum_lines: "account_sum a es = lines_sum a (map line_of es)"
  by (induction es) (simp_all add: line_of_def line_signed_def signed_amount_def)

lemma net_lines:
  assumes "\<forall>e \<in> set es. le_Currency e = cur" "\<forall>l \<in> set (map line_of es). pg_EntryType l \<in> {''debit'', ''credit''}"
  shows "net c es = (if c = cur then - sum_list (map line_signed (map line_of es)) else 0)"
  using assms by (induction es) (auto simp: line_of_def line_signed_def debit_amount_def)

text \<open>The outcome of a posting: entries for a prefix of its lines, for all of them on success.\<close>

definition posts_prefix :: "posting list \<Rightarrow> string \<Rightarrow> string \<Rightarrow> world \<Rightarrow> error + unit \<Rightarrow> world \<Rightarrow> bool" where
  "posts_prefix lines cur ref w res v \<longleftrightarrow> (\<exists>es n. map line_of es = lines \<and>
        (\<forall>e \<in> set es. le_Currency e = cur \<and> le_ReferenceID e = ref) \<and> n \<le> length es \<and>
        w_db v = (w_db w)\<lparr>t_ledger_entries := t_ledger_entries (w_db w) @ take n es\<rparr> \<and>
        (\<forall>e \<in> set (take n es). entry_check e) \<and> (res = Inr () \<longrightarrow> n = length es))"

locale poster =
  fixes post :: "unit goE" and lines :: "posting list" and cur ref :: string
  assumes double_entry: "sum_list (map line_signed lines) = 0"
    and entry_types: "l \<in> set lines \<Longrightarrow> pg_EntryType l \<in> {''debit'', ''credit''}"
    and post_law: "wp post (posts_prefix lines cur ref w) w"
begin

text \<open>Success posts every line, failure a prefix of them; no other table is touched.\<close>

lemma grows: "wp post (\<lambda>res v. \<exists>es. ledger v = ledger w @ es \<and> prefix (map line_of es) lines \<and>
    w_db v = (w_db w)\<lparr>t_ledger_entries := ledger v\<rparr>) w"
proof (rule wp_mono [OF post_law])
  fix res and v :: world
  assume "posts_prefix lines cur ref w res v"
  then obtain es n where es: "map line_of es = lines"
    "w_db v = (w_db w)\<lparr>t_ledger_entries := t_ledger_entries (w_db w) @ take n es\<rparr>"
    unfolding posts_prefix_def by blast
  have "prefix (map line_of (take n es)) lines"
    by (simp only: es(1) [symmetric] take_map [symmetric] take_is_prefix)
  with es(2) show "\<exists>es. ledger v = ledger w @ es \<and> prefix (map line_of es) lines \<and>
      w_db v = (w_db w)\<lparr>t_ledger_entries := ledger v\<rparr>"
    by (intro exI [of _ "take n es"]) (simp add: ledger_def)
qed

lemma posted: "wp post (\<lambda>res v. res = Inr () \<longrightarrow> (\<exists>es. ledger v = ledger w @ es \<and> map line_of es = lines \<and>
    (\<forall>e \<in> set es. le_Currency e = cur \<and> le_ReferenceID e = ref))) w"
  by (rule wp_mono [OF post_law]) (auto simp: ledger_def posts_prefix_def)

lemma effect: "wp post (\<lambda>res v. res = Inr () \<longrightarrow>
    account_sum a (ledger v) = account_sum a (ledger w) + lines_sum a lines) w"
  by (rule wp_mono [OF posted]) (auto simp: account_sum_lines)

text \<open>The same for all accounts at once, as a step of the abstract book.\<close>

lemma book_step:
  assumes "\<And>b a. lines_sum a lines = g b a - b a"
  shows "wp post (\<lambda>res v. res = Inr () \<longrightarrow> book_of v = g (book_of w)) w"
proof (rule wp_mono [OF posted], rule impI)
  fix res and v :: world
  assume "res = Inr () \<longrightarrow> (\<exists>es. ledger v = ledger w @ es \<and> map line_of es = lines \<and>
    (\<forall>e \<in> set es. le_Currency e = cur \<and> le_ReferenceID e = ref))" "res = Inr ()"
  then obtain es where es: "ledger v = ledger w @ es" "map line_of es = lines" by blast
  show "book_of v = g (book_of w)"
    by (rule ext) (simp add: book_of_def es(1) account_sum_lines [of _ es] es(2)
        assms [of _ "\<lambda>a. account_sum a (ledger w)"])
qed

lemma trial_balance: "wp post (\<lambda>res v. res = Inr () \<longrightarrow> net c (ledger v) = net c (ledger w)) w"
proof (rule wp_mono [OF posted], rule impI)
  fix res and v :: world
  assume "res = Inr () \<longrightarrow> (\<exists>es. ledger v = ledger w @ es \<and> map line_of es = lines \<and>
    (\<forall>e \<in> set es. le_Currency e = cur \<and> le_ReferenceID e = ref))" "res = Inr ()"
  then obtain es where es: "ledger v = ledger w @ es" "map line_of es = lines"
    "\<forall>e \<in> set es. le_Currency e = cur" by blast
  have "net c es = (if c = cur then - sum_list (map line_signed (map line_of es)) else 0)"
    by (rule net_lines [OF es(3)]) (use es(2) entry_types in simp)
  then show "net c (ledger v) = net c (ledger w)" by (simp add: es(1,2) double_entry)
qed

text \<open>A first line that is not positive is refused by the CHECK before anything is posted.\<close>

lemma refuses_non_positive:
  assumes "lines \<noteq> []" "pg_Amount (hd lines) \<le> 0"
  shows "wp post (\<lambda>res v. res \<noteq> Inr () \<and> w_db v = w_db w) w"
proof (rule wp_mono [OF post_law])
  fix res and v :: world
  assume "posts_prefix lines cur ref w res v"
  then obtain es n where es: "map line_of es = lines" "n \<le> length es"
    "w_db v = (w_db w)\<lparr>t_ledger_entries := t_ledger_entries (w_db w) @ take n es\<rparr>"
    "\<forall>e \<in> set (take n es). entry_check e" "res = Inr () \<longrightarrow> n = length es"
    unfolding posts_prefix_def by blast
  from assms es(1) obtain e fs where e: "es = e # fs" "le_Amount e \<le> 0"
    by (cases es) (auto simp: line_of_def)
  have "n = 0"
  proof (cases n)
    case (Suc m)
    with es(4) e show ?thesis by (simp add: entry_check_def)
  qed
  with es(3,5) e show "res \<noteq> Inr () \<and> w_db v = w_db w" by simp
qed

end

subsection \<open>The five operations are postings\<close>

lemma balanced_group:
  assumes "map line_of es = lines" "sum_list (map line_signed lines) = 0"
    "\<forall>l \<in> set lines. pg_EntryType l \<in> {''debit'', ''credit''}" "\<forall>e \<in> set es. le_Currency e = cur"
  shows "validateBalanced es = Inr ()"
proof -
  have "net c es = (if c = cur then - sum_list (map line_signed (map line_of es)) else 0)" for c
    by (rule net_lines) (use assms in auto)
  then show ?thesis using assms by (simp add: validateBalanced_iff)
qed

lemma postBalanced_law:
  assumes "map line_of es = lines" "sum_list (map line_signed lines) = 0"
    "\<forall>l \<in> set lines. pg_EntryType l \<in> {''debit'', ''credit''}"
    "\<forall>e \<in> set es. le_Currency e = cur \<and> le_ReferenceID e = ref" "w_db u = w_db w"
  shows "wp (postBalanced es) (posts_prefix lines cur ref w) u"
proof -
  have "validateBalanced es = Inr ()" by (rule balanced_group [where cur = cur]) (use assms in auto)
  then have eq: "postBalanced es = Ledger_InsertEntries es" by (simp add: postBalanced_def)
  show ?thesis
    unfolding eq
  proof (rule wp_InsertEntries)
    fix n and res :: "error + unit" and v :: world
    assume "n \<le> length es" "w_db v = (w_db u)\<lparr>t_ledger_entries := t_ledger_entries (w_db u) @ take n es\<rparr>"
      "\<forall>e \<in> set (take n es). entry_check e" "res = Inr () \<longrightarrow> n = length es"
    with assms show "posts_prefix lines cur ref w res v"
      unfolding posts_prefix_def by (intro exI [of _ es] exI [of _ n] conjI) simp_all
  qed
qed

lemma entry_simps [simp]:
  "line_of (entry i now cur refty ref acct ty amt) = line acct ty amt"
  "le_Currency (entry i now cur refty ref acct ty amt) = cur"
  "le_ReferenceID (entry i now cur refty ref acct ty amt) = ref"
  by (simp_all add: entry_def line_of_def)

interpretation collection: poster "PostCollection m piID psp amt cur fee" "collection_lines m psp amt fee" cur piID
  for m piID psp amt cur fee
proof unfold_locales
  show "wp (PostCollection m piID psp amt cur fee) (posts_prefix (collection_lines m psp amt fee) cur piID w) w" for w
    unfolding PostCollection_def Let_def wp_bind wp_time_Now wp_uuid_New wp_if
    by (cases "0 < fee"; simp only: if_True if_False) (rule postBalanced_law; simp add: collection_lines_def line_signed_def)+
qed (auto simp: collection_lines_def line_signed_def split: if_splits)

interpretation pair: poster "post_pair refty ref debit credit amt cur" "pair_lines debit credit amt" cur ref
  for refty ref debit credit amt cur
proof unfold_locales
  show "wp (post_pair refty ref debit credit amt cur) (posts_prefix (pair_lines debit credit amt) cur ref w) w" for w
    unfolding post_pair_def wp_bind wp_time_Now wp_uuid_New
    by (rule postBalanced_law) (simp_all add: pair_lines_def line_signed_def)
qed (auto simp: pair_lines_def line_signed_def)

subsection \<open>Sequences of postings refine an abstract book of accounts\<close>

datatype ledger_op =
    OpCollection string string string int string int
  | OpRefund string string string int string
  | OpPayoutInit string string int string
  | OpPayoutComplete string string int string
  | OpPayoutReversal string string int string

fun ledger_do :: "ledger_op \<Rightarrow> unit goE" where
  "ledger_do (OpCollection m i psp amt cur fee) = PostCollection m i psp amt cur fee"
| "ledger_do (OpRefund m i psp amt cur) = PostRefund m i psp amt cur"
| "ledger_do (OpPayoutInit m i amt cur) = PostPayoutInit m i amt cur"
| "ledger_do (OpPayoutComplete m i amt cur) = PostPayoutComplete m i amt cur"
| "ledger_do (OpPayoutReversal m i amt cur) = PostPayoutReversal m i amt cur"

fun ledger_run :: "ledger_op list \<Rightarrow> unit goE" where
  "ledger_run [] = ok ()"
| "ledger_run (p # ps) = try_call (ledger_do p) (\<lambda>_. ledger_run ps)"

fun book_op :: "ledger_op \<Rightarrow> book \<Rightarrow> book" where
  "book_op (OpCollection m i psp amt cur fee) =
     move (MerchantAvailable m) AccountPlatformFees (max fee 0) \<circ> move (pspClearingAccount psp) (MerchantAvailable m) amt"
| "book_op (OpRefund m i psp amt cur) = move (MerchantAvailable m) (pspClearingAccount psp) amt"
| "book_op (OpPayoutInit m i amt cur) = move (MerchantAvailable m) (MerchantInTransit m) amt"
| "book_op (OpPayoutComplete m i amt cur) = move (MerchantInTransit m) AccountPlatformOperating amt"
| "book_op (OpPayoutReversal m i amt cur) = move (MerchantInTransit m) (MerchantAvailable m) amt"

lemma move_lines: "lines_sum a (pair_lines src dst x) = move src dst x b a - b a"
  by (simp add: pair_lines_def line_signed_def move_def)

lemma collection_lines_move: "lines_sum a (collection_lines m psp amt fee) = book_op (OpCollection m i psp amt cur fee) b a - b a"
  by (simp add: collection_lines_def line_signed_def move_def max_def)

lemma ledger_do_book: "wp (ledger_do p) (\<lambda>res v. res = Inr () \<longrightarrow> book_of v = book_op p (book_of w)) w"
proof (cases p)
  case (OpCollection m i psp amt cur fee)
  show ?thesis unfolding OpCollection ledger_do.simps by (rule collection.book_step) (rule collection_lines_move)
qed (simp_all only: ledger_do.simps book_op.simps post_defs, (rule pair.book_step, rule move_lines)+)

lemma ledger_do_net: "wp (ledger_do p) (\<lambda>res v. res = Inr () \<longrightarrow> net c (ledger v) = net c (ledger w)) w"
  by (cases p) (simp_all only: ledger_do.simps post_defs collection.trial_balance pair.trial_balance)

lemma ledger_run_wp:
  assumes step: "\<And>p w. wp (ledger_do p) (\<lambda>res v. res = Inr () \<longrightarrow> f v = g p (f w)) w"
  shows "wp (ledger_run ps) (\<lambda>res v. res = Inr () \<longrightarrow> f v = fold g ps (f w)) w"
proof (induction ps arbitrary: w)
  case (Cons p ps)
  show ?case
    unfolding ledger_run.simps wp_try_call
  proof (rule wp_mono [OF step])
    fix res and v :: world
    assume *: "res = Inr () \<longrightarrow> f v = g p (f w)"
    show "case res of Inl e \<Rightarrow> Inl e = Inr () \<longrightarrow> f v = fold g (p # ps) (f w)
      | Inr x \<Rightarrow> wp (ledger_run ps) (\<lambda>res v. res = Inr () \<longrightarrow> f v = fold g (p # ps) (f w)) v"
      using Cons.IH [of v] * by (cases res) simp_all
  qed
qed (simp add: wp_simps)

text \<open>C34: Any sequence of collections, refunds, payout postings, completions and reversals that
  returns without an error changes the balances exactly as the abstract book says: a collection
  moves the amount from the PSP clearing account to the merchant and the fee on to the platform,
  a refund moves it back, a payout moves it through the in-transit account. Overlapping accounts,
  repeated identifiers and any schedule of external calls are included.\<close>

theorem ledger_run_refines_book:
  assumes "run_state (ledger_run ps) w = (Inr (), v)"
  shows "book_of v = fold book_op ps (book_of w)"
  using wp_run [OF ledger_run_wp [where f = book_of and g = book_op, OF ledger_do_book] assms] by simp

definition sample_postings :: "ledger_op list" where
  "sample_postings = [OpCollection ''m'' ''pi'' ''paystack'' 5000 ''NGN'' 100, OpPayoutInit ''m'' ''po'' 4000 ''NGN'',
     OpPayoutComplete ''m'' ''po'' 4000 ''NGN'', OpRefund ''m'' ''pi'' ''paystack'' 500 ''NGN'']"

lemma sample_postings_run: "fst (run_state (ledger_run sample_postings) calm_world) = Inr ()"
  by code_simp

theorem ledger_run_refines_book_witness:
  "book_of (snd (run_state (ledger_run sample_postings) calm_world)) = fold book_op sample_postings (book_of calm_world)"
  using ledger_run_refines_book [of sample_postings calm_world "snd (run_state (ledger_run sample_postings) calm_world)"]
    sample_postings_run by (metis prod.collapse)

text \<open>C35: A sequence of postings that returns without an error leaves the trial balance of every
  currency (all debits less all credits) where it was.\<close>

theorem ledger_run_trial_balance:
  assumes "run_state (ledger_run ps) w = (Inr (), v)"
  shows "net c (ledger v) = net c (ledger w)"
  using wp_run [OF ledger_run_wp [where f = "\<lambda>w. net c (ledger w)" and g = "\<lambda>_ x. x", OF ledger_do_net] assms]
  by simp (induction ps, simp_all)

theorem ledger_run_trial_balance_witness:
  "net ''NGN'' (ledger (snd (run_state (ledger_run sample_postings) calm_world))) = net ''NGN'' (ledger calm_world)"
  using ledger_run_trial_balance [of sample_postings calm_world "snd (run_state (ledger_run sample_postings) calm_world)"]
    sample_postings_run by (metis prod.collapse)

text \<open>Reserving a payout and reversing it restores every balance, whatever happened to other
  accounts before.\<close>

theorem payout_reversal_roundtrip:
  assumes "run_state (ledger_run [OpPayoutInit m i amt cur, OpPayoutReversal m i amt cur]) w = (Inr (), v)"
  shows "book_of v = book_of w"
proof -
  have "book_of v = fold book_op [OpPayoutInit m i amt cur, OpPayoutReversal m i amt cur] (book_of w)"
    using wp_run [OF ledger_run_wp [where f = book_of and g = book_op, OF ledger_do_book] assms] by simp
  then show ?thesis by (simp add: move_def fun_eq_iff)
qed

theorem payout_reversal_roundtrip_witness:
  "book_of (snd (run_state (ledger_run [OpPayoutInit ''m'' ''po'' 4000 ''KES'', OpPayoutReversal ''m'' ''po'' 4000 ''KES''])
     calm_world)) = book_of calm_world"
proof -
  have "fst (run_state (ledger_run [OpPayoutInit ''m'' ''po'' 4000 ''KES'', OpPayoutReversal ''m'' ''po'' 4000 ''KES''])
     calm_world) = Inr ()" by code_simp
  then show ?thesis
    using payout_reversal_roundtrip [of "''m''" "''po''" 4000 "''KES''" calm_world] by (metis prod.collapse)
qed

subsection \<open>When a posting succeeds, and what a failure leaves\<close>

text \<open>A database that carries out every call from now on, and identifiers that are all new.\<close>

definition db_reliable :: "world \<Rightarrow> bool" where
  "db_reliable w \<longleftrightarrow> (\<forall>k \<ge> w_step w. o_db (w_env w) k = Done)"

definition ids_fresh :: "world \<Rightarrow> bool" where
  "ids_fresh w \<longleftrightarrow> inj_on (o_uuid (w_env w)) {w_step w..} \<and>
     (\<forall>e \<in> set (ledger w). \<forall>k \<ge> w_step w. le_ID e \<noteq> o_uuid (w_env w) k)"

lemma wp_insert_reliable:
  assumes "o_db (w_env w) (w_step w) = Done" "entry_check e" "\<forall>x \<in> set (ledger w). le_ID x \<noteq> le_ID e"
  shows "wp (db_Exec (ledger_insert e)) Q w =
    Q (Inr 1) (next_step (w\<lparr>w_db := (w_db w)\<lparr>t_ledger_entries := ledger w @ [e]\<rparr>\<rparr>))"
proof -
  have upd: "t_ledger_entries_update (\<lambda>rs. rs @ [e]) d = d\<lparr>t_ledger_entries := t_ledger_entries d @ [e]\<rparr>" for d :: db
    by simp
  show ?thesis
    using assms by (simp add: wp_simps run_stmt_def ledger_insert_def table_insert_def list_ex_iff ledger_def upd)
qed

lemma wp_InsertEntries_reliable:
  assumes "db_reliable w" "\<forall>e \<in> set es. entry_check e" "distinct (map le_ID es)"
    "\<forall>e \<in> set es. \<forall>x \<in> set (ledger w). le_ID x \<noteq> le_ID e"
  shows "wp (Ledger_InsertEntries es) (\<lambda>res v. res = Inr () \<and> ledger v = ledger w @ es) w"
  using assms
proof (induction es arbitrary: w)
  case (Cons e es)
  let ?v = "next_step (w\<lparr>w_db := (w_db w)\<lparr>t_ledger_entries := ledger w @ [e]\<rparr>\<rparr>)"
  have v: "ledger ?v = ledger w @ [e]" by (simp add: ledger_def)
  have "db_reliable ?v" using Cons.prems(1) by (simp add: db_reliable_def)
  then have "wp (Ledger_InsertEntries es) (\<lambda>res v. res = Inr () \<and> ledger v = ledger ?v @ es) ?v"
    using Cons.prems v by (intro Cons.IH) auto
  moreover have "o_db (w_env w) (w_step w) = Done" using Cons.prems(1) by (simp add: db_reliable_def)
  ultimately show ?case using Cons.prems(2,4) v by (simp add: wp_try_call wp_insert_reliable)
qed (simp add: wp_simps)

lemma postBalanced_reliable:
  assumes "map line_of es = lines" "sum_list (map line_signed lines) = 0"
    "\<forall>l \<in> set lines. pg_EntryType l \<in> {''debit'', ''credit''} \<and> 0 < pg_Amount l"
    "\<forall>e \<in> set es. le_Currency e = cur" "db_reliable w" "distinct (map le_ID es)"
    "\<forall>e \<in> set es. \<forall>x \<in> set (ledger w). le_ID x \<noteq> le_ID e"
  shows "wp (postBalanced es) (\<lambda>res v. res = Inr () \<and> ledger v = ledger w @ es) w"
proof -
  have "validateBalanced es = Inr ()" by (rule balanced_group [OF assms(1,2)]) (use assms in auto)
  moreover have "\<forall>e \<in> set es. entry_check e" using assms(1,3) by (auto simp: entry_check_def line_of_def)
  ultimately show ?thesis
    using wp_InsertEntries_reliable [of w es] assms by (simp add: postBalanced_def)
qed

lemma entry_ID [simp]: "le_ID (entry i now cur refty ref acct ty amt) = i"
  by (simp add: entry_def)

lemma fresh_ids_distinct:
  "ids_fresh w \<Longrightarrow> w_step w \<le> j \<Longrightarrow> w_step w \<le> k \<Longrightarrow> o_uuid (w_env w) j = o_uuid (w_env w) k \<longleftrightarrow> j = k"
  by (auto simp: ids_fresh_def dest: inj_onD)

lemma fresh_ids_new:
  "ids_fresh w \<Longrightarrow> w_step w \<le> k \<Longrightarrow> x \<in> set (ledger w) \<Longrightarrow> le_ID x \<noteq> o_uuid (w_env w) k"
  by (simp add: ids_fresh_def)

lemma PostCollection_reliable:
  assumes "db_reliable w" "ids_fresh w" "0 < amt"
  shows "wp (PostCollection m i psp amt cur fee) (\<lambda>res v. res = Inr ()) w"
proof -
  have r: "db_reliable (next_step w) \<and> ledger (next_step w) = ledger w" if "db_reliable w" for w
    using that by (simp add: db_reliable_def ledger_def)
  note fresh = fresh_ids_distinct [OF assms(2)] fresh_ids_new [OF assms(2)]
  have body: "wp (postBalanced es) (\<lambda>res v. res = Inr ()) u"
    if "map line_of es = collection_lines m psp amt fee" "\<forall>e \<in> set es. le_Currency e = cur" "db_reliable u"
      "distinct (map le_ID es)" "\<forall>e \<in> set es. \<forall>x \<in> set (ledger u). le_ID x \<noteq> le_ID e" for es u
  proof (rule wp_mono [OF postBalanced_reliable [OF that(1) _ _ that(2-5)]])
    show "sum_list (map line_signed (collection_lines m psp amt fee)) = 0"
      by (simp add: collection_lines_def line_signed_def)
    show "\<forall>l \<in> set (collection_lines m psp amt fee). pg_EntryType l \<in> {''debit'', ''credit''} \<and> 0 < pg_Amount l"
      using assms(3) by (auto simp: collection_lines_def)
  qed simp
  show ?thesis
    unfolding PostCollection_def Let_def wp_bind wp_time_Now wp_uuid_New wp_if
    by (cases "0 < fee"; simp only: if_True if_False)
      (rule body; simp add: collection_lines_def r assms fresh ledger_def [symmetric])+
qed

text \<open>With a database that carries out every call and fresh identifiers a collection posting
  returns without an error exactly when the amount is positive; a zero or negative amount is
  refused and posts nothing.\<close>

theorem PostCollection_succeeds_iff:
  assumes "db_reliable w" "ids_fresh w"
  shows "(fst (run_state (PostCollection m i psp amt cur fee) w) = Inr () \<longleftrightarrow> 0 < amt) \<and>
    (amt \<le> 0 \<longrightarrow> w_db (snd (run_state (PostCollection m i psp amt cur fee) w)) = w_db w)"
proof -
  obtain res v where run: "run_state (PostCollection m i psp amt cur fee) w = (res, v)" by fastforce
  have refused: "res \<noteq> Inr () \<and> w_db v = w_db w" if "amt \<le> 0"
    by (rule wp_run [OF collection.refuses_non_positive run]) (use that in \<open>simp_all add: collection_lines_def\<close>)
  have "res = Inr ()" if "0 < amt"
    by (rule wp_run [OF PostCollection_reliable run]) (use that assms in simp_all)
  with refused run show ?thesis by (cases "0 < amt") simp_all
qed

lemma calm_world_fresh: "db_reliable calm_world" "ids_fresh calm_world"
  by (auto simp: db_reliable_def ids_fresh_def calm_world_def start_world_def calm_env_def ledger_def
      empty_db_def inj_on_def show_nat_inj)

theorem PostCollection_succeeds_iff_witness:
  "fst (run_state (PostCollection ''m'' ''pi'' ''mpesa'' 2500 ''KES'' 100) calm_world) = Inr ()"
  using PostCollection_succeeds_iff [OF calm_world_fresh, of "''m''" "''pi''" "''mpesa''" 2500 "''KES''" 100] by simp


text \<open>The balance check decides the true trial balance of a group as long as no currency's
  debits and credits differ by \<open>2^64\<close> or more.\<close>

theorem validateBalanced_exact:
  assumes "\<forall>c. \<bar>net c es\<bar> < 2 ^ 64"
  shows "validateBalanced es = Inr () \<longleftrightarrow> (\<forall>c. net c es = 0)"
  unfolding validateBalanced_iff using assms mod64_small_zero by blast

theorem validateBalanced_exact_witness:
  "validateBalanced [entry ''1'' 0 ''KES'' ''fee'' ''p'' ''a'' ''debit'' 7] \<noteq> Inr ()"
proof -
  let ?es = "[entry ''1'' 0 ''KES'' ''fee'' ''p'' ''a'' ''debit'' 7]"
  have "\<forall>c. \<bar>net c ?es\<bar> < 2 ^ 64" by (simp add: debit_amount_def entry_def)
  moreover have "net ''KES'' ?es \<noteq> 0" by (simp add: debit_amount_def entry_def)
  ultimately show ?thesis using validateBalanced_exact [of ?es] by blast
qed

text \<open>Without that bound the check accepts unbalanced groups, because the running sum of a
  currency wraps around: three debits of valid amounts and no credit pass.\<close>

theorem validateBalanced_wraps:
  "\<exists>es. list_all (\<lambda>e. entry_check e \<and> is_int64 (le_Amount e) \<and> le_EntryType e = ''debit'') es \<and> es \<noteq> [] \<and>
     validateBalanced es = Inr () \<and> net ''KES'' es = 2 ^ 64"
proof -
  let ?e = "\<lambda>i. entry i 0 ''KES'' ''attempt'' ''p'' ''a'' ''debit''"
  let ?es = "[?e ''1'' (2 ^ 63 - 1), ?e ''2'' (2 ^ 63 - 1), ?e ''3'' 2]"
  have "list_all (\<lambda>e. entry_check e \<and> is_int64 (le_Amount e) \<and> le_EntryType e = ''debit'') ?es"
    by (simp add: entry_check_def entry_def is_int64_def)
  moreover have "net c ?es mod 2 ^ 64 = 0" for c by (simp add: debit_amount_def entry_def)
  moreover have "net ''KES'' ?es = 2 ^ 64" by (simp add: debit_amount_def entry_def)
  ultimately show ?thesis by (intro exI [of _ ?es]) (simp add: validateBalanced_iff)
qed

end
