(* ===== verification/Stores.thy ===== *)
theory Stores
  imports World
begin

section \<open>Redis-backed stores (\<open>internal/idempotency/store.go\<close>, \<open>internal/webhook/dedup.go\<close>)\<close>

text \<open>
  Both stores put an entry under a prefixed key with a time to live and look it up again. The
  locale \<open>expiring_store\<close> is their common contract; what follows from it (an entry is found
  until it expires, never afterwards, and nothing else is ever found) is proved once and
  interpreted for the idempotency store and the webhook dedup store.
\<close>

definition idempotency_ttl :: int where "idempotency_ttl = 24 * Hour"
definition dedup_ttl :: int where "dedup_ttl = 7 * 24 * Hour"

definition idempotency_key :: "string \<Rightarrow> string \<Rightarrow> string" where
  "idempotency_key merchantID key = ''idempotency:'' @ merchantID @ '':'' @ key"

definition Idempotency_Check :: "string \<Rightarrow> string \<Rightarrow> string goE" where
  "Idempotency_Check merchantID key =
     call ''redis get'' (redis_Get (idempotency_key merchantID key)) (\<lambda>data.
       (case data of
          None \<Rightarrow> ok []
        | Some j \<Rightarrow>
            (case Option.bind (as_fields j) (dec_string ''pi_id'') of
               None \<Rightarrow> fail (ErrWrap ''unmarshal idempotency entry'' ErrJSON)
             | Some piID \<Rightarrow> ok piID)))"

definition Idempotency_Store :: "string \<Rightarrow> string \<Rightarrow> string \<Rightarrow> unit goE" where
  "Idempotency_Store merchantID key piID =
     redis_Set (idempotency_key merchantID key) (JObj [(''pi_id'', JStr piID)]) idempotency_ttl"

definition dedup_redis_key :: "string \<Rightarrow> string" where
  "dedup_redis_key k = ''webhook_dedup:'' @ k"

definition Dedup_Check :: "string \<Rightarrow> bool goE" where
  "Dedup_Check k = try_call (redis_Get (dedup_redis_key k)) (\<lambda>data. ok (data \<noteq> None))"

definition Dedup_Mark :: "string \<Rightarrow> unit goE" where
  "Dedup_Mark k = redis_Set (dedup_redis_key k) (JInt 1) dedup_ttl"

subsection \<open>The contract\<close>

text \<open>What Redis holds for a key at a time.\<close>

definition live :: "world \<Rightarrow> string \<Rightarrow> time \<Rightarrow> json option" where
  "live w k t = (case w_redis w k of None \<Rightarrow> None | Some (v, expiry) \<Rightarrow> if t < expiry then Some v else None)"

locale expiring_store =
  fixes put :: "string \<Rightarrow> 'v \<Rightarrow> unit goE" and look :: "string \<Rightarrow> 'r goE" and enc :: "'v \<Rightarrow> json"
    and hit :: "'v \<Rightarrow> 'r" and miss :: 'r and ttl :: int
  assumes put_law: "wp (put k v) (\<lambda>res w'. w_step w' = Suc (w_step w) \<and> w_env w' = w_env w \<and>
      (w_redis w' = (w_redis w)(k \<mapsto> (enc v, o_clock (w_env w) (w_step w) + ttl)) \<or>
       (w_redis w' = w_redis w \<and> res \<noteq> Inr ()))) w"
    and look_law: "wp (look k) (\<lambda>res w'. w_redis w' = w_redis w \<and> w_env w' = w_env w \<and>
      (\<forall>v. live w k (o_clock (w_env w) (w_step w)) = Some (enc v) \<longrightarrow> (\<forall>r. res = Inr r \<longrightarrow> r = hit v)) \<and>
      (live w k (o_clock (w_env w) (w_step w)) = None \<longrightarrow> (\<forall>r. res = Inr r \<longrightarrow> r = miss))) w"
begin

lemma look_hit: "live w k (o_clock (w_env w) (w_step w)) = Some (enc v) \<Longrightarrow>
    wp (look k) (\<lambda>res w'. \<forall>r. res = Inr r \<longrightarrow> r = hit v) w"
  by (rule wp_mono [OF look_law]) blast

lemma look_miss: "live w k (o_clock (w_env w) (w_step w)) = None \<Longrightarrow>
    wp (look k) (\<lambda>res w'. \<forall>r. res = Inr r \<longrightarrow> r = miss) w"
  by (rule wp_mono [OF look_law]) blast

text \<open>After a put that returned, the entry is live until its time is over and dead from then on;
  entries of other keys are as they were.\<close>

lemma put_live: "wp (put k v) (\<lambda>res w'. res = Inr () \<longrightarrow>
    (\<forall>t. live w' k t = (if t < o_clock (w_env w) (w_step w) + ttl then Some (enc v) else None))) w"
  by (rule wp_mono [OF put_law]) (auto simp: live_def)

lemma put_other: "k' \<noteq> k \<Longrightarrow> wp (put k v) (\<lambda>res w'. live w' k' t = live w k' t) w"
  by (rule wp_mono [OF put_law]) (auto simp: live_def)

lemma put_look:
  assumes "o_clock (w_env w) (Suc (w_step w)) < o_clock (w_env w) (w_step w) + ttl"
  shows "wp (try_call (put k v) (\<lambda>_. look k)) (\<lambda>res w'. \<forall>r. res = Inr r \<longrightarrow> r = hit v) w"
  unfolding wp_try_call
proof (rule wp_mono [OF put_law])
  fix res and w' :: world
  assume *: "w_step w' = Suc (w_step w) \<and> w_env w' = w_env w \<and>
    (w_redis w' = (w_redis w)(k \<mapsto> (enc v, o_clock (w_env w) (w_step w) + ttl)) \<or> (w_redis w' = w_redis w \<and> res \<noteq> Inr ()))"
  show "case res of Inl e \<Rightarrow> \<forall>r. Inl e = Inr r \<longrightarrow> r = hit v
    | Inr x \<Rightarrow> wp (look k) (\<lambda>res w'. \<forall>r. res = Inr r \<longrightarrow> r = hit v) w'"
  proof (cases res)
    case (Inr x)
    with * assms have "live w' k (o_clock (w_env w') (w_step w')) = Some (enc v)" by (auto simp: live_def)
    with Inr show ?thesis by (simp add: look_hit)
  qed simp
qed

end

interpretation idempotency: expiring_store
  "\<lambda>k piID. redis_Set k (JObj [(''pi_id'', JStr piID)]) idempotency_ttl"
  "\<lambda>k. call ''redis get'' (redis_Get k) (\<lambda>data. case data of None \<Rightarrow> ok []
     | Some j \<Rightarrow> (case Option.bind (as_fields j) (dec_string ''pi_id'') of
         None \<Rightarrow> fail (ErrWrap ''unmarshal idempotency entry'' ErrJSON) | Some piID \<Rightarrow> ok piID))"
  "\<lambda>piID. JObj [(''pi_id'', JStr piID)]" "\<lambda>piID. piID" "[]" idempotency_ttl
  by unfold_locales (auto simp: wp_simps live_def Let_def split: outcome.split option.split)

interpretation dedup: expiring_store "\<lambda>k (_ :: unit). redis_Set k (JInt 1) dedup_ttl"
  "\<lambda>k. try_call (redis_Get k) (\<lambda>data. ok (data \<noteq> None))" "\<lambda>_. JInt 1" "\<lambda>_. True" False dedup_ttl
  by unfold_locales (auto simp: wp_simps live_def Let_def split: outcome.split option.split)

subsection \<open>The two stores\<close>

text \<open>Keys of different merchants never meet, because a merchant identifier has no colon.\<close>

lemma idempotency_key_inj:
  assumes "CHR '':'' \<notin> set m" "CHR '':'' \<notin> set n"
  shows "idempotency_key m k = idempotency_key n l \<longleftrightarrow> m = n \<and> k = l"
proof
  assume eq: "idempotency_key m k = idempotency_key n l"
  have "takeWhile (\<lambda>c. c \<noteq> CHR '':'') (m @ CHR '':'' # k) = m" "takeWhile (\<lambda>c. c \<noteq> CHR '':'') (n @ CHR '':'' # l) = n"
    using assms by (auto simp: takeWhile_append)
  moreover have "m @ CHR '':'' # k = n @ CHR '':'' # l" using eq by (simp add: idempotency_key_def)
  ultimately show "m = n \<and> k = l" by (metis append_same_eq list.inject same_append_eq)
qed simp

text \<open>An idempotency key that was stored is found by \<open>Check\<close> with its payment intent for
  24 hours, whatever happens in between to the keys of other merchants, and is gone afterwards.\<close>

theorem idempotency_remembers:
  assumes "run_state (Idempotency_Store m k i) w = (Inr (), v)"
    and "live u (idempotency_key m k) now = live v (idempotency_key m k) now"
    and "now = o_clock (w_env u) (w_step u)"
    and "run_state (Idempotency_Check m k) u = (Inr r, u')"
  shows "r = (if now < o_clock (w_env w) (w_step w) + 24 * Hour then i else [])"
proof -
  have live: "live u (idempotency_key m k) now =
      (if now < o_clock (w_env w) (w_step w) + idempotency_ttl then Some (JObj [(''pi_id'', JStr i)]) else None)"
    using wp_run [OF idempotency.put_live assms(1) [unfolded Idempotency_Store_def]] assms(2) by simp
  show ?thesis
  proof (cases "now < o_clock (w_env w) (w_step w) + idempotency_ttl")
    case True
    then have "live u (idempotency_key m k) (o_clock (w_env u) (w_step u)) = Some (JObj [(''pi_id'', JStr i)])"
      using live assms(3) by simp
    then show ?thesis
      using True wp_run [OF idempotency.look_hit assms(4) [unfolded Idempotency_Check_def]]
      by (simp add: idempotency_ttl_def)
  next
    case False
    then have "live u (idempotency_key m k) (o_clock (w_env u) (w_step u)) = None"
      using live assms(3) by simp
    then show ?thesis
      using False wp_run [OF idempotency.look_miss assms(4) [unfolded Idempotency_Check_def]]
      by (simp add: idempotency_ttl_def)
  qed
qed

theorem idempotency_remembers_witness:
  "fst (run_state (Idempotency_Check ''m'' ''k'') (snd (run_state (Idempotency_Store ''m'' ''k'' ''pi-1'') calm_world))) = Inr ''pi-1''"
proof -
  let ?v = "snd (run_state (Idempotency_Store ''m'' ''k'' ''pi-1'') calm_world)"
  let ?c = "run_state (Idempotency_Check ''m'' ''k'') ?v"
  have ok: "fst (run_state (Idempotency_Store ''m'' ''k'' ''pi-1'') calm_world) = Inr ()"
    "\<exists>r. fst ?c = Inr r" "o_clock (w_env ?v) (w_step ?v) < o_clock (w_env calm_world) (w_step calm_world) + 24 * Hour"
    by (simp_all add: Idempotency_Store_def Idempotency_Check_def redis_Set_def redis_Get_def Let_def calm_world_def
        start_world_def calm_env_def call_def ok_def duration_defs idempotency_ttl_def)
  then obtain r where r: "run_state (Idempotency_Check ''m'' ''k'') ?v = (Inr r, snd ?c)"
    by (metis prod.collapse)
  have "run_state (Idempotency_Store ''m'' ''k'' ''pi-1'') calm_world = (Inr (), ?v)"
    using ok(1) by (simp add: prod_eq_iff)
  from idempotency_remembers [OF this refl refl r] ok(3) have "r = ''pi-1''" by simp
  then show ?thesis using r by (metis fst_conv)
qed

end
