(* ===== verification/Text.thy ===== *)
theory Text
  imports Prelude
begin

section \<open>Strings: standard library functions and \<open>pkg/phoneutil\<close>\<close>

text \<open>
  The parts of \<open>encoding/base64\<close>, \<open>strconv\<close> and \<open>strings\<close> the program uses, on
  byte strings; \<open>splitCSV\<close> of the M-Pesa configuration; phone normalisation and masking; and
  the repository package's own \<open>itoa\<close>.
\<close>

subsection \<open>base64 (\<open>StdEncoding.EncodeToString\<close>)\<close>

definition b64_char :: "nat \<Rightarrow> char" where
  "b64_char n =
     (if n < 26 then char_of (65 + n) else if n < 52 then char_of (71 + n)
      else if n < 62 then char_of (n - 4) else if n = 62 then CHR ''+'' else CHR ''/'')"

fun base64_nats :: "nat list \<Rightarrow> string" where
  "base64_nats [] = []"
| "base64_nats [a] = [b64_char (a div 4), b64_char (a mod 4 * 16), CHR ''='', CHR ''='']"
| "base64_nats [a, b] =
     [b64_char (a div 4), b64_char (a mod 4 * 16 + b div 16), b64_char (b mod 16 * 4), CHR ''='']"
| "base64_nats (a # b # c # r) =
     b64_char (a div 4) # b64_char (a mod 4 * 16 + b div 16) # b64_char (b mod 16 * 4 + c div 64) #
     b64_char (c mod 64) # base64_nats r"

definition base64_encode :: "string \<Rightarrow> string" where
  "base64_encode s = base64_nats (map of_char s)"

subsection \<open>\<open>strconv\<close>\<close>

definition is_digit :: "char \<Rightarrow> bool" where
  "is_digit c \<longleftrightarrow> 48 \<le> (of_char c :: nat) \<and> (of_char c :: nat) \<le> 57"

text \<open>\<open>None\<close> for a syntax error, otherwise the value of the literal in base 10.\<close>

definition int_literal :: "string \<Rightarrow> int option" where
  "int_literal s =
     (let neg = (s \<noteq> [] \<and> hd s = CHR ''-'');
          ds = (if s \<noteq> [] \<and> hd s \<in> {CHR ''-'', CHR ''+''} then tl s else s)
      in if ds \<noteq> [] \<and> list_all is_digit ds
         then Some (if neg then - int (read_digits ds) else int (read_digits ds)) else None)"

text \<open>\<open>n, _ := ParseInt(s, 10, 64)\<close>: 0 on a syntax error, the nearest bound out of range.\<close>

definition ParseInt_value :: "string \<Rightarrow> int64" where
  "ParseInt_value s =
     (case int_literal s of None \<Rightarrow> 0 | Some i \<Rightarrow> max (- (2 ^ 63)) (min (2 ^ 63 - 1) i))"

definition Atoi :: "string \<Rightarrow> int64 option" where
  "Atoi s = (case int_literal s of None \<Rightarrow> None | Some i \<Rightarrow> if is_int64 i then Some i else None)"

subsection \<open>\<open>splitCSV\<close> and \<open>truncate\<close>\<close>

definition is_space :: "char \<Rightarrow> bool" where
  "is_space c \<longleftrightarrow> (of_char c :: nat) \<in> {9, 10, 11, 12, 13, 32}"

definition TrimSpace :: "string \<Rightarrow> string" where
  "TrimSpace s = rev (dropWhile is_space (rev (dropWhile is_space s)))"

fun split_on :: "char \<Rightarrow> string \<Rightarrow> string list" where
  "split_on sep [] = [[]]"
| "split_on sep (c # s) =
     (if c = sep then [] # split_on sep s
      else (case split_on sep s of [] \<Rightarrow> [[c]] | p # ps \<Rightarrow> (c # p) # ps))"

definition splitCSV :: "string \<Rightarrow> string list" where
  "splitCSV s = (if s = [] then [] else filter (\<lambda>p. p \<noteq> []) (map TrimSpace (split_on CHR '','' s)))"

definition truncate_str :: "string \<Rightarrow> nat \<Rightarrow> string" where
  "truncate_str s n = (if length s \<le> n then s else take n s)"

lemma splitCSV_no_empty: "[] \<notin> set (splitCSV s)"
  by (simp add: splitCSV_def)

subsection \<open>Phone numbers (\<open>normalize.go\<close>)\<close>

definition has_prefix :: "string \<Rightarrow> string \<Rightarrow> bool" where
  "has_prefix s p \<longleftrightarrow> take (length p) s = p"

definition Normalize :: "string \<Rightarrow> error + string" where
  "Normalize phone =
     (let cleaned = filter is_digit phone in
      if has_prefix cleaned ''254'' \<and> length cleaned = 12 then Inr cleaned
      else if has_prefix cleaned ''0'' \<and> length cleaned = 10 then Inr (''254'' @ drop 1 cleaned)
      else if has_prefix cleaned ''7'' \<and> length cleaned = 9 then Inr (''254'' @ cleaned)
      else if has_prefix cleaned ''1'' \<and> length cleaned = 9 then Inr (''254'' @ cleaned)
      else if has_prefix cleaned ''+'' then Inr (drop 1 cleaned)
      else Inl (ErrMsg (''invalid phone number: '' @ phone)))"

text \<open>\<open>ReplaceAllString\<close> with \<open>(\d{5})(\d{4})(\d{2})\<close>, leftmost matches first.\<close>

function mask_all :: "string \<Rightarrow> string" where
  "mask_all s =
     (if s = [] then []
      else if 11 \<le> length s \<and> list_all is_digit (take 11 s)
      then take 5 s @ ''****'' @ take 2 (drop 9 s) @ mask_all (drop 11 s)
      else hd s # mask_all (tl s))"
  by pat_completeness auto
termination by (relation "measure length") auto

declare mask_all.simps [simp del]

definition Mask :: "string \<Rightarrow> string" where
  "Mask phone = (case Normalize phone of Inl _ \<Rightarrow> ''****'' | Inr n \<Rightarrow> mask_all n)"

lemma has_prefix_Cons [simp]:
  "has_prefix s []" "\<not> has_prefix [] (c # p)" "has_prefix (d # s) (c # p) \<longleftrightarrow> d = c \<and> has_prefix s p"
  by (auto simp: has_prefix_def)

lemma no_plus_digit: "list_all is_digit s \<Longrightarrow> \<not> has_prefix s ''+''"
  by (cases s) (auto simp: is_digit_def)

lemma Normalize_shape:
  assumes "Normalize phone = Inr n"
  shows "length n = 12 \<and> list_all is_digit n \<and> has_prefix n ''254''"
proof -
  define c where "c = filter is_digit phone"
  have dig: "list_all is_digit c" by (simp add: c_def list_all_iff)
  have d254: "is_digit CHR ''2'' \<and> is_digit CHR ''5'' \<and> is_digit CHR ''4''" by (simp add: is_digit_def)
  have "list_all is_digit (drop 1 c)" using dig by (cases c) simp_all
  with assms dig d254 no_plus_digit [OF dig] show ?thesis
    unfolding Normalize_def Let_def c_def [symmetric]
    by (auto split: if_splits)
qed

lemma filter_digits: "list_all is_digit s \<Longrightarrow> filter is_digit s = s"
  by (induction s) auto

text \<open>A normalised phone number is always twelve digits that start with 254, and normalising
  it again changes nothing; in particular the branch for a leading plus never returns, because
  the plus was removed first.\<close>

theorem Normalize_canonical:
  assumes "Normalize phone = Inr n"
  shows "length n = 12 \<and> list_all is_digit n \<and> has_prefix n ''254'' \<and> Normalize n = Inr n"
  using Normalize_shape [OF assms] by (simp add: Normalize_def filter_digits)

theorem Normalize_canonical_witness:
  "Normalize ''+254 712-345-678'' = Inr ''254712345678'' \<and> Normalize ''254712345678'' = Inr ''254712345678''"
proof -
  have "Normalize ''+254 712-345-678'' = Inr ''254712345678''" by code_simp
  then show ?thesis using Normalize_canonical [of "''+254 712-345-678''" "''254712345678''"] by simp
qed

lemma mask_all_12: 
  assumes "length n = 12" "list_all is_digit n"
  shows "mask_all n = take 5 n @ ''****'' @ drop 9 n"
proof -
  have "length (drop 11 n) = 1" using assms by simp
  then obtain c where c: "drop 11 n = [c]" by (metis length_0_conv length_Suc_conv One_nat_def)
  have one: "mask_all [c] = [c]" by (simp add: mask_all.simps)
  have "n \<noteq> []" "list_all is_digit (take 11 n)" using assms by (auto simp: list_all_iff dest: in_set_takeD)
  moreover have "take 2 (drop 9 n) @ [c] = drop 9 n"
    using append_take_drop_id [of 2 "drop 9 n"] c by simp
  ultimately show ?thesis using assms one c by (subst mask_all.simps) simp
qed

text \<open>Masking hides the sixth to ninth digit: two valid numbers that differ only there have the
  same mask, whatever notation they came in.\<close>

theorem Mask_hides:
  assumes "Normalize p = Inr m" "Normalize q = Inr n" "take 5 m = take 5 n" "drop 9 m = drop 9 n"
  shows "Mask p = Mask q"
  using assms Normalize_shape [OF assms(1)] Normalize_shape [OF assms(2)] by (simp add: Mask_def mask_all_12)

theorem Mask_hides_witness: "Mask ''0712345678'' = Mask ''+254719999678''"
  by (rule Mask_hides [of "''0712345678''" "''254712345678''" "''+254719999678''" "''254719999678''"])
    (code_simp+)

subsection \<open>The repository's \<open>itoa\<close>\<close>

text \<open>Twelve bytes are enough for the argument indexes it prints; a negative number prints as the
  empty string.\<close>

function itoa_digits :: "int \<Rightarrow> string" where
  "itoa_digits i = (if 0 < i then itoa_digits (i div 10) @ [digit_char (nat (i mod 10))] else [])"
  by pat_completeness auto
termination by (relation "measure nat") auto

declare itoa_digits.simps [simp del]

definition itoa :: "int \<Rightarrow> string" where
  "itoa i = (if i = 0 then ''0'' else itoa_digits i)"

end
