(* ===== verification/Mpesa.thy ===== *)
theory Mpesa
  imports World Text
begin

section \<open>M-Pesa connector (\<open>internal/connector/mpesa\<close>)\<close>

text \<open>
  \<open>TokenManager\<close> with its cached token (\<open>w_mpesa_token\<close>), the STK push, the status
  query, the B2C refund, and the callback parser. A request's body is the document
  \<open>json.Marshal\<close> prints (the keys of a map sorted, those of a struct in order). Error messages
  leave out the reply text they quote. Replies are those of the environment.
\<close>

record mpesa_config =
  mc_ConsumerKey :: string
  mc_ConsumerSecret :: string
  mc_ShortCode :: string
  mc_PassKey :: string
  mc_CallbackBase :: string
  mc_Sandbox :: bool
  mc_B2CInitiatorName :: string
  mc_B2CSecurityCred :: string
  mc_AllowedIPs :: "string list"

text \<open>The environment variables, in the order of \<open>ConfigFromEnv\<close>.\<close>

definition mpesa_ConfigFromEnv :: "(string \<Rightarrow> string) \<Rightarrow> mpesa_config" where
  "mpesa_ConfigFromEnv getenv =
     \<lparr>mc_ConsumerKey = getenv ''MPESA_CONSUMER_KEY'', mc_ConsumerSecret = getenv ''MPESA_CONSUMER_SECRET'',
      mc_ShortCode = getenv ''MPESA_SHORTCODE'', mc_PassKey = getenv ''MPESA_PASSKEY'',
      mc_CallbackBase = getenv ''MPESA_CALLBACK_BASE_URL'', mc_Sandbox = (getenv ''APP_ENV'' \<noteq> ''production''),
      mc_B2CInitiatorName = getenv ''MPESA_B2C_INITIATOR_NAME'',
      mc_B2CSecurityCred = getenv ''MPESA_B2C_SECURITY_CREDENTIAL'',
      mc_AllowedIPs = splitCSV (getenv ''MPESA_ALLOWED_IPS'')\<rparr>"

definition mpesa_Capabilities :: capabilities where
  "mpesa_Capabilities =
     \<lparr>cap_SupportsCollection = True, cap_SupportsPayout = True, cap_SupportsRefund = True,
      cap_SupportedCurrencies = [''KES''], cap_SupportedCountries = [''KE''],
      cap_ConfirmationStyle = ''webhook_only''\<rparr>"

definition mpesa_baseURL :: "mpesa_config \<Rightarrow> string" where
  "mpesa_baseURL c = (if mc_Sandbox c then ''https://sandbox.safaricom.co.ke'' else ''https://api.safaricom.co.ke'')"

subsection \<open>HTTP calls\<close>

definition bearer :: "string \<Rightarrow> (string \<times> string) list" where
  "bearer token = [(''Authorization'', ''Bearer '' @ token), (''Content-Type'', ''application/json'')]"

subsection \<open>Access tokens (\<open>auth.go\<close>)\<close>

definition fetchToken :: "mpesa_config \<Rightarrow> (string \<times> int64) goE" where
  "fetchToken c =
     try_call (http_NewRequest ''GET'' (mpesa_baseURL c @ ''/oauth/v1/generate?grant_type=client_credentials'')
         [(''Authorization'', ''Basic '' @ base64_encode (mc_ConsumerKey c @ '':'' @ mc_ConsumerSecret c))] NilBytes)
       (\<lambda>req. do {
         rep \<leftarrow> http_Do req;
         (case rep of
            HttpFail \<Rightarrow> fail ErrHTTP
          | HttpResp status body len \<Rightarrow>
              (if status \<noteq> 200 then fail (ErrMsg (''mpesa auth failed: status='' @ show_int status))
               else (case (do {
                        fs \<leftarrow> unmarshal_fields body;
                        tok \<leftarrow> dec_string ''access_token'' fs;
                        exp \<leftarrow> dec_string ''expires_in'' fs;
                        Some (tok, exp) }) of
                       None \<Rightarrow> fail (ErrWrap ''parse auth response'' ErrJSON)
                     | Some (tok, exp) \<Rightarrow> ok (tok, (case Atoi exp of None \<Rightarrow> 3599 | Some n \<Rightarrow> n))))) })"

definition Token :: "mpesa_config \<Rightarrow> string goE" where
  "Token c = do {
     now \<leftarrow> time_Now;
     cached \<leftarrow> gets w_mpesa_token;
     (if now < snd cached - 60 * Second then ok (fst cached)
      else call ''fetch mpesa token'' (fetchToken c) (\<lambda>(tok, expiresIn). do {
        now2 \<leftarrow> time_Now;
        modify (\<lambda>w. w\<lparr>w_mpesa_token := (tok, now2 + wrap64 (expiresIn * Second))\<rparr>);
        ok tok })) }"

definition stkPassword :: "mpesa_config \<Rightarrow> string \<Rightarrow> string" where
  "stkPassword c timestamp = base64_encode (mc_ShortCode c @ mc_PassKey c @ timestamp)"

subsection \<open>Collections\<close>

definition stk_body :: "mpesa_config \<Rightarrow> collection_request \<Rightarrow> string \<Rightarrow> string \<Rightarrow> bytes" where
  "stk_body c req password timestamp =
     Doc (JObj [(''BusinessShortCode'', JStr (mc_ShortCode c)), (''Password'', JStr password),
       (''Timestamp'', JStr timestamp), (''TransactionType'', JStr ''CustomerPayBillOnline''),
       (''Amount'', JInt (cq_Amount req)), (''PartyA'', JStr (cq_CustomerPhone req)),
       (''PartyB'', JStr (mc_ShortCode c)), (''PhoneNumber'', JStr (cq_CustomerPhone req)),
       (''CallBackURL'', JStr (if cq_CallbackURL req \<noteq> [] then cq_CallbackURL req
                              else mc_CallbackBase c @ ''/v1/webhooks/mpesa'')),
       (''AccountReference'', JStr (truncate_str (cq_PaymentIntentID req) 12)),
       (''TransactionDesc'', JStr ''Payment'')])"

definition decode_stk :: "bytes \<Rightarrow> (string \<times> string \<times> string) option" where
  "decode_stk b = do {
     fs \<leftarrow> unmarshal_fields b;
     mreq \<leftarrow> dec_string ''MerchantRequestID'' fs;
     creq \<leftarrow> dec_string ''CheckoutRequestID'' fs;
     code \<leftarrow> dec_string ''ResponseCode'' fs;
     desc \<leftarrow> dec_string ''ResponseDescription'' fs;
     msg \<leftarrow> dec_string ''CustomerMessage'' fs;
     Some (creq, code, desc) }"

definition mpesa_InitiateCollection :: "mpesa_config \<Rightarrow> collection_request \<Rightarrow> collection_result goE" where
  "mpesa_InitiateCollection c req =
     call ''auth'' (Token c) (\<lambda>token. do {
       now \<leftarrow> time_Now;
       timestamp \<leftarrow> fmt_time ''20060102150405'' now;
       let data = stk_body c req (stkPassword c timestamp) timestamp;
       let sanitized = stk_body c req ''****'' timestamp;
       try_call (http_send ''stk push request'' ''POST'' (mpesa_baseURL c @ ''/mpesa/stkpush/v1/processrequest'')
           (bearer token) data)
         (\<lambda>(status, reply).
           if status \<noteq> 200 then fail (ErrMsg (''stk push failed: status='' @ show_int status))
           else (case decode_stk reply of
             None \<Rightarrow> fail (ErrWrap ''parse stk response'' ErrJSON)
           | Some (creq, code, desc) \<Rightarrow>
               if code \<noteq> ''0'' then fail (ErrMsg (''stk push rejected: code='' @ code @ '' desc='' @ desc))
               else ok \<lparr>cr_PSPReference = creq, cr_Status = ''requires_action'', cr_NextAction = None,
                        cr_RawRequest = sanitized, cr_RawResponse = reply\<rparr>)) })"

subsection \<open>Values of a callback\<close>

text \<open>\<open>Item\<close>: a list of objects with a name and any value.\<close>

fun dec_items :: "json list \<Rightarrow> (string \<times> json option) list option" where
  "dec_items [] = Some []"
| "dec_items (j # js) = do {
     fs \<leftarrow> as_fields j;
     n \<leftarrow> dec_string ''Name'' fs;
     rest \<leftarrow> dec_items js;
     Some ((n, dec_any ''Value'' fs) # rest) }"

definition dec_metadata :: "fields \<Rightarrow> (string \<times> json option) list option" where
  "dec_metadata fs =
     (case dec_ptr ''CallbackMetadata'' fs of
        None \<Rightarrow> None
      | Some None \<Rightarrow> Some []
      | Some (Some md) \<Rightarrow> Option.bind (dec_list ''Item'' md) dec_items)"

definition valueToString :: "(json \<Rightarrow> string) \<Rightarrow> json option \<Rightarrow> string" where
  "valueToString fmt v =
     (case v of
        None \<Rightarrow> []
      | Some JNull \<Rightarrow> []
      | Some (JStr s) \<Rightarrow> s
      | Some (JInt i) \<Rightarrow> (if \<bar>i\<bar> < 2 ^ 53 then show_int i else fmt (JInt i))
      | Some j \<Rightarrow> fmt j)"

definition valueToInt64 :: "json option \<Rightarrow> int64" where
  "valueToInt64 v =
     (case v of
        Some (JInt i) \<Rightarrow> int64_of_float (float_of_int i)
      | Some (JFloat m e) \<Rightarrow> int64_of_float (trunc_float m e)
      | Some (JStr s) \<Rightarrow> ParseInt_value s
      | _ \<Rightarrow> 0)"

text \<open>The loop over the items; a later item of the same name wins.\<close>

fun scan_items :: "(json \<Rightarrow> string) \<Rightarrow> string \<times> int64 \<Rightarrow> (string \<times> json option) list \<Rightarrow> string \<times> int64" where
  "scan_items fmt acc [] = acc"
| "scan_items fmt (txn, amt) ((n, v) # items) =
     (if n = ''MpesaReceiptNumber'' then scan_items fmt (valueToString fmt v, amt) items
      else if n = ''Amount'' then scan_items fmt (txn, valueToInt64 v) items
      else scan_items fmt (txn, amt) items)"

subsection \<open>Status query\<close>

definition decode_query :: "bytes \<Rightarrow> (string \<times> (string \<times> json option) list) option" where
  "decode_query b = do {
     fs \<leftarrow> unmarshal_fields b;
     rc \<leftarrow> dec_string ''ResponseCode'' fs;
     code \<leftarrow> dec_string ''ResultCode'' fs;
     desc \<leftarrow> dec_string ''ResultDesc'' fs;
     items \<leftarrow> dec_metadata fs;
     Some (code, items) }"

definition query_status :: "string \<Rightarrow> string" where
  "query_status code =
     (if code = ''0'' then ''succeeded'' else if code = ''1032'' then ''failed''
      else if code = ''1037'' then ''failed'' else if code = ''2001'' then ''failed'' else ''failed'')"

definition mpesa_GetStatus :: "mpesa_config \<Rightarrow> string \<Rightarrow> status_result goE" where
  "mpesa_GetStatus c pspReference =
     call ''auth'' (Token c) (\<lambda>token. do {
       now \<leftarrow> time_Now;
       timestamp \<leftarrow> fmt_time ''20060102150405'' now;
       let data = Doc (JObj [(''BusinessShortCode'', JStr (mc_ShortCode c)),
             (''CheckoutRequestID'', JStr pspReference),
             (''Password'', JStr (stkPassword c timestamp)), (''Timestamp'', JStr timestamp)]);
       try_call (http_send ''query request'' ''POST'' (mpesa_baseURL c @ ''/mpesa/stkpushquery/v1/query'')
           (bearer token) data)
         (\<lambda>(status, reply).
           (case decode_query reply of
              None \<Rightarrow> fail (ErrWrap ''parse query response'' ErrJSON)
            | Some (code, items) \<Rightarrow>
                ok \<lparr>sr_Supported = True, sr_Status = query_status code,
                    sr_Amount = snd (scan_items (\<lambda>_. []) ([], 0) items), sr_Currency = []\<rparr>)) })"

subsection \<open>Refunds and payouts\<close>

definition decode_b2c :: "bytes \<Rightarrow> (string \<times> string) option" where
  "decode_b2c b = do {
     fs \<leftarrow> unmarshal_fields b;
     conv \<leftarrow> dec_string ''ConversationID'' fs;
     orig \<leftarrow> dec_string ''OriginatorConversationID'' fs;
     code \<leftarrow> dec_string ''ResponseCode'' fs;
     Some (orig, code) }"

definition mpesa_Refund :: "mpesa_config \<Rightarrow> refund_request \<Rightarrow> refund_result goE" where
  "mpesa_Refund c req =
     call ''auth'' (Token c) (\<lambda>token.
       let data = Doc (JObj [(''Amount'', JInt (rq_Amount req)), (''CommandID'', JStr ''BusinessPayment''),
             (''InitiatorName'', JStr (mc_B2CInitiatorName c)),
             (''Occasion'', JStr (truncate_str (rq_PaymentIntentID req) 12)),
             (''PartyA'', JStr (mc_ShortCode c)), (''PartyB'', JStr (rq_PSPReference req)),
             (''Remarks'', JStr ''Refund''), (''SecurityCredential'', JStr (mc_B2CSecurityCred c))])
       in try_call (http_send ''b2c request'' ''POST'' (mpesa_baseURL c @ ''/mpesa/b2c/v3/paymentrequest'')
           (bearer token) data)
         (\<lambda>(status, reply).
           if status \<noteq> 200 then fail (ErrMsg (''b2c failed: status='' @ show_int status))
           else (case decode_b2c reply of
             None \<Rightarrow> fail (ErrWrap ''parse b2c response'' ErrJSON)
           | Some (orig, code) \<Rightarrow>
               if code \<noteq> ''0'' then fail (ErrMsg (''b2c rejected: code='' @ code))
               else ok \<lparr>rs_PSPReference = orig, rs_Status = ''pending''\<rparr>)))"

definition mpesa_InitiatePayout :: "mpesa_config \<Rightarrow> payout_request \<Rightarrow> payout_result goE" where
  "mpesa_InitiatePayout c req = fail (ErrMsg ''mpesa: payout not supported via collection connector'')"

subsection \<open>Callbacks\<close>

definition decode_callback :: "bytes \<Rightarrow> (string \<times> string \<times> int64 \<times> (string \<times> json option) list) option" where
  "decode_callback b = do {
     top \<leftarrow> unmarshal_fields b;
     body \<leftarrow> dec_struct ''Body'' top;
     sc \<leftarrow> dec_struct ''stkCallback'' body;
     mreq \<leftarrow> dec_string ''MerchantRequestID'' sc;
     creq \<leftarrow> dec_string ''CheckoutRequestID'' sc;
     code \<leftarrow> dec_int ''ResultCode'' sc;
     desc \<leftarrow> dec_string ''ResultDesc'' sc;
     items \<leftarrow> dec_metadata sc;
     Some (mreq, creq, code, items) }"

definition callback_status :: "int64 \<Rightarrow> string" where
  "callback_status code =
     (if code = 0 then ''succeeded'' else if code = 1032 then ''failed''
      else if code = 1037 then ''failed'' else if code = 2001 then ''failed'' else ''failed'')"

definition mpesa_ParseWebhook :: "(json \<Rightarrow> string) \<Rightarrow> bytes \<Rightarrow> error + webhook_event" where
  "mpesa_ParseWebhook fmt body =
     (case decode_callback body of
        None \<Rightarrow> Inl (ErrWrap ''parse mpesa callback'' ErrJSON)
      | Some (mreq, creq, code, items) \<Rightarrow>
          (let (txn, amt) = scan_items fmt ([], 0) items
           in Inr \<lparr>ev_PSP = ''mpesa'', ev_EventType = ''stk_callback'', ev_PSPReference = creq,
                ev_PSPTransactionID = txn, ev_DedupKey = mreq @ '':'' @ creq, ev_Status = callback_status code,
                ev_Amount = amt, ev_Currency = ''KES'', ev_RawPayload = body\<rparr>))"

end
