(* ===== verification/Paystack.thy ===== *)
theory Paystack
  imports World Text
begin

section \<open>Paystack connector (\<open>internal/connector/paystack\<close>)\<close>

text \<open>
  Amounts are converted between the program's unit and Paystack's: a currency outside the four
  without subunits is sent times 100 and read back divided by 100, in wrapping \<open>int64\<close>
  arithmetic.
\<close>

record paystack_config =
  pc_SecretKey :: string
  pc_PublicKey :: string
  pc_WebhookKey :: string
  pc_Sandbox :: bool

definition paystack_ConfigFromEnv :: "(string \<Rightarrow> string) \<Rightarrow> paystack_config" where
  "paystack_ConfigFromEnv getenv =
     \<lparr>pc_SecretKey = getenv ''PAYSTACK_SECRET_KEY'', pc_PublicKey = getenv ''PAYSTACK_PUBLIC_KEY'',
      pc_WebhookKey = getenv ''PAYSTACK_WEBHOOK_KEY'', pc_Sandbox = (getenv ''APP_ENV'' \<noteq> ''production'')\<rparr>"

definition paystack_Capabilities :: capabilities where
  "paystack_Capabilities =
     \<lparr>cap_SupportsCollection = True, cap_SupportsPayout = True, cap_SupportsRefund = True,
      cap_SupportedCurrencies = [''NGN'', ''GHS'', ''ZAR'', ''USD''],
      cap_SupportedCountries = [''NG'', ''GH'', ''ZA''], cap_ConfirmationStyle = ''webhook_poll''\<rparr>"

definition paystack_baseURL :: "paystack_config \<Rightarrow> string" where
  "paystack_baseURL c = (if pc_Sandbox c then ''https://api.paystack.co'' else ''https://api.paystack.co'')"

definition paystack_auth :: "paystack_config \<Rightarrow> (string \<times> string) list" where
  "paystack_auth c = [(''Authorization'', ''Bearer '' @ pc_SecretKey c), (''Content-Type'', ''application/json'')]"

subsection \<open>Amounts\<close>

definition centsCurrency :: "string \<Rightarrow> bool" where
  "centsCurrency cur = (if cur \<in> {''KES'', ''UGX'', ''TZS'', ''RWF''} then False else True)"

definition toPaystackAmount :: "int64 \<Rightarrow> string \<Rightarrow> int64" where
  "toPaystackAmount amt cur = (if centsCurrency cur then wrap64 (amt * 100) else amt)"

definition fromPaystackAmount :: "int64 \<Rightarrow> string \<Rightarrow> int64" where
  "fromPaystackAmount amt cur = (if centsCurrency cur then go_div amt 100 else amt)"

subsection \<open>Collections and status\<close>

definition decode_init :: "bytes \<Rightarrow> (bool \<times> string \<times> string \<times> string) option" where
  "decode_init b = do {
     fs \<leftarrow> unmarshal_fields b;
     status \<leftarrow> dec_bool ''status'' fs;
     msg \<leftarrow> dec_string ''message'' fs;
     data \<leftarrow> dec_struct ''data'' fs;
     url \<leftarrow> dec_string ''authorization_url'' data;
     code \<leftarrow> dec_string ''access_code'' data;
     ref \<leftarrow> dec_string ''reference'' data;
     Some (status, msg, url, ref) }"

definition paystack_InitiateCollection :: "paystack_config \<Rightarrow> collection_request \<Rightarrow> collection_result goE" where
  "paystack_InitiateCollection c req =
     (let data = Doc (JObj [(''amount'', JInt (toPaystackAmount (cq_Amount req) (cq_Currency req))),
            (''callback_url'', JStr (cq_CallbackURL req)), (''currency'', JStr (cq_Currency req)),
            (''email'', JStr (cq_CustomerEmail req)), (''reference'', JStr (cq_PaymentIntentID req))])
      in try_call (http_send ''paystack init'' ''POST'' (paystack_baseURL c @ ''/transaction/initialize'')
             (paystack_auth c) data)
           (\<lambda>(code, reply).
             (case decode_init reply of
                None \<Rightarrow> fail (ErrWrap ''parse paystack response'' ErrJSON)
              | Some (status, msg, url, ref) \<Rightarrow>
                  if \<not> status then fail (ErrMsg (''paystack init failed: '' @ msg))
                  else ok \<lparr>cr_PSPReference = ref, cr_Status = ''requires_action'',
                           cr_NextAction = Some \<lparr>na_Type = ''redirect'', na_URL = url\<rparr>,
                           cr_RawRequest = data, cr_RawResponse = reply\<rparr>)))"

definition decode_verify :: "bytes \<Rightarrow> (bool \<times> string \<times> int64 \<times> string) option" where
  "decode_verify b = do {
     fs \<leftarrow> unmarshal_fields b;
     status \<leftarrow> dec_bool ''status'' fs;
     msg \<leftarrow> dec_string ''message'' fs;
     data \<leftarrow> dec_struct ''data'' fs;
     st \<leftarrow> dec_string ''status'' data;
     amt \<leftarrow> dec_int ''amount'' data;
     cur \<leftarrow> dec_string ''currency'' data;
     gw \<leftarrow> dec_string ''gateway_response'' data;
     Some (status, st, amt, cur) }"

definition paystack_GetStatus :: "paystack_config \<Rightarrow> string \<Rightarrow> status_result goE" where
  "paystack_GetStatus c pspReference =
     try_call (http_send ''paystack verify'' ''GET'' (paystack_baseURL c @ ''/transaction/verify/'' @ pspReference)
         (paystack_auth c) NilBytes)
       (\<lambda>(code, reply).
         (case decode_verify reply of
            None \<Rightarrow> fail (ErrWrap ''parse paystack verify'' ErrJSON)
          | Some (status, st, amt, cur) \<Rightarrow>
              ok \<lparr>sr_Supported = True,
                  sr_Status = (if \<not> status \<or> st \<noteq> ''success'' then ''failed'' else ''succeeded''),
                  sr_Amount = (if centsCurrency cur then go_div amt 100 else amt), sr_Currency = cur\<rparr>))"

subsection \<open>Refunds and payouts\<close>

definition decode_refund :: "bytes \<Rightarrow> (bool \<times> string \<times> int64) option" where
  "decode_refund b = do {
     fs \<leftarrow> unmarshal_fields b;
     status \<leftarrow> dec_bool ''status'' fs;
     msg \<leftarrow> dec_string ''message'' fs;
     data \<leftarrow> dec_struct ''data'' fs;
     i \<leftarrow> dec_int ''id'' data;
     ref \<leftarrow> dec_string ''transaction_reference'' data;
     st \<leftarrow> dec_string ''status'' data;
     Some (status, msg, i) }"

definition paystack_Refund :: "paystack_config \<Rightarrow> refund_request \<Rightarrow> refund_result goE" where
  "paystack_Refund c req =
     (let data = Doc (JObj [(''amount'', JInt (toPaystackAmount (rq_Amount req) (rq_Currency req))),
            (''transaction'', JStr (rq_PSPReference req))])
      in try_call (http_send ''paystack refund'' ''POST'' (paystack_baseURL c @ ''/refund'') (paystack_auth c) data)
           (\<lambda>(code, reply).
             (case decode_refund reply of
                None \<Rightarrow> fail (ErrWrap ''parse paystack refund'' ErrJSON)
              | Some (status, msg, i) \<Rightarrow>
                  if \<not> status then fail (ErrMsg (''paystack refund failed: '' @ msg))
                  else ok \<lparr>rs_PSPReference = ''ref_'' @ show_int i, rs_Status = ''accepted''\<rparr>)))"

definition decode_transfer :: "bytes \<Rightarrow> (bool \<times> string \<times> string \<times> string) option" where
  "decode_transfer b = do {
     fs \<leftarrow> unmarshal_fields b;
     status \<leftarrow> dec_bool ''status'' fs;
     msg \<leftarrow> dec_string ''message'' fs;
     data \<leftarrow> dec_struct ''data'' fs;
     ref \<leftarrow> dec_string ''reference'' data;
     amt \<leftarrow> dec_int ''amount'' data;
     cur \<leftarrow> dec_string ''currency'' data;
     st \<leftarrow> dec_string ''status'' data;
     code \<leftarrow> dec_string ''transfer_code'' data;
     Some (status, msg, st, code) }"

definition paystack_InitiatePayout :: "paystack_config \<Rightarrow> payout_request \<Rightarrow> payout_result goE" where
  "paystack_InitiatePayout c req =
     (let data = Doc (JObj [(''amount'', JInt (toPaystackAmount (pq_Amount req) (pq_Currency req))),
            (''currency'', JStr (pq_Currency req)), (''reason'', JStr ''merchant payout''),
            (''recipient'', JStr (pq_BankAccountRef req)), (''source'', JStr ''balance'')])
      in try_call (http_send ''paystack transfer'' ''POST'' (paystack_baseURL c @ ''/transfer'') (paystack_auth c) data)
           (\<lambda>(code, reply).
             (case decode_transfer reply of
                None \<Rightarrow> fail (ErrWrap ''parse paystack transfer'' ErrJSON)
              | Some (status, msg, st, tcode) \<Rightarrow>
                  if \<not> status then fail (ErrMsg (''paystack transfer failed: '' @ msg))
                  else ok \<lparr>pr_PSPReference = tcode,
                           pr_Status = (if st = ''success'' then ''succeeded'' else ''accepted'')\<rparr>)))"

subsection \<open>Webhooks\<close>

text \<open>The data object of an event: the field that names the payment, amount, currency, id.
  \<open>with_status\<close> and \<open>with_ref\<close> say whether the struct also has those fields.\<close>

definition decode_event_data :: "string \<Rightarrow> bool \<Rightarrow> bool \<Rightarrow> json \<Rightarrow> (string \<times> int64 \<times> string \<times> int64) option" where
  "decode_event_data ref_field with_ref with_status j = do {
     fs \<leftarrow> as_fields j;
     ref \<leftarrow> dec_string ref_field fs;
     r2 \<leftarrow> (if with_ref then dec_string ''reference'' fs else Some []);
     amt \<leftarrow> dec_int ''amount'' fs;
     cur \<leftarrow> dec_string ''currency'' fs;
     st \<leftarrow> (if with_status then dec_string ''status'' fs else Some []);
     i \<leftarrow> dec_int ''id'' fs;
     Some (ref, amt, cur, i) }"

definition paystack_event :: "string \<Rightarrow> string \<Rightarrow> bytes \<Rightarrow> (string \<times> int64 \<times> string \<times> int64) option \<Rightarrow>
    error + webhook_event" where
  "paystack_event ty status body d =
     (case d of
        None \<Rightarrow> Inl (ErrWrap (''parse '' @ ty @ '' data'') ErrJSON)
      | Some (ref, amt, cur, i) \<Rightarrow>
          Inr \<lparr>ev_PSP = ''paystack'', ev_EventType = ty, ev_PSPReference = ref, ev_PSPTransactionID = [],
               ev_DedupKey = ty @ '':'' @ show_int i, ev_Status = status,
               ev_Amount = fromPaystackAmount amt cur, ev_Currency = cur, ev_RawPayload = body\<rparr>)"

definition paystack_ParseWebhook :: "bytes \<Rightarrow> error + webhook_event" where
  "paystack_ParseWebhook body =
     (case (do { fs \<leftarrow> unmarshal_fields body; ty \<leftarrow> dec_string ''event'' fs; Some (ty, dec_any ''data'' fs) }) of
        None \<Rightarrow> Inl (ErrWrap ''parse paystack webhook'' ErrJSON)
      | Some (ty, data) \<Rightarrow>
          if ty = ''charge.success'' then paystack_event ty ''succeeded'' body
            (Option.bind data (decode_event_data ''reference'' False True))
          else if ty = ''transfer.success'' then paystack_event ty ''succeeded'' body
            (Option.bind data (decode_event_data ''transfer_code'' True True))
          else if ty = ''transfer.failed'' then paystack_event ty ''failed'' body
            (Option.bind data (decode_event_data ''transfer_code'' True False))
          else if ty = ''refund.success'' then paystack_event ty ''succeeded'' body
            (Option.bind data (decode_event_data ''transaction_reference'' False True))
          else Inr \<lparr>ev_PSP = ''paystack'', ev_EventType = ty, ev_PSPReference = [], ev_PSPTransactionID = [],
                    ev_DedupKey = [], ev_Status = ''unknown'', ev_Amount = 0, ev_Currency = [], ev_RawPayload = body\<rparr>)"

subsection \<open>Amount conversion\<close>

lemma go_div_mult: "0 < b \<Longrightarrow> go_div (a * b) b = a"
  by (auto simp: go_div_def abs_mult sgn_mult mult_sgn_abs)

text \<open>An amount whose hundredfold fits into an int64 survives the trip to Paystack and back, in
  every currency.\<close>

theorem paystack_amount_roundtrip:
  assumes "is_int64 (amt * 100)"
  shows "fromPaystackAmount (toPaystackAmount amt cur) cur = amt"
  using assms go_div_mult [of 100 amt] by (simp add: fromPaystackAmount_def toPaystackAmount_def)

theorem paystack_amount_roundtrip_witness: "fromPaystackAmount (toPaystackAmount 12345 ''NGN'') ''NGN'' = 12345"
  using paystack_amount_roundtrip [of 12345 "''NGN''"] by (simp add: is_int64_def)

end
