(* ===== verification/Connectors.thy ===== *)
theory Connectors
  imports Mpesa Paystack
begin

section \<open>The connector interface and the registry (\<open>internal/connector\<close>)\<close>

text \<open>
  The two implementations of the interface as a datatype, its methods by case distinction, and
  the registry. A Go map has no order; the association list is in the order in which a given run
  iterates, and no theorem depends on which that is. The locale \<open>psp_connector\<close> is the contract the
  engine relies on: which statuses a connector answers, that it touches neither the database nor
  the bus, and that an event carries the connector's name and the bytes it was parsed from.
\<close>

datatype connector = MpesaConn mpesa_config | PaystackConn paystack_config

fun conn_Name :: "connector \<Rightarrow> string" where
  "conn_Name (MpesaConn c) = ''mpesa''"
| "conn_Name (PaystackConn c) = ''paystack''"

fun conn_Capabilities :: "connector \<Rightarrow> capabilities" where
  "conn_Capabilities (MpesaConn c) = mpesa_Capabilities"
| "conn_Capabilities (PaystackConn c) = paystack_Capabilities"

fun conn_InitiateCollection :: "connector \<Rightarrow> collection_request \<Rightarrow> collection_result goE" where
  "conn_InitiateCollection (MpesaConn c) = mpesa_InitiateCollection c"
| "conn_InitiateCollection (PaystackConn c) = paystack_InitiateCollection c"

fun conn_GetStatus :: "connector \<Rightarrow> string \<Rightarrow> status_result goE" where
  "conn_GetStatus (MpesaConn c) = mpesa_GetStatus c"
| "conn_GetStatus (PaystackConn c) = paystack_GetStatus c"

fun conn_Refund :: "connector \<Rightarrow> refund_request \<Rightarrow> refund_result goE" where
  "conn_Refund (MpesaConn c) = mpesa_Refund c"
| "conn_Refund (PaystackConn c) = paystack_Refund c"

fun conn_InitiatePayout :: "connector \<Rightarrow> payout_request \<Rightarrow> payout_result goE" where
  "conn_InitiatePayout (MpesaConn c) = mpesa_InitiatePayout c"
| "conn_InitiatePayout (PaystackConn c) = paystack_InitiatePayout c"

definition conn_ParseWebhook :: "connector \<Rightarrow> bytes \<Rightarrow> webhook_event goE" where
  "conn_ParseWebhook c body = do {
     fmt \<leftarrow> gets (\<lambda>w. o_fmt (w_env w));
     ret (case c of MpesaConn cfg \<Rightarrow> mpesa_ParseWebhook fmt body | PaystackConn cfg \<Rightarrow> paystack_ParseWebhook body) }"

subsection \<open>Registry (\<open>registry.go\<close>)\<close>

type_synonym registry = "(string \<times> connector) list"

definition NewRegistry :: registry where
  "NewRegistry = []"

definition Registry_Get :: "registry \<Rightarrow> string \<Rightarrow> connector option" where
  "Registry_Get r n = map_of r n"

definition Registry_All :: "registry \<Rightarrow> connector list" where
  "Registry_All r = map snd r"

definition Registry_Register :: "string \<Rightarrow> connector \<Rightarrow> registry \<Rightarrow> registry" where
  "Registry_Register n c r = (if n \<in> fst ` set r then map (\<lambda>(k, d). if k = n then (k, c) else (k, d)) r else r @ [(n, c)])"

definition Registry_Names :: "registry \<Rightarrow> string list" where
  "Registry_Names r = map fst r"

lemma map_of_replace: "map_of (map (\<lambda>(k, d). if k = n then (k, c) else (k, d)) r) m =
    (if m = n then (if n \<in> fst ` set r then Some c else None) else map_of r m)"
proof (induction r)
  case (Cons p r)
  then show ?case by (cases p; cases "m = n"; cases "fst p = n") (auto simp: image_iff)
qed simp

lemma Registry_Get_Register: "Registry_Get (Registry_Register n c r) m = (if m = n then Some c else Registry_Get r m)"
  by (auto simp: Registry_Get_def Registry_Register_def map_of_replace map_add_def split: option.split
      simp flip: map_of_eq_None_iff)

lemma Registry_distinct: "distinct (Registry_Names r) \<Longrightarrow> distinct (Registry_Names (Registry_Register n c r))"
  by (auto simp: Registry_Names_def Registry_Register_def comp_def case_prod_beta
      cong: if_cong map_cong split: if_splits simp: if_distrib [of fst])

subsection \<open>The contract\<close>

locale psp_connector =
  fixes nm :: string and collect :: "collection_request \<Rightarrow> collection_result goE"
    and status :: "string \<Rightarrow> status_result goE" and parse :: "bytes \<Rightarrow> webhook_event goE"
  assumes collect_status: "wp (collect req) (\<lambda>res v. \<forall>r. res = Inr r \<longrightarrow> cr_Status r = ''requires_action'') w"
    and status_answers: "wp (status ref) (\<lambda>res v. \<forall>r. res = Inr r \<longrightarrow> sr_Status r \<in> {''succeeded'', ''failed''}) w"
    and parse_event: "wp (parse body) (\<lambda>res v. \<forall>e. res = Inr e \<longrightarrow>
        ev_PSP e = nm \<and> ev_RawPayload e = body \<and> ev_Status e \<in> {''succeeded'', ''failed'', ''unknown''}) w"
    and parse_pure: "keeps (\<lambda>w. w) (parse body)"
    and collect_frame: "keeps (\<lambda>w. (w_db w, w_redis w, w_bus w, w_timers w)) (collect req)"
    and status_frame: "keeps (\<lambda>w. (w_db w, w_redis w, w_bus w, w_timers w)) (status ref)"
begin

text \<open>A collection is never \<open>processing\<close> right away, and a query never answers \<open>pending\<close>.\<close>

lemma collect_not_processing: "wp (collect req) (\<lambda>res v. \<forall>r. res = Inr r \<longrightarrow> cr_Status r \<noteq> ''processing'') w"
  by (rule wp_mono [OF collect_status]) auto

lemma collect_db: "wp (collect req) (\<lambda>res v. w_db v = w_db w \<and> (\<forall>r. res = Inr r \<longrightarrow> cr_Status r = ''requires_action'')) w"
proof (rule wp_runI)
  fix res v
  assume run: "run_state (collect req) w = (res, v)"
  show "w_db v = w_db w \<and> (\<forall>r. res = Inr r \<longrightarrow> cr_Status r = ''requires_action'')"
    using keeps_run [OF collect_frame run] wp_run [OF collect_status run] by simp
qed

lemma status_db: "wp (status ref) (\<lambda>res v. w_db v = w_db w \<and>
    (\<forall>r. res = Inr r \<longrightarrow> sr_Status r \<in> {''succeeded'', ''failed''})) w"
proof (rule wp_runI)
  fix res v
  assume run: "run_state (status ref) w = (res, v)"
  show "w_db v = w_db w \<and> (\<forall>r. res = Inr r \<longrightarrow> sr_Status r \<in> {''succeeded'', ''failed''})"
    using keeps_run [OF status_frame run] wp_run [OF status_answers run] by simp
qed

end

subsection \<open>Both connectors keep it\<close>

lemma wp_http_send:
  assumes "\<And>e v. Q (Inl e) v" "\<And>x v. Q (Inr x) v"
  shows "wp (http_send ctx m u h b) Q w"
  using assms by (auto simp: http_send_def wp_simps wp_ok wp_fail split: http_reply.split)

lemma keeps_fetchToken:
  "(\<And>w. f (next_step w) = f w) \<Longrightarrow> (\<And>w x. f (w\<lparr>w_http := x\<rparr>) = f w) \<Longrightarrow> keeps f (fetchToken c)"
  unfolding fetchToken_def
  by (intro keeps_try_call keeps_http_NewRequest keeps_bind keeps_http_Do)
    (auto intro!: keeps_fail keeps_ok split: http_reply.split option.split)

lemma keeps_Token [keeps_intros]:
  "(\<And>w. f (next_step w) = f w) \<Longrightarrow> (\<And>w x. f (w\<lparr>w_http := x\<rparr>) = f w) \<Longrightarrow>
   (\<And>w x. f (w\<lparr>w_mpesa_token := x\<rparr>) = f w) \<Longrightarrow> keeps f (Token c)"
  unfolding Token_def
  by (intro keeps_bind keeps_time_Now keeps_gets keeps_if keeps_ok keeps_call keeps_fetchToken)
    (auto intro!: keeps_bind keeps_time_Now keeps_modify keeps_ok)

lemma wp_Token: 
  assumes "\<And>res v. Q res v"
  shows "wp (Token c) Q w"
  using assms by (auto intro: wp_runI)

interpretation mpesa: psp_connector "''mpesa''" "mpesa_InitiateCollection c" "mpesa_GetStatus c" "conn_ParseWebhook (MpesaConn c)"
  for c
proof unfold_locales
  show "wp (mpesa_InitiateCollection c req) (\<lambda>res v. \<forall>r. res = Inr r \<longrightarrow> cr_Status r = ''requires_action'') w" for req w
    unfolding mpesa_InitiateCollection_def wp_call
    by (rule wp_Token) (auto simp: wp_simps Let_def split: sum.split option.split intro!: wp_http_send)
  show "wp (mpesa_GetStatus c ref) (\<lambda>res v. \<forall>r. res = Inr r \<longrightarrow> sr_Status r \<in> {''succeeded'', ''failed''}) w" for ref w
    unfolding mpesa_GetStatus_def wp_call
    by (rule wp_Token) (auto simp: wp_simps Let_def query_status_def split: sum.split option.split intro!: wp_http_send)
  show "wp (conn_ParseWebhook (MpesaConn c) body) (\<lambda>res v. \<forall>e. res = Inr e \<longrightarrow>
        ev_PSP e = ''mpesa'' \<and> ev_RawPayload e = body \<and> ev_Status e \<in> {''succeeded'', ''failed'', ''unknown''}) w" for body w
    by (auto simp: conn_ParseWebhook_def wp_simps mpesa_ParseWebhook_def callback_status_def
        split: option.splits prod.splits)
  show "keeps (\<lambda>w. w) (conn_ParseWebhook (MpesaConn c) body)" for body
    unfolding conn_ParseWebhook_def by (intro keeps_intros)
  show "keeps (\<lambda>w. (w_db w, w_redis w, w_bus w, w_timers w)) (mpesa_InitiateCollection c req)" for req
    unfolding mpesa_InitiateCollection_def Let_def
    by (intro keeps_call keeps_Token keeps_bind keeps_time_Now keeps_fmt_time keeps_try_call keeps_http_send)
      (auto intro!: keeps_fail keeps_ok split: option.split prod.split)
  show "keeps (\<lambda>w. (w_db w, w_redis w, w_bus w, w_timers w)) (mpesa_GetStatus c ref)" for ref
    unfolding mpesa_GetStatus_def Let_def
    by (intro keeps_call keeps_Token keeps_bind keeps_time_Now keeps_fmt_time keeps_try_call keeps_http_send)
      (auto intro!: keeps_fail keeps_ok split: option.split prod.split)
qed

interpretation paystack: psp_connector "''paystack''" "paystack_InitiateCollection c" "paystack_GetStatus c"
  "conn_ParseWebhook (PaystackConn c)" for c
proof unfold_locales
  show "wp (paystack_InitiateCollection c req) (\<lambda>res v. \<forall>r. res = Inr r \<longrightarrow> cr_Status r = ''requires_action'') w" for req w
    unfolding paystack_InitiateCollection_def wp_try_call Let_def
    by (rule wp_http_send) (auto simp: wp_simps split: option.split)
  show "wp (paystack_GetStatus c ref) (\<lambda>res v. \<forall>r. res = Inr r \<longrightarrow> sr_Status r \<in> {''succeeded'', ''failed''}) w" for ref w
    unfolding paystack_GetStatus_def wp_try_call
    by (rule wp_http_send) (auto simp: wp_simps split: option.split)
  show "wp (conn_ParseWebhook (PaystackConn c) body) (\<lambda>res v. \<forall>e. res = Inr e \<longrightarrow>
        ev_PSP e = ''paystack'' \<and> ev_RawPayload e = body \<and> ev_Status e \<in> {''succeeded'', ''failed'', ''unknown''}) w" for body w
    by (auto simp: conn_ParseWebhook_def wp_simps paystack_ParseWebhook_def paystack_event_def
        split: option.splits prod.splits if_splits)
  show "keeps (\<lambda>w. w) (conn_ParseWebhook (PaystackConn c) body)" for body
    unfolding conn_ParseWebhook_def by (intro keeps_intros)
  show "keeps (\<lambda>w. (w_db w, w_redis w, w_bus w, w_timers w)) (paystack_InitiateCollection c req)" for req
    unfolding paystack_InitiateCollection_def Let_def
    by (intro keeps_try_call keeps_http_send) (auto intro!: keeps_fail keeps_ok split: option.split prod.split)
  show "keeps (\<lambda>w. (w_db w, w_redis w, w_bus w, w_timers w)) (paystack_GetStatus c ref)" for ref
    unfolding paystack_GetStatus_def
    by (intro keeps_try_call keeps_http_send) (auto intro!: keeps_fail keeps_ok split: option.split prod.split)
qed

text \<open>The methods through the interface.\<close>

interpretation conn: psp_connector "conn_Name c" "conn_InitiateCollection c" "conn_GetStatus c" "conn_ParseWebhook c" for c
proof (cases c)
  case (MpesaConn cfg)
  show "psp_connector (conn_Name c) (conn_InitiateCollection c) (conn_GetStatus c) (conn_ParseWebhook c)"
    unfolding MpesaConn conn_Name.simps conn_InitiateCollection.simps conn_GetStatus.simps by (rule mpesa.psp_connector_axioms)
next
  case (PaystackConn cfg)
  show "psp_connector (conn_Name c) (conn_InitiateCollection c) (conn_GetStatus c) (conn_ParseWebhook c)"
    unfolding PaystackConn conn_Name.simps conn_InitiateCollection.simps conn_GetStatus.simps by (rule paystack.psp_connector_axioms)
qed

end
