(* ===== verification/Notification.thy ===== *)
theory Notification
  imports Repository
begin

section \<open>Merchant notifications (\<open>internal/notification/dispatcher.go\<close>)\<close>

text \<open>
  \<open>Publish\<close> puts an event on the bus; the consumer decodes it, stores a notification, and
  posts it to the webhook URL of the merchant's settlement configuration with up to three
  retries. The sleeps between the retries are not modelled. The trace context in the message
  header is left out.
\<close>

definition Notif_Publish :: "notification_event \<Rightarrow> unit goE" where
  "Notif_Publish evt =
     call ''publish notification''
       (nats_Publish (BusNotification (''zia.notification.'' @ ne_Status evt) evt)) (\<lambda>_. ok ())"

definition notificationFromEvent :: "notification_event \<Rightarrow> notification go" where
  "notificationFromEvent evt = do {
     let amount = ne_PSP evt @ '' payment of '' @ show_int (ne_Amount evt) @ '' '' @ ne_Currency evt;
     let (tone, title, body, category) =
       (if ne_Status evt = ''succeeded''
        then (''success'', ''Payment Successful'', amount @ '' was successful'', ''payment'')
        else if ne_Status evt = ''failed''
        then (''error'', ''Payment Failed'', amount @ '' failed'', ''payment'')
        else (''info'', ''Payment '' @ ne_Status evt, amount @ '' is '' @ ne_Status evt, ''payment''));
     i \<leftarrow> uuid_New;
     now \<leftarrow> time_Now;
     ret \<lparr>nt_ID = i, nt_MerchantID = ne_MerchantID evt, nt_Tone = tone, nt_Title = title, nt_Body = body,
          nt_Category = category, nt_Unread = True, nt_CreatedAt = now\<rparr> }"

definition webhookURLFromConfig :: "merchant \<Rightarrow> string" where
  "webhookURLFromConfig m =
     (if mch_SettlementConfig m = NilBytes then []
      else (case Option.bind (unmarshal_fields (mch_SettlementConfig m)) (dec_string ''webhook_url'') of
              None \<Rightarrow> [] | Some url \<Rightarrow> url))"

definition notif_headers :: "(string \<times> string) list" where
  "notif_headers = [(''Content-Type'', ''application/json''), (''User-Agent'', ''Zia-Webhook/1.0'')]"

definition notif_maxRetries :: nat where "notif_maxRetries = 3"

definition is_2xx :: "int \<Rightarrow> bool" where
  "is_2xx s \<longleftrightarrow> 200 \<le> s \<and> s < 300"

text \<open>The loop, by the number of retries left.\<close>

primrec send_attempt :: "nat \<Rightarrow> string \<Rightarrow> bytes \<Rightarrow> unit goE" where
  "send_attempt 0 url payload =
     call ''create request'' (http_NewRequest ''POST'' url notif_headers payload) (\<lambda>req. do {
       rep \<leftarrow> http_Do req;
       (case rep of
          HttpFail \<Rightarrow> fail (ErrWrap ''webhook send failed after retries'' ErrHTTP)
        | HttpResp status body len \<Rightarrow>
            (if is_2xx status then ok ()
             else fail (ErrMsg (''webhook non-2xx after retries: '' @ show_int status)))) })"
| "send_attempt (Suc n) url payload =
     call ''create request'' (http_NewRequest ''POST'' url notif_headers payload) (\<lambda>req. do {
       rep \<leftarrow> http_Do req;
       (case rep of
          HttpFail \<Rightarrow> send_attempt n url payload
        | HttpResp status body len \<Rightarrow>
            (if is_2xx status then ok () else send_attempt n url payload)) })"

definition sendWithRetry :: "string \<Rightarrow> bytes \<Rightarrow> unit goE" where
  "sendWithRetry url payload = send_attempt notif_maxRetries url payload"

definition notif_payload :: "notification_event \<Rightarrow> bytes" where
  "notif_payload evt = Doc (JObj [(''amount'', JInt (ne_Amount evt)), (''currency'', JStr (ne_Currency evt)),
     (''event'', JStr (ne_EventType evt)), (''pi_id'', JStr (ne_PIID evt)), (''psp'', JStr (ne_PSPReference evt)),
     (''status'', JStr (ne_Status evt)), (''timestamp'', JStr (ne_Timestamp evt))])"

definition processNotification :: "notification_event \<Rightarrow> unit goE" where
  "processNotification evt =
     call (''lookup merchant '' @ ne_MerchantID evt) (Merchant_GetByID (ne_MerchantID evt)) (\<lambda>merchant. do {
       n \<leftarrow> notificationFromEvent evt;
       saved \<leftarrow> Notification_Create n;
       let webhookURL = webhookURLFromConfig merchant;
       (if webhookURL = [] then ok () else sendWithRetry webhookURL (notif_payload evt)) })"

text \<open>One message of the consumer loop: acknowledged or not (\<open>Nak\<close>).\<close>

definition consume_notification :: "notification_event \<Rightarrow> bool go" where
  "consume_notification evt = do {
     r \<leftarrow> processNotification evt;
     ret (case r of Inl e \<Rightarrow> False | Inr _ \<Rightarrow> True) }"

subsection \<open>The retry loop\<close>

definition post_request :: "string \<Rightarrow> bytes \<Rightarrow> http_request" where
  "post_request url payload =
     \<lparr>hr_Method = ''POST'', hr_URL = url, hr_Header = notif_headers, hr_Body = payload\<rparr>"

definition accepted :: "http_reply \<Rightarrow> bool" where
  "accepted r = (case r of HttpFail \<Rightarrow> False | HttpResp status body len \<Rightarrow> is_2xx status)"

text \<open>The answer the environment gives to the k-th request from here.\<close>

definition answer :: "world \<Rightarrow> http_request \<Rightarrow> nat \<Rightarrow> http_reply" where
  "answer w req k = o_http (w_env w) (w_step w + k) req"

lemma send_attempt_spec:
  fixes url :: string and payload :: bytes
  defines "req \<equiv> post_request url payload"
  assumes "o_url_ok (w_env w) url"
  shows "wp (send_attempt n url payload) (\<lambda>res v. \<exists>k \<le> n. w_http v = w_http w @ replicate (Suc k) req \<and>
      (\<forall>j < k. \<not> accepted (answer w req j)) \<and>
      (res = Inr () \<longleftrightarrow> accepted (answer w req k)) \<and> (k < n \<longrightarrow> accepted (answer w req k))) w"
  using assms(2)
proof (induction n arbitrary: w)
  case 0
  then show ?case
    by (auto simp: wp_simps req_def post_request_def accepted_def answer_def split: http_reply.split)
next
  case (Suc n)
  let ?v = "next_step (w\<lparr>w_http := w_http w @ [req]\<rparr>)"
  have ans: "answer ?v req k = answer w req (Suc k)" for k by (simp add: answer_def)
  have again: "wp (send_attempt n url payload) (\<lambda>res v. \<exists>k \<le> Suc n. w_http v = w_http w @ replicate (Suc k) req \<and>
      (\<forall>j < k. \<not> accepted (answer w req j)) \<and> (res = Inr () \<longleftrightarrow> accepted (answer w req k)) \<and>
      (k < Suc n \<longrightarrow> accepted (answer w req k))) ?v" if "\<not> accepted (answer w req 0)"
  proof (rule wp_mono [OF Suc.IH [of ?v]])
    fix res and v :: world
    assume "\<exists>k \<le> n. w_http v = w_http ?v @ replicate (Suc k) req \<and> (\<forall>j < k. \<not> accepted (answer ?v req j)) \<and>
      (res = Inr () \<longleftrightarrow> accepted (answer ?v req k)) \<and> (k < n \<longrightarrow> accepted (answer ?v req k))"
    then obtain k where "k \<le> n" "w_http v = w_http ?v @ replicate (Suc k) req"
      "\<forall>j < k. \<not> accepted (answer ?v req j)" "res = Inr () \<longleftrightarrow> accepted (answer ?v req k)"
      "k < n \<longrightarrow> accepted (answer ?v req k)" by blast
    with that show "\<exists>k \<le> Suc n. w_http v = w_http w @ replicate (Suc k) req \<and>
      (\<forall>j < k. \<not> accepted (answer w req j)) \<and> (res = Inr () \<longleftrightarrow> accepted (answer w req k)) \<and>
      (k < Suc n \<longrightarrow> accepted (answer w req k))"
      by (intro exI [of _ "Suc k"]) (auto simp: ans less_Suc_eq_0_disj)
  qed (use Suc.prems in simp)
  have rep: "o_http (w_env w) (w_step w) req = answer w req 0" by (simp add: answer_def)
  show ?case
    unfolding send_attempt.simps wp_call wp_http_NewRequest wp_bind
    using Suc.prems again
    by (cases "answer w req 0")
      (auto simp: wp_simps post_request_def [symmetric] req_def [symmetric] rep accepted_def
        intro!: exI [of _ "0 :: nat"])
qed

text \<open>C40: A notification is posted at most four times: the loop stops at the first answer with a
  2xx status and returns without an error exactly when there is one among the first four.\<close>

theorem sendWithRetry_spec:
  assumes "o_url_ok (w_env w) url" "run_state (sendWithRetry url payload) w = (res, v)"
  shows "\<exists>k \<le> 3. w_http v = w_http w @ replicate (Suc k) (post_request url payload) \<and>
      (\<forall>j < k. \<not> accepted (answer w (post_request url payload) j)) \<and>
      (res = Inr () \<longleftrightarrow> accepted (answer w (post_request url payload) k)) \<and>
      (res \<noteq> Inr () \<longrightarrow> k = 3)"
proof -
  obtain k where k: "k \<le> notif_maxRetries" "w_http v = w_http w @ replicate (Suc k) (post_request url payload)"
    "\<forall>j < k. \<not> accepted (answer w (post_request url payload) j)"
    "res = Inr () \<longleftrightarrow> accepted (answer w (post_request url payload) k)"
    "k < notif_maxRetries \<longrightarrow> accepted (answer w (post_request url payload) k)"
    using wp_run [OF send_attempt_spec [OF assms(1)] assms(2) [unfolded sendWithRetry_def]] by blast
  then show ?thesis by (intro exI [of _ k]) (auto simp: notif_maxRetries_def)
qed

definition flaky_http :: "nat \<Rightarrow> http_request \<Rightarrow> http_reply" where
  "flaky_http k r = (if k < 2 then HttpResp 503 NilBytes 0 else HttpResp 200 NilBytes 0)"

theorem sendWithRetry_spec_witness:
  "\<exists>k \<le> 3. w_http (snd (run_state (sendWithRetry ''http://m'' NilBytes) (start_world (calm_env flaky_http []) empty_db))) =
     replicate (Suc k) (post_request ''http://m'' NilBytes)"
proof -
  let ?w = "start_world (calm_env flaky_http []) empty_db"
  have "o_url_ok (w_env ?w) ''http://m''" "w_http ?w = []" by (simp_all add: start_world_def calm_env_def)
  then show ?thesis
    using sendWithRetry_spec [of ?w "''http://m''" NilBytes "fst (run_state (sendWithRetry ''http://m'' NilBytes) ?w)"
        "snd (run_state (sendWithRetry ''http://m'' NilBytes) ?w)"]
    by auto
qed

subsection \<open>Frames\<close>

lemma keeps_Notif_Publish [keeps_intros]:
  "(\<And>w. f (next_step w) = f w) \<Longrightarrow> (\<And>w x. f (w\<lparr>w_bus := x\<rparr>) = f w) \<Longrightarrow> keeps f (Notif_Publish evt)"
  unfolding Notif_Publish_def by (intro keeps_intros) simp_all

end
