(* ===== verification/Orchestrator.thy ===== *)
theory Orchestrator
  imports Ledger Stores Connectors Notification
begin

section \<open>Payment orchestrator (\<open>internal/orchestrator\<close>)\<close>

text \<open>
  The payment intent's state machine, the creation of an intent (idempotency, risk, routing,
  connector, attempt), the handling of a PSP's webhook, and the query that runs 40 seconds after
  an M-Pesa collection. Logging, telemetry and the clock readings that only feed them are left
  out; the risk engine's two clock readings are always taken, which only renumbers the
  environment's readings.
\<close>

subsection \<open>State machine (\<open>state.go\<close>)\<close>

fun transitions :: "pi_status \<Rightarrow> pi_status list" where
  "transitions PICreated = [PIRequiresAction, PIProcessing, PIFailed, PIExpired]"
| "transitions PIRequiresAction = [PISucceeded, PIProcessing, PIFailed, PIExpired]"
| "transitions PIProcessing = [PISucceeded, PIFailed, PIRequiresAction]"
| "transitions PISucceeded = [PIPartiallyRefunded, PIRefunded]"
| "transitions _ = []"

definition IsValidTransition :: "pi_status \<Rightarrow> pi_status \<Rightarrow> bool" where
  "IsValidTransition frm to = list_ex (\<lambda>a. a = to) (transitions frm)"

subsection \<open>Engine\<close>

definition queryDelay :: int where "queryDelay = 40 * Second"

text \<open>The engine's dependencies: the registry, the fee configuration, and whether a notification
  dispatcher was given (\<open>notif != nil\<close>).\<close>

record orch =
  or_registry :: registry
  or_Percent :: int
  or_MinAmount :: int64
  or_notif :: bool

record create_pi_request =
  cp_MerchantID :: string
  cp_Amount :: int64
  cp_Currency :: string
  cp_Method :: string
  cp_CustomerRef :: string
  cp_CustomerPhone :: string
  cp_CustomerEmail :: string
  cp_IdempotencyKey :: string
  cp_Metadata :: bytes

record create_pi_result =
  res_PaymentIntent :: payment_intent
  res_NextAction :: "next_action option"

definition computeFee :: "orch \<Rightarrow> int64 \<Rightarrow> int64" where
  "computeFee e amt =
     (let fee = go_div (wrap64 (amt * or_Percent e)) 100
      in if fee < or_MinAmount e then or_MinAmount e else fee)"

text \<open>\<open>json.Marshal(req)\<close>: empty optional fields are omitted, a \<open>[]byte\<close> is base64.\<close>

definition request_payload :: "(json \<Rightarrow> string) \<Rightarrow> create_pi_request \<Rightarrow> bytes" where
  "request_payload fmt req =
     (let opt = (\<lambda>k v. if v = [] then [] else [(k, JStr v)])
      in Doc (JObj ([(''merchant_id'', JStr (cp_MerchantID req)), (''amountMinor'', JInt (cp_Amount req)),
           (''currency'', JStr (cp_Currency req)), (''method'', JStr (cp_Method req))] @
           opt ''customer_ref'' (cp_CustomerRef req) @ opt ''customer_phone'' (cp_CustomerPhone req) @
           opt ''customer_email'' (cp_CustomerEmail req) @ opt ''idempotency_key'' (cp_IdempotencyKey req) @
           opt ''metadata'' (case cp_Metadata req of NilBytes \<Rightarrow> []
             | Doc j \<Rightarrow> base64_encode (fmt j) | Junk s \<Rightarrow> base64_encode s))))"

text \<open>The connector of the route: the primary, or the first registered fallback.\<close>

fun first_registered :: "registry \<Rightarrow> string list \<Rightarrow> (string \<times> connector) option" where
  "first_registered reg [] = None"
| "first_registered reg (fb # fbs) =
     (case Registry_Get reg fb of Some c \<Rightarrow> Some (fb, c) | None \<Rightarrow> first_registered reg fbs)"

definition choose_connector :: "registry \<Rightarrow> route_decision \<Rightarrow> (string \<times> connector) option" where
  "choose_connector reg route =
     (case Registry_Get reg (rd_Primary route) of
        Some c \<Rightarrow> Some (rd_Primary route, c)
      | None \<Rightarrow> first_registered reg (rd_Fallbacks route))"

definition scheduleDelayedQuery :: "string \<Rightarrow> string \<Rightarrow> string \<Rightarrow> unit go" where
  "scheduleDelayedQuery piID attemptID psp = do {
     now \<leftarrow> time_Now;
     modify (\<lambda>w. w\<lparr>w_timers := w_timers w @
       [\<lparr>tm_FireAt = now + queryDelay, tm_PIID = piID, tm_AttemptID = attemptID, tm_PSP = psp\<rparr>]\<rparr>) }"

subsection \<open>\<open>CreatePaymentIntent\<close>\<close>

text \<open>After the connector refused: the intent is marked failed and returned.\<close>

definition collection_failed :: "payment_intent \<Rightarrow> create_pi_result goE" where
  "collection_failed p = do {
     now \<leftarrow> time_Now;
     let p1 = p\<lparr>pi_Status := PIFailed, pi_UpdatedAt := now\<rparr>;
     call ''update pi status'' (PI_UpdateStatus (pi_ID p1) PIFailed)
       (\<lambda>_. ok \<lparr>res_PaymentIntent = p1, res_NextAction = None\<rparr>) }"

text \<open>After the connector accepted: the attempt is saved and the intent moves on.\<close>

definition advance_intent :: "string \<Rightarrow> string \<Rightarrow> payment_intent \<Rightarrow> collection_result \<Rightarrow> create_pi_result goE" where
  "advance_intent psp attemptID p col = do {
     let newStatus = (if cr_Status col = ''processing'' then PIProcessing else PIRequiresAction);
     now \<leftarrow> time_Now;
     let p1 = p\<lparr>pi_Status := newStatus, pi_UpdatedAt := now\<rparr>;
     (if \<not> IsValidTransition PICreated newStatus
      then fail (ErrMsg (''invalid transition from '' @ pi_status_str PICreated @ '' to '' @ pi_status_str newStatus))
      else call ''update pi status'' (PI_UpdateStatus (pi_ID p1) newStatus) (\<lambda>_. do {
        (if psp = ''mpesa'' \<and> newStatus = PIRequiresAction
         then scheduleDelayedQuery (pi_ID p1) attemptID psp else ret ());
        ok \<lparr>res_PaymentIntent = p1, res_NextAction = cr_NextAction col\<rparr> })) }"

definition collection_started ::
  "create_pi_request \<Rightarrow> string \<Rightarrow> payment_intent \<Rightarrow> collection_result \<Rightarrow> create_pi_result goE" where
  "collection_started req psp p col = do {
     attemptID \<leftarrow> uuid_New;
     let attemptStatus = (if cr_Status col = ''processing'' then AttemptProcessing else AttemptRequiresAction);
     fmt \<leftarrow> gets (\<lambda>w. o_fmt (w_env w));
     t1 \<leftarrow> time_Now;
     t2 \<leftarrow> time_Now;
     let att = \<lparr>att_ID = attemptID, att_PaymentIntentID = pi_ID p, att_PSP = psp,
       att_PSPReference = cr_PSPReference col, att_PSPTransactionID = [], att_Status = attemptStatus,
       att_SequenceNo = 1, att_RawRequest = cr_RawRequest col, att_RawResponse = cr_RawResponse col,
       att_RequestPayload = request_payload fmt req, att_CallbackPayload = NilBytes,
       att_CreatedAt = t1, att_UpdatedAt = t2\<rparr>;
     call ''save attempt'' (Attempt_Create att) (\<lambda>_. advance_intent psp attemptID p col) }"

definition create_on :: "create_pi_request \<Rightarrow> string \<Rightarrow> connector \<Rightarrow> create_pi_result goE" where
  "create_on req psp conn = do {
     now \<leftarrow> time_Now;
     ik \<leftarrow> (if cp_IdempotencyKey req = [] then uuid_New else ret (cp_IdempotencyKey req));
     piID \<leftarrow> uuid_New;
     let p = \<lparr>pi_ID = piID, pi_MerchantID = cp_MerchantID req, pi_Amount = cp_Amount req,
       pi_Currency = cp_Currency req, pi_Status = PICreated, pi_Method = cp_Method req,
       pi_CustomerRef = cp_CustomerRef req, pi_CustomerPhone = cp_CustomerPhone req,
       pi_CustomerEmail = cp_CustomerEmail req, pi_IdempotencyKey = ik, pi_Metadata = cp_Metadata req,
       pi_ExpiresAt = Some (now + 30 * Minute), pi_CreatedAt = now, pi_UpdatedAt = now\<rparr>;
     call ''save payment intent'' (PI_Create p) (\<lambda>_. do {
       stored \<leftarrow> (if cp_IdempotencyKey req \<noteq> []
                 then Idempotency_Store (cp_MerchantID req) (cp_IdempotencyKey req) piID else ok ());
       colResult \<leftarrow> conn_InitiateCollection conn
         \<lparr>cq_PaymentIntentID = piID, cq_Amount = cp_Amount req, cq_Currency = cp_Currency req,
          cq_Method = cp_Method req, cq_CustomerPhone = cp_CustomerPhone req,
          cq_CustomerEmail = cp_CustomerEmail req, cq_CallbackURL = [], cq_IdempotencyKey = piID\<rparr>;
       (case colResult of
          Inl err \<Rightarrow> collection_failed p
        | Inr col \<Rightarrow> collection_started req psp p col) }) }"

definition create_new :: "orch \<Rightarrow> create_pi_request \<Rightarrow> create_pi_result goE" where
  "create_new e req = do {
     t1 \<leftarrow> time_Now;
     t2 \<leftarrow> time_Now;
     call ''risk check''
       (with_risk (Evaluate t1 t2 \<lparr>rk_MerchantID = cp_MerchantID req, rk_Amount = cp_Amount req,
          rk_Currency = cp_Currency req, rk_Method = cp_Method req,
          rk_CustomerPhone = cp_CustomerPhone req, rk_CustomerEmail = cp_CustomerEmail req\<rparr>))
       (\<lambda>_. do {
         now \<leftarrow> time_Now;
         call ''routing''
           (with_router (Route now \<lparr>rr_MerchantID = cp_MerchantID req, rr_Currency = cp_Currency req,
              rr_Country = [], rr_Method = cp_Method req, rr_Amount = cp_Amount req\<rparr>))
           (\<lambda>route.
             (case choose_connector (or_registry e) route of
                None \<Rightarrow> fail (ErrMsg (''no registered connector for method='' @ cp_Method req))
              | Some (psp, conn) \<Rightarrow> create_on req psp conn)) }) }"

definition CreatePaymentIntent :: "orch \<Rightarrow> create_pi_request \<Rightarrow> create_pi_result goE" where
  "CreatePaymentIntent e req =
     (if cp_IdempotencyKey req \<noteq> []
      then call ''idempotency check'' (Idempotency_Check (cp_MerchantID req) (cp_IdempotencyKey req))
        (\<lambda>existing.
          if existing \<noteq> []
          then try_call (PI_GetByID existing) (\<lambda>p. ok \<lparr>res_PaymentIntent = p, res_NextAction = None\<rparr>)
          else create_new e req)
      else create_new e req)"

definition GetPaymentIntent :: "string \<Rightarrow> payment_intent goE" where
  "GetPaymentIntent i = PI_GetByID i"

definition GetAttemptByPSPReference :: "string \<Rightarrow> string \<Rightarrow> attempt goE" where
  "GetAttemptByPSPReference psp ref = Attempt_GetByPSPReference psp ref"

subsection \<open>Outcomes: webhook and delayed query\<close>

definition outcome_statuses :: "string \<Rightarrow> (pi_status \<times> attempt_status) option" where
  "outcome_statuses s =
     (if s = ''succeeded'' then Some (PISucceeded, AttemptSucceeded)
      else if s = ''failed'' then Some (PIFailed, AttemptFailed) else None)"

definition RFC3339 :: string where "RFC3339 = ''2006-01-02T15:04:05Z07:00''"

definition publish_outcome :: "orch \<Rightarrow> payment_intent \<Rightarrow> attempt \<Rightarrow> pi_status \<Rightarrow> unit go" where
  "publish_outcome e p att st =
     (if or_notif e then do {
        now \<leftarrow> time_Now;
        ts \<leftarrow> fmt_time RFC3339 now;
        r \<leftarrow> Notif_Publish \<lparr>ne_EventType = ''payment.'' @ pi_status_str st, ne_PIID = pi_ID p,
          ne_MerchantID = pi_MerchantID p, ne_Amount = pi_Amount p, ne_Currency = pi_Currency p,
          ne_PSP = att_PSP att, ne_PSPReference = att_PSPReference att, ne_Status = pi_status_str st,
          ne_Timestamp = ts\<rparr>;
        ret () }
      else ret ())"

definition post_succeeded :: "orch \<Rightarrow> payment_intent \<Rightarrow> attempt \<Rightarrow> unit goE" where
  "post_succeeded e p att =
     PostCollection (pi_MerchantID p) (pi_ID p) (att_PSP att) (pi_Amount p) (pi_Currency p) (computeFee e (pi_Amount p))"

definition apply_webhook ::
  "orch \<Rightarrow> payment_intent \<Rightarrow> attempt \<Rightarrow> pi_status \<Rightarrow> attempt_status \<Rightarrow> unit goE" where
  "apply_webhook e p att newPI newAtt =
     (if \<not> IsValidTransition (pi_Status p) newPI then ok ()
      else
        call ''update attempt status'' (Attempt_UpdateStatus (att_ID att) newAtt) (\<lambda>_.
        call ''update pi status'' (PI_UpdateStatus (pi_ID p) newPI) (\<lambda>_.
        call ''ledger post'' (if newPI = PISucceeded then post_succeeded e p att else ok ()) (\<lambda>_. do {
          publish_outcome e p att newPI;
          ok () }))))"

definition HandleWebhookEvent :: "orch \<Rightarrow> webhook_event \<Rightarrow> unit goE" where
  "HandleWebhookEvent e evt =
     call ''lookup attempt by psp ref'' (Attempt_GetByPSPReference (ev_PSP evt) (ev_PSPReference evt)) (\<lambda>att.
     call ''lookup pi'' (PI_GetByID (att_PaymentIntentID att)) (\<lambda>p. do {
       r1 \<leftarrow> (if ev_PSPTransactionID evt \<noteq> []
             then Attempt_UpdatePSPTransactionID (att_ID att) (ev_PSPTransactionID evt) else ok ());
       r2 \<leftarrow> Attempt_UpdateCallbackPayload (att_ID att) (ev_RawPayload evt);
       (case outcome_statuses (ev_Status evt) of
          None \<Rightarrow> fail (ErrMsg (''unknown webhook event status: '' @ ev_Status evt))
        | Some (newPI, newAtt) \<Rightarrow> apply_webhook e p att newPI newAtt) }))"

text \<open>Every error of the query is logged and ends it.\<close>

definition applyQueryResult :: "orch \<Rightarrow> payment_intent \<Rightarrow> attempt \<Rightarrow> status_result \<Rightarrow> unit go" where
  "applyQueryResult e p att result =
     (case outcome_statuses (sr_Status result) of
        None \<Rightarrow> ret ()
      | Some (newPI, newAtt) \<Rightarrow>
          (if \<not> IsValidTransition (pi_Status p) newPI then ret ()
           else do {
             r1 \<leftarrow> Attempt_UpdateStatus (att_ID att) newAtt;
             (case r1 of
                Inl _ \<Rightarrow> ret ()
              | Inr _ \<Rightarrow> do {
                  r2 \<leftarrow> PI_UpdateStatusSafe (pi_ID p) (pi_Status p) newPI;
                  (case r2 of
                     Inl _ \<Rightarrow> ret ()
                   | Inr changed \<Rightarrow>
                       (if \<not> changed then ret ()
                        else do {
                          r3 \<leftarrow> (if newPI = PISucceeded then post_succeeded e p att else ok ());
                          (case r3 of Inl _ \<Rightarrow> ret () | Inr _ \<Rightarrow> publish_outcome e p att newPI) })) }) }))"

definition delayed_query :: "orch \<Rightarrow> string \<Rightarrow> string \<Rightarrow> string \<Rightarrow> unit go" where
  "delayed_query e piID attemptID psp = do {
     r1 \<leftarrow> PI_GetByID piID;
     (case r1 of
        Inl _ \<Rightarrow> ret ()
      | Inr p \<Rightarrow>
          (if pi_Status p \<noteq> PIRequiresAction \<and> pi_Status p \<noteq> PIProcessing then ret ()
           else do {
             r2 \<leftarrow> Attempt_GetByID attemptID;
             (case r2 of
                Inl _ \<Rightarrow> ret ()
              | Inr att \<Rightarrow>
                  (case Registry_Get (or_registry e) psp of
                     None \<Rightarrow> ret ()
                   | Some conn \<Rightarrow> do {
                       r3 \<leftarrow> conn_GetStatus conn (att_PSPReference att);
                       (case r3 of
                          Inl _ \<Rightarrow> ret ()
                        | Inr result \<Rightarrow> applyQueryResult e p att result) })) })) }"

end
