(* ===== verification/Payments.thy ===== *)
theory Payments
  imports Orchestrator
begin

section \<open>What the orchestrator guarantees\<close>

text \<open>
  The core of the state is the payment intent table and the ledger. Two relations are kept by
  every operation: an existing intent keeps its identity, merchant, amount and currency, and its
  status moves along \<open>transitions\<close> only (\<open>evolves\<close>); a collection is posted at most
  once per intent, and only for an intent that was paid (\<open>pay_inv\<close>).
\<close>

definition pis :: "world \<Rightarrow> payment_intent list" where
  "pis w = t_payment_intents (w_db w)"

definition core :: "world \<Rightarrow> payment_intent list \<times> ledger_entry list" where
  "core w = (pis w, ledger w)"

lemma wp_keepsI: "keeps f m \<Longrightarrow> (\<And>a v. f v = f w \<Longrightarrow> Q a v) \<Longrightarrow> wp m Q w"
  by (rule wp_runI) (blast dest: keeps_run)

lemma core_frames [simp]:
  "core (next_step w) = core w" "core (w\<lparr>w_bus := b\<rparr>) = core w" "core (w\<lparr>w_timers := t\<rparr>) = core w"
  "core (w\<lparr>w_redis := r\<rparr>) = core w" "core (w\<lparr>w_http := h\<rparr>) = core w" "core (w\<lparr>w_mpesa_token := k\<rparr>) = core w"
  "core (w\<lparr>w_risk := e\<rparr>) = core w" "core (w\<lparr>w_router := re\<rparr>) = core w"
  "core (w\<lparr>w_db := t_attempts_update f d\<rparr>) = core (w\<lparr>w_db := d\<rparr>)"
  "core (w\<lparr>w_db := t_payouts_update g d\<rparr>) = core (w\<lparr>w_db := d\<rparr>)"
  "core (w\<lparr>w_db := t_webhook_events_update i d\<rparr>) = core (w\<lparr>w_db := d\<rparr>)"
  "core (w\<lparr>w_db := t_webhook_deliveries_update j d\<rparr>) = core (w\<lparr>w_db := d\<rparr>)"
  "core (w\<lparr>w_db := t_notifications_update n d\<rparr>) = core (w\<lparr>w_db := d\<rparr>)"
  "core (w\<lparr>w_db := w_db w\<rparr>) = core w"
  by (simp_all add: core_def pis_def ledger_def)

lemma core_db: "w_db v = w_db w \<Longrightarrow> core v = core w"
  by (simp add: core_def pis_def ledger_def)

lemma core_eqD: "core v = core w \<Longrightarrow> pis v = pis w \<and> ledger v = ledger w"
  by (simp add: core_def)

text \<open>The operations that leave the core alone.\<close>

lemma keeps_core_attempts:
  "keeps core (Attempt_Create a)" "keeps core (Attempt_UpdateStatus i st)"
  "keeps core (Attempt_UpdatePSPTransactionID i t)" "keeps core (Attempt_UpdateCallbackPayload i b)"
  unfolding attempt_repo_defs by (rule keeps_intros; simp)+

lemma keeps_core_publish: "keeps core (publish_outcome e p att st)"
  unfolding publish_outcome_def by (intro keeps_intros) simp_all

lemma keeps_core_schedule: "keeps core (scheduleDelayedQuery i a psp)"
  unfolding scheduleDelayedQuery_def by (intro keeps_intros) simp_all

lemma keeps_core_idempotency: "keeps core (Idempotency_Check m k)" "keeps core (Idempotency_Store m k i)"
  unfolding Idempotency_Check_def Idempotency_Store_def
  by (intro keeps_intros; auto intro!: keeps_intros split: option.split)+

subsection \<open>Table steps\<close>

lemma wp_PI_GetByID:
  assumes "\<And>e v. w_db v = w_db w \<Longrightarrow> w_bus v = w_bus w \<Longrightarrow> Q (Inl e) v"
    and "\<And>p v. w_db v = w_db w \<Longrightarrow> w_bus v = w_bus w \<Longrightarrow> p \<in> set (pis w) \<Longrightarrow> pi_ID p = i \<Longrightarrow> Q (Inr p) v"
  shows "wp (PI_GetByID i) Q w"
  unfolding PI_GetByID_def by (rule wp_fetch_rule) (use assms in \<open>auto simp: pis_def\<close>)

lemma wp_Attempt_GetByID:
  assumes "\<And>e v. w_db v = w_db w \<Longrightarrow> w_bus v = w_bus w \<Longrightarrow> Q (Inl e) v"
    and "\<And>a v. w_db v = w_db w \<Longrightarrow> w_bus v = w_bus w \<Longrightarrow> a \<in> set (t_attempts (w_db w)) \<Longrightarrow> att_ID a = i \<Longrightarrow> Q (Inr a) v"
  shows "wp (Attempt_GetByID i) Q w"
  unfolding Attempt_GetByID_def by (rule wp_fetch_rule) (use assms in auto)

lemma wp_Attempt_GetByPSPReference:
  assumes "\<And>e v. w_db v = w_db w \<Longrightarrow> w_bus v = w_bus w \<Longrightarrow> Q (Inl e) v"
    and "\<And>a v. w_db v = w_db w \<Longrightarrow> w_bus v = w_bus w \<Longrightarrow> a \<in> set (t_attempts (w_db w)) \<Longrightarrow> att_PSP a = psp \<Longrightarrow>
      att_PSPReference a = ref \<Longrightarrow> Q (Inr a) v"
  shows "wp (Attempt_GetByPSPReference psp ref) Q w"
  unfolding Attempt_GetByPSPReference_def by (rule wp_fetch_rule) (use assms in auto)

definition set_pi_status :: "string \<Rightarrow> pi_status \<Rightarrow> time \<Rightarrow> payment_intent list \<Rightarrow> payment_intent list" where
  "set_pi_status i st now = map (\<lambda>p. if pi_ID p = i then p\<lparr>pi_Status := st, pi_UpdatedAt := now\<rparr> else p)"

lemma wp_PI_UpdateStatus:
  assumes "\<And>v. core v = core w \<Longrightarrow> Q (Inl ErrDB) v"
    and "\<And>r v now. pis v = set_pi_status i st now (pis w) \<Longrightarrow> ledger v = ledger w \<Longrightarrow> Q r v"
  shows "wp (PI_UpdateStatus i st) Q w"
proof -
  let ?now = "o_clock (w_env w) (w_step w)"
  let ?f = "\<lambda>p. if pi_ID p = i then p\<lparr>pi_Status := st, pi_UpdatedAt := ?now\<rparr> else p"
  have "Q r (next_step (w\<lparr>w_db := t_payment_intents_update (map ?f) (w_db w)\<rparr>))" for r
    by (rule assms(2) [of _ ?now]) (simp_all add: pis_def ledger_def set_pi_status_def)
  moreover have "Q (Inl ErrDB) (next_step w)" by (rule assms(1)) simp
  ultimately show ?thesis
    unfolding PI_UpdateStatus_def by (auto simp: wp_simps run_stmt_def table_update_def split: outcome.split)
qed

lemma wp_PI_UpdateStatusSafe:
  assumes "\<And>r v. core v = core w \<Longrightarrow> r \<noteq> Inr True \<Longrightarrow> Q r v"
    and "\<And>r v now. pis v = map (\<lambda>p. if pi_ID p = i \<and> pi_Status p = frm
        then p\<lparr>pi_Status := st, pi_UpdatedAt := now\<rparr> else p) (pis w) \<Longrightarrow> ledger v = ledger w \<Longrightarrow>
        \<exists>p \<in> set (pis w). pi_ID p = i \<and> pi_Status p = frm \<Longrightarrow> Q r v"
  shows "wp (PI_UpdateStatusSafe i frm st) Q w"
proof -
  let ?P = "\<lambda>p. pi_ID p = i \<and> pi_Status p = frm"
  let ?f = "\<lambda>now p. if ?P p then p\<lparr>pi_Status := st, pi_UpdatedAt := now\<rparr> else p"
  let ?now = "o_clock (w_env w) (w_step w)"
  let ?v = "next_step (w\<lparr>w_db := t_payment_intents_update (map (?f ?now)) (w_db w)\<rparr>)"
  have upd: "Q r ?v" if "\<exists>p \<in> set (pis w). ?P p" for r
    by (rule assms(2) [of ?v ?now]) (use that in \<open>simp_all add: pis_def ledger_def\<close>)
  have none: "Q r ?v" if "\<not> (\<exists>p \<in> set (pis w). ?P p)" "r \<noteq> Inr True" for r
  proof (rule assms(1) [OF _ that(2)])
    have "map (?f ?now) (pis w) = pis w" using that(1) by (intro map_idI) auto
    then show "core ?v = core w" by (simp add: core_def pis_def ledger_def)
  qed
  have stay: "Q (Inl ErrDB) (next_step w)" by (rule assms(1)) (simp_all add: core_def pis_def ledger_def)
  have pos: "0 < length (filter ?P (pis w)) \<longleftrightarrow> (\<exists>p \<in> set (pis w). ?P p)"
    by (simp add: filter_empty_conv)
  show ?thesis
    unfolding PI_UpdateStatusSafe_def
    using upd none stay pos
    by (cases "\<exists>p \<in> set (pis w). ?P p")
      (auto simp: wp_simps run_stmt_def table_update_def pis_def [symmetric] split: outcome.split)
qed

lemma wp_PI_Create:
  assumes "\<And>e v. core v = core w \<Longrightarrow> Q (Inl e) v"
    and "\<And>r v. pis v = pis w @ [p] \<Longrightarrow> ledger v = ledger w \<Longrightarrow> pi_ID p \<notin> pi_ID ` set (pis w) \<Longrightarrow> Q r v"
  shows "wp (PI_Create p) Q w"
proof -
  let ?v = "next_step (w\<lparr>w_db := t_payment_intents_update (\<lambda>rs. rs @ [p]) (w_db w)\<rparr>)"
  have "Q r ?v" if "\<forall>x \<in> set (pis w). \<not> pi_clash x p" for r
    by (rule assms(2)) (use that in \<open>auto simp: pis_def ledger_def pi_clash_def\<close>)
  moreover have "Q (Inl e) (next_step w)" for e by (rule assms(1)) simp
  ultimately show ?thesis
    unfolding PI_Create_def
    by (auto simp: wp_simps run_stmt_def table_insert_def list_ex_iff pis_def split: outcome.split)
qed

subsection \<open>Collections posted for an intent\<close>

text \<open>The debits of a PSP clearing account that name the intent.\<close>

definition clearing_debit :: "posting \<Rightarrow> bool" where
  "clearing_debit l \<longleftrightarrow> pg_EntryType l = ''debit'' \<and> has_prefix (pg_AccountID l) ''psp_clearing:''"

definition posted :: "string \<Rightarrow> ledger_entry list \<Rightarrow> nat" where
  "posted i es = length (filter (\<lambda>e. le_ReferenceID e = i \<and> clearing_debit (line_of e)) es)"

lemma posted_append [simp]: "posted i (es @ fs) = posted i es + posted i fs"
  by (simp add: posted_def)

lemma posted_Nil [simp]: "posted i [] = 0"
  by (simp add: posted_def)

lemma posted_take: "posted i (take n es) \<le> posted i es"
  by (metis append_take_drop_id le_add1 posted_append)

lemma posted_lines:
  assumes "\<forall>e \<in> set es. le_ReferenceID e = i"
  shows "posted j es = (if j = i then length (filter clearing_debit (map line_of es)) else 0)"
  using assms by (induction es) (auto simp: posted_def)

lemma clearing_debit_accounts:
  "clearing_debit (line (pspClearingAccount p) ''debit'' x)" "\<not> clearing_debit (line (MerchantAvailable m) t x)"
  "\<not> clearing_debit (line (MerchantInTransit m) t x)" "\<not> clearing_debit (line a ''credit'' x)"
  by (simp_all add: clearing_debit_def pspClearingAccount_eq MerchantAvailable_eq MerchantInTransit_eq)

lemma collection_posted:
  assumes "posts_prefix (collection_lines m psp amt fee) cur i w res v"
  shows "pis v = pis w \<and> posted j (ledger v) \<le> posted j (ledger w) + (if j = i then 1 else 0)"
proof -
  from assms obtain es n where es: "map line_of es = collection_lines m psp amt fee"
    "\<forall>e \<in> set es. le_ReferenceID e = i"
    "w_db v = (w_db w)\<lparr>t_ledger_entries := t_ledger_entries (w_db w) @ take n es\<rparr>"
    unfolding posts_prefix_def by blast
  have "posted j es = (if j = i then 1 else 0)"
    by (simp add: posted_lines [OF es(2)] es(1) collection_lines_def clearing_debit_accounts)
  with posted_take [of j n es] es(3) show ?thesis by (simp add: pis_def ledger_def)
qed

lemma wp_post_succeeded:
  assumes "\<And>r v. pis v = pis w \<Longrightarrow>
      (\<And>j. posted j (ledger v) \<le> posted j (ledger w) + (if j = pi_ID p then 1 else 0)) \<Longrightarrow> Q r v"
  shows "wp (post_succeeded e p att) Q w"
  unfolding post_succeeded_def
  by (rule wp_mono [OF collection.post_law]) (use collection_posted in \<open>blast intro: assms\<close>)

subsection \<open>The invariant and the order of evolution\<close>

definition paid :: "pi_status \<Rightarrow> bool" where
  "paid st \<longleftrightarrow> st \<in> {PISucceeded, PIPartiallyRefunded, PIRefunded}"

definition pay_inv :: "world \<Rightarrow> bool" where
  "pay_inv w \<longleftrightarrow> distinct (map pi_ID (pis w)) \<and> (\<forall>i. posted i (ledger w) \<le> 1) \<and>
     (\<forall>i. 0 < posted i (ledger w) \<longrightarrow> (\<exists>p \<in> set (pis w). pi_ID p = i \<and> paid (pi_Status p)))"

definition status_path :: "pi_status \<Rightarrow> pi_status \<Rightarrow> bool" where
  "status_path = IsValidTransition\<^sup>*\<^sup>*"

definition pi_step :: "payment_intent \<Rightarrow> payment_intent \<Rightarrow> bool" where
  "pi_step p q \<longleftrightarrow> pi_ID q = pi_ID p \<and> pi_MerchantID q = pi_MerchantID p \<and> pi_Amount q = pi_Amount p \<and>
     pi_Currency q = pi_Currency p \<and> status_path (pi_Status p) (pi_Status q)"

definition evolves :: "payment_intent list \<Rightarrow> payment_intent list \<Rightarrow> bool" where
  "evolves ps qs \<longleftrightarrow> length ps \<le> length qs \<and> (\<forall>i < length ps. pi_step (ps ! i) (qs ! i))"

definition good :: "world \<Rightarrow> world \<Rightarrow> bool" where
  "good w v \<longleftrightarrow> (pay_inv w \<longrightarrow> pay_inv v \<and> evolves (pis w) (pis v))"

lemma pi_step_refl [simp]: "pi_step p p"
  by (simp add: pi_step_def status_path_def)

lemma pi_step_trans: "pi_step p q \<Longrightarrow> pi_step q r \<Longrightarrow> pi_step p r"
  by (auto simp: pi_step_def status_path_def)

lemma evolves_refl [simp]: "evolves ps ps"
  by (simp add: evolves_def)

lemma evolves_append [simp]: "evolves ps (ps @ qs)"
  by (simp add: evolves_def nth_append)

lemma evolves_trans: "evolves ps qs \<Longrightarrow> evolves qs rs \<Longrightarrow> evolves ps rs"
  by (auto simp: evolves_def intro: pi_step_trans dest: less_le_trans)

lemma good_refl: "good w w"
  by (simp add: good_def)

lemma good_trans: "good w u \<Longrightarrow> good u v \<Longrightarrow> good w v"
  by (auto simp: good_def intro: evolves_trans)

lemma good_core: "core v = core w \<Longrightarrow> good w v"
  by (auto simp: good_def pay_inv_def dest!: core_eqD)

lemma good_from_core: "core u = core w \<Longrightarrow> good u v \<Longrightarrow> good w v"
  by (metis good_core good_trans)

lemma evolves_member: "evolves ps qs \<Longrightarrow> p \<in> set ps \<Longrightarrow> \<exists>q \<in> set qs. pi_step p q"
proof -
  assume *: "evolves ps qs" "p \<in> set ps"
  then obtain i where "i < length ps" "p = ps ! i" by (auto simp: in_set_conv_nth)
  with *(1) have "i < length qs" "pi_step p (qs ! i)" by (auto simp: evolves_def)
  then show "\<exists>q \<in> set qs. pi_step p q" by (metis nth_mem)
qed

subsection \<open>Status changes\<close>

lemma transition_simps:
  "IsValidTransition a b \<longleftrightarrow> b \<in> set (transitions a)"
  by (auto simp: IsValidTransition_def list_ex_iff)

lemma paid_closed: "IsValidTransition a b \<Longrightarrow> paid a \<Longrightarrow> paid b"
  by (cases a; cases b) (simp_all add: transition_simps paid_def)

lemma succeeded_from_unpaid: "IsValidTransition a PISucceeded \<Longrightarrow> \<not> paid a"
  by (cases a) (simp_all add: transition_simps paid_def)

lemma unique_pi: "distinct (map pi_ID ps) \<Longrightarrow> p \<in> set ps \<Longrightarrow> q \<in> set ps \<Longrightarrow> pi_ID p = pi_ID q \<Longrightarrow> p = q"
  by (auto simp: distinct_map dest: inj_onD)

lemma map_pi_ID_set_status: "map pi_ID (set_pi_status i st now ps) = map pi_ID ps"
  by (simp add: set_pi_status_def comp_def if_distrib [of pi_ID] cong: if_cong)

lemma set_status_evolves:
  assumes "distinct (map pi_ID ps)" "p \<in> set ps" "IsValidTransition (pi_Status p) st"
  shows "evolves ps (set_pi_status (pi_ID p) st now ps)"
proof -
  have "pi_step q (if pi_ID q = pi_ID p then q\<lparr>pi_Status := st, pi_UpdatedAt := now\<rparr> else q)" if "q \<in> set ps" for q
    using unique_pi [OF assms(1) that assms(2)] assms(3) by (auto simp: pi_step_def status_path_def)
  then show ?thesis by (simp add: evolves_def set_pi_status_def)
qed

lemma set_status_new:
  assumes "p \<in> set ps"
  shows "\<exists>q \<in> set (set_pi_status (pi_ID p) st now ps). pi_ID q = pi_ID p \<and> pi_Status q = st"
  unfolding set_pi_status_def set_map by (intro bexI [OF _ imageI [OF assms]]) simp

text \<open>A valid change never takes a payment back.\<close>

lemma set_status_paid:
  assumes "distinct (map pi_ID ps)" "p \<in> set ps" "IsValidTransition (pi_Status p) st"
    and r: "r \<in> set ps" "paid (pi_Status r)"
  shows "\<exists>q \<in> set (set_pi_status (pi_ID p) st now ps). pi_ID q = pi_ID r \<and> paid (pi_Status q)"
proof (cases "pi_ID r = pi_ID p")
  case True
  then have "r = p" using unique_pi [OF assms(1) r(1) assms(2)] by simp
  then show ?thesis using set_status_new [OF assms(2)] r(2) paid_closed [OF assms(3)] by metis
next
  case False
  then have "r \<in> set (set_pi_status (pi_ID p) st now ps)" using r(1) unfolding set_pi_status_def set_map by force
  then show ?thesis using r(2) by blast
qed

text \<open>A valid change of one status keeps the invariant; a change to succeeded starts from an intent
  for which nothing is posted.\<close>

lemma status_change:
  assumes inv: "pay_inv w" and p: "p \<in> set (pis w)" "IsValidTransition (pi_Status p) st"
    and v: "pis v = set_pi_status (pi_ID p) st now (pis w)" "ledger v = ledger w"
  shows "pay_inv v \<and> evolves (pis w) (pis v) \<and> (\<exists>q \<in> set (pis v). pi_ID q = pi_ID p \<and> pi_Status q = st) \<and>
    (st = PISucceeded \<longrightarrow> posted (pi_ID p) (ledger v) = 0)"
proof -
  have dist: "distinct (map pi_ID (pis w))" using inv by (simp add: pay_inv_def)
  have new: "\<exists>q \<in> set (pis v). pi_ID q = pi_ID p \<and> pi_Status q = st"
    unfolding v(1) by (rule set_status_new [OF p(1)])
  note kept = set_status_paid [OF dist p, of _ now, folded v(1)]
  have "pay_inv v"
    unfolding pay_inv_def
  proof (intro conjI allI impI)
    show "distinct (map pi_ID (pis v))" using dist by (simp add: v(1) map_pi_ID_set_status)
    show "posted i (ledger v) \<le> 1" for i using inv v(2) by (simp add: pay_inv_def)
    show "\<exists>q \<in> set (pis v). pi_ID q = i \<and> paid (pi_Status q)" if pos: "0 < posted i (ledger v)" for i
    proof -
      obtain r where "r \<in> set (pis w)" "pi_ID r = i" "paid (pi_Status r)"
        using pos inv unfolding pay_inv_def v(2) by blast
      then show ?thesis using kept by blast
    qed
  qed
  moreover have "posted (pi_ID p) (ledger v) = 0" if "st = PISucceeded"
  proof (rule ccontr)
    assume "posted (pi_ID p) (ledger v) \<noteq> 0"
    then obtain q where "q \<in> set (pis w)" "pi_ID q = pi_ID p" "paid (pi_Status q)"
      using inv v(2) by (auto simp: pay_inv_def)
    then show False using unique_pi [OF dist _ p(1)] succeeded_from_unpaid p(2) that by blast
  qed
  ultimately show ?thesis using new set_status_evolves [OF dist p] v(1) by simp
qed

text \<open>Posting for an intent that has just been paid.\<close>

lemma posting_after_success:
  assumes inv: "pay_inv w" and q: "\<exists>q \<in> set (pis w). pi_ID q = i \<and> pi_Status q = PISucceeded"
    and zero: "posted i (ledger w) = 0" and v: "pis v = pis w"
    and le: "\<And>j. posted j (ledger v) \<le> posted j (ledger w) + (if j = i then 1 else 0)"
  shows "pay_inv v"
  unfolding pay_inv_def
proof (intro conjI allI impI)
  show "distinct (map pi_ID (pis v))" using inv v by (simp add: pay_inv_def)
  show "posted j (ledger v) \<le> 1" for j
    using inv zero le [of j] by (cases "j = i") (auto simp: pay_inv_def intro: le_trans)
  show "\<exists>p \<in> set (pis v). pi_ID p = j \<and> paid (pi_Status p)" if "0 < posted j (ledger v)" for j
  proof (cases "j = i")
    case True
    then show ?thesis using q v by (auto simp: paid_def)
  next
    case False
    then have "0 < posted j (ledger w)" using that le [of j] by simp
    then show ?thesis using inv v by (simp add: pay_inv_def)
  qed
qed

subsection \<open>The operations are good\<close>

definition safe :: "'a go \<Rightarrow> bool" where
  "safe m \<longleftrightarrow> (\<forall>w. wp m (\<lambda>_ v. good w v) w)"

lemma safeI: "(\<And>w. wp m (\<lambda>_ v. good w v) w) \<Longrightarrow> safe m"
  by (simp add: safe_def)

lemma safeD: "safe m \<Longrightarrow> wp m (\<lambda>_ v. good w v) w"
  by (simp add: safe_def)

lemma wp_invI: "(pay_inv w \<Longrightarrow> wp m (\<lambda>_ v. pay_inv v \<and> evolves (pis w) (pis v)) w) \<Longrightarrow> wp m (\<lambda>_ v. good w v) w"
  by (cases "pay_inv w") (auto simp: good_def wp_def split: prod.splits)

lemma safe_core: "keeps core m \<Longrightarrow> safe m"
  by (rule safeI, erule wp_keepsI) (rule good_core)

lemma safe_bind: "safe m \<Longrightarrow> (\<And>a. safe (k a)) \<Longrightarrow> safe (State_Monad.bind m k)"
  unfolding safe_def wp_bind by (blast intro: wp_mono good_trans)

lemma wp_good_from: "core u = core w \<Longrightarrow> wp m (\<lambda>_ v. good u v) u \<Longrightarrow> wp m (\<lambda>_ v. good w v) u"
  by (erule wp_mono) (rule good_from_core)

lemma wp_good_core: "keeps core m \<Longrightarrow> good w u \<Longrightarrow> wp m (\<lambda>_ v. good w v) u"
  by (erule wp_keepsI) (blast intro: good_core good_trans)

lemma wp_call_good:
  assumes "wp m (\<lambda>r t. core t = core u \<and> (\<forall>x. r = Inr x \<longrightarrow> P x)) u" "core u = core w"
    and "\<And>x v. P x \<Longrightarrow> core v = core w \<Longrightarrow> wp (k x) (\<lambda>_ v. good w v) v"
  shows "wp (call c m k) (\<lambda>_ v. good w v) u"
  unfolding wp_call
  by (rule wp_mono [OF assms(1)]) (use assms(2,3) in \<open>auto split: sum.split intro: good_core\<close>)

lemma PI_GetByID_core:
  "wp (PI_GetByID i) (\<lambda>r t. core t = core u \<and> (\<forall>p. r = Inr p \<longrightarrow> p \<in> set (pis u) \<and> pi_ID p = i)) u"
  by (rule wp_PI_GetByID) (auto dest: core_db)

lemma Attempt_GetByPSPReference_core:
  "wp (Attempt_GetByPSPReference psp ref) (\<lambda>r t. core t = core u \<and> (\<forall>a. r = Inr a \<longrightarrow> True)) u"
  by (rule wp_Attempt_GetByPSPReference) (auto dest: core_db)

text \<open>The tail of a successful outcome: posting and notification.\<close>

lemma outcome_tail_good:
  assumes "pay_inv w" "p \<in> set (pis w)" "IsValidTransition (pi_Status p) st"
    and u: "pis u = set_pi_status (pi_ID p) st now (pis w)" "ledger u = ledger w"
  shows "wp (if st = PISucceeded then post_succeeded e p att else ok ()) (\<lambda>_ v. good w v) u"
proof -
  note change = status_change [OF assms(1-3) u]
  have gu: "good w u" using change by (simp add: good_def)
  show ?thesis
  proof (cases "st = PISucceeded")
    case True
    have "good w v" if "pis v = pis u" "\<And>j. posted j (ledger v) \<le> posted j (ledger u) + (if j = pi_ID p then 1 else 0)" for v
      using posting_after_success [of u "pi_ID p" v] change that True by (auto simp: good_def)
    then show ?thesis using True by (auto intro: wp_post_succeeded)
  next
    case False
    then show ?thesis using gu by (simp add: wp_ok)
  qed
qed

lemma apply_webhook_good:
  assumes "p \<in> set (pis w)"
  shows "wp (apply_webhook e p att newPI newAtt) (\<lambda>_ v. good w v) w"
proof (cases "IsValidTransition (pi_Status p) newPI \<and> pay_inv w")
  case False
  then show ?thesis
    by (auto simp: apply_webhook_def wp_ok good_refl intro: wp_invI)
next
  case True
  have tail: "wp (call ''ledger post'' (if newPI = PISucceeded then post_succeeded e p att else ok ())
      (\<lambda>_. do { publish_outcome e p att newPI; ok () })) (\<lambda>_ v. good w v) u"
    if "pis u = set_pi_status (pi_ID p) newPI now (pis w)" "ledger u = ledger w" for u now
    unfolding wp_call
    by (rule wp_mono [OF outcome_tail_good [OF conjunct2 [OF True] assms conjunct1 [OF True] that]])
      (auto split: sum.split intro!: wp_good_core keeps_bind keeps_core_publish keeps_ok)
  have "wp (PI_UpdateStatus (pi_ID p) newPI) (\<lambda>r t. case r of Inl e \<Rightarrow> good w t | Inr x \<Rightarrow>
      wp (call ''ledger post'' (if newPI = PISucceeded then post_succeeded e p att else ok ())
        (\<lambda>_. do { publish_outcome e p att newPI; ok () })) (\<lambda>_ v. good w v) t) u" if "core u = core w" for u
  proof (rule wp_PI_UpdateStatus)
    fix r :: "error + unit" and v :: world and now
    assume v: "pis v = set_pi_status (pi_ID p) newPI now (pis u)" "ledger v = ledger u"
    with core_eqD [OF that] have v': "pis v = set_pi_status (pi_ID p) newPI now (pis w)" "ledger v = ledger w" by simp_all
    have "good w v" using status_change [OF conjunct2 [OF True] assms conjunct1 [OF True] v'] by (simp add: good_def)
    then show "case r of Inl e \<Rightarrow> good w v | Inr x \<Rightarrow>
      wp (call ''ledger post'' (if newPI = PISucceeded then post_succeeded e p att else ok ())
        (\<lambda>_. do { publish_outcome e p att newPI; ok () })) (\<lambda>_ v. good w v) v"
      using tail [OF v'] by (cases r; simp only: sum.case)
  qed (use that in \<open>auto intro: good_core\<close>)
  then have tail2: "wp (call ''update pi status'' (PI_UpdateStatus (pi_ID p) newPI) (\<lambda>_.
      call ''ledger post'' (if newPI = PISucceeded then post_succeeded e p att else ok ())
        (\<lambda>_. do { publish_outcome e p att newPI; ok () }))) (\<lambda>_ v. good w v) u" if "core u = core w" for u
    unfolding wp_call [where c = "''update pi status''"] using that by blast
  have first: "wp (Attempt_UpdateStatus (att_ID att) newAtt) (\<lambda>r t. core t = core w \<and> (\<forall>x. r = Inr x \<longrightarrow> True)) w"
    by (rule wp_keepsI [OF keeps_core_attempts(2)]) simp
  show ?thesis
    using True unfolding apply_webhook_def
    by (simp only: not_True_eq_False if_False) (rule wp_call_good [OF first refl tail2])
qed

lemma HandleWebhookEvent_safe: "safe (HandleWebhookEvent e evt)"
proof (rule safeI)
  fix w
  have body: "wp (do {
       r1 \<leftarrow> (if ev_PSPTransactionID evt \<noteq> []
             then Attempt_UpdatePSPTransactionID (att_ID att) (ev_PSPTransactionID evt) else ok ());
       r2 \<leftarrow> Attempt_UpdateCallbackPayload (att_ID att) (ev_RawPayload evt);
       (case outcome_statuses (ev_Status evt) of
          None \<Rightarrow> fail (ErrMsg (''unknown webhook event status: '' @ ev_Status evt))
        | Some (newPI, newAtt) \<Rightarrow> apply_webhook e p att newPI newAtt) }) (\<lambda>_ v. good w v) u"
    if u: "core u = core w" and p: "p \<in> set (pis w)" for u att p
    unfolding wp_bind
  proof (rule wp_keepsI [where f = core])
    show "keeps core (if ev_PSPTransactionID evt \<noteq> []
        then Attempt_UpdatePSPTransactionID (att_ID att) (ev_PSPTransactionID evt) else ok ())"
      by (intro keeps_if keeps_core_attempts keeps_ok)
    fix v :: world
    assume v: "core v = core u"
    show "wp (Attempt_UpdateCallbackPayload (att_ID att) (ev_RawPayload evt)) (\<lambda>_. wp
      (case outcome_statuses (ev_Status evt) of
          None \<Rightarrow> fail (ErrMsg (''unknown webhook event status: '' @ ev_Status evt))
        | Some (newPI, newAtt) \<Rightarrow> apply_webhook e p att newPI newAtt) (\<lambda>_ v. good w v)) v"
    proof (rule wp_keepsI [OF keeps_core_attempts(4)])
      fix x :: world
      assume "core x = core v"
      with u v have x: "core x = core w" by simp
      with p have "p \<in> set (pis x)" by (simp add: core_def)
      then show "wp (case outcome_statuses (ev_Status evt) of
          None \<Rightarrow> fail (ErrMsg (''unknown webhook event status: '' @ ev_Status evt))
        | Some (newPI, newAtt) \<Rightarrow> apply_webhook e p att newPI newAtt) (\<lambda>_ v. good w v) x"
        using x by (auto simp: wp_fail split: option.split intro: good_core wp_good_from apply_webhook_good)
    qed
  qed
  show "wp (HandleWebhookEvent e evt) (\<lambda>_ v. good w v) w"
    unfolding HandleWebhookEvent_def
  proof (rule wp_call_good [OF Attempt_GetByPSPReference_core refl])
    fix att and v :: world
    assume v: "core v = core w"
    show "wp (call ''lookup pi'' (PI_GetByID (att_PaymentIntentID att)) (\<lambda>p. do {
       r1 \<leftarrow> (if ev_PSPTransactionID evt \<noteq> []
             then Attempt_UpdatePSPTransactionID (att_ID att) (ev_PSPTransactionID evt) else ok ());
       r2 \<leftarrow> Attempt_UpdateCallbackPayload (att_ID att) (ev_RawPayload evt);
       (case outcome_statuses (ev_Status evt) of
          None \<Rightarrow> fail (ErrMsg (''unknown webhook event status: '' @ ev_Status evt))
        | Some (newPI, newAtt) \<Rightarrow> apply_webhook e p att newPI newAtt) })) (\<lambda>_ v. good w v) v"
      by (rule wp_call_good [OF PI_GetByID_core v], rule body) (use v in \<open>simp_all add: core_def\<close>)
  qed
qed

subsection \<open>The delayed query\<close>

lemma keeps_core_of_db: "keeps (\<lambda>w. (w_db w, f w)) m \<Longrightarrow> keeps core m"
  by (auto simp: keeps_def core_def pis_def ledger_def)

lemma keeps_core_connector: "keeps core (conn_InitiateCollection c req)" "keeps core (conn_GetStatus c ref)"
  by (rule keeps_core_of_db, rule conn.collect_frame) (rule keeps_core_of_db, rule conn.status_frame)

lemma unique_update_is_set_status:
  assumes "distinct (map pi_ID ps)" "p \<in> set ps"
  shows "map (\<lambda>q. if pi_ID q = pi_ID p \<and> pi_Status q = pi_Status p then q\<lparr>pi_Status := st, pi_UpdatedAt := now\<rparr> else q) ps =
    set_pi_status (pi_ID p) st now ps"
  unfolding set_pi_status_def
  by (rule map_cong [OF refl]) (metis unique_pi [OF assms(1) _ assms(2)])

lemma wp_good_skip: "good w u \<Longrightarrow> wp (ret ()) (\<lambda>_ v. good w v) u"
  by (simp add: wp_return)

lemma applyQueryResult_good:
  assumes p: "p \<in> set (pis w)"
  shows "wp (applyQueryResult e p att result) (\<lambda>_ v. good w v) w"
proof (rule wp_invI, rule wp_mono [where Q = "\<lambda>_ v. good w v"])
  assume inv: "pay_inv w"
  have posting: "wp (if newPI = PISucceeded then post_succeeded e p att else ok ())
      (\<lambda>r3 t. wp (case r3 of Inl _ \<Rightarrow> ret () | Inr _ \<Rightarrow> publish_outcome e p att newPI) (\<lambda>_ v. good w v) t) u"
    if "IsValidTransition (pi_Status p) newPI" "pis u = set_pi_status (pi_ID p) newPI now (pis w)" "ledger u = ledger w"
    for newPI u now
    by (rule wp_mono [OF outcome_tail_good [OF inv p that]])
      (auto split: sum.split intro: wp_good_skip wp_good_core keeps_core_publish)
  have cas: "wp (PI_UpdateStatusSafe (pi_ID p) (pi_Status p) newPI) (\<lambda>r2. wp
      (case r2 of Inl _ \<Rightarrow> ret () | Inr changed \<Rightarrow> (if \<not> changed then ret () else do {
          r3 \<leftarrow> (if newPI = PISucceeded then post_succeeded e p att else ok ());
          (case r3 of Inl _ \<Rightarrow> ret () | Inr _ \<Rightarrow> publish_outcome e p att newPI) })) (\<lambda>_ v. good w v)) u"
    if valid: "IsValidTransition (pi_Status p) newPI" and u: "core u = core w" for newPI u
  proof (rule wp_PI_UpdateStatusSafe)
    fix r :: "error + bool" and v :: world
    assume "core v = core u" "r \<noteq> Inr True"
    with u have "good w v" by (intro good_core) simp
    with \<open>r \<noteq> Inr True\<close> show "wp (case r of Inl _ \<Rightarrow> ret () | Inr changed \<Rightarrow> (if \<not> changed then ret () else do {
          r3 \<leftarrow> (if newPI = PISucceeded then post_succeeded e p att else ok ());
          (case r3 of Inl _ \<Rightarrow> ret () | Inr _ \<Rightarrow> publish_outcome e p att newPI) })) (\<lambda>_ v. good w v) v"
      by (cases r) (auto intro: wp_good_skip)
  next
    fix r :: "error + bool" and v :: world and now
    assume v: "pis v = map (\<lambda>q. if pi_ID q = pi_ID p \<and> pi_Status q = pi_Status p
        then q\<lparr>pi_Status := newPI, pi_UpdatedAt := now\<rparr> else q) (pis u)" "ledger v = ledger u"
    have dist: "distinct (map pi_ID (pis w))" using inv by (simp add: pay_inv_def)
    have v': "pis v = set_pi_status (pi_ID p) newPI now (pis w)" "ledger v = ledger w"
      using v core_eqD [OF u] unique_update_is_set_status [OF dist p] by simp_all
    have "good w v" using status_change [OF inv p valid v'] by (simp add: good_def)
    then show "wp (case r of Inl _ \<Rightarrow> ret () | Inr changed \<Rightarrow> (if \<not> changed then ret () else do {
          r3 \<leftarrow> (if newPI = PISucceeded then post_succeeded e p att else ok ());
          (case r3 of Inl _ \<Rightarrow> ret () | Inr _ \<Rightarrow> publish_outcome e p att newPI) })) (\<lambda>_ v. good w v) v"
      using posting [OF valid v']
      by (cases r; simp only: sum.case) (auto simp only: wp_if wp_bind not_not if_True if_False intro: wp_good_skip split: if_split)
  qed
  show "wp (applyQueryResult e p att result) (\<lambda>_ v. good w v) w"
  proof (cases "outcome_statuses (sr_Status result)")
    case None
    then show ?thesis by (simp add: applyQueryResult_def wp_return good_refl)
  next
    case (Some x)
    obtain newPI newAtt where x: "x = (newPI, newAtt)" by fastforce
    show ?thesis
    proof (cases "IsValidTransition (pi_Status p) newPI")
      case False
      then show ?thesis by (simp add: applyQueryResult_def Some x wp_return good_refl)
    next
      case True
      have "wp (Attempt_UpdateStatus (att_ID att) newAtt) (\<lambda>r1. wp (case r1 of Inl _ \<Rightarrow> ret () | Inr _ \<Rightarrow> do {
          r2 \<leftarrow> PI_UpdateStatusSafe (pi_ID p) (pi_Status p) newPI;
          (case r2 of Inl _ \<Rightarrow> ret () | Inr changed \<Rightarrow> (if \<not> changed then ret () else do {
            r3 \<leftarrow> (if newPI = PISucceeded then post_succeeded e p att else ok ());
            (case r3 of Inl _ \<Rightarrow> ret () | Inr _ \<Rightarrow> publish_outcome e p att newPI) })) }) (\<lambda>_ v. good w v)) w"
        by (rule wp_keepsI [OF keeps_core_attempts(2)])
          (auto simp only: wp_sum wp_bind wp_return split: sum.split intro: good_core cas [OF True])
      with True show ?thesis by (simp add: applyQueryResult_def Some x wp_bind)
    qed
  qed
qed (use good_def in blast)

text \<open>A case distinction on the result of a call that leaves the core alone.\<close>

lemma wp_case_good:
  assumes "wp m (\<lambda>r t. core t = core u \<and> (\<forall>x. r = Inr x \<longrightarrow> P x)) u" "core u = core w"
    and "\<And>x v. P x \<Longrightarrow> core v = core w \<Longrightarrow> wp (k x) (\<lambda>_ v. good w v) v"
  shows "wp (State_Monad.bind m (\<lambda>r. case r of Inl _ \<Rightarrow> ret () | Inr x \<Rightarrow> k x)) (\<lambda>_ v. good w v) u"
  unfolding wp_bind
  by (rule wp_mono [OF assms(1)]) (use assms(2,3) in \<open>auto split: sum.split intro: good_core simp: wp_return\<close>)

lemma Attempt_GetByID_core:
  "wp (Attempt_GetByID i) (\<lambda>r t. core t = core u \<and> (\<forall>a. r = Inr a \<longrightarrow> True)) u"
  by (rule wp_Attempt_GetByID) (auto dest: core_db)

lemma GetStatus_core: "wp (conn_GetStatus c ref) (\<lambda>r t. core t = core u \<and> (\<forall>a. r = Inr a \<longrightarrow> True)) u"
  by (rule wp_keepsI [OF keeps_core_connector(2)]) simp

lemma delayed_query_safe: "safe (delayed_query e i a psp)"
proof (rule safeI)
  fix w
  have query: "wp (do { r3 \<leftarrow> conn_GetStatus conn (att_PSPReference att);
      (case r3 of Inl _ \<Rightarrow> ret () | Inr result \<Rightarrow> applyQueryResult e p att result) }) (\<lambda>_ v. good w v) u"
    if "core u = core w" "p \<in> set (pis w)" for conn att p u
    by (rule wp_case_good [OF GetStatus_core that(1)])
      (use that(2) in \<open>auto intro!: wp_good_from applyQueryResult_good simp: core_def\<close>)
  have attempt: "wp (do { r2 \<leftarrow> Attempt_GetByID a;
      (case r2 of Inl _ \<Rightarrow> ret () | Inr att \<Rightarrow> (case Registry_Get (or_registry e) psp of None \<Rightarrow> ret ()
        | Some conn \<Rightarrow> do { r3 \<leftarrow> conn_GetStatus conn (att_PSPReference att);
            (case r3 of Inl _ \<Rightarrow> ret () | Inr result \<Rightarrow> applyQueryResult e p att result) })) }) (\<lambda>_ v. good w v) u"
    if "core u = core w" "p \<in> set (pis w)" for p u
    by (rule wp_case_good [OF Attempt_GetByID_core that(1)])
      (use that(2) query in \<open>auto split: option.split intro: wp_good_skip good_core\<close>)
  show "wp (delayed_query e i a psp) (\<lambda>_ v. good w v) w"
    unfolding delayed_query_def
    by (rule wp_case_good [OF PI_GetByID_core refl]) (auto simp: wp_if intro: attempt good_core wp_good_skip)
qed

subsection \<open>Creation\<close>

lemma PI_UpdateStatus_good:
  assumes "p \<in> set (pis u)" "IsValidTransition (pi_Status p) st"
  shows "wp (PI_UpdateStatus (pi_ID p) st) (\<lambda>_ v. good u v) u"
proof (rule wp_PI_UpdateStatus)
  fix v :: world and r :: "error + unit" and now
  assume "pis v = set_pi_status (pi_ID p) st now (pis u)" "ledger v = ledger u"
  then show "good u v" using status_change [OF _ assms] by (metis good_def)
qed (rule good_core)

lemma pi_ID_update [simp]: "pi_ID (p\<lparr>pi_Status := st, pi_UpdatedAt := now\<rparr>) = pi_ID p"
  by simp

lemma collection_failed_good:
  assumes "p \<in> set (pis u)" "pi_Status p = PICreated"
  shows "wp (collection_failed p) (\<lambda>_ v. good u v) u"
proof -
  have "p \<in> set (pis (next_step u))" using assms(1) by (simp add: pis_def)
  then have upd: "wp (PI_UpdateStatus (pi_ID p) PIFailed) (\<lambda>_ v. good (next_step u) v) (next_step u)"
    by (rule PI_UpdateStatus_good) (simp add: assms(2) transition_simps)
  show ?thesis
    unfolding collection_failed_def wp_bind wp_time_Now Let_def wp_call pi_ID_update
    by (rule wp_mono [OF upd]) (auto split: sum.split simp: wp_ok intro: good_from_core [of "next_step u"])
qed

lemma advance_intent_good:
  assumes "p \<in> set (pis w)" "pi_Status p = PICreated" "core u = core w"
  shows "wp (advance_intent psp i p col) (\<lambda>_ v. good w v) u"
proof -
  let ?st = "if cr_Status col = ''processing'' then PIProcessing else PIRequiresAction"
  have valid: "IsValidTransition PICreated ?st" by (simp add: transition_simps)
  have "p \<in> set (pis (next_step u))" using assms(1,3) by (simp add: core_def pis_def)
  then have upd: "wp (PI_UpdateStatus (pi_ID p) ?st) (\<lambda>_ v. good (next_step u) v) (next_step u)"
    by (rule PI_UpdateStatus_good) (simp only: assms(2) valid)
  have "core (next_step u) = core w" using assms(3) by simp
  then show ?thesis
    unfolding advance_intent_def wp_bind wp_time_Now Let_def
    apply (simp only: valid not_True_eq_False if_False pi_ID_update wp_call)
    by (rule wp_mono [OF upd]) (auto split: sum.split intro!: wp_good_core keeps_bind keeps_if keeps_return keeps_ok
          keeps_core_schedule good_from_core [of "next_step u" w])
qed

lemma collection_started_good:
  assumes "p \<in> set (pis w)" "pi_Status p = PICreated"
  shows "wp (collection_started req psp p col) (\<lambda>_ v. good w v) w"
proof -
  have saved: "wp (Attempt_Create att) (\<lambda>r t. core t = core u \<and> (\<forall>x. r = Inr x \<longrightarrow> True)) u" for att u
    by (rule wp_keepsI [OF keeps_core_attempts(1)]) simp
  show ?thesis
    unfolding collection_started_def wp_bind wp_uuid_New wp_gets wp_time_Now Let_def
    by (rule wp_call_good [OF saved _ advance_intent_good [OF assms]]) simp_all
qed

lemma create_inv:
  assumes "pay_inv w" "pis v = pis w @ [p]" "ledger v = ledger w" "pi_ID p \<notin> pi_ID ` set (pis w)"
  shows "pay_inv v"
  using assms by (fastforce simp: pay_inv_def)

lemma create_on_good: "wp (create_on req psp conn) (\<lambda>_ v. good w v) w"
proof -
  have started: "wp (do {
       stored \<leftarrow> (if b then Idempotency_Store m k i else ok ());
       colResult \<leftarrow> conn_InitiateCollection conn cq;
       (case colResult of Inl err \<Rightarrow> collection_failed p | Inr col \<Rightarrow> collection_started req psp p col) }) (\<lambda>_ v. good u v) u"
    if p: "p \<in> set (pis u)" "pi_Status p = PICreated" for b m k i cq p u
    unfolding wp_bind
  proof (rule wp_keepsI [where f = core])
    show "keeps core (if b then Idempotency_Store m k i else ok ())"
      by (intro keeps_if keeps_core_idempotency keeps_ok)
    fix v :: world
    assume v: "core v = core u"
    show "wp (conn_InitiateCollection conn cq) (\<lambda>r. wp (case r of Inl err \<Rightarrow> collection_failed p
        | Inr col \<Rightarrow> collection_started req psp p col) (\<lambda>_ v. good u v)) v"
    proof (rule wp_keepsI [OF keeps_core_connector(1)])
      fix r and x :: world
      assume "core x = core v"
      with v have x: "core x = core u" by simp
      with p have "p \<in> set (pis x)" by (simp add: core_def)
      with p(2) show "wp (case r of Inl err \<Rightarrow> collection_failed p
        | Inr col \<Rightarrow> collection_started req psp p col) (\<lambda>_ v. good u v) x"
        by (cases r) (auto intro: wp_good_from [OF x] collection_failed_good collection_started_good)
    qed
  qed
  have saved: "wp (call ''save payment intent'' (PI_Create p) (\<lambda>_. do {
       stored \<leftarrow> (if b then Idempotency_Store m k i else ok ());
       colResult \<leftarrow> conn_InitiateCollection conn cq;
       (case colResult of Inl err \<Rightarrow> collection_failed p | Inr col \<Rightarrow> collection_started req psp p col) })) (\<lambda>_ v. good w v) u"
    if u: "core u = core w" and st: "pi_Status p = PICreated" for b m k i cq p u
    unfolding wp_call
  proof (rule wp_PI_Create)
    fix v :: world and r :: "error + unit"
    assume v: "pis v = pis u @ [p]" "ledger v = ledger u" "pi_ID p \<notin> pi_ID ` set (pis u)"
    have "good w v"
      using create_inv [of w v p] v core_eqD [OF u] by (simp add: good_def)
    moreover have "p \<in> set (pis v)" using v(1) by simp
    ultimately show "case r of Inl e \<Rightarrow> good w v | Inr x \<Rightarrow> wp (do {
       stored \<leftarrow> (if b then Idempotency_Store m k i else ok ());
       colResult \<leftarrow> conn_InitiateCollection conn cq;
       (case colResult of Inl err \<Rightarrow> collection_failed p | Inr col \<Rightarrow> collection_started req psp p col) }) (\<lambda>_ v. good w v) v"
      using wp_mono [OF started [OF _ st] good_trans [of w v]] by (cases r; simp only: sum.case)
  qed (use u in \<open>auto intro: good_core\<close>)
  show ?thesis
    unfolding create_on_def wp_bind wp_time_Now wp_uuid_New Let_def
  proof (rule wp_keepsI [where f = core])
    show "keeps core (if cp_IdempotencyKey req = [] then uuid_New else ret (cp_IdempotencyKey req))"
      by (intro keeps_if keeps_uuid_New keeps_return) simp
  qed (rule saved; simp)
qed

lemma create_new_safe: "safe (create_new e req)"
proof (rule safeI)
  fix w
  have route: "wp (call ''routing'' (with_router g) (\<lambda>route. (case choose_connector reg route of
      None \<Rightarrow> fail err | Some (psp, conn) \<Rightarrow> create_on req psp conn))) (\<lambda>_ v. good w v) u"
    if "core u = core w" for u g reg err
  proof (rule wp_call_good [OF _ that])
    show "wp (with_router g) (\<lambda>r t. core t = core u \<and> (\<forall>x. r = Inr x \<longrightarrow> True)) u"
      by (rule wp_keepsI [where f = core]) (auto intro: keeps_with_router)
    show "wp (case choose_connector reg route of None \<Rightarrow> fail err | Some (psp, conn) \<Rightarrow> create_on req psp conn) (\<lambda>_ v. good w v) v"
      if "core v = core w" for route v
      using that by (auto split: option.split prod.split simp: wp_fail intro: good_core wp_good_from create_on_good)
  qed
  have risk: "wp (with_risk g) (\<lambda>r t. core t = core u \<and> (\<forall>x. r = Inr x \<longrightarrow> True)) u" for g u
    by (rule wp_keepsI [where f = core]) (auto intro: keeps_with_risk)
  show "wp (create_new e req) (\<lambda>_ v. good w v) w"
    unfolding create_new_def wp_bind wp_time_Now
    by (rule wp_call_good [OF risk]) (simp, simp only: wp_bind wp_time_Now, rule route, simp)
qed

lemma CreatePaymentIntent_safe: "safe (CreatePaymentIntent e req)"
proof (rule safeI)
  fix w
  have check: "wp (Idempotency_Check m k) (\<lambda>r t. core t = core u \<and> (\<forall>x. r = Inr x \<longrightarrow> True)) u" for m k u
    by (rule wp_keepsI [OF keeps_core_idempotency(1)]) simp
  have existing: "wp (try_call (PI_GetByID i) (\<lambda>p. ok \<lparr>res_PaymentIntent = p, res_NextAction = None\<rparr>)) (\<lambda>_ v. good w v) u"
    if "core u = core w" for i u
    unfolding wp_try_call
    by (rule wp_mono [OF PI_GetByID_core]) (use that in \<open>auto split: sum.split simp: wp_ok intro: good_core\<close>)
  show "wp (CreatePaymentIntent e req) (\<lambda>_ v. good w v) w"
    unfolding CreatePaymentIntent_def
    using safeD [OF create_new_safe]
    by (auto simp: wp_if intro!: wp_call_good [OF check] existing intro: wp_good_from [OF _ safeD [OF create_new_safe]])
qed

subsection \<open>What a webhook does\<close>

lemma keeps_core_bus_attempts:
  "keeps (\<lambda>w. (core w, w_bus w)) (Attempt_UpdateStatus i st)"
  "keeps (\<lambda>w. (core w, w_bus w)) (Attempt_UpdatePSPTransactionID i t)"
  "keeps (\<lambda>w. (core w, w_bus w)) (Attempt_UpdateCallbackPayload i b)"
  unfolding attempt_repo_defs by (rule keeps_intros; simp)+

text \<open>What one outcome does to the core, when it ends without an error.\<close>

definition outcome_effect :: "orch \<Rightarrow> payment_intent \<Rightarrow> attempt \<Rightarrow> pi_status \<Rightarrow> world \<Rightarrow> world \<Rightarrow> bool" where
  "outcome_effect e p att st w v \<longleftrightarrow>
     (if IsValidTransition (pi_Status p) st
      then (\<exists>now. pis v = set_pi_status (pi_ID p) st now (pis w)) \<and>
        (\<exists>es. ledger v = ledger w @ es \<and> (\<forall>l \<in> set es. le_Currency l = pi_Currency p \<and> le_ReferenceID l = pi_ID p) \<and>
           map line_of es = (if st = PISucceeded
             then collection_lines (pi_MerchantID p) (att_PSP att) (pi_Amount p) (computeFee e (pi_Amount p)) else []))
      else pis v = pis w \<and> ledger v = ledger w \<and> w_bus v = w_bus w)"

lemma post_effect:
  "wp (if st = PISucceeded then post_succeeded e p att else ok ()) (\<lambda>r v. r = Inr () \<longrightarrow> pis v = pis u \<and>
     (\<exists>es. ledger v = ledger u @ es \<and> (\<forall>l \<in> set es. le_Currency l = pi_Currency p \<and> le_ReferenceID l = pi_ID p) \<and>
        map line_of es = (if st = PISucceeded
          then collection_lines (pi_MerchantID p) (att_PSP att) (pi_Amount p) (computeFee e (pi_Amount p)) else []))) u"
proof (cases "st = PISucceeded")
  case True
  have "wp (post_succeeded e p att) (posts_prefix (collection_lines (pi_MerchantID p) (att_PSP att) (pi_Amount p)
      (computeFee e (pi_Amount p))) (pi_Currency p) (pi_ID p) u) u"
    unfolding post_succeeded_def by (rule collection.post_law)
  then show ?thesis
    by (simp add: True, elim wp_mono) (auto simp: posts_prefix_def pis_def ledger_def)
qed (simp add: wp_ok)

text \<open>Where only a successful end matters, an early return needs no proof.\<close>

lemma wp_call_success:
  "wp m (\<lambda>r t. \<forall>x. r = Inr x \<longrightarrow> wp (k x) (\<lambda>r v. r = Inr y \<longrightarrow> R v) t) u \<Longrightarrow>
   wp (call c m k) (\<lambda>r v. r = Inr y \<longrightarrow> R v) u"
  unfolding wp_call by (erule wp_mono) (auto split: sum.split)

lemma apply_webhook_effect:
  "wp (apply_webhook e p att st ast) (\<lambda>r v. r = Inr () \<longrightarrow> outcome_effect e p att st w v) w"
proof (cases "IsValidTransition (pi_Status p) st")
  case False
  then show ?thesis by (simp add: apply_webhook_def wp_ok outcome_effect_def)
next
  case True
  have publish: "wp (do { publish_outcome e p att st; ok () }) (\<lambda>r v. r = Inr () \<longrightarrow> outcome_effect e p att st w v) u"
    if "outcome_effect e p att st w u" for u
    by (rule wp_keepsI [where f = core])
      (use that True in \<open>auto intro!: keeps_bind keeps_core_publish keeps_ok simp: outcome_effect_def dest!: core_eqD\<close>)
  have post: "wp (call ''ledger post'' (if st = PISucceeded then post_succeeded e p att else ok ()) (\<lambda>_. do {
      publish_outcome e p att st; ok () })) (\<lambda>r v. r = Inr () \<longrightarrow> outcome_effect e p att st w v) u"
    if u: "pis u = set_pi_status (pi_ID p) st now (pis w)" "ledger u = ledger w" for u now
  proof (rule wp_call_success, rule wp_mono [OF post_effect [of st e p att]], intro allI impI)
    fix r :: "error + unit" and t :: world and x
    assume "r = Inr () \<longrightarrow> pis t = pis u \<and>
      (\<exists>es. ledger t = ledger u @ es \<and> (\<forall>l \<in> set es. le_Currency l = pi_Currency p \<and> le_ReferenceID l = pi_ID p) \<and>
        map line_of es = (if st = PISucceeded
          then collection_lines (pi_MerchantID p) (att_PSP att) (pi_Amount p) (computeFee e (pi_Amount p)) else []))"
      "r = Inr x"
    with u have "outcome_effect e p att st w t" unfolding outcome_effect_def if_P [OF True] by auto
    then show "wp (do { publish_outcome e p att st; ok () }) (\<lambda>r v. r = Inr () \<longrightarrow> outcome_effect e p att st w v) t"
      by (rule publish)
  qed
  have update: "wp (call ''update pi status'' (PI_UpdateStatus (pi_ID p) st) (\<lambda>_.
      call ''ledger post'' (if st = PISucceeded then post_succeeded e p att else ok ()) (\<lambda>_. do {
      publish_outcome e p att st; ok () }))) (\<lambda>r v. r = Inr () \<longrightarrow> outcome_effect e p att st w v) u"
    if u: "core u = core w" for u
    by (rule wp_call_success, rule wp_PI_UpdateStatus, simp, intro allI impI, rule post) (use core_eqD [OF u] in simp_all)
  show ?thesis
    using True unfolding apply_webhook_def
    by (simp only: not_True_eq_False if_False)
      (rule wp_call_success, rule wp_keepsI [OF keeps_core_attempts(2)], intro allI impI, rule update, simp)
qed

lemma HandleWebhookEvent_effect:
  assumes "outcome_statuses (ev_Status evt) = Some (st, ast)"
  shows "wp (HandleWebhookEvent e evt) (\<lambda>r v. r = Inr () \<longrightarrow>
    (\<exists>att \<in> set (t_attempts (w_db w)). \<exists>p \<in> set (pis w). att_PSP att = ev_PSP evt \<and>
       att_PSPReference att = ev_PSPReference evt \<and> pi_ID p = att_PaymentIntentID att \<and>
       outcome_effect e p att st w v)) w"
proof -
  let ?R = "\<lambda>v. \<exists>att \<in> set (t_attempts (w_db w)). \<exists>p \<in> set (pis w). att_PSP att = ev_PSP evt \<and>
       att_PSPReference att = ev_PSPReference evt \<and> pi_ID p = att_PaymentIntentID att \<and> outcome_effect e p att st w v"
  have cb: "outcome_effect e p att st x v = outcome_effect e p att st w v"
    if "(core x, w_bus x) = (core w, w_bus w)" for p att x v
    using that by (auto simp: outcome_effect_def core_def)
  have outcome: "wp (apply_webhook e p att st ast) (\<lambda>r v. r = Inr () \<longrightarrow> ?R v) x"
    if "(core x, w_bus x) = (core w, w_bus w)" "att \<in> set (t_attempts (w_db w))" "att_PSP att = ev_PSP evt"
      "att_PSPReference att = ev_PSPReference evt" "p \<in> set (pis w)" "pi_ID p = att_PaymentIntentID att" for x p att
    by (rule wp_mono [OF apply_webhook_effect [of e p att st ast x]]) (use that cb [OF that(1)] in blast)
  have body: "wp (do {
       r1 \<leftarrow> (if ev_PSPTransactionID evt \<noteq> []
             then Attempt_UpdatePSPTransactionID (att_ID att) (ev_PSPTransactionID evt) else ok ());
       r2 \<leftarrow> Attempt_UpdateCallbackPayload (att_ID att) (ev_RawPayload evt);
       (case outcome_statuses (ev_Status evt) of
          None \<Rightarrow> fail (ErrMsg (''unknown webhook event status: '' @ ev_Status evt))
        | Some (newPI, newAtt) \<Rightarrow> apply_webhook e p att newPI newAtt) }) (\<lambda>r v. r = Inr () \<longrightarrow> ?R v) u"
    if u: "(core u, w_bus u) = (core w, w_bus w)" "att \<in> set (t_attempts (w_db w))" "att_PSP att = ev_PSP evt"
      "att_PSPReference att = ev_PSPReference evt" "p \<in> set (pis w)" "pi_ID p = att_PaymentIntentID att" for u p att
    unfolding wp_bind assms option.case prod.case
  proof (rule wp_keepsI [where f = "\<lambda>w. (core w, w_bus w)"])
    show "keeps (\<lambda>w. (core w, w_bus w)) (if ev_PSPTransactionID evt \<noteq> []
        then Attempt_UpdatePSPTransactionID (att_ID att) (ev_PSPTransactionID evt) else ok ())"
      by (intro keeps_if keeps_core_bus_attempts keeps_ok)
    fix x :: world
    assume x: "(core x, w_bus x) = (core u, w_bus u)"
    show "wp (Attempt_UpdateCallbackPayload (att_ID att) (ev_RawPayload evt))
        (\<lambda>_. wp (apply_webhook e p att st ast) (\<lambda>r v. r = Inr () \<longrightarrow> ?R v)) x"
      by (rule wp_keepsI [OF keeps_core_bus_attempts(3)], rule outcome) (use u x in simp_all)
  qed
  show ?thesis
    unfolding HandleWebhookEvent_def
    by (rule wp_call_success, rule wp_Attempt_GetByPSPReference, simp, intro allI impI,
      rule wp_call_success, rule wp_PI_GetByID, simp, intro allI impI)
      (rule body, auto simp: core_def pis_def ledger_def)
qed

lemma success_completes:
  assumes rel: "db_reliable w" and fresh: "ids_fresh w"
    and att: "filter (\<lambda>a. att_PSP a = ev_PSP evt \<and> att_PSPReference a = ev_PSPReference evt) (t_attempts (w_db w)) = [att]"
    and p: "filter (\<lambda>p. pi_ID p = att_PaymentIntentID att) (t_payment_intents (w_db w)) = [p]"
    and ev: "ev_Status evt = ''succeeded''" "jsonb_ok (ev_RawPayload evt)"
    and st: "IsValidTransition (pi_Status p) PISucceeded" and amt: "0 < pi_Amount p"
  shows "fst (run_state (HandleWebhookEvent e evt) w) = Inr ()"
proof -
  have ok: "o_db (w_env w) k = Done" if "w_step w \<le> k" for k using rel that by (simp add: db_reliable_def)
  have post: "wp (post_succeeded e p att) (\<lambda>r t. case r of Inl err \<Rightarrow> Inl (ErrWrap ''ledger post'' err) = Inr ()
      | Inr x \<Rightarrow> wp (State_Monad.bind (publish_outcome e p att PISucceeded) ok) (\<lambda>res v. res = Inr ()) t) v"
    if "w_env v = w_env w" "w_step w \<le> w_step v" "ledger v = ledger w" for v
  proof -
    have "db_reliable v" "ids_fresh v" using that rel fresh
      by (auto simp: db_reliable_def ids_fresh_def intro: inj_on_subset)
    then have "wp (post_succeeded e p att) (\<lambda>res v. res = Inr ()) v"
      unfolding post_succeeded_def by (rule PostCollection_reliable) (rule amt)
    then show ?thesis
      by (rule wp_mono) (auto simp: wp_bind wp_ok intro: wp_runI)
  qed
  have "wp (HandleWebhookEvent e evt) (\<lambda>res v. res = Inr ()) w"
    by (simp add: HandleWebhookEvent_def wp_simps repo_defs run_stmt_def table_update_def ok att p ev st
        outcome_statuses_def apply_webhook_def) (intro conjI impI; rule post; simp add: ledger_def)
  then show ?thesis by (simp add: wp_def split: prod.splits)
qed

subsection \<open>Reachable states\<close>

text \<open>
  The steps of the payment core, each a whole operation: a creation, a webhook, a delayed query,
  and anything else the program or the outside world does that leaves intents and ledger alone
  (time passing, failures being scheduled, other handlers).
\<close>

inductive pay_step :: "orch \<Rightarrow> world \<Rightarrow> world \<Rightarrow> bool" for e :: orch where
  create: "run_state (CreatePaymentIntent e req) w = (r, v) \<Longrightarrow> pay_step e w v"
| webhook: "run_state (HandleWebhookEvent e evt) w = (r, v) \<Longrightarrow> pay_step e w v"
| query: "run_state (delayed_query e i a psp) w = (u, v) \<Longrightarrow> pay_step e w v"
| other: "core v = core w \<Longrightarrow> pay_step e w v"

inductive pay_reach :: "orch \<Rightarrow> world \<Rightarrow> bool" for e :: orch where
  start: "pis w = [] \<Longrightarrow> ledger w = [] \<Longrightarrow> pay_reach e w"
| step: "pay_reach e w \<Longrightarrow> pay_step e w v \<Longrightarrow> pay_reach e v"

inductive_cases pay_stepE: "pay_step e w v"

lemma pay_step_good: "pay_step e w v \<Longrightarrow> good w v"
  by (elim pay_stepE)
    (auto dest: wp_run [OF safeD [OF CreatePaymentIntent_safe]] wp_run [OF safeD [OF HandleWebhookEvent_safe]]
      wp_run [OF safeD [OF delayed_query_safe]] good_core)

lemma pay_reach_inv: "pay_reach e w \<Longrightarrow> pay_inv w"
proof (induction rule: pay_reach.induct)
  case (start w)
  then show ?case by (simp add: pay_inv_def)
next
  case (step w v)
  then show ?case using pay_step_good [of e w v] by (simp add: good_def)
qed

lemma pay_steps_good: "(pay_step e)\<^sup>*\<^sup>* w v \<Longrightarrow> good w v"
  by (induction rule: rtranclp_induct) (auto intro: good_refl good_trans pay_step_good)

lemma final_path: "status_path a b \<Longrightarrow> transitions a = [] \<Longrightarrow> b = a"
  unfolding status_path_def by (erule converse_rtranclpE) (simp_all add: transition_simps)

definition card_req :: create_pi_request where
  "card_req = \<lparr>cp_MerchantID = ''m-1'', cp_Amount = 5000, cp_Currency = ''NGN'', cp_Method = ''card'',
     cp_CustomerRef = [], cp_CustomerPhone = [], cp_CustomerEmail = ''a@b.c'', cp_IdempotencyKey = ''k-1'',
     cp_Metadata = NilBytes\<rparr>"

definition paystack_conn :: connector where
  "paystack_conn = PaystackConn \<lparr>pc_SecretKey = ''sk'', pc_PublicKey = ''pk'', pc_WebhookKey = [], pc_Sandbox = True\<rparr>"

definition sample_orch :: orch where
  "sample_orch = \<lparr>or_registry = [(''paystack'', paystack_conn)], or_Percent = 5, or_MinAmount = 100, or_notif = True\<rparr>"

text \<open>Paystack accepts a transaction and answers with its reference.\<close>

definition paystack_http :: "nat \<Rightarrow> http_request \<Rightarrow> http_reply" where
  "paystack_http k r = HttpResp 200 (Doc (JObj [(''status'', JBool True), (''message'', JStr ''ok''),
     (''data'', JObj [(''authorization_url'', JStr ''https://pay''), (''reference'', JStr ''ref-1'')])])) 100"

definition charge_event :: webhook_event where
  "charge_event = \<lparr>ev_PSP = ''paystack'', ev_EventType = ''charge.success'', ev_PSPReference = ''ref-1'',
     ev_PSPTransactionID = [], ev_DedupKey = ''charge.success:7'', ev_Status = ''succeeded'', ev_Amount = 5000,
     ev_Currency = ''NGN'', ev_RawPayload = Doc (JObj [])\<rparr>"

text \<open>A card payment was created and waits for its webhook, then is paid.\<close>

definition card_created :: world where
  "card_created = snd (run_state (CreatePaymentIntent sample_orch card_req) (start_world (calm_env paystack_http []) empty_db))"

definition card_intent :: payment_intent where
  "card_intent = \<lparr>pi_ID = ''5'', pi_MerchantID = ''m-1'', pi_Amount = 5000, pi_Currency = ''NGN'',
     pi_Status = PIRequiresAction, pi_Method = ''card'', pi_CustomerRef = [], pi_CustomerPhone = [],
     pi_CustomerEmail = ''a@b.c'', pi_IdempotencyKey = ''k-1'', pi_Metadata = NilBytes,
     pi_ExpiresAt = Some 1804000000000, pi_CreatedAt = 4000000000, pi_UpdatedAt = 14000000000\<rparr>"

definition card_attempt :: attempt where
  "card_attempt = \<lparr>att_ID = ''9'', att_PaymentIntentID = ''5'', att_PSP = ''paystack'', att_PSPReference = ''ref-1'',
     att_PSPTransactionID = [], att_Status = AttemptRequiresAction, att_SequenceNo = 1, att_RawRequest = NilBytes,
     att_RawResponse = NilBytes, att_RequestPayload = NilBytes, att_CallbackPayload = NilBytes,
     att_CreatedAt = 10000000000, att_UpdatedAt = 11000000000\<rparr>"

definition card_waiting :: "environment \<Rightarrow> world" where
  "card_waiting env = start_world env (empty_db\<lparr>t_payment_intents := [card_intent], t_attempts := [card_attempt]\<rparr>)"

definition card_paid :: world where
  "card_paid = snd (run_state (HandleWebhookEvent sample_orch charge_event) (card_waiting (calm_env no_http [])))"

lemma card_created_core: "core card_created = ([card_intent], [])"
  by code_simp

lemma card_waiting_reach: "pay_reach sample_orch (card_waiting env)"
proof (rule pay_reach.step)
  let ?w = "start_world (calm_env paystack_http []) empty_db"
  show "pay_reach sample_orch card_created"
  proof (rule pay_reach.step)
    show "pay_reach sample_orch ?w"
      by (rule pay_reach.start) (simp_all add: start_world_def empty_db_def pis_def ledger_def)
    show "pay_step sample_orch ?w card_created"
      by (rule pay_step.create [of _ card_req _ "fst (run_state (CreatePaymentIntent sample_orch card_req) ?w)"])
        (simp add: card_created_def)
  qed
  show "pay_step sample_orch card_created (card_waiting env)"
    by (rule pay_step.other, subst card_created_core)
      (simp add: card_waiting_def start_world_def empty_db_def core_def pis_def ledger_def)
qed

lemma card_paid_step: "pay_step sample_orch (card_waiting (calm_env no_http [])) card_paid"
  by (rule pay_step.webhook [of _ charge_event _
      "fst (run_state (HandleWebhookEvent sample_orch charge_event) (card_waiting (calm_env no_http [])))"])
    (simp add: card_paid_def)

lemma card_waiting_ready:
  "db_reliable (card_waiting (calm_env no_http []))" "ids_fresh (card_waiting (calm_env no_http []))"
  "filter (\<lambda>a. att_PSP a = ev_PSP charge_event \<and> att_PSPReference a = ev_PSPReference charge_event)
     (t_attempts (w_db (card_waiting (calm_env no_http [])))) = [card_attempt]"
  "filter (\<lambda>p. pi_ID p = att_PaymentIntentID card_attempt)
     (t_payment_intents (w_db (card_waiting (calm_env no_http [])))) = [card_intent]"
  "IsValidTransition (pi_Status card_intent) PISucceeded"
  by (auto simp: db_reliable_def ids_fresh_def card_waiting_def start_world_def calm_env_def ledger_def empty_db_def
      inj_on_def show_nat_inj charge_event_def card_attempt_def card_intent_def transition_simps)

lemma card_paid_run:
  "run_state (HandleWebhookEvent sample_orch charge_event) (card_waiting (calm_env no_http [])) = (Inr (), card_paid)"
  using success_completes [OF card_waiting_ready(1-4) _ _ card_waiting_ready(5), of sample_orch]
  by (simp add: card_paid_def charge_event_def card_intent_def prod_eq_iff)

lemma card_paid_posted: "posted ''5'' (ledger card_paid) = 1"
proof -
  have "outcome_statuses (ev_Status charge_event) = Some (PISucceeded, AttemptSucceeded)"
    by (simp add: outcome_statuses_def charge_event_def)
  from wp_run [OF HandleWebhookEvent_effect [OF this] card_paid_run]
  have "outcome_effect sample_orch card_intent card_attempt PISucceeded (card_waiting (calm_env no_http [])) card_paid"
    by (simp add: card_waiting_def start_world_def pis_def)
  then obtain es where es: "ledger card_paid = ledger (card_waiting (calm_env no_http [])) @ es"
    "\<forall>l \<in> set es. le_ReferenceID l = pi_ID card_intent"
    "map line_of es = collection_lines (pi_MerchantID card_intent) (att_PSP card_attempt) (pi_Amount card_intent)
       (computeFee sample_orch (pi_Amount card_intent))"
    unfolding outcome_effect_def if_P [OF card_waiting_ready(5)] if_P [OF refl] by blast
  have "ledger (card_waiting (calm_env no_http [])) = []" "pi_ID card_intent = ''5''"
    by (simp_all add: card_waiting_def start_world_def ledger_def empty_db_def card_intent_def)
  then show ?thesis
    using es posted_lines [OF es(2), of "''5''"] by (simp add: collection_lines_def clearing_debit_accounts)
qed

text \<open>C4: In every state the payment operations reach, whatever fails and in whatever order whole
  operations run, the identifiers of the intents are unique, a collection was posted to the ledger
  at most once per intent, and only for an intent whose status says it was paid.\<close>

theorem collection_posted_at_most_once:
  assumes "pay_reach e w"
  shows "distinct (map pi_ID (pis w)) \<and> posted i (ledger w) \<le> 1 \<and>
    (0 < posted i (ledger w) \<longrightarrow> (\<exists>p \<in> set (pis w). pi_ID p = i \<and> paid (pi_Status p)))"
  using pay_reach_inv [OF assms] by (simp add: pay_inv_def)

theorem collection_posted_at_most_once_witness:
  "distinct (map pi_ID (pis card_paid)) \<and> posted ''5'' (ledger card_paid) = 1"
  using collection_posted_at_most_once [OF pay_reach.step [OF card_waiting_reach card_paid_step], of "''5''"]
    card_paid_posted by simp



text \<open>C6: A success webhook that is processed without an error found an attempt with its reference
  and that attempt's intent; if the intent may still be paid, it is now succeeded and the ledger
  has grown by exactly the lines of one collection of the intent's amount, with the platform's
  fee; otherwise (a replayed or late webhook) intents, ledger and bus are as they were.\<close>

theorem success_webhook_effect:
  assumes "run_state (HandleWebhookEvent e evt) w = (Inr (), v)" "ev_Status evt = ''succeeded''"
  shows "\<exists>att \<in> set (t_attempts (w_db w)). \<exists>p \<in> set (pis w).
    att_PSP att = ev_PSP evt \<and> att_PSPReference att = ev_PSPReference evt \<and> pi_ID p = att_PaymentIntentID att \<and>
    (if IsValidTransition (pi_Status p) PISucceeded
     then (\<exists>now. pis v = set_pi_status (pi_ID p) PISucceeded now (pis w)) \<and>
       (\<exists>es. ledger v = ledger w @ es \<and> (\<forall>l \<in> set es. le_Currency l = pi_Currency p \<and> le_ReferenceID l = pi_ID p) \<and>
          map line_of es = collection_lines (pi_MerchantID p) (att_PSP att) (pi_Amount p) (computeFee e (pi_Amount p)))
     else pis v = pis w \<and> ledger v = ledger w \<and> w_bus v = w_bus w)"
proof -
  have "outcome_statuses (ev_Status evt) = Some (PISucceeded, AttemptSucceeded)"
    using assms(2) by (simp add: outcome_statuses_def)
  from wp_run [OF HandleWebhookEvent_effect [OF this] assms(1)] show ?thesis
    unfolding outcome_effect_def if_P [OF refl] by blast
qed

theorem success_webhook_effect_witness:
  "\<exists>es. ledger card_paid = es \<and> map line_of es = collection_lines ''m-1'' ''paystack'' 5000 (computeFee sample_orch 5000)"
proof -
  let ?w = "card_waiting (calm_env no_http [])"
  have w: "t_attempts (w_db ?w) = [card_attempt]" "pis ?w = [card_intent]" "ledger ?w = []"
    by (simp_all add: card_waiting_def start_world_def pis_def ledger_def empty_db_def)
  have f: "pi_MerchantID card_intent = ''m-1''" "pi_Amount card_intent = 5000" "att_PSP card_attempt = ''paystack''"
    by (simp_all add: card_intent_def card_attempt_def)
  show ?thesis
    using success_webhook_effect [OF card_paid_run] card_waiting_ready(5) w f by (auto simp: charge_event_def)
qed

text \<open>With a database that carries out every call, fresh identifiers, one attempt with the event's
  reference and one intent of a positive amount that may still be paid, the success webhook of a
  payment returns without an error.\<close>

theorem success_webhook_completes:
  assumes "db_reliable w" "ids_fresh w"
    "filter (\<lambda>a. att_PSP a = ev_PSP evt \<and> att_PSPReference a = ev_PSPReference evt) (t_attempts (w_db w)) = [att]"
    "filter (\<lambda>p. pi_ID p = att_PaymentIntentID att) (t_payment_intents (w_db w)) = [p]"
    "ev_Status evt = ''succeeded''" "jsonb_ok (ev_RawPayload evt)"
    "IsValidTransition (pi_Status p) PISucceeded" "0 < pi_Amount p"
  shows "fst (run_state (HandleWebhookEvent e evt) w) = Inr ()"
  by (rule success_completes) (use assms in auto)

theorem success_webhook_completes_witness:
  "fst (run_state (HandleWebhookEvent sample_orch charge_event) (card_waiting (calm_env no_http []))) = Inr ()"
  using success_webhook_completes [OF card_waiting_ready(1-4) _ _ card_waiting_ready(5), of sample_orch]
  by (simp add: charge_event_def card_intent_def)

subsection \<open>Idempotent creation\<close>

lemma keeps_all_Check: "keeps (\<lambda>w. (w_db w, w_http w, w_timers w)) (Idempotency_Check m k)"
  unfolding Idempotency_Check_def
  by (intro keeps_intros; auto intro!: keeps_intros split: option.split)

text \<open>C37: A creation request whose idempotency key is remembered with an intent never creates
  anything: no row is written, no request goes to a PSP, no query is scheduled; and what it
  returns, if it returns an intent, is the stored one.\<close>

theorem create_replay:
  assumes "cp_IdempotencyKey req \<noteq> []" "i \<noteq> []"
    and "live w (idempotency_key (cp_MerchantID req) (cp_IdempotencyKey req)) (o_clock (w_env w) (w_step w)) =
      Some (JObj [(''pi_id'', JStr i)])"
    and "run_state (CreatePaymentIntent e req) w = (r, v)"
  shows "w_db v = w_db w \<and> w_http v = w_http w \<and> w_timers v = w_timers w \<and>
    (\<forall>x. r = Inr x \<longrightarrow> res_PaymentIntent x \<in> set (pis w) \<and> pi_ID (res_PaymentIntent x) = i \<and> res_NextAction x = None)"
proof -
  let ?R = "\<lambda>r v. w_db v = w_db w \<and> w_http v = w_http w \<and> w_timers v = w_timers w \<and>
    (\<forall>x. r = Inr x \<longrightarrow> res_PaymentIntent x \<in> set (pis w) \<and> pi_ID (res_PaymentIntent x) = i \<and> res_NextAction x = None)"
  have "wp (CreatePaymentIntent e req) ?R w"
  proof -
    let ?k = "idempotency_key (cp_MerchantID req) (cp_IdempotencyKey req)"
    obtain expiry where entry: "w_redis w ?k = Some (JObj [(''pi_id'', JStr i)], expiry)"
      "o_clock (w_env w) (w_step w) < expiry"
      using assms(3) by (auto simp: live_def split: option.splits if_splits)
    have check: "wp (Idempotency_Check (cp_MerchantID req) (cp_IdempotencyKey req))
        (\<lambda>r t. t = next_step w \<and> (\<forall>x. r = Inr x \<longrightarrow> x = i)) w"
      using entry by (cases "o_redis (w_env w) (w_step w)") (simp_all add: Idempotency_Check_def wp_simps)
    have get: "wp (PI_GetByID i) (\<lambda>r t. t = next_step u \<and> (\<forall>p. r = Inr p \<longrightarrow> p \<in> set (pis u) \<and> pi_ID p = i)) u" for u
      by (cases "o_db (w_env u) (w_step u)") (auto simp: PI_GetByID_def wp_simps pis_def dest: sql_one_Inr)
    have existing: "wp (try_call (PI_GetByID i) (\<lambda>p. ok \<lparr>res_PaymentIntent = p, res_NextAction = None\<rparr>)) ?R u"
      if "u = next_step w" for u
      unfolding wp_try_call
      by (rule wp_mono [OF get]) (use that in \<open>auto split: sum.split simp: wp_ok pis_def\<close>)
    show ?thesis
      unfolding CreatePaymentIntent_def if_P [OF assms(1)] wp_call
      by (rule wp_mono [OF check]) (use assms(2) existing in \<open>auto split: sum.split\<close>)
  qed
  then show ?thesis using assms(4) by (rule wp_run)
qed

definition replay_world :: world where
  "replay_world = (card_waiting (calm_env no_http []))\<lparr>w_redis := [''idempotency:m-1:k-1'' \<mapsto>
     (JObj [(''pi_id'', JStr ''5'')], idempotency_ttl)]\<rparr>"

theorem create_replay_witness:
  "w_db (snd (run_state (CreatePaymentIntent sample_orch card_req) replay_world)) = w_db replay_world"
proof -
  have "live replay_world (idempotency_key (cp_MerchantID card_req) (cp_IdempotencyKey card_req))
      (o_clock (w_env replay_world) (w_step replay_world)) = Some (JObj [(''pi_id'', JStr ''5'')])"
    by (simp add: live_def replay_world_def card_req_def idempotency_key_def card_waiting_def start_world_def calm_env_def
        idempotency_ttl_def duration_defs)
  then show ?thesis
    using create_replay [of card_req "''5''" replay_world sample_orch] by (simp add: card_req_def prod_eq_iff)
qed

subsection \<open>Fees\<close>

text \<open>For every amount the risk engine lets through and a percentage between 0 and 100 the fee is
  computed without overflow: it is the truncated percentage, raised to the configured minimum, and
  it exceeds the amount exactly when the minimum does.\<close>

theorem computeFee_value:
  assumes "0 < amt" "amt \<le> maxAmount NewRiskEngine" "0 \<le> or_Percent e" "or_Percent e \<le> 100"
  shows "computeFee e amt = max (or_MinAmount e) (amt * or_Percent e div 100) \<and>
    (amt < computeFee e amt \<longleftrightarrow> amt < or_MinAmount e)"
proof -
  have b: "0 \<le> amt * or_Percent e" "amt * or_Percent e \<le> 100000000 * 100"
  proof -
    show "0 \<le> amt * or_Percent e" using assms by simp
    show "amt * or_Percent e \<le> 100000000 * 100"
      by (rule mult_mono) (use assms in \<open>simp_all add: NewRiskEngine_def\<close>)
  qed
  then have "is_int64 (amt * or_Percent e)" by (simp add: is_int64_def)
  then have fee: "computeFee e amt = max (or_MinAmount e) (amt * or_Percent e div 100)"
    using b(1) by (simp add: computeFee_def Let_def go_div_nonneg max_def)
  have "amt * or_Percent e div 100 \<le> amt * 100 div 100" using assms by (intro zdiv_mono1 mult_left_mono) auto
  then show ?thesis by (auto simp: fee max_def)
qed

theorem computeFee_value_witness: "computeFee sample_orch 5000 = 250 \<and> 50 < computeFee sample_orch 50"
  using computeFee_value [of 5000 sample_orch] computeFee_value [of 50 sample_orch]
  by (simp add: NewRiskEngine_def sample_orch_def)

end
