(* ===== verification/Creation.thy ===== *)
theory Creation
  imports Payments
begin

section \<open>What a successful creation leaves behind\<close>

text \<open>
  The functional contract of \<open>CreatePaymentIntent\<close>: when it returns an intent, that is a stored one
  (the key was seen before), or a new row of the table with the values of the request, for which the
  provider either refused (failed, no attempt) or accepted (requires action, one attempt at a
  registered provider, and for M-Pesa a scheduled query).
\<close>

type_synonym creation_state = "payment_intent list \<times> attempt list \<times> ledger_entry list \<times> timer list"

definition cstate :: "world \<Rightarrow> creation_state" where
  "cstate w = (pis w, t_attempts (w_db w), ledger w, w_timers w)"

lemma cstate_frames [simp]:
  "cstate (next_step w) = cstate w" "cstate (w\<lparr>w_redis := r\<rparr>) = cstate w" "cstate (w\<lparr>w_risk := e\<rparr>) = cstate w"
  "cstate (w\<lparr>w_router := re\<rparr>) = cstate w"
  by (simp_all add: cstate_def pis_def ledger_def)

lemma wp_PI_Create_rows:
  assumes "\<And>e v. Q (Inl e) v"
    and "\<And>v. cstate v = (pis w @ [p], t_attempts (w_db w), ledger w, w_timers w) \<Longrightarrow> pi_ID p \<notin> pi_ID ` set (pis w) \<Longrightarrow> Q (Inr ()) v"
  shows "wp (PI_Create p) Q w"
proof -
  let ?v = "next_step (w\<lparr>w_db := t_payment_intents_update (\<lambda>rs. rs @ [p]) (w_db w)\<rparr>)"
  have new: "Q (Inr ()) ?v" if "\<forall>x \<in> set (t_payment_intents (w_db w)). \<not> pi_clash x p"
  proof (rule assms(2))
    show "cstate ?v = (pis w @ [p], t_attempts (w_db w), ledger w, w_timers w)" by (simp add: cstate_def pis_def ledger_def)
    show "pi_ID p \<notin> pi_ID ` set (pis w)" using that by (force simp: pi_clash_def pis_def)
  qed
  show ?thesis
    unfolding PI_Create_def
    using assms(1) new by (auto simp: wp_simps run_stmt_def table_insert_def list_ex_iff split: outcome.split)
qed

lemma wp_PI_UpdateStatus_last:
  assumes "cstate u = (ps @ [p], as, es, ts)" "pi_ID p \<notin> pi_ID ` set ps"
    and "\<And>e v. Q (Inl e) v"
    and "\<And>v now. cstate v = (ps @ [p\<lparr>pi_Status := st, pi_UpdatedAt := now\<rparr>], as, es, ts) \<Longrightarrow> Q (Inr ()) v"
  shows "wp (PI_UpdateStatus (pi_ID p) st) Q u"
proof -
  let ?f = "\<lambda>now q. if pi_ID q = pi_ID p then q\<lparr>pi_Status := st, pi_UpdatedAt := now\<rparr> else q"
  have others: "map (?f now) ps = ps" for now
    by (rule map_idI) (use assms(2) in \<open>metis imageI\<close>)
  have "Q (Inr ()) (next_step (u\<lparr>w_db := t_payment_intents_update (map (?f now)) (w_db u)\<rparr>))" for now
    by (rule assms(4) [of _ now]) (use assms(1) others [of now] in \<open>simp add: cstate_def pis_def ledger_def\<close>)
  then show ?thesis
    unfolding PI_UpdateStatus_def
    using assms(3) by (auto simp: wp_simps run_stmt_def table_update_def split: outcome.split)
qed

lemma wp_Attempt_Create_rows:
  assumes "\<And>e v. Q (Inl e) v"
    and "\<And>v. cstate v = (pis u, t_attempts (w_db u) @ [a], ledger u, w_timers u) \<Longrightarrow> Q (Inr ()) v"
  shows "wp (Attempt_Create a) Q u"
proof -
  have "Q (Inr ()) (next_step (u\<lparr>w_db := t_attempts_update (\<lambda>rs. rs @ [a]) (w_db u)\<rparr>))"
    by (rule assms(2)) (simp add: cstate_def pis_def ledger_def)
  then show ?thesis
    unfolding Attempt_Create_def
    using assms(1) by (auto simp: wp_simps run_stmt_def table_insert_def split: outcome.split)
qed

lemma keeps_cstate:
  "keeps cstate (Idempotency_Check m k)" "keeps cstate (Idempotency_Store m k i)"
  "keeps cstate (conn_InitiateCollection c cq)"
proof -
  show "keeps cstate (Idempotency_Check m k)" "keeps cstate (Idempotency_Store m k i)"
    unfolding Idempotency_Check_def Idempotency_Store_def
    by (intro keeps_intros; auto intro!: keeps_intros split: option.split)+
  show "keeps cstate (conn_InitiateCollection c cq)"
    using conn.collect_frame [of c cq] by (simp add: keeps_def cstate_def pis_def ledger_def)
qed

subsection \<open>Step by step\<close>

text \<open>The row as it was inserted and what the creation made of it.\<close>

definition attempt_for :: "orch \<Rightarrow> payment_intent \<Rightarrow> attempt \<Rightarrow> bool" where
  "attempt_for e p a \<longleftrightarrow> att_PaymentIntentID a = pi_ID p \<and> att_Status a = AttemptRequiresAction \<and> att_SequenceNo a = 1 \<and>
     att_PSP a \<in> set (Registry_Names (or_registry e))"

definition creation_result :: "orch \<Rightarrow> creation_state \<Rightarrow> payment_intent \<Rightarrow> create_pi_result \<Rightarrow> world \<Rightarrow> bool" where
  "creation_result e s p x v \<longleftrightarrow> (case s of (ps, as, es, ts) \<Rightarrow>
     \<exists>st now t. res_PaymentIntent x = p\<lparr>pi_Status := st, pi_UpdatedAt := now\<rparr> \<and>
       ((st = PIFailed \<and> cstate v = (ps @ [p\<lparr>pi_Status := st, pi_UpdatedAt := t\<rparr>], as, es, ts)) \<or>
        (st = PIRequiresAction \<and> (\<exists>a fire. attempt_for e p a \<and>
           cstate v = (ps @ [p\<lparr>pi_Status := st, pi_UpdatedAt := t\<rparr>], as @ [a], es, ts @
             (if att_PSP a = ''mpesa''
              then [\<lparr>tm_FireAt = fire, tm_PIID = pi_ID p, tm_AttemptID = att_ID a, tm_PSP = ''mpesa''\<rparr>] else []))))))"

abbreviation on_success :: "('a \<Rightarrow> world \<Rightarrow> bool) \<Rightarrow> error + 'a \<Rightarrow> world \<Rightarrow> bool" where
  "on_success P \<equiv> (\<lambda>res v. \<forall>x. res = Inr x \<longrightarrow> P x v)"

lemma collection_failed_result:
  assumes "cstate u = (ps @ [p], as, es, ts)" "pi_ID p \<notin> pi_ID ` set ps"
  shows "wp (collection_failed p) (on_success (creation_result e (ps, as, es, ts) p)) u"
  unfolding collection_failed_def wp_bind wp_time_Now Let_def wp_call pi_ID_update
  by (rule wp_PI_UpdateStatus_last [OF _ assms(2)]) (use assms(1) in \<open>auto simp: wp_ok creation_result_def\<close>)

lemma creation_accepted:
  assumes "res_PaymentIntent x = p\<lparr>pi_Status := PIRequiresAction, pi_UpdatedAt := now\<rparr>" "attempt_for e p a"
    and "cstate v = (ps @ [p\<lparr>pi_Status := PIRequiresAction, pi_UpdatedAt := t\<rparr>], as @ [a], es, ts @ (if att_PSP a = ''mpesa''
      then [\<lparr>tm_FireAt = fire, tm_PIID = pi_ID p, tm_AttemptID = att_ID a, tm_PSP = ''mpesa''\<rparr>] else []))"
  shows "creation_result e (ps, as, es, ts) p x v"
  unfolding creation_result_def prod.case
  by (intro exI [of _ PIRequiresAction] exI [of _ now] exI [of _ t] conjI disjI2 exI [of _ a] exI [of _ fire] assms refl)

lemma advance_intent_result:
  assumes "cstate u = (ps @ [p], as @ [a], es, ts)" "pi_ID p \<notin> pi_ID ` set ps" "cr_Status col \<noteq> ''processing''"
    and a: "attempt_for e p a" "att_PSP a = psp" "att_ID a = i"
  shows "wp (advance_intent psp i p col) (on_success (creation_result e (ps, as, es, ts) p)) u"
proof -
  have valid: "IsValidTransition PICreated PIRequiresAction" by (simp add: transition_simps)
  let ?p = "p\<lparr>pi_Status := PIRequiresAction, pi_UpdatedAt := o_clock (w_env u) (w_step u)\<rparr>"
  let ?Q = "on_success (creation_result e (ps, as, es, ts) p)"
  have u: "cstate (next_step u) = (ps @ [p], as @ [a], es, ts)" using assms(1) by simp
  have updated: "wp (do { (if psp = ''mpesa'' \<and> PIRequiresAction = PIRequiresAction then scheduleDelayedQuery (pi_ID p) i psp else ret ());
        ok \<lparr>res_PaymentIntent = ?p, res_NextAction = na\<rparr> }) ?Q v"
    if v: "cstate v = (ps @ [p\<lparr>pi_Status := PIRequiresAction, pi_UpdatedAt := t\<rparr>], as @ [a], es, ts)" for v t na
  proof (cases "psp = ''mpesa''")
    case True
    have final: "cstate ((next_step v)\<lparr>w_timers := w_timers v @
        [\<lparr>tm_FireAt = fire, tm_PIID = pi_ID p, tm_AttemptID = i, tm_PSP = psp\<rparr>]\<rparr>) =
        (ps @ [p\<lparr>pi_Status := PIRequiresAction, pi_UpdatedAt := t\<rparr>], as @ [a], es, ts @ (if att_PSP a = ''mpesa''
          then [\<lparr>tm_FireAt = fire, tm_PIID = pi_ID p, tm_AttemptID = att_ID a, tm_PSP = ''mpesa''\<rparr>] else []))" for fire
      using v True a(2,3) by (simp add: cstate_def pis_def ledger_def)
    show ?thesis
      using True creation_accepted [OF _ a(1) final]
      by (simp add: wp_bind wp_ok scheduleDelayedQuery_def wp_time_Now wp_modify)
  next
    case False
    have final: "cstate v = (ps @ [p\<lparr>pi_Status := PIRequiresAction, pi_UpdatedAt := t\<rparr>], as @ [a], es, ts @ (if att_PSP a = ''mpesa''
          then [\<lparr>tm_FireAt = 0, tm_PIID = pi_ID p, tm_AttemptID = att_ID a, tm_PSP = ''mpesa''\<rparr>] else []))"
      using v False a(2) by simp
    show ?thesis using False creation_accepted [OF _ a(1) final] by (simp add: wp_bind wp_ok wp_return)
  qed
  show ?thesis
    unfolding advance_intent_def wp_bind [of time_Now] wp_time_Now Let_def
    apply (simp only: assms(3) valid if_False not_True_eq_False pi_ID_update wp_call)
    apply (rule wp_PI_UpdateStatus_last [OF u assms(2)])
     apply simp
    using updated by simp
qed

lemma collection_started_result:
  assumes u: "cstate u = (ps @ [p], as, es, ts)" "pi_ID p \<notin> pi_ID ` set ps" "cr_Status col \<noteq> ''processing''"
    and psp: "psp \<in> set (Registry_Names (or_registry e))"
  shows "wp (collection_started req psp p col) (on_success (creation_result e (ps, as, es, ts) p)) u"
proof -
  have saved: "wp (call ''save attempt'' (Attempt_Create a) (\<lambda>_. advance_intent psp i p col))
      (on_success (creation_result e (ps, as, es, ts) p)) v"
    if "cstate v = cstate u" "attempt_for e p a" "att_PSP a = psp" "att_ID a = i" for v a i
    unfolding wp_call
    by (rule wp_Attempt_Create_rows)
      (use that u in \<open>auto intro!: advance_intent_result [of _ _ _ _ a] simp: cstate_def\<close>)
  show ?thesis
    unfolding collection_started_def wp_bind wp_uuid_New wp_gets wp_time_Now Let_def
    by (rule saved) (use assms(3) psp in \<open>simp_all add: attempt_for_def\<close>)
qed

lemma create_on_result:
  assumes psp: "psp \<in> set (Registry_Names (or_registry e))" and w: "cstate w = (ps, as, es, ts)"
  shows "wp (create_on req psp conn) (on_success (\<lambda>x v. \<exists>p. pi_MerchantID p = cp_MerchantID req \<and> pi_Amount p = cp_Amount req \<and>
     pi_Currency p = cp_Currency req \<and> pi_Method p = cp_Method req \<and> pi_ID p \<notin> pi_ID ` set ps \<and>
     creation_result e (ps, as, es, ts) p x v)) w"
proof -
  let ?Q = "\<lambda>p. on_success (creation_result e (ps, as, es, ts) p)"
  have collected: "wp (conn_InitiateCollection conn cq) (\<lambda>r. wp (case r of Inl err \<Rightarrow> collection_failed p
        | Inr col \<Rightarrow> collection_started req psp p col) (?Q p)) u"
    if u: "cstate u = (ps @ [p], as, es, ts)" "pi_ID p \<notin> pi_ID ` set ps" for cq p u
  proof (rule wp_runI)
    fix r and v :: world
    assume run: "run_state (conn_InitiateCollection conn cq) u = (r, v)"
    have v: "cstate v = (ps @ [p], as, es, ts)" using keeps_run [OF keeps_cstate(3) run] u(1) by simp
    have "cr_Status col \<noteq> ''processing''" if "r = Inr col" for col
      using wp_run [OF conn.collect_not_processing run] that by simp
    then show "wp (case r of Inl err \<Rightarrow> collection_failed p | Inr col \<Rightarrow> collection_started req psp p col) (?Q p) v"
      using collection_failed_result [OF v u(2)] collection_started_result [OF v u(2) _ psp] by (cases r) simp_all
  qed
  have saved: "wp (call ''save payment intent'' (PI_Create p) (\<lambda>_. do {
       stored \<leftarrow> (if b then Idempotency_Store m k i else ok ());
       colResult \<leftarrow> conn_InitiateCollection conn cq;
       (case colResult of Inl err \<Rightarrow> collection_failed p | Inr col \<Rightarrow> collection_started req psp p col) }))
      (on_success (\<lambda>x v. pi_ID p \<notin> pi_ID ` set ps \<and> creation_result e (ps, as, es, ts) p x v)) u"
    if u: "cstate u = (ps, as, es, ts)" for b m k i cq p u
    unfolding wp_call
  proof (rule wp_PI_Create_rows)
    fix v :: world
    assume "cstate v = (pis u @ [p], t_attempts (w_db u), ledger u, w_timers u)" "pi_ID p \<notin> pi_ID ` set (pis u)"
    then have v: "cstate v = (ps @ [p], as, es, ts)" "pi_ID p \<notin> pi_ID ` set ps" using u by (simp_all add: cstate_def)
    have "wp (do {
       stored \<leftarrow> (if b then Idempotency_Store m k i else ok ());
       colResult \<leftarrow> conn_InitiateCollection conn cq;
       (case colResult of Inl err \<Rightarrow> collection_failed p | Inr col \<Rightarrow> collection_started req psp p col) }) (?Q p) v"
      unfolding wp_bind
    proof (rule wp_keepsI [where f = cstate])
      show "keeps cstate (if b then Idempotency_Store m k i else ok ())" by (intro keeps_if keeps_cstate keeps_ok)
    qed (use v collected in simp)
    then show "case Inr () of Inl e' \<Rightarrow> on_success (\<lambda>x v. pi_ID p \<notin> pi_ID ` set ps \<and> creation_result e (ps, as, es, ts) p x v) (Inl (ErrWrap ''save payment intent'' e')) v
      | Inr x \<Rightarrow> wp (do {
       stored \<leftarrow> (if b then Idempotency_Store m k i else ok ());
       colResult \<leftarrow> conn_InitiateCollection conn cq;
       (case colResult of Inl err \<Rightarrow> collection_failed p | Inr col \<Rightarrow> collection_started req psp p col) })
        (on_success (\<lambda>x v. pi_ID p \<notin> pi_ID ` set ps \<and> creation_result e (ps, as, es, ts) p x v)) v"
      unfolding sum.case by (rule wp_mono) (use v(2) in simp)
  qed simp
  show ?thesis
    unfolding create_on_def wp_bind wp_time_Now wp_uuid_New Let_def
  proof (rule wp_keepsI [where f = cstate])
    show "keeps cstate (if cp_IdempotencyKey req = [] then uuid_New else ret (cp_IdempotencyKey req))"
      by (intro keeps_if keeps_uuid_New keeps_return) simp
  qed (rule wp_mono [OF saved], use w in simp, force)
qed

lemma chosen_registered: "choose_connector reg route = Some (psp, conn) \<Longrightarrow> psp \<in> set (Registry_Names reg)"
proof -
  have fallback: "first_registered reg fbs = Some (psp, conn) \<Longrightarrow> psp \<in> set (Registry_Names reg)" for fbs
    by (induction fbs) (auto simp: Registry_Get_def Registry_Names_def dest: map_of_SomeD split: option.splits intro: rev_image_eqI)
  show "choose_connector reg route = Some (psp, conn) \<Longrightarrow> psp \<in> set (Registry_Names reg)"
    unfolding choose_connector_def
    by (auto simp: Registry_Get_def Registry_Names_def dest: map_of_SomeD fallback [unfolded Registry_Names_def]
        split: option.splits intro: rev_image_eqI)
qed

lemma Evaluate_amount: "fst (Evaluate t1 t2 rq e) = Inr x \<Longrightarrow> 0 < rk_Amount rq \<and> rk_Amount rq \<le> maxAmount e"
  by (auto simp: Evaluate_def split: if_splits)

lemma wp_call_with_risk:
  assumes "\<And>err v. Q (Inl err) v"
    and "\<And>x v. fst (g (w_risk u)) = Inr x \<Longrightarrow> cstate v = cstate u \<Longrightarrow> wp (k x) Q v"
  shows "wp (call c (with_risk g) k) Q u"
  using assms by (auto simp: wp_call wp_with_risk split: prod.split sum.split)

definition created_from :: "orch \<Rightarrow> create_pi_request \<Rightarrow> creation_state \<Rightarrow> create_pi_result \<Rightarrow> world \<Rightarrow> bool" where
  "created_from e req s x v \<longleftrightarrow> (\<exists>p. pi_MerchantID p = cp_MerchantID req \<and> pi_Amount p = cp_Amount req \<and>
     pi_Currency p = cp_Currency req \<and> pi_Method p = cp_Method req \<and> pi_ID p \<notin> pi_ID ` set (fst s) \<and> creation_result e s p x v)"

lemma create_new_result:
  assumes w: "w_risk w = re" "cstate w = s"
  shows "wp (create_new e req) (on_success (\<lambda>x v. 0 < cp_Amount req \<and> cp_Amount req \<le> maxAmount re \<and> created_from e req s x v)) w"
proof -
  let ?Q = "on_success (\<lambda>x v. 0 < cp_Amount req \<and> cp_Amount req \<le> maxAmount re \<and> created_from e req s x v)"
  obtain ps as es ts where s: "s = (ps, as, es, ts)" by (cases s) auto
  have routed: "wp (call ''routing'' (with_router g) (\<lambda>route. (case choose_connector (or_registry e) route of
      None \<Rightarrow> fail err | Some (psp, conn) \<Rightarrow> create_on req psp conn))) ?Q u"
    if u: "cstate u = s" and amt: "0 < cp_Amount req \<and> cp_Amount req \<le> maxAmount re" for u g err
  proof -
    have "wp (case choose_connector (or_registry e) route of None \<Rightarrow> fail err | Some (psp, conn) \<Rightarrow> create_on req psp conn) ?Q t"
      if t: "cstate t = s" for route t
    proof (cases "choose_connector (or_registry e) route")
      case (Some c)
      obtain psp conn where c: "c = (psp, conn)" by fastforce
      show ?thesis
        unfolding Some c option.case prod.case
        by (rule wp_mono [OF create_on_result [OF chosen_registered [OF Some [unfolded c]] t [unfolded s]]])
          (use amt in \<open>auto simp: created_from_def s\<close>)
    qed (simp add: wp_fail)
    then show ?thesis using u by (auto simp: wp_call wp_with_router split: sum.split prod.split)
  qed
  show ?thesis
    unfolding create_new_def wp_bind wp_time_Now
  proof (rule wp_call_with_risk)
    fix x and v :: world
    assume ev: "fst (Evaluate (o_clock (w_env w) (w_step w)) (o_clock (w_env (next_step w)) (w_step (next_step w)))
        \<lparr>rk_MerchantID = cp_MerchantID req, rk_Amount = cp_Amount req, rk_Currency = cp_Currency req,
          rk_Method = cp_Method req, rk_CustomerPhone = cp_CustomerPhone req, rk_CustomerEmail = cp_CustomerEmail req\<rparr>
        (w_risk (next_step (next_step w)))) = Inr x"
      and v: "cstate v = cstate (next_step (next_step w))"
    have "0 < cp_Amount req \<and> cp_Amount req \<le> maxAmount re"
      using Evaluate_amount [OF ev] w(1) by simp
    then show "wp (do { now \<leftarrow> time_Now; call ''routing''
           (with_router (Route now \<lparr>rr_MerchantID = cp_MerchantID req, rr_Currency = cp_Currency req,
              rr_Country = [], rr_Method = cp_Method req, rr_Amount = cp_Amount req\<rparr>))
           (\<lambda>route. (case choose_connector (or_registry e) route of
                None \<Rightarrow> fail (ErrMsg (''no registered connector for method='' @ cp_Method req))
              | Some (psp, conn) \<Rightarrow> create_on req psp conn)) }) ?Q v"
      unfolding wp_bind wp_time_Now by (intro routed) (use v w(2) in simp_all)
  qed simp
qed

definition replayed :: "creation_state \<Rightarrow> create_pi_result \<Rightarrow> world \<Rightarrow> bool" where
  "replayed s x v \<longleftrightarrow> cstate v = s \<and> res_PaymentIntent x \<in> set (fst s) \<and> res_NextAction x = None"

lemma CreatePaymentIntent_result:
  "wp (CreatePaymentIntent e req) (on_success (\<lambda>x v. replayed (cstate w) x v \<or>
     (0 < cp_Amount req \<and> cp_Amount req \<le> maxAmount (w_risk w) \<and> created_from e req (cstate w) x v))) w"
  (is "wp _ ?Q w")
proof -
  have new: "wp (create_new e req) ?Q u" if "w_risk u = w_risk w" "cstate u = cstate w" for u
    by (rule wp_mono [OF create_new_result [OF that]]) simp
  have get: "wp (PI_GetByID i) (\<lambda>r t. t = next_step u \<and> (\<forall>p. r = Inr p \<longrightarrow> p \<in> set (pis u))) u" for u i
    by (cases "o_db (w_env u) (w_step u)") (auto simp: PI_GetByID_def wp_simps pis_def dest: sql_one_Inr)
  have old: "wp (try_call (PI_GetByID i) (\<lambda>p. ok \<lparr>res_PaymentIntent = p, res_NextAction = None\<rparr>)) ?Q u"
    if "cstate u = cstate w" for u i
    unfolding wp_try_call
  proof (rule wp_mono [OF get])
    have "fst (cstate w) = pis u" using that by (simp add: cstate_def)
    then show "t = next_step u \<and> (\<forall>p. r = Inr p \<longrightarrow> p \<in> set (pis u)) \<Longrightarrow> case r of Inl e \<Rightarrow> ?Q (Inl e) t
      | Inr p \<Rightarrow> wp (ok \<lparr>res_PaymentIntent = p, res_NextAction = None\<rparr>) ?Q t" for r t
      using that by (cases r) (simp_all add: wp_ok replayed_def)
  qed
  have "keeps (\<lambda>w. (w_risk w, cstate w)) (Idempotency_Check m k)" for m k
    unfolding Idempotency_Check_def by (intro keeps_intros; auto intro!: keeps_intros split: option.split)
  then show ?thesis
    unfolding CreatePaymentIntent_def
    by (auto simp: wp_call new intro!: wp_keepsI [where f = "\<lambda>w. (w_risk w, cstate w)"] new old split: sum.split)
qed

subsection \<open>The property\<close>

text \<open>C18: A creation that succeeds does what it reports. Either nothing was written and the returned
  intent is a stored one, or the amount is positive and within the risk limit, the returned intent
  has the request's merchant, amount, currency and method and a new identifier, and exactly that
  intent was added to the table, up to its update time; it failed and has no attempt, or it requires
  action and exactly one attempt was added, for it, at a registered provider, with a delayed query
  scheduled for that attempt when the provider is M-Pesa and none otherwise. The ledger is untouched.\<close>

theorem create_success:
  assumes run: "run_state (CreatePaymentIntent e req) w = (Inr x, v)"
  defines "p \<equiv> res_PaymentIntent x"
  shows "ledger v = ledger w \<and>
    ((pis v = pis w \<and> t_attempts (w_db v) = t_attempts (w_db w) \<and> w_timers v = w_timers w \<and> p \<in> set (pis w)) \<or>
     (0 < cp_Amount req \<and> cp_Amount req \<le> maxAmount (w_risk w) \<and> pi_MerchantID p = cp_MerchantID req \<and>
      pi_Amount p = cp_Amount req \<and> pi_Currency p = cp_Currency req \<and> pi_Method p = cp_Method req \<and>
      pi_ID p \<notin> pi_ID ` set (pis w) \<and> (\<exists>t. pis v = pis w @ [p\<lparr>pi_UpdatedAt := t\<rparr>]) \<and>
      ((pi_Status p = PIFailed \<and> t_attempts (w_db v) = t_attempts (w_db w) \<and> w_timers v = w_timers w) \<or>
       (pi_Status p = PIRequiresAction \<and> (\<exists>a fire. t_attempts (w_db v) = t_attempts (w_db w) @ [a] \<and>
          att_PaymentIntentID a = pi_ID p \<and> att_Status a = AttemptRequiresAction \<and>
          att_PSP a \<in> set (Registry_Names (or_registry e)) \<and>
          w_timers v = w_timers w @ (if att_PSP a = ''mpesa''
            then [\<lparr>tm_FireAt = fire, tm_PIID = pi_ID p, tm_AttemptID = att_ID a, tm_PSP = ''mpesa''\<rparr>] else []))))))"
proof -
  have "replayed (cstate w) x v \<or> (0 < cp_Amount req \<and> cp_Amount req \<le> maxAmount (w_risk w) \<and> created_from e req (cstate w) x v)"
    using wp_run [OF CreatePaymentIntent_result run] by simp
  then show ?thesis
  proof
    assume "replayed (cstate w) x v"
    then show ?thesis by (simp add: replayed_def cstate_def p_def)
  next
    assume *: "0 < cp_Amount req \<and> cp_Amount req \<le> maxAmount (w_risk w) \<and> created_from e req (cstate w) x v"
    then obtain q st now t where q: "pi_MerchantID q = cp_MerchantID req" "pi_Amount q = cp_Amount req"
        "pi_Currency q = cp_Currency req" "pi_Method q = cp_Method req" "pi_ID q \<notin> pi_ID ` set (pis w)"
      and p: "p = q\<lparr>pi_Status := st, pi_UpdatedAt := now\<rparr>"
      and outcome: "(st = PIFailed \<and> cstate v = (pis w @ [q\<lparr>pi_Status := st, pi_UpdatedAt := t\<rparr>], t_attempts (w_db w), ledger w, w_timers w)) \<or>
        (st = PIRequiresAction \<and> (\<exists>a fire. attempt_for e q a \<and>
          cstate v = (pis w @ [q\<lparr>pi_Status := st, pi_UpdatedAt := t\<rparr>], t_attempts (w_db w) @ [a], ledger w, w_timers w @
             (if att_PSP a = ''mpesa''
              then [\<lparr>tm_FireAt = fire, tm_PIID = pi_ID q, tm_AttemptID = att_ID a, tm_PSP = ''mpesa''\<rparr>] else []))))"
      by (auto simp: created_from_def creation_result_def cstate_def p_def)
    have row: "q\<lparr>pi_Status := st, pi_UpdatedAt := t\<rparr> = p\<lparr>pi_UpdatedAt := t\<rparr>" by (simp add: p)
    have fields: "pi_MerchantID p = pi_MerchantID q" "pi_Amount p = pi_Amount q" "pi_Currency p = pi_Currency q"
      "pi_Method p = pi_Method q" "pi_ID p = pi_ID q" "pi_Status p = st" by (simp_all add: p)
    from outcome show ?thesis
      unfolding row cstate_def prod.inject fields attempt_for_def using * q by (elim disjE conjE exE) auto
  qed
qed

lemma card_creation: "(case run_state (CreatePaymentIntent sample_orch card_req) (start_world (calm_env paystack_http []) empty_db) of
    (Inl e, v) \<Rightarrow> False | (Inr x, v) \<Rightarrow> pi_Status (res_PaymentIntent x) = PIRequiresAction \<and> pi_ID (res_PaymentIntent x) = ''5'')"
  by code_simp

theorem create_success_witness:
  "\<exists>x v. run_state (CreatePaymentIntent sample_orch card_req) (start_world (calm_env paystack_http []) empty_db) = (Inr x, v) \<and>
     map pi_ID (pis v) = [''5''] \<and> map att_PaymentIntentID (t_attempts (w_db v)) = [''5''] \<and> ledger v = []"
proof -
  let ?w = "start_world (calm_env paystack_http []) empty_db"
  obtain x v where run: "run_state (CreatePaymentIntent sample_orch card_req) ?w = (Inr x, v)"
    and x: "pi_Status (res_PaymentIntent x) = PIRequiresAction" "pi_ID (res_PaymentIntent x) = ''5''"
    using card_creation by (auto split: prod.splits sum.splits)
  have w: "pis ?w = []" "t_attempts (w_db ?w) = []" "ledger ?w = []"
    by (simp_all add: start_world_def empty_db_def pis_def ledger_def)
  from create_success [OF run] x w show ?thesis
    by (intro exI [of _ x] exI [of _ v] conjI [OF run]) auto
qed

end
