(* ===== verification/Race.thy ===== *)
theory Race
  imports Payments
begin

section \<open>Interleavings of webhooks and delayed queries\<close>

text \<open>
  The API, the worker and the query timers run concurrently against one database. Here the two
  handlers are cut at their external calls: a process is a program counter with the values read so
  far, one step performs one call of \<open>HandleWebhookEvent\<close> or \<open>delayed_query\<close>, and a schedule
  says which process moves next (a posting and a notification are one step each). Run alone, the
  steps are the handlers (\<open>wh_run_eq\<close>, \<open>q_run_eq\<close>). Interleaved, the conditional update of the
  delayed query protects the ledger, and the webhook's unconditional update does not.
\<close>

subsection \<open>Small steps of the webhook handler\<close>

datatype wh_pc =
    WLookup
  | WIntent attempt
  | WTxn attempt payment_intent
  | WCallback attempt payment_intent
  | WAttempt attempt payment_intent pi_status attempt_status
  | WStatus attempt payment_intent pi_status
  | WPost attempt payment_intent pi_status
  | WPublish attempt payment_intent pi_status
  | WDone "error + unit"

fun wh_step :: "orch \<Rightarrow> webhook_event \<Rightarrow> wh_pc \<Rightarrow> wh_pc go" where
  "wh_step e evt WLookup = do {
     r \<leftarrow> Attempt_GetByPSPReference (ev_PSP evt) (ev_PSPReference evt);
     ret (case r of Inl err \<Rightarrow> WDone (Inl (ErrWrap ''lookup attempt by psp ref'' err)) | Inr att \<Rightarrow> WIntent att) }"
| "wh_step e evt (WIntent att) = do {
     r \<leftarrow> PI_GetByID (att_PaymentIntentID att);
     ret (case r of Inl err \<Rightarrow> WDone (Inl (ErrWrap ''lookup pi'' err)) | Inr p \<Rightarrow> WTxn att p) }"
| "wh_step e evt (WTxn att p) = do {
     r \<leftarrow> (if ev_PSPTransactionID evt \<noteq> []
          then Attempt_UpdatePSPTransactionID (att_ID att) (ev_PSPTransactionID evt) else ok ());
     ret (WCallback att p) }"
| "wh_step e evt (WCallback att p) = do {
     r \<leftarrow> Attempt_UpdateCallbackPayload (att_ID att) (ev_RawPayload evt);
     ret (case outcome_statuses (ev_Status evt) of
            None \<Rightarrow> WDone (Inl (ErrMsg (''unknown webhook event status: '' @ ev_Status evt)))
          | Some (st, ast) \<Rightarrow>
              (if \<not> IsValidTransition (pi_Status p) st then WDone (Inr ()) else WAttempt att p st ast)) }"
| "wh_step e evt (WAttempt att p st ast) = do {
     r \<leftarrow> Attempt_UpdateStatus (att_ID att) ast;
     ret (case r of Inl err \<Rightarrow> WDone (Inl (ErrWrap ''update attempt status'' err)) | Inr _ \<Rightarrow> WStatus att p st) }"
| "wh_step e evt (WStatus att p st) = do {
     r \<leftarrow> PI_UpdateStatus (pi_ID p) st;
     ret (case r of Inl err \<Rightarrow> WDone (Inl (ErrWrap ''update pi status'' err)) | Inr _ \<Rightarrow> WPost att p st) }"
| "wh_step e evt (WPost att p st) = do {
     r \<leftarrow> (if st = PISucceeded then post_succeeded e p att else ok ());
     ret (case r of Inl err \<Rightarrow> WDone (Inl (ErrWrap ''ledger post'' err)) | Inr _ \<Rightarrow> WPublish att p st) }"
| "wh_step e evt (WPublish att p st) = do { publish_outcome e p att st; ret (WDone (Inr ())) }"
| "wh_step e evt (WDone r) = ret (WDone r)"

primrec wh_run :: "orch \<Rightarrow> webhook_event \<Rightarrow> nat \<Rightarrow> wh_pc \<Rightarrow> wh_pc go" where
  "wh_run e evt 0 pc = ret pc"
| "wh_run e evt (Suc n) pc = do { pc1 \<leftarrow> wh_step e evt pc; wh_run e evt n pc1 }"

subsection \<open>Small steps of the delayed query\<close>

datatype q_pc =
    QIntent string string string
  | QAttempt payment_intent string string
  | QStatus payment_intent attempt string
  | QMark payment_intent attempt pi_status attempt_status
  | QCas payment_intent attempt pi_status
  | QPost payment_intent attempt pi_status
  | QPublish payment_intent attempt pi_status
  | QDone

fun q_step :: "orch \<Rightarrow> q_pc \<Rightarrow> q_pc go" where
  "q_step e (QIntent i a psp) = do {
     r \<leftarrow> PI_GetByID i;
     ret (case r of Inl _ \<Rightarrow> QDone | Inr p \<Rightarrow>
            (if pi_Status p \<noteq> PIRequiresAction \<and> pi_Status p \<noteq> PIProcessing then QDone else QAttempt p a psp)) }"
| "q_step e (QAttempt p a psp) = do {
     r \<leftarrow> Attempt_GetByID a;
     ret (case r of Inl _ \<Rightarrow> QDone | Inr att \<Rightarrow> QStatus p att psp) }"
| "q_step e (QStatus p att psp) =
     (case Registry_Get (or_registry e) psp of
        None \<Rightarrow> ret QDone
      | Some conn \<Rightarrow> do {
          r \<leftarrow> conn_GetStatus conn (att_PSPReference att);
          ret (case r of Inl _ \<Rightarrow> QDone | Inr result \<Rightarrow>
                 (case outcome_statuses (sr_Status result) of
                    None \<Rightarrow> QDone
                  | Some (st, ast) \<Rightarrow>
                      (if \<not> IsValidTransition (pi_Status p) st then QDone else QMark p att st ast))) })"
| "q_step e (QMark p att st ast) = do {
     r \<leftarrow> Attempt_UpdateStatus (att_ID att) ast;
     ret (case r of Inl _ \<Rightarrow> QDone | Inr _ \<Rightarrow> QCas p att st) }"
| "q_step e (QCas p att st) = do {
     r \<leftarrow> PI_UpdateStatusSafe (pi_ID p) (pi_Status p) st;
     ret (case r of Inl _ \<Rightarrow> QDone | Inr changed \<Rightarrow> (if \<not> changed then QDone else QPost p att st)) }"
| "q_step e (QPost p att st) = do {
     r \<leftarrow> (if st = PISucceeded then post_succeeded e p att else ok ());
     ret (case r of Inl _ \<Rightarrow> QDone | Inr _ \<Rightarrow> QPublish p att st) }"
| "q_step e (QPublish p att st) = do { publish_outcome e p att st; ret QDone }"
| "q_step e QDone = ret QDone"

primrec q_run :: "orch \<Rightarrow> nat \<Rightarrow> q_pc \<Rightarrow> q_pc go" where
  "q_run e 0 pc = ret pc"
| "q_run e (Suc n) pc = do { pc1 \<leftarrow> q_step e pc; q_run e n pc1 }"

subsection \<open>Run alone, the steps are the handlers\<close>

lemma run_state_eqI: "(\<And>s. run_state m s = run_state n s) \<Longrightarrow> m = n"
  by (cases m; cases n) (simp add: fun_eq_iff)

lemma bind_cong: "m = n \<Longrightarrow> (\<And>a. f a = g a) \<Longrightarrow> State_Monad.bind m f = State_Monad.bind n g"
  by (metis ext)

lemma map_return: "State_Monad.bind (ret x) k = k x"
  by (rule run_state_eqI) simp

lemma bind_assoc: "State_Monad.bind (State_Monad.bind m f) g = State_Monad.bind m (\<lambda>a. State_Monad.bind (f a) g)"
  by (rule run_state_eqI) (simp split: prod.split)

lemma wh_run_done: "wh_run e evt n (WDone r) = ret (WDone r)"
  by (induction n) (simp_all add: map_return)

lemma q_run_done: "q_run e n QDone = ret QDone"
  by (induction n) (simp_all add: map_return)

lemma call_bind: "State_Monad.bind (call c m k) f =
    State_Monad.bind m (\<lambda>r. case r of Inl e \<Rightarrow> f (Inl (ErrWrap c e)) | Inr x \<Rightarrow> State_Monad.bind (k x) f)"
  unfolding call_def bind_assoc
  by (rule bind_cong [OF refl]) (auto simp: fail_def map_return split: sum.split)

lemmas pc_simps = bind_assoc map_return call_bind wh_run_done q_run_done ok_def fail_def

lemma wh_run_publish: "wh_run e evt (Suc n) (WPublish att p st) =
    State_Monad.bind (do { publish_outcome e p att st; ok () }) (\<lambda>r. ret (WDone r))"
  by (simp add: pc_simps)

lemma wh_run_post: "wh_run e evt (Suc (Suc n)) (WPost att p st) =
    State_Monad.bind (call ''ledger post'' (if st = PISucceeded then post_succeeded e p att else ok ())
      (\<lambda>_. do { publish_outcome e p att st; ok () })) (\<lambda>r. ret (WDone r))"
  unfolding wh_run.simps(2) [of e evt "Suc n"] wh_step.simps call_bind bind_assoc map_return
  by (intro bind_cong refl) (auto simp del: wh_run.simps simp: wh_run_done wh_run_publish pc_simps split: sum.split)

lemma wh_run_status: "wh_run e evt (Suc (Suc (Suc n))) (WStatus att p st) =
    State_Monad.bind (call ''update pi status'' (PI_UpdateStatus (pi_ID p) st) (\<lambda>_.
      call ''ledger post'' (if st = PISucceeded then post_succeeded e p att else ok ())
      (\<lambda>_. do { publish_outcome e p att st; ok () }))) (\<lambda>r. ret (WDone r))"
  unfolding wh_run.simps(2) [of e evt "Suc (Suc n)"] wh_step.simps call_bind [of "''update pi status''"] bind_assoc map_return
  by (intro bind_cong refl) (auto simp del: wh_run.simps simp: wh_run_done wh_run_post map_return split: sum.split)

lemma wh_run_attempt: "wh_run e evt (Suc (Suc (Suc (Suc n)))) (WAttempt att p st ast) =
    State_Monad.bind (call ''update attempt status'' (Attempt_UpdateStatus (att_ID att) ast) (\<lambda>_.
      call ''update pi status'' (PI_UpdateStatus (pi_ID p) st) (\<lambda>_.
      call ''ledger post'' (if st = PISucceeded then post_succeeded e p att else ok ())
      (\<lambda>_. do { publish_outcome e p att st; ok () })))) (\<lambda>r. ret (WDone r))"
  unfolding wh_run.simps(2) [of e evt "Suc (Suc (Suc n))"] wh_step.simps call_bind [of "''update attempt status''"] bind_assoc map_return
  by (intro bind_cong refl) (auto simp del: wh_run.simps simp: wh_run_done wh_run_status map_return split: sum.split)

lemma wh_run_callback: "wh_run e evt (Suc (Suc (Suc (Suc (Suc n))))) (WCallback att p) =
    State_Monad.bind (Attempt_UpdateCallbackPayload (att_ID att) (ev_RawPayload evt)) (\<lambda>_.
     State_Monad.bind (case outcome_statuses (ev_Status evt) of
          None \<Rightarrow> fail (ErrMsg (''unknown webhook event status: '' @ ev_Status evt))
        | Some (newPI, newAtt) \<Rightarrow> apply_webhook e p att newPI newAtt) (\<lambda>r. ret (WDone r)))"
  unfolding wh_run.simps(2) [of e evt "Suc (Suc (Suc (Suc n)))"] wh_step.simps bind_assoc map_return
  by (intro bind_cong refl)
     (auto simp del: wh_run.simps simp: wh_run_done wh_run_attempt map_return apply_webhook_def fail_def ok_def split: option.split)

lemma wh_run_txn: "wh_run e evt (Suc (Suc (Suc (Suc (Suc (Suc n)))))) (WTxn att p) =
    State_Monad.bind (if ev_PSPTransactionID evt \<noteq> []
             then Attempt_UpdatePSPTransactionID (att_ID att) (ev_PSPTransactionID evt) else ok ()) (\<lambda>_.
    State_Monad.bind (Attempt_UpdateCallbackPayload (att_ID att) (ev_RawPayload evt)) (\<lambda>_.
     State_Monad.bind (case outcome_statuses (ev_Status evt) of
          None \<Rightarrow> fail (ErrMsg (''unknown webhook event status: '' @ ev_Status evt))
        | Some (newPI, newAtt) \<Rightarrow> apply_webhook e p att newPI newAtt) (\<lambda>r. ret (WDone r))))"
  unfolding wh_run.simps(2) [of e evt "Suc (Suc (Suc (Suc (Suc n))))"] wh_step.simps bind_assoc map_return
  by (intro bind_cong refl wh_run_callback)

lemma wh_run_intent: "wh_run e evt (Suc (Suc (Suc (Suc (Suc (Suc (Suc n))))))) (WIntent att) =
    State_Monad.bind (call ''lookup pi'' (PI_GetByID (att_PaymentIntentID att)) (\<lambda>p. do {
       r1 \<leftarrow> (if ev_PSPTransactionID evt \<noteq> []
             then Attempt_UpdatePSPTransactionID (att_ID att) (ev_PSPTransactionID evt) else ok ());
       r2 \<leftarrow> Attempt_UpdateCallbackPayload (att_ID att) (ev_RawPayload evt);
       (case outcome_statuses (ev_Status evt) of
          None \<Rightarrow> fail (ErrMsg (''unknown webhook event status: '' @ ev_Status evt))
        | Some (newPI, newAtt) \<Rightarrow> apply_webhook e p att newPI newAtt) })) (\<lambda>r. ret (WDone r))"
  unfolding wh_run.simps(2) [of e evt "Suc (Suc (Suc (Suc (Suc (Suc n)))))"] wh_step.simps call_bind bind_assoc map_return
  by (intro bind_cong refl) (auto simp del: wh_run.simps simp: wh_run_done wh_run_txn map_return bind_assoc split: sum.split)

text \<open>The small steps of the webhook handler, run without interruption, are the handler: after
  eight steps the process is done with the handler's result, in the handler's final state.\<close>

lemma wh_run_eq: "wh_run e evt (8 + n) WLookup = State_Monad.bind (HandleWebhookEvent e evt) (\<lambda>r. ret (WDone r))"
proof -
  have "wh_run e evt (Suc (Suc (Suc (Suc (Suc (Suc (Suc (Suc n)))))))) WLookup =
      State_Monad.bind (HandleWebhookEvent e evt) (\<lambda>r. ret (WDone r))"
    unfolding wh_run.simps(2) [of e evt "Suc (Suc (Suc (Suc (Suc (Suc (Suc n))))))"] wh_step.simps
      HandleWebhookEvent_def call_bind [of "''lookup attempt by psp ref''"] bind_assoc map_return
    by (intro bind_cong refl) (auto simp del: wh_run.simps simp: wh_run_done wh_run_intent map_return split: sum.split)
  then show ?thesis by (simp only: numeral_eq_Suc pred_numeral_simps BitM.simps add_Suc add_0)
qed

lemma q_run_publish: "q_run e (Suc n) (QPublish p att st) = State_Monad.bind (publish_outcome e p att st) (\<lambda>_. ret QDone)"
  by (simp add: pc_simps)

lemma q_run_post: "q_run e (Suc (Suc n)) (QPost p att st) =
    State_Monad.bind (if st = PISucceeded then post_succeeded e p att else ok ()) (\<lambda>r3.
      State_Monad.bind (case r3 of Inl _ \<Rightarrow> ret () | Inr _ \<Rightarrow> publish_outcome e p att st) (\<lambda>_. ret QDone))"
  unfolding q_run.simps(2) [of e "Suc n"] q_step.simps bind_assoc map_return
  by (intro bind_cong refl) (auto simp del: q_run.simps simp: q_run_done q_run_publish map_return split: sum.split)

lemma q_run_cas: "q_run e (Suc (Suc (Suc n))) (QCas p att st) =
    State_Monad.bind (PI_UpdateStatusSafe (pi_ID p) (pi_Status p) st) (\<lambda>r2.
      State_Monad.bind (case r2 of
                     Inl _ \<Rightarrow> ret ()
                   | Inr changed \<Rightarrow>
                       (if \<not> changed then ret ()
                        else do {
                          r3 \<leftarrow> (if st = PISucceeded then post_succeeded e p att else ok ());
                          (case r3 of Inl _ \<Rightarrow> ret () | Inr _ \<Rightarrow> publish_outcome e p att st) })) (\<lambda>_. ret QDone))"
  unfolding q_run.simps(2) [of e "Suc (Suc n)"] q_step.simps bind_assoc map_return
  by (intro bind_cong refl) (auto simp del: q_run.simps simp: q_run_done q_run_post map_return bind_assoc split: sum.split)

lemma q_run_status: "q_run e (Suc (Suc (Suc (Suc (Suc n))))) (QStatus p att psp) =
    State_Monad.bind (case Registry_Get (or_registry e) psp of
                     None \<Rightarrow> ret ()
                   | Some conn \<Rightarrow> do {
                       r3 \<leftarrow> conn_GetStatus conn (att_PSPReference att);
                       (case r3 of
                          Inl _ \<Rightarrow> ret ()
                        | Inr result \<Rightarrow> applyQueryResult e p att result) }) (\<lambda>_. ret QDone)"
proof -
  have mark: "q_run e (Suc (Suc (Suc (Suc n)))) (QMark p att st ast) =
      State_Monad.bind (Attempt_UpdateStatus (att_ID att) ast) (\<lambda>r. case r of Inl _ \<Rightarrow> ret QDone
        | Inr _ \<Rightarrow> q_run e (Suc (Suc (Suc n))) (QCas p att st))" for st ast
    unfolding q_run.simps(2) [of e "Suc (Suc (Suc n))"] q_step.simps bind_assoc map_return
    by (intro bind_cong refl) (auto simp del: q_run.simps simp: q_run_done split: sum.split)
  have res: "(case outcome_statuses (sr_Status result) of None \<Rightarrow> ret QDone
        | Some (st, ast) \<Rightarrow> if \<not> IsValidTransition (pi_Status p) st then ret QDone
                           else q_run e (Suc (Suc (Suc (Suc n)))) (QMark p att st ast)) =
      State_Monad.bind (applyQueryResult e p att result) (\<lambda>_. ret QDone)" for result
    unfolding applyQueryResult_def mark q_run_cas
    by (auto simp del: q_run.simps simp: map_return bind_assoc intro!: bind_cong split: option.split sum.split)
  show ?thesis
    unfolding q_run.simps(2) [of e "Suc (Suc (Suc (Suc n)))"] q_step.simps
    by (auto simp del: q_run.simps simp: map_return bind_assoc q_run_done res [symmetric] intro!: bind_cong
        split: option.split sum.split prod.split)
qed

text \<open>The small steps of the delayed query, run without interruption, are the query.\<close>

lemma q_run_eq: "q_run e (7 + n) (QIntent i a psp) = State_Monad.bind (delayed_query e i a psp) (\<lambda>_. ret QDone)"
proof -
  have att: "q_run e (Suc (Suc (Suc (Suc (Suc (Suc n)))))) (QAttempt p a psp) =
      State_Monad.bind (Attempt_GetByID a) (\<lambda>r. case r of Inl _ \<Rightarrow> ret QDone
        | Inr att \<Rightarrow> q_run e (Suc (Suc (Suc (Suc (Suc n))))) (QStatus p att psp))" for p
    unfolding q_run.simps(2) [of e "Suc (Suc (Suc (Suc (Suc n))))"] q_step.simps bind_assoc map_return
    by (intro bind_cong refl) (auto simp del: q_run.simps simp: q_run_done split: sum.split)
  have "q_run e (Suc (Suc (Suc (Suc (Suc (Suc (Suc n))))))) (QIntent i a psp) =
      State_Monad.bind (delayed_query e i a psp) (\<lambda>_. ret QDone)"
    unfolding q_run.simps(2) [of e "Suc (Suc (Suc (Suc (Suc (Suc n)))))"] q_step.simps delayed_query_def bind_assoc map_return
    by (intro bind_cong refl)
       (auto simp del: q_run.simps simp: q_run_done att q_run_status map_return bind_assoc intro!: bind_cong split: sum.split)
  then show ?thesis by (simp only: numeral_eq_Suc pred_numeral_simps BitM.simps add_Suc add_0)
qed

subsection \<open>Interleaved processes\<close>

datatype process = PWebhook webhook_event wh_pc | PQuery q_pc

fun proc_step :: "orch \<Rightarrow> process \<Rightarrow> process go" where
  "proc_step e (PWebhook evt pc) = do { pc1 \<leftarrow> wh_step e evt pc; ret (PWebhook evt pc1) }"
| "proc_step e (PQuery pc) = do { pc1 \<leftarrow> q_step e pc; ret (PQuery pc1) }"

text \<open>The schedule names the process that takes the next step.\<close>

primrec interleave :: "orch \<Rightarrow> nat list \<Rightarrow> process list \<Rightarrow> process list go" where
  "interleave e [] ps = ret ps"
| "interleave e (k # ks) ps =
     (if k < length ps then do { p \<leftarrow> proc_step e (ps ! k); interleave e ks (ps[k := p]) }
      else interleave e ks ps)"

subsection \<open>Delayed queries alone are safe\<close>

text \<open>
  A query between its conditional update and its posting owes the ledger one collection. Posted
  and owed collections together never exceed one per intent. What a query read earlier may be
  stale; the conditional update makes up for that.
\<close>

fun owes :: "string \<Rightarrow> process \<Rightarrow> nat" where
  "owes i (PQuery (QPost p att st)) = (if st = PISucceeded \<and> pi_ID p = i then 1 else 0)"
| "owes i _ = 0"

fun query_ok :: "process \<Rightarrow> bool" where
  "query_ok (PQuery (QMark p att st ast)) = IsValidTransition (pi_Status p) st"
| "query_ok (PQuery (QCas p att st)) = IsValidTransition (pi_Status p) st"
| "query_ok (PQuery _) = True"
| "query_ok (PWebhook evt pc) = False"

definition due_inv :: "(string \<Rightarrow> nat) \<Rightarrow> world \<Rightarrow> bool" where
  "due_inv f w \<longleftrightarrow> distinct (map pi_ID (pis w)) \<and> (\<forall>i. posted i (ledger w) + f i \<le> 1) \<and>
     (\<forall>i. 0 < posted i (ledger w) + f i \<longrightarrow> (\<exists>p \<in> set (pis w). pi_ID p = i \<and> paid (pi_Status p)))"

definition due_good :: "(string \<Rightarrow> nat) \<Rightarrow> world \<Rightarrow> process \<Rightarrow> world \<Rightarrow> bool" where
  "due_good oth w pr v \<longleftrightarrow> query_ok pr \<and> due_inv (\<lambda>i. owes i pr + oth i) v \<and> evolves (pis w) (pis v)"

lemma due_inv_core: "core v = core w \<Longrightarrow> due_inv f v = due_inv f w"
  by (auto simp: due_inv_def dest!: core_eqD)

lemma due_goodI:
  assumes "due_inv oth w" "core v = core w" "query_ok pr" "\<And>i. owes i pr = 0"
  shows "due_good oth w pr v"
  using assms due_inv_core [OF assms(2), of oth] core_eqD [OF assms(2)] by (simp add: due_good_def)

lemma wp_due:
  assumes "keeps core m" "due_inv oth w" "\<And>r. query_ok (f r)" "\<And>r i. owes i (f r) = 0"
  shows "wp (State_Monad.bind m (\<lambda>r. ret (f r))) (\<lambda>pr v. due_good oth w pr v) w"
  unfolding wp_bind wp_return
  by (rule wp_keepsI [OF assms(1)]) (rule due_goodI [OF assms(2) _ assms(3,4)])

text \<open>The conditional update: it finds the intent in the status the query had read, so the
  transition is valid now, and a success starts from an unpaid intent.\<close>

lemma due_cas:
  assumes inv: "due_inv oth w" and valid: "IsValidTransition (pi_Status p) st"
    and q: "q \<in> set (pis w)" "pi_ID q = pi_ID p" "pi_Status q = pi_Status p"
    and v: "pis v = map (\<lambda>x. if pi_ID x = pi_ID p \<and> pi_Status x = pi_Status p
      then x\<lparr>pi_Status := st, pi_UpdatedAt := now\<rparr> else x) (pis w)" "ledger v = ledger w"
    and f: "\<And>i. f i = oth i \<or> (f i = oth i + 1 \<and> i = pi_ID p \<and> st = PISucceeded)"
  shows "due_inv f v \<and> evolves (pis w) (pis v)"
proof -
  have dist: "distinct (map pi_ID (pis w))" using inv by (simp add: due_inv_def)
  have v1: "pis v = set_pi_status (pi_ID q) st now (pis w)"
    using unique_update_is_set_status [OF dist q(1)] q(2,3) v(1) by simp
  have valid_q: "IsValidTransition (pi_Status q) st" using valid q(3) by simp
  have zero: "posted (pi_ID p) (ledger w) + oth (pi_ID p) = 0" if "st = PISucceeded"
  proof (rule ccontr)
    assume "posted (pi_ID p) (ledger w) + oth (pi_ID p) \<noteq> 0"
    then have "0 < posted (pi_ID p) (ledger w) + oth (pi_ID p)" by simp
    then obtain r where "r \<in> set (pis w)" "pi_ID r = pi_ID p" "paid (pi_Status r)"
      using inv unfolding due_inv_def by meson
    then show False using unique_pi [OF dist _ q(1)] succeeded_from_unpaid valid_q that q(2) by metis
  qed
  have "due_inv f v"
    unfolding due_inv_def
  proof (intro conjI allI impI)
    show "distinct (map pi_ID (pis v))" using dist by (simp add: v1 map_pi_ID_set_status)
    show "posted i (ledger v) + f i \<le> 1" for i
    proof (cases "f i = oth i")
      case True
      then show ?thesis using inv v(2) by (simp add: due_inv_def)
    next
      case False
      with f [of i] have "f i = oth i + 1" "i = pi_ID p" "st = PISucceeded" by auto
      then show ?thesis using zero v(2) by simp
    qed
    show "\<exists>x \<in> set (pis v). pi_ID x = i \<and> paid (pi_Status x)" if pos: "0 < posted i (ledger v) + f i" for i
    proof (cases "f i = oth i")
      case True
      then obtain r where "r \<in> set (pis w)" "pi_ID r = i" "paid (pi_Status r)"
        using pos inv v(2) unfolding due_inv_def by auto
      then show ?thesis using set_status_paid [OF dist q(1) valid_q, of _ now] v1 by metis
    next
      case False
      with f [of i] have i: "i = pi_ID p" "st = PISucceeded" by auto
      then show ?thesis using set_status_new [OF q(1), of st now] v1 q(2) by (auto simp: paid_def)
    qed
  qed
  then show ?thesis using set_status_evolves [OF dist q(1) valid_q, of now] v1 by simp
qed

text \<open>The posting pays the debt, or the debt lapses.\<close>

lemma due_post:
  assumes inv: "due_inv (\<lambda>i. (if i = j then 1 else 0) + oth i) w"
    and v: "pis v = pis w" "\<And>i. posted i (ledger v) \<le> posted i (ledger w) + (if i = j then 1 else 0)"
  shows "due_inv oth v \<and> evolves (pis w) (pis v)"
proof -
  have le: "posted i (ledger v) + oth i \<le> posted i (ledger w) + ((if i = j then 1 else 0) + oth i)" for i
    using v(2) [of i] by simp
  have "due_inv oth v"
    unfolding due_inv_def v(1)
  proof (intro conjI allI impI)
    show "distinct (map pi_ID (pis w))" using inv by (simp add: due_inv_def)
    show "posted i (ledger v) + oth i \<le> 1" for i
      using inv le [of i] unfolding due_inv_def by (meson le_trans)
    show "\<exists>p \<in> set (pis w). pi_ID p = i \<and> paid (pi_Status p)" if "0 < posted i (ledger v) + oth i" for i
      using inv le [of i] that unfolding due_inv_def by (meson less_le_trans)
  qed
  then show ?thesis by (simp add: v(1))
qed

lemma due_drop:
  assumes "due_inv (\<lambda>i. d i + oth i) w"
  shows "due_inv oth w"
  using assms unfolding due_inv_def
  by (meson add_increasing le_add2 add_le_mono le_refl less_le_trans le_trans zero_le)

lemma wp_post_succeeded_due:
  assumes "due_inv (\<lambda>i. (if i = pi_ID p then 1 else 0) + oth i) w"
    and "\<And>r v. due_inv oth v \<Longrightarrow> evolves (pis w) (pis v) \<Longrightarrow> Q r v"
  shows "wp (post_succeeded e p att) Q w"
  by (rule wp_post_succeeded) (use due_post [OF assms(1)] assms(2) in blast)

lemma keeps_core_post_other: "st \<noteq> PISucceeded \<Longrightarrow> keeps core (if st = PISucceeded then post_succeeded e p att else ok ())"
  by (simp add: keeps_ok)

lemma query_step_due:
  assumes "query_ok (PQuery pc)" "due_inv (\<lambda>i. owes i (PQuery pc) + oth i) w"
  shows "wp (proc_step e (PQuery pc)) (\<lambda>pr v. due_good oth w pr v) w"
proof (cases pc)
  case (QIntent i a psp)
  then have inv: "due_inv oth w" using assms(2) by simp
  show ?thesis
    unfolding QIntent proc_step.simps q_step.simps bind_assoc map_return wp_bind wp_return
    by (rule wp_PI_GetByID) (auto intro!: due_goodI [OF inv] dest: core_db)
next
  case (QAttempt p a psp)
  then have inv: "due_inv oth w" using assms(2) by simp
  show ?thesis
    unfolding QAttempt proc_step.simps q_step.simps bind_assoc map_return wp_bind wp_return
    by (rule wp_Attempt_GetByID) (auto intro!: due_goodI [OF inv] dest: core_db)
next
  case (QStatus p att psp)
  then have inv: "due_inv oth w" using assms(2) by simp
  show ?thesis
  proof (cases "Registry_Get (or_registry e) psp")
    case None
    then show ?thesis using inv by (simp add: QStatus map_return wp_return due_goodI)
  next
    case (Some conn)
    show ?thesis
      unfolding QStatus proc_step.simps q_step.simps Some option.case bind_assoc map_return wp_bind wp_return
      by (rule wp_keepsI [OF keeps_core_connector(2)])
        (auto intro!: due_goodI [OF inv] split: sum.split option.split)
  qed
next
  case (QMark p att st ast)
  then have inv: "due_inv oth w" and ok: "IsValidTransition (pi_Status p) st" using assms by simp_all
  show ?thesis
    unfolding QMark proc_step.simps q_step.simps bind_assoc map_return wp_bind wp_return
    by (rule wp_keepsI [OF keeps_core_attempts(2)]) (use ok in \<open>auto intro!: due_goodI [OF inv] split: sum.split\<close>)
next
  case (QCas p att st)
  then have inv: "due_inv oth w" and ok: "IsValidTransition (pi_Status p) st" using assms by simp_all
  let ?next = "\<lambda>r :: error + bool. case r of Inl _ \<Rightarrow> QDone | Inr changed \<Rightarrow> (if \<not> changed then QDone else QPost p att st)"
  have "wp (PI_UpdateStatusSafe (pi_ID p) (pi_Status p) st) (\<lambda>r v. due_good oth w (PQuery (?next r)) v) w"
  proof (rule wp_PI_UpdateStatusSafe)
    fix r :: "error + bool" and v :: world
    assume "core v = core w" "r \<noteq> Inr True"
    then show "due_good oth w (PQuery (?next r)) v" by (auto intro!: due_goodI [OF inv] split: sum.split)
  next
    fix r :: "error + bool" and v :: world and now
    assume v: "pis v = map (\<lambda>x. if pi_ID x = pi_ID p \<and> pi_Status x = pi_Status p
        then x\<lparr>pi_Status := st, pi_UpdatedAt := now\<rparr> else x) (pis w)" "ledger v = ledger w"
      and q: "\<exists>q \<in> set (pis w). pi_ID q = pi_ID p \<and> pi_Status q = pi_Status p"
    have "owes i (PQuery (?next r)) + oth i = oth i \<or>
        (owes i (PQuery (?next r)) + oth i = oth i + 1 \<and> i = pi_ID p \<and> st = PISucceeded)" for i
      by (auto split: sum.split)
    note debt = this
    obtain q where q': "q \<in> set (pis w)" "pi_ID q = pi_ID p" "pi_Status q = pi_Status p" using q by blast
    have "due_inv (\<lambda>i. owes i (PQuery (?next r)) + oth i) v \<and> evolves (pis w) (pis v)"
      by (rule due_cas [OF inv ok q' v]) (rule debt)
    moreover have "query_ok (PQuery (?next r))" by (auto split: sum.split)
    ultimately show "due_good oth w (PQuery (?next r)) v" by (simp add: due_good_def)
  qed
  then show ?thesis by (simp add: QCas bind_assoc map_return wp_bind wp_ret)
next
  case (QPost p att st)
  let ?next = "\<lambda>r :: error + unit. case r of Inl _ \<Rightarrow> QDone | Inr _ \<Rightarrow> QPublish p att st"
  have next_ok: "query_ok (PQuery (?next r)) \<and> owes i (PQuery (?next r)) = 0" for r i by (auto split: sum.split)
  have "wp (if st = PISucceeded then post_succeeded e p att else ok ()) (\<lambda>r v. due_good oth w (PQuery (?next r)) v) w"
  proof (cases "st = PISucceeded")
    case True
    have "(\<lambda>i. owes i (PQuery pc) + oth i) = (\<lambda>i. (if i = pi_ID p then 1 else 0) + oth i)"
      by (auto simp: QPost True fun_eq_iff)
    then have inv: "due_inv (\<lambda>i. (if i = pi_ID p then 1 else 0) + oth i) w" using assms(2) by simp
    have "wp (post_succeeded e p att) (\<lambda>r v. due_good oth w (PQuery (?next r)) v) w"
      by (rule wp_post_succeeded_due [OF inv]) (use next_ok in \<open>simp add: due_good_def\<close>)
    then show ?thesis using True by simp
  next
    case False
    then have "due_inv oth w" using assms(2) by (simp add: QPost)
    then show ?thesis using False next_ok by (auto simp: wp_ok intro!: due_goodI)
  qed
  then show ?thesis by (simp add: QPost bind_assoc map_return wp_bind wp_ret)
next
  case (QPublish p att st)
  then have inv: "due_inv oth w" using assms(2) by simp
  show ?thesis
    unfolding QPublish proc_step.simps q_step.simps bind_assoc map_return wp_bind wp_return
    by (rule wp_keepsI [OF keeps_core_publish]) (auto intro!: due_goodI [OF inv])
next
  case QDone
  then show ?thesis using assms(2) by (simp add: map_return wp_return due_goodI)
qed

text \<open>A whole schedule: the debts of the processes add up.\<close>

definition debts :: "process list \<Rightarrow> string \<Rightarrow> nat" where
  "debts ps i = sum_list (map (owes i) ps)"

lemma debts_update: "k < length ps \<Longrightarrow> debts (ps[k := x]) i + owes i (ps ! k) = debts ps i + owes i x"
proof (induction ps arbitrary: k)
  case (Cons p ps)
  then show ?case by (cases k) (simp_all add: debts_def)
qed simp

lemma owes_le_debts: "p \<in> set ps \<Longrightarrow> owes i p \<le> debts ps i"
  by (induction ps) (auto simp: debts_def)

lemma interleave_due:
  "list_all query_ok ps \<Longrightarrow> due_inv (debts ps) w \<Longrightarrow>
   wp (interleave e ks ps) (\<lambda>qs v. list_all query_ok qs \<and> due_inv (debts qs) v \<and> evolves (pis w) (pis v)) w"
proof (induction ks arbitrary: ps w)
  case Nil
  then show ?case by (simp add: wp_return)
next
  case (Cons k ks)
  show ?case
  proof (cases "k < length ps")
    case True
    then have ok: "query_ok (ps ! k)" using Cons.prems(1) by (simp add: list_all_length)
    then obtain pc where pc: "ps ! k = PQuery pc" by (cases "ps ! k") auto
    let ?oth = "\<lambda>i. debts ps i - owes i (ps ! k)"
    have le: "owes i (ps ! k) \<le> debts ps i" for i
      using True by (simp add: owes_le_debts)
    have inv: "due_inv (\<lambda>i. owes i (PQuery pc) + ?oth i) w" using Cons.prems(2) le pc by simp
    have step: "wp (proc_step e (ps ! k)) (\<lambda>pr v. due_good ?oth w pr v) w"
      using query_step_due [OF _ inv] ok pc by simp
    have "wp (interleave e ks (ps[k := pr])) (\<lambda>qs x. list_all query_ok qs \<and> due_inv (debts qs) x \<and> evolves (pis w) (pis x)) v"
      if good: "due_good ?oth w pr v" for pr v
    proof -
      have "owes i pr + ?oth i = debts (ps[k := pr]) i" for i
        using debts_update [OF True, of pr i] le [of i] by simp
      then have "due_inv (debts (ps[k := pr])) v" using good by (simp add: due_good_def)
      moreover have "list_all query_ok (ps[k := pr])"
        using Cons.prems(1) good by (auto simp: list_all_iff due_good_def dest!: set_update_subset_insert [THEN subsetD])
      ultimately show ?thesis
        using wp_mono [OF Cons.IH] evolves_trans good by (smt (verit) due_good_def)
    qed
    with step True show ?thesis by (auto simp: wp_bind intro: wp_mono)
  next
    case False
    then show ?thesis using Cons by simp
  qed
qed

subsection \<open>Evaluation of concrete runs\<close>

lemma numeral_replicate: "replicate (numeral k) x = x # replicate (pred_numeral k) x"
  by (simp add: numeral_eq_Suc)

lemmas run_defs =
  wp_simps repo_defs run_stmt_def table_update_def table_insert_def calm_env_def start_world_def empty_db_def
  outcome_statuses_def transition_simps post_succeeded_def PostCollection_def computeFee_def sample_orch_def
  Let_def go_div_def is_int64_def postBalanced_def validateBalanced_def balances_of_def post_balance_def entry_def
  pspClearingAccount_eq MerchantAvailable_eq AccountPlatformFees_def publish_outcome_def Notif_Publish_def
  entry_check_def show_nat_inj ledger_insert_def posted_def ledger_def clearing_debit_def line_of_def has_prefix_def

text \<open>An M-Pesa payment whose prompt was sent and which waits for the customer. One document
  answers every request: the token, the accepted prompt, and a query that says the customer paid.\<close>

definition mobile_orch :: orch where
  "mobile_orch = \<lparr>or_registry = [(''mpesa'', MpesaConn \<lparr>mc_ConsumerKey = ''ck'', mc_ConsumerSecret = ''cs'',
     mc_ShortCode = ''174379'', mc_PassKey = ''pk'', mc_CallbackBase = ''https://zia'', mc_Sandbox = True,
     mc_B2CInitiatorName = [], mc_B2CSecurityCred = [], mc_AllowedIPs = []\<rparr>)],
     or_Percent = 5, or_MinAmount = 100, or_notif = True\<rparr>"

definition mpesa_reply :: bytes where
  "mpesa_reply = Doc (JObj [(''access_token'', JStr ''tok''), (''expires_in'', JStr ''3599''),
     (''CheckoutRequestID'', JStr ''ws_1''), (''ResponseCode'', JStr ''0''), (''ResultCode'', JStr ''0'')])"

definition mpesa_http :: "nat \<Rightarrow> http_request \<Rightarrow> http_reply" where
  "mpesa_http k r = HttpResp 200 mpesa_reply 100"

definition mobile_waiting :: world where
  "mobile_waiting = start_world (calm_env mpesa_http []) (empty_db\<lparr>
     t_payment_intents := [card_intent\<lparr>pi_Currency := ''KES'', pi_Method := ''mpesa_stk''\<rparr>],
     t_attempts := [card_attempt\<lparr>att_PSP := ''mpesa'', att_PSPReference := ''ws_1''\<rparr>]\<rparr>)"

definition stk_event :: webhook_event where
  "stk_event = charge_event\<lparr>ev_PSP := ''mpesa'', ev_EventType := ''stk_callback'', ev_PSPReference := ''ws_1''\<rparr>"

lemma mpesa_reply_decoded:
  "Option.bind (unmarshal_fields mpesa_reply) (\<lambda>fs. Option.bind (dec_string ''access_token'' fs) (\<lambda>tok.
     Option.bind (dec_string ''expires_in'' fs) (\<lambda>exp. Some (tok, exp)))) = Some (''tok'', ''3599'')"
  "Atoi ''3599'' = Some 3599"
  "decode_stk mpesa_reply = Some (''ws_1'', ''0'', [])"
  "decode_query mpesa_reply = Some (''0'', [])"
  "jsonb_ok mpesa_reply" 
  by code_simp+


lemmas mpesa_query_defs = mpesa_GetStatus_def Token_def fetchToken_def http_send_def mpesa_http_def mpesa_reply_decoded
  query_status_def duration_defs

lemma query_overtakes_webhook:
  "wp (interleave mobile_orch ([0, 0] @ replicate 7 1 @ replicate 6 0)
       [PWebhook stk_event WLookup, PQuery (QIntent ''5'' ''9'' ''mpesa'')])
     (\<lambda>qs v. posted ''5'' (ledger v) = 2 \<and> qs = [PWebhook stk_event (WDone (Inr ())), PQuery QDone]) mobile_waiting"
  by (simp add: numeral_replicate)
    (simp add: run_defs mobile_orch_def mobile_waiting_def stk_event_def card_intent_def card_attempt_def charge_event_def
      Registry_Get_def mpesa_query_defs)

lemma webhooks_overtake:
  "wp (interleave sample_orch ([0, 0, 1, 1] @ replicate 6 0 @ replicate 6 1)
       [PWebhook charge_event WLookup, PWebhook charge_event WLookup])
     (\<lambda>qs v. posted ''5'' (ledger v) = 2 \<and>
       qs = [PWebhook charge_event (WDone (Inr ())), PWebhook charge_event (WDone (Inr ()))])
     (card_waiting (calm_env no_http []))"
  by (simp add: numeral_replicate)
    (simp add: run_defs card_waiting_def card_intent_def card_attempt_def charge_event_def)

lemma queries_race:
  "wp (interleave mobile_orch ([0, 0, 0, 1, 1, 1, 0, 1, 0, 1] @ replicate 4 1 @ replicate 4 0)
       [PQuery (QIntent ''5'' ''9'' ''mpesa''), PQuery (QIntent ''5'' ''9'' ''mpesa'')])
     (\<lambda>qs v. posted ''5'' (ledger v) = 1 \<and> qs = [PQuery QDone, PQuery QDone]) mobile_waiting"
  by (simp add: numeral_replicate)
    (simp add: run_defs mobile_orch_def mobile_waiting_def card_intent_def card_attempt_def
      Registry_Get_def mpesa_query_defs)


lemma wp_ex: "wp m (\<lambda>r v. P v \<and> r = x) w \<Longrightarrow> \<exists>v. run_state m w = (x, v) \<and> P v"
  unfolding wp_def by (simp split: prod.splits)

lemma mobile_waiting_inv: "pay_inv mobile_waiting"
  by (simp add: pay_inv_def mobile_waiting_def start_world_def pis_def ledger_def empty_db_def)

subsection \<open>The properties\<close>


text \<open>C8: However many delayed queries run at once, for whatever payments and under whatever schedule
  and failures, a collection is posted at most once per intent and only for one that was paid,
  and every intent's status moves along the transition table: the conditional update makes up
  for what a query read too early.\<close>

theorem concurrent_queries_post_once:
  assumes "pay_inv w" "list_all (\<lambda>pr. \<exists>i a psp. pr = PQuery (QIntent i a psp)) ps"
    "run_state (interleave e ks ps) w = (qs, v)"
  shows "posted i (ledger v) \<le> 1 \<and> (0 < posted i (ledger v) \<longrightarrow> (\<exists>p \<in> set (pis v). pi_ID p = i \<and> paid (pi_Status p))) \<and>
    evolves (pis w) (pis v)"
proof -
  have start: "list_all query_ok ps" "debts ps j = 0" for j
    using assms(2) by (induction ps) (auto simp: debts_def)
  have "due_inv (debts ps) w" using assms(1) start(2) by (simp add: due_inv_def pay_inv_def)
  from wp_run [OF interleave_due [OF start(1) this] assms(3)]
  have inv: "due_inv (debts qs) v" and ev: "evolves (pis w) (pis v)" by simp_all
  have "posted i (ledger v) + debts qs i \<le> 1" using inv by (simp add: due_inv_def)
  moreover have "\<exists>p \<in> set (pis v). pi_ID p = i \<and> paid (pi_Status p)" if "0 < posted i (ledger v)"
    using inv that by (simp add: due_inv_def)
  ultimately show ?thesis using ev by simp
qed

theorem concurrent_queries_post_once_witness:
  "\<exists>v. run_state (interleave mobile_orch ([0, 0, 0, 1, 1, 1, 0, 1, 0, 1] @ replicate 4 1 @ replicate 4 0)
       [PQuery (QIntent ''5'' ''9'' ''mpesa''), PQuery (QIntent ''5'' ''9'' ''mpesa'')]) mobile_waiting =
     ([PQuery QDone, PQuery QDone], v) \<and> posted ''5'' (ledger v) = 1 \<and>
     (\<exists>p \<in> set (pis v). pi_ID p = ''5'' \<and> paid (pi_Status p))"
proof -
  let ?ps = "[PQuery (QIntent ''5'' ''9'' ''mpesa''), PQuery (QIntent ''5'' ''9'' ''mpesa'')]"
  let ?ks = "[0, 0, 0, 1, 1, 1, 0, 1, 0, 1] @ replicate 4 1 @ replicate 4 0"
  obtain qs v where run: "run_state (interleave mobile_orch ?ks ?ps) mobile_waiting = (qs, v)" by fastforce
  have "posted ''5'' (ledger v) = 1 \<and> qs = [PQuery QDone, PQuery QDone]" using wp_run [OF queries_race run] .
  then show ?thesis
    using concurrent_queries_post_once [OF mobile_waiting_inv _ run, of "''5''"] run by simp
qed

text \<open>C10: The webhook handler's unconditional update has no such protection. There are schedules in
  which a payment is posted twice although every call succeeds: a delayed query that runs between
  the webhook's reading of the intent and its update, and two deliveries of the same webhook that
  both read the intent first.\<close>

theorem webhook_races_post_twice:
  "(\<exists>ks v. pay_inv mobile_waiting \<and>
     run_state (interleave mobile_orch ks [PWebhook stk_event WLookup, PQuery (QIntent ''5'' ''9'' ''mpesa'')]) mobile_waiting =
       ([PWebhook stk_event (WDone (Inr ())), PQuery QDone], v) \<and> posted ''5'' (ledger v) = 2) \<and>
   (\<exists>w ks v. pay_reach sample_orch w \<and>
     run_state (interleave sample_orch ks [PWebhook charge_event WLookup, PWebhook charge_event WLookup]) w =
       ([PWebhook charge_event (WDone (Inr ())), PWebhook charge_event (WDone (Inr ()))], v) \<and> posted ''5'' (ledger v) = 2)"
proof
  show "\<exists>ks v. pay_inv mobile_waiting \<and>
     run_state (interleave mobile_orch ks [PWebhook stk_event WLookup, PQuery (QIntent ''5'' ''9'' ''mpesa'')]) mobile_waiting =
       ([PWebhook stk_event (WDone (Inr ())), PQuery QDone], v) \<and> posted ''5'' (ledger v) = 2"
    using wp_ex [OF query_overtakes_webhook] mobile_waiting_inv by blast
  show "\<exists>w ks v. pay_reach sample_orch w \<and>
     run_state (interleave sample_orch ks [PWebhook charge_event WLookup, PWebhook charge_event WLookup]) w =
       ([PWebhook charge_event (WDone (Inr ())), PWebhook charge_event (WDone (Inr ()))], v) \<and> posted ''5'' (ledger v) = 2"
    using wp_ex [OF webhooks_overtake] card_waiting_reach by blast
qed

end
