(* ===== verification/Incidents.thy ===== *)
theory Incidents
  imports Race
begin

section \<open>Failures in the middle of an operation\<close>

text \<open>
  The handlers have no transaction around their updates. Here are the runs in which a failure or a
  premature answer between two of them leaves a payment in a state from which no later event
  recovers it; each run is one the model executes on a concrete world.
\<close>

subsection \<open>A posting that fails\<close>

text \<open>The same webhook delivered twice; the environment refuses its eleventh call, the first INSERT
  of the first delivery.\<close>

definition deliver_twice :: "orch \<Rightarrow> webhook_event \<Rightarrow> ((error + unit) \<times> (error + unit)) go" where
  "deliver_twice e evt = do { r1 \<leftarrow> HandleWebhookEvent e evt; r2 \<leftarrow> HandleWebhookEvent e evt; ret (r1, r2) }"

lemma second_delivery:
  "wp (deliver_twice sample_orch charge_event)
     (\<lambda>r v. (ledger v = [] \<and> map pi_Status (pis v) = [PISucceeded] \<and> w_bus v = []) \<and> r = (Inl (ErrWrap ''ledger post'' ErrDB), Inr ()))
     (card_waiting (calm_env no_http [10]))"
  by (simp add: deliver_twice_def HandleWebhookEvent_def apply_webhook_def run_defs card_waiting_def card_intent_def
      card_attempt_def charge_event_def pis_def)

subsection \<open>A query that comes too early\<close>

text \<open>What the provider answers to a query while the customer has not yet reacted: an error document
  without a result code. The token request gets the same document, with the token in it.\<close>

definition pending_reply :: bytes where
  "pending_reply = Doc (JObj [(''access_token'', JStr ''tok''), (''expires_in'', JStr ''3599''),
     (''errorCode'', JStr ''500.001.1001''), (''errorMessage'', JStr ''The transaction is being processed'')])"

definition sample_mpesa :: mpesa_config where
  "sample_mpesa = \<lparr>mc_ConsumerKey = ''ck'', mc_ConsumerSecret = ''cs'', mc_ShortCode = ''174379'', mc_PassKey = ''pk'',
     mc_CallbackBase = ''https://zia'', mc_Sandbox = True, mc_B2CInitiatorName = [], mc_B2CSecurityCred = [], mc_AllowedIPs = []\<rparr>"

definition pending_http :: "nat \<Rightarrow> http_request \<Rightarrow> http_reply" where
  "pending_http k r = HttpResp (if hr_Method r = ''GET'' then 200 else 500) pending_reply 100"

lemma pending_reply_decoded:
  "Option.bind (unmarshal_fields pending_reply) (\<lambda>fs. Option.bind (dec_string ''access_token'' fs) (\<lambda>tok.
     Option.bind (dec_string ''expires_in'' fs) (\<lambda>exp. Some (tok, exp)))) = Some (''tok'', ''3599'')"
  "decode_query pending_reply = Some ([], [])"
  by code_simp+

text \<open>The query runs to its end, then the callback.\<close>

definition query_then_callback :: "process list go" where
  "query_then_callback = interleave mobile_orch (replicate 7 0 @ replicate 8 1)
     [PQuery (QIntent ''5'' ''9'' ''mpesa''), PWebhook stk_event WLookup]"

lemma callback_after_query:
  "wp query_then_callback
     (\<lambda>qs v. (ledger v = [] \<and> map pi_Status (pis v) = [PIFailed] \<and> length (w_bus v) = 1) \<and>
       qs = [PQuery QDone, PWebhook stk_event (WDone (Inr ()))])
     (mobile_waiting\<lparr>w_env := calm_env pending_http []\<rparr>)"
  by (simp add: numeral_replicate query_then_callback_def)
    (simp add: run_defs mobile_waiting_def mobile_orch_def stk_event_def card_intent_def card_attempt_def charge_event_def
      Registry_Get_def pis_def mpesa_GetStatus_def Token_def fetchToken_def http_send_def pending_http_def
      pending_reply_decoded mpesa_reply_decoded(2) query_status_def duration_defs)

subsection \<open>What the status query says\<close>

lemma query_status_eq: "query_status code = (if code = ''0'' then ''succeeded'' else ''failed'')"
  by (simp add: query_status_def)

lemma keeps_http_Token: "keeps w_env (Token c)"
  unfolding Token_def fetchToken_def
  by (intro keeps_intros; auto intro!: keeps_intros split: http_reply.split option.split prod.split)

lemma wp_Token_env: "(\<And>r v. w_env v = w_env w \<Longrightarrow> Q r v) \<Longrightarrow> wp (Token c) Q w"
  by (rule wp_keepsI [OF keeps_http_Token])

text \<open>A reply that is passed on is one the environment gave.\<close>

lemma wp_http_send_reply:
  assumes "\<And>e v. Q (Inl e) v" "\<And>k q st b l v. o_http (w_env w) k q = HttpResp st b l \<Longrightarrow> Q (Inr (st, b)) v"
  shows "wp (http_send c m u h d) Q w"
  unfolding http_send_def by (auto simp: wp_simps assms split: http_reply.split)


text \<open>The M-Pesa status query never answers \<open>pending\<close>: whatever the provider replies,
  a query that returns says \<open>succeeded\<close> for result code 0 and \<open>failed\<close> otherwise,
  whatever the HTTP status.\<close>

theorem mpesa_query_never_pending:
  assumes "run_state (mpesa_GetStatus c ref) w = (Inr r, v)"
  shows "\<exists>k q st b l code items. o_http (w_env w) k q = HttpResp st b l \<and> decode_query b = Some (code, items) \<and>
    sr_Status r = (if code = ''0'' then ''succeeded'' else ''failed'')"
proof -
  have "wp (mpesa_GetStatus c ref) (\<lambda>res v. \<forall>r. res = Inr r \<longrightarrow> (\<exists>k q st b l code items.
      o_http (w_env w) k q = HttpResp st b l \<and> decode_query b = Some (code, items) \<and>
      sr_Status r = (if code = ''0'' then ''succeeded'' else ''failed''))) w"
    (is "wp _ (\<lambda>res v. \<forall>r. res = Inr r \<longrightarrow> ?says r) w")
    unfolding mpesa_GetStatus_def wp_call Let_def
  proof (rule wp_Token_env)
    fix tok :: "error + string" and u :: world
    assume env: "w_env u = w_env w"
    show "case tok of Inl e \<Rightarrow> \<forall>r. Inl (ErrWrap ''auth'' e) = Inr r \<longrightarrow> ?says r
      | Inr token \<Rightarrow> wp (do {
         now \<leftarrow> time_Now;
         timestamp \<leftarrow> fmt_time ''20060102150405'' now;
         try_call (http_send ''query request'' ''POST'' (mpesa_baseURL c @ ''/mpesa/stkpushquery/v1/query'') (bearer token)
           (Doc (JObj [(''BusinessShortCode'', JStr (mc_ShortCode c)), (''CheckoutRequestID'', JStr ref),
             (''Password'', JStr (stkPassword c timestamp)), (''Timestamp'', JStr timestamp)])))
           (\<lambda>(status, reply). case decode_query reply of
              None \<Rightarrow> fail (ErrWrap ''parse query response'' ErrJSON)
            | Some (code, items) \<Rightarrow> ok \<lparr>sr_Supported = True, sr_Status = query_status code,
                sr_Amount = snd (scan_items (\<lambda>_. []) ([], 0) items), sr_Currency = []\<rparr>) })
         (\<lambda>res v. \<forall>r. res = Inr r \<longrightarrow> ?says r) u"
    proof (cases tok)
      case (Inr token)
      show ?thesis
        unfolding Inr sum.case wp_bind wp_time_Now wp_fmt_time wp_try_call
      proof (rule wp_http_send_reply, simp)
        fix k q st b l and t :: world
        assume "o_http (w_env (next_step u)) k q = HttpResp st b l"
        then have reply: "o_http (w_env w) k q = HttpResp st b l" by (simp add: env)
        show "case Inr (st, b) of Inl e \<Rightarrow> \<forall>r. Inl e = Inr r \<longrightarrow> ?says r
          | Inr x \<Rightarrow> wp ((\<lambda>(status, reply). case decode_query reply of
              None \<Rightarrow> fail (ErrWrap ''parse query response'' ErrJSON)
            | Some (code, items) \<Rightarrow> ok \<lparr>sr_Supported = True, sr_Status = query_status code,
                sr_Amount = snd (scan_items (\<lambda>_. []) ([], 0) items), sr_Currency = []\<rparr>) x)
              (\<lambda>res v. \<forall>r. res = Inr r \<longrightarrow> ?says r) t"
        proof (cases "decode_query b")
          case None
          then show ?thesis by (simp add: wp_fail)
        next
          case (Some d)
          obtain code items where d: "d = (code, items)" by fastforce
          show ?thesis
            using reply Some by (simp add: d wp_ok query_status_eq) blast
        qed
      qed
    qed simp
  qed
  from wp_run [OF this assms] show ?thesis by simp
qed

theorem mpesa_query_never_pending_witness:
  "\<exists>r v. run_state (mpesa_GetStatus sample_mpesa ''ws_1'') (start_world (calm_env pending_http []) empty_db) = (Inr r, v) \<and>
     sr_Status r = ''failed''"
proof -
  let ?w = "start_world (calm_env pending_http []) empty_db"
  obtain res v where run: "run_state (mpesa_GetStatus sample_mpesa ''ws_1'') ?w = (res, v)" by fastforce
  have "wp (mpesa_GetStatus sample_mpesa ''ws_1'') (\<lambda>res v. \<exists>r. res = Inr r) ?w"
    by (simp add: run_defs mpesa_GetStatus_def Token_def fetchToken_def http_send_def pending_http_def
      pending_reply_decoded mpesa_reply_decoded(2) duration_defs)
  from wp_run [OF this run] obtain r where r: "res = Inr r" by blast
  have "decode_query b = Some ([], [])" if "o_http (w_env ?w) k q = HttpResp st b l" for k q st b l
    using that pending_reply_decoded(2) by (simp add: start_world_def calm_env_def pending_http_def)
  then have "sr_Status r = ''failed''"
    using mpesa_query_never_pending [OF run [unfolded r]] by fastforce
  then show ?thesis using run r by blast
qed


end
