(* ===== verification/Webhook.thy ===== *)
theory Webhook
  imports Race
begin

section \<open>Webhooks in and out (\<open>internal/webhook\<close>, \<open>internal/api/webhook.go\<close>)\<close>

text \<open>
  A PSP's webhook comes in over HTTP (\<open>Ingest\<close>), is stored, marked in the dedup store and put
  on the bus; the consumer hands it to the orchestrator and dispatches it to the merchant's
  endpoints; without a bus both happen in the request. A dispatch records a delivery per active
  endpoint, posts it, and writes the answer into the record. The trace headers are left out, and
  the consumer handles one message; its loop, and the documents on the bus, are in the theories
  \<open>Consumers\<close> and \<open>Wire\<close>.
\<close>

subsection \<open>Dispatcher (\<open>dispatcher.go\<close>)\<close>

definition maxRetries :: int where "maxRetries = 3"
definition retryDelayBase :: int where "retryDelayBase = 30 * Second"

definition delivery_headers :: "(string \<times> string) list" where
  "delivery_headers = [(''Content-Type'', ''application/json''), (''User-Agent'', ''Zia-Webhook/1.0'')]"

definition Milliseconds :: "int \<Rightarrow> int" where
  "Milliseconds d = go_div d 1000000"

definition failDelivery :: "string \<Rightarrow> int \<Rightarrow> bytes \<Rightarrow> int \<Rightarrow> unit go" where
  "failDelivery delID respStatus respBody dur = do {
     r \<leftarrow> Delivery_UpdateStatus delID DeliveryFailed respStatus respBody (Milliseconds dur);
     ret () }"

text \<open>The body is read only when its length is announced and below one MiB.\<close>

definition recorded_body :: "bytes \<Rightarrow> int \<Rightarrow> bytes" where
  "recorded_body b len = (if 0 < len \<and> len < 2 ^ 20 then b else NilBytes)"

definition sendAndRecord :: "webhook_delivery \<Rightarrow> bytes \<Rightarrow> unit go" where
  "sendAndRecord del body = do {
     start \<leftarrow> time_Now;
     r \<leftarrow> http_NewRequest ''POST'' (wd_URL del) delivery_headers body;
     (case r of
        Inl err \<Rightarrow> do { t \<leftarrow> time_Now; failDelivery (wd_ID del) 0 NilBytes (t - start) }
      | Inr req \<Rightarrow> do {
          resp \<leftarrow> http_Do req;
          (case resp of
             HttpFail \<Rightarrow> do { t \<leftarrow> time_Now; failDelivery (wd_ID del) 0 NilBytes (t - start) }
           | HttpResp status reply len \<Rightarrow> do {
               t \<leftarrow> time_Now;
               (if 200 \<le> status \<and> status < 300
                then do {
                  u \<leftarrow> Delivery_UpdateStatus (wd_ID del) DeliveryDelivered status (recorded_body reply len)
                         (Milliseconds (t - start));
                  ret () }
                else failDelivery (wd_ID del) status (recorded_body reply len) (t - start)) }) }) }"

definition deliver :: "webhook_endpoint \<Rightarrow> string \<Rightarrow> bytes \<Rightarrow> int \<Rightarrow> unit go" where
  "deliver ep whEventID body attempt = do {
     delID \<leftarrow> uuid_New;
     now \<leftarrow> time_Now;
     let nextRetryAt = (if attempt < maxRetries then Some (now + retryDelayBase * attempt) else None);
     let weID = (if whEventID \<noteq> [] then Some whEventID else None);
     let del = \<lparr>wd_ID = delID, wd_WebhookEventID = weID, wd_EndpointID = ep_ID ep, wd_URL = ep_URL ep,
       wd_Status = DeliveryPending, wd_RequestHeaders = NilBytes, wd_RequestBody = body,
       wd_ResponseStatus = Some 0, wd_ResponseBody = NilBytes, wd_DurationMs = Some 0, wd_Attempt = attempt,
       wd_MaxAttempts = maxRetries, wd_NextRetryAt = nextRetryAt, wd_CreatedAt = now, wd_UpdatedAt = now\<rparr>;
     r \<leftarrow> Delivery_Create del;
     (case r of Inl err \<Rightarrow> ret () | Inr _ \<Rightarrow> sendAndRecord del body) }"

definition dispatch_body :: "webhook_event \<Rightarrow> string \<Rightarrow> bytes" where
  "dispatch_body event ts = Doc (JObj [(''event'', JStr (''payment.'' @ ev_Status event)), (''piId'', JStr []),
     (''amount'', JInt (ev_Amount event)), (''currency'', JStr (ev_Currency event)),
     (''status'', JStr (ev_Status event)), (''psp'', JStr (ev_PSP event)), (''timestamp'', JStr ts)])"

definition Dispatch :: "webhook_event \<Rightarrow> string \<Rightarrow> string \<Rightarrow> unit go" where
  "Dispatch event merchantID whEventID = do {
     r \<leftarrow> Endpoint_ListByMerchant merchantID;
     (case r of
        Inl err \<Rightarrow> ret ()
      | Inr eps \<Rightarrow>
          (if eps = [] then ret ()
           else do {
             now \<leftarrow> time_Now;
             ts \<leftarrow> fmt_time RFC3339 now;
             foreach (\<lambda>ep. if ep_Status ep \<noteq> ''active'' then ret () else deliver ep whEventID (dispatch_body event ts) 1) eps })) }"

definition Retry :: "string \<Rightarrow> unit goE" where
  "Retry deliveryID =
     call ''get delivery'' (Delivery_GetByID deliveryID) (\<lambda>del.
       if wd_Status del \<noteq> DeliveryFailed then fail (ErrMsg (''delivery '' @ deliveryID @ '' is not in failed state''))
       else do {
         let newAttempt = wd_Attempt del + 1;
         let whEventID = (case wd_WebhookEventID del of None \<Rightarrow> [] | Some i \<Rightarrow> i);
         deliver \<lparr>ep_ID = wd_EndpointID del, ep_MerchantID = [], ep_URL = wd_URL del, ep_Events = 0,
           ep_Status = [], ep_CreatedAt = 0\<rparr> whEventID (wd_RequestBody del) newAttempt;
         ok () })"

subsection \<open>Processor (\<open>processor.go\<close>)\<close>

text \<open>Whether a dispatcher and a JetStream connection were given.\<close>

record processor =
  proc_Orc :: orch
  proc_Dispatcher :: bool
  proc_JS :: bool

definition HandleEvent :: "processor \<Rightarrow> webhook_event \<Rightarrow> unit goE" where
  "HandleEvent p event = HandleWebhookEvent (proc_Orc p) event"

text \<open>The lookups of attempt and intent before a dispatch, in both paths.\<close>

definition dispatch_for :: "webhook_event \<Rightarrow> string \<Rightarrow> unit go" where
  "dispatch_for event whEventID = do {
     r1 \<leftarrow> GetAttemptByPSPReference (ev_PSP event) (ev_PSPReference event);
     (case r1 of
        Inl err \<Rightarrow> ret ()
      | Inr att \<Rightarrow> do {
          r2 \<leftarrow> GetPaymentIntent (att_PaymentIntentID att);
          (case r2 of Inl err \<Rightarrow> ret () | Inr p \<Rightarrow> Dispatch event (pi_MerchantID p) whEventID) }) }"

definition HandleEventAndDispatch :: "processor \<Rightarrow> webhook_event \<Rightarrow> string \<Rightarrow> unit go" where
  "HandleEventAndDispatch p event whEventID = do {
     r \<leftarrow> HandleWebhookEvent (proc_Orc p) event;
     (case r of
        Inl err \<Rightarrow> ret ()
      | Inr _ \<Rightarrow> (if proc_Dispatcher p then dispatch_for event whEventID else ret ())) }"

definition CanPublish :: "processor \<Rightarrow> bool" where
  "CanPublish p = proc_JS p"

definition Publish :: "processor \<Rightarrow> webhook_event \<Rightarrow> unit goE" where
  "Publish p event =
     (if \<not> proc_JS p then fail (ErrMsg ''jetstream not available'')
      else call ''publish to jetstream'' (nats_Publish (BusWebhook event)) (\<lambda>_. ok ()))"

text \<open>One message of the consumer: acknowledged (\<open>True\<close>) or not.\<close>

definition consume_webhook :: "processor \<Rightarrow> webhook_event \<Rightarrow> bool go" where
  "consume_webhook p event = do {
     r \<leftarrow> HandleWebhookEvent (proc_Orc p) event;
     (case r of
        Inl err \<Rightarrow> ret False
      | Inr _ \<Rightarrow> do { (if proc_Dispatcher p then dispatch_for event [] else ret ()); ret True }) }"

subsection \<open>Ingest (\<open>api/webhook.go\<close>)\<close>

text \<open>
  The request is the \<open>psp\<close> of its path and its body as far as the one MiB limit lets it
  through (\<open>None\<close> when reading fails); the result is the status written. The parsers do not
  look at the headers.
\<close>

definition Ingest :: "processor \<Rightarrow> string \<Rightarrow> bytes option \<Rightarrow> int go" where
  "Ingest p psp body =
     (if psp = [] then ret 404
      else (case Registry_Get (or_registry (proc_Orc p)) psp of
        None \<Rightarrow> ret 404
      | Some conn \<Rightarrow>
          (case body of
             None \<Rightarrow> ret 400
           | Some b \<Rightarrow> do {
               r \<leftarrow> conn_ParseWebhook conn b;
               (case r of
                  Inl err \<Rightarrow> ret 200
                | Inr event \<Rightarrow> do {
                    now \<leftarrow> time_Now;
                    i \<leftarrow> uuid_New;
                    c \<leftarrow> WebhookEvent_Create \<lparr>we_ID = i, we_PSP = ev_PSP event, we_EventType = ev_EventType event,
                      we_PSPReference = ev_PSPReference event, we_DedupKey = ev_DedupKey event,
                      we_Payload = ev_RawPayload event, we_ProcessingStatus = WebhookReceived, we_ReceivedAt = now\<rparr>;
                    (case c of
                       Inl err \<Rightarrow> ret ()
                     | Inr _ \<Rightarrow> do { m \<leftarrow> Dedup_Mark (ev_DedupKey event); ret () });
                    q \<leftarrow> Publish p event;
                    (case q of Inl err \<Rightarrow> HandleEventAndDispatch p event i | Inr _ \<Rightarrow> ret ());
                    ret 200 }) })))"

subsection \<open>What a delivery leaves behind\<close>

definition deliveries :: "world \<Rightarrow> webhook_delivery list" where
  "deliveries w = t_webhook_deliveries (w_db w)"

definition delivery_request :: "string \<Rightarrow> bytes \<Rightarrow> http_request" where
  "delivery_request url body = \<lparr>hr_Method = ''POST'', hr_URL = url, hr_Header = delivery_headers, hr_Body = body\<rparr>"

text \<open>The trace of one delivery between two states: nothing, or one new record and at most one
  request to its URL; a record marked delivered had a 2xx answer.\<close>

definition delivery_trace :: "string \<Rightarrow> bytes \<Rightarrow> int \<Rightarrow> world \<Rightarrow> world \<Rightarrow> bool" where
  "delivery_trace url body att w v \<longleftrightarrow> w_env v = w_env w \<and>
     ((deliveries v = deliveries w \<and> w_http v = w_http w) \<or>
      (\<exists>row. deliveries v = deliveries w @ [row] \<and> wd_ID row \<notin> wd_ID ` set (deliveries w) \<and>
         wd_URL row = url \<and> wd_RequestBody row = body \<and> wd_Attempt row = att \<and> wd_MaxAttempts row = 3 \<and>
         ((w_http v = w_http w \<and> wd_Status row \<noteq> DeliveryDelivered) \<or>
          (w_http v = w_http w @ [delivery_request url body] \<and>
            (wd_Status row = DeliveryDelivered \<longrightarrow> (\<exists>k. accepted (o_http (w_env w) k (delivery_request url body))))))))"

text \<open>The update of the record just created touches no other.\<close>

lemma update_last:
  assumes "wd_ID row \<notin> wd_ID ` set ds" "wd_ID row = i"
  shows "map (\<lambda>d. if wd_ID d = i then f d else d) (ds @ [row]) = ds @ [f row]"
proof -
  have "map (\<lambda>d. if wd_ID d = i then f d else d) ds = ds"
    by (rule map_idI) (use assms in \<open>metis imageI\<close>)
  then show ?thesis using assms(2) by simp
qed

lemma wp_Delivery_UpdateStatus:
  assumes "deliveries w = ds @ [row]" "wd_ID row \<notin> wd_ID ` set ds"
    and "\<And>r v. w_env v = w_env w \<Longrightarrow> w_http v = w_http w \<Longrightarrow> deliveries v = ds @ [row] \<Longrightarrow> Q r v"
    and "\<And>r v now. w_env v = w_env w \<Longrightarrow> w_http v = w_http w \<Longrightarrow> deliveries v = ds @ [row\<lparr>wd_Status := st,
      wd_ResponseStatus := Some code, wd_ResponseBody := b, wd_DurationMs := Some ms, wd_UpdatedAt := now\<rparr>] \<Longrightarrow> Q r v"
  shows "wp (Delivery_UpdateStatus (wd_ID row) st code b ms) Q w"
proof -
  let ?now = "o_clock (w_env w) (w_step w)"
  let ?f = "\<lambda>d. d\<lparr>wd_Status := st, wd_ResponseStatus := Some code, wd_ResponseBody := b, wd_DurationMs := Some ms,
    wd_UpdatedAt := ?now\<rparr>"
  let ?v = "next_step (w\<lparr>w_db := t_webhook_deliveries_update (map (\<lambda>d. if wd_ID d = wd_ID row then ?f d else d)) (w_db w)\<rparr>)"
  have "deliveries ?v = ds @ [?f row]"
    using update_last [OF assms(2) refl, of ?f] assms(1) by (simp add: deliveries_def)
  then have upd: "Q r ?v" for r by (intro assms(4) [of _ ?now]) simp_all
  have stay: "Q r (next_step w)" for r by (rule assms(3)) (use assms(1) in \<open>simp_all add: deliveries_def\<close>)
  show ?thesis
    unfolding Delivery_UpdateStatus_def
    using upd stay by (auto simp: wp_simps run_stmt_def table_update_def split: outcome.split)
qed

lemma accepted_ex: "o_http env k r = HttpResp s b l \<Longrightarrow> 200 \<le> s \<Longrightarrow> s < 300 \<Longrightarrow> \<exists>k. accepted (o_http env k r)"
  by (rule exI [of _ k]) (simp add: accepted_def is_2xx_def)

lemma sendAndRecord_trace:
  assumes new: "deliveries u = deliveries w @ [row]" "wd_ID row \<notin> wd_ID ` set (deliveries w)"
    and row: "wd_URL row = wd_URL del" "wd_ID row = wd_ID del" "wd_RequestBody row = body" "wd_Attempt row = att"
      "wd_MaxAttempts row = 3" "wd_Status row \<noteq> DeliveryDelivered"
    and u: "w_env u = w_env w" "w_http u = w_http w"
  shows "wp (sendAndRecord del body) (\<lambda>_ v. delivery_trace (wd_URL del) body att w v) u"
proof -
  let ?req = "delivery_request (wd_URL del) body"
  have upd: "wp (Delivery_UpdateStatus (wd_ID del) st code b ms) (\<lambda>_ v. delivery_trace (wd_URL del) body att w v) t"
    if t: "deliveries t = deliveries w @ [row]" "w_env t = w_env w"
      and sent: "(w_http t = w_http w \<and> st \<noteq> DeliveryDelivered) \<or> (w_http t = w_http w @ [?req] \<and>
        (st = DeliveryDelivered \<longrightarrow> (\<exists>k. accepted (o_http (w_env w) k ?req))))" for st code b ms t
    unfolding row(2) [symmetric]
    by (rule wp_Delivery_UpdateStatus [OF t(1) new(2)])
      (use row sent t(2) new(2) in \<open>auto simp: delivery_trace_def\<close>)
  have failed: "wp (failDelivery (wd_ID del) code b d) (\<lambda>_ v. delivery_trace (wd_URL del) body att w v) t"
    if t: "deliveries t = deliveries w @ [row]" "w_env t = w_env w"
      and sent: "w_http t = w_http w \<or> w_http t = w_http w @ [?req]" for code b d t
    unfolding failDelivery_def wp_bind wp_return by (rule upd [OF t]) (use sent in auto)
  show ?thesis
    unfolding sendAndRecord_def
    using new(1) u
    by (auto simp: wp_simps wp_ret delivery_request_def [symmetric] deliveries_def split: http_reply.split
        intro!: upd failed, auto simp: deliveries_def, (metis accepted_ex)+)
qed

lemma wp_Delivery_Create:
  assumes "\<And>r v. w_env v = w_env w \<Longrightarrow> w_http v = w_http w \<Longrightarrow> deliveries v = deliveries w \<Longrightarrow> r \<noteq> Inr () \<Longrightarrow> Q r v"
    and "\<And>r v. w_env v = w_env w \<Longrightarrow> w_http v = w_http w \<Longrightarrow> wd_ID d \<notin> wd_ID ` set (deliveries w) \<Longrightarrow>
      deliveries v = deliveries w @ [d\<lparr>wd_ResponseStatus := None, wd_ResponseBody := NilBytes, wd_DurationMs := None\<rparr>] \<Longrightarrow> Q r v"
  shows "wp (Delivery_Create d) Q w"
proof -
  let ?d = "d\<lparr>wd_ResponseStatus := None, wd_ResponseBody := NilBytes, wd_DurationMs := None\<rparr>"
  let ?v = "next_step (w\<lparr>w_db := t_webhook_deliveries_update (\<lambda>rs. rs @ [?d]) (w_db w)\<rparr>)"
  have "Q r ?v" if "\<forall>x \<in> set (deliveries w). wd_ID x \<noteq> wd_ID d" for r
    by (rule assms(2)) (use that in \<open>auto simp: deliveries_def\<close>)
  moreover have "Q (Inl e) (next_step w)" for e by (rule assms(1)) (simp_all add: deliveries_def)
  ultimately show ?thesis
    unfolding Delivery_Create_def
    by (auto simp: wp_simps run_stmt_def table_insert_def list_ex_iff deliveries_def split: outcome.split)
qed

lemma deliver_trace:
  assumes "deliveries u = deliveries w" "w_http u = w_http w" "w_env u = w_env w"
  shows "wp (deliver ep ev body att) (\<lambda>_ v. delivery_trace (ep_URL ep) body att w v) u"
proof -
  have rest: "wp (do { r \<leftarrow> Delivery_Create del; (case r of Inl err \<Rightarrow> ret () | Inr _ \<Rightarrow> sendAndRecord del body) })
      (\<lambda>_ v. delivery_trace (wd_URL del) body att w v) t"
    if t: "deliveries t = deliveries w" "w_http t = w_http w" "w_env t = w_env w"
      and del: "wd_RequestBody del = body" "wd_Attempt del = att" "wd_MaxAttempts del = 3" "wd_Status del = DeliveryPending"
    for del t
    unfolding wp_bind
  proof (rule wp_Delivery_Create)
    fix r :: "error + unit" and v :: world
    assume v: "w_env v = w_env t" "w_http v = w_http t" "deliveries v = deliveries t" "r \<noteq> Inr ()"
    then show "wp (case r of Inl err \<Rightarrow> ret () | Inr _ \<Rightarrow> sendAndRecord del body)
        (\<lambda>_ v. delivery_trace (wd_URL del) body att w v) v"
      using t by (cases r) (auto simp: wp_return delivery_trace_def)
  next
    fix r :: "error + unit" and v :: world
    let ?d = "del\<lparr>wd_ResponseStatus := None, wd_ResponseBody := NilBytes, wd_DurationMs := None\<rparr>"
    assume v: "w_env v = w_env t" "w_http v = w_http t" "wd_ID del \<notin> wd_ID ` set (deliveries t)"
      "deliveries v = deliveries t @ [?d]"
    have new: "deliveries v = deliveries w @ [?d]" "wd_ID ?d \<notin> wd_ID ` set (deliveries w)"
      using v(3,4) t(1) by simp_all
    show "wp (case r of Inl err \<Rightarrow> ret () | Inr _ \<Rightarrow> sendAndRecord del body)
        (\<lambda>_ v. delivery_trace (wd_URL del) body att w v) v"
    proof (cases r)
      case (Inl e)
      then show ?thesis using new v(1,2) t del by (auto simp: wp_return delivery_trace_def)
    next
      case (Inr x)
      show ?thesis
        unfolding Inr sum.case
        by (rule sendAndRecord_trace [OF new]) (use v(1,2) t del in simp_all)
    qed
  qed
  show ?thesis
    unfolding deliver_def wp_bind [of uuid_New] wp_bind [of time_Now] wp_uuid_New wp_time_Now Let_def
    by (rule rest [where del = "\<lparr>wd_ID = _, wd_WebhookEventID = _, wd_EndpointID = ep_ID ep, wd_URL = ep_URL ep,
       wd_Status = DeliveryPending, wd_RequestHeaders = NilBytes, wd_RequestBody = body, wd_ResponseStatus = Some 0,
       wd_ResponseBody = NilBytes, wd_DurationMs = Some 0, wd_Attempt = att, wd_MaxAttempts = maxRetries,
       wd_NextRetryAt = _, wd_CreatedAt = _, wd_UpdatedAt = _\<rparr>", simplified])
      (use assms in \<open>simp_all add: deliveries_def maxRetries_def\<close>)
qed

definition dispatch_trace :: "string set \<Rightarrow> nat \<Rightarrow> world \<Rightarrow> world \<Rightarrow> bool" where
  "dispatch_trace U n w v \<longleftrightarrow> w_env v = w_env w \<and> (\<exists>rows reqs. deliveries v = deliveries w @ rows \<and>
     w_http v = w_http w @ reqs \<and> length reqs \<le> length rows \<and> length rows \<le> n \<and>
     wd_URL ` set rows \<subseteq> U \<and> hr_URL ` set reqs \<subseteq> U \<and>
     (\<forall>row \<in> set rows. wd_Status row = DeliveryDelivered \<longrightarrow>
        (\<exists>k. accepted (o_http (w_env w) k (delivery_request (wd_URL row) (wd_RequestBody row))))))"

lemma dispatch_trace_refl: "deliveries v = deliveries w \<Longrightarrow> w_http v = w_http w \<Longrightarrow> w_env v = w_env w \<Longrightarrow> dispatch_trace U n w v"
  by (auto simp: dispatch_trace_def)

lemma dispatch_trace_trans:
  assumes "dispatch_trace U m w u" "dispatch_trace U n u v"
  shows "dispatch_trace U (m + n) w v"
proof -
  obtain rows reqs where 1: "deliveries u = deliveries w @ rows" "w_http u = w_http w @ reqs" "length reqs \<le> length rows"
    "length rows \<le> m" "wd_URL ` set rows \<subseteq> U" "hr_URL ` set reqs \<subseteq> U" "w_env u = w_env w"
    "\<forall>row \<in> set rows. wd_Status row = DeliveryDelivered \<longrightarrow>
        (\<exists>k. accepted (o_http (w_env w) k (delivery_request (wd_URL row) (wd_RequestBody row))))"
    using assms(1) unfolding dispatch_trace_def by blast
  obtain rows' reqs' where 2: "deliveries v = deliveries u @ rows'" "w_http v = w_http u @ reqs'" "length reqs' \<le> length rows'"
    "length rows' \<le> n" "wd_URL ` set rows' \<subseteq> U" "hr_URL ` set reqs' \<subseteq> U" "w_env v = w_env u"
    "\<forall>row \<in> set rows'. wd_Status row = DeliveryDelivered \<longrightarrow>
        (\<exists>k. accepted (o_http (w_env u) k (delivery_request (wd_URL row) (wd_RequestBody row))))"
    using assms(2) unfolding dispatch_trace_def by blast
  show ?thesis
    unfolding dispatch_trace_def
    by (intro conjI exI [of _ "rows @ rows'"] exI [of _ "reqs @ reqs'"]) (use 1 2 in auto)
qed

lemma delivery_dispatch_trace: "delivery_trace url body att w v \<Longrightarrow> url \<in> U \<Longrightarrow> dispatch_trace U 1 w v"
  unfolding delivery_trace_def
proof (elim conjE disjE exE)
  fix row
  assume "w_env v = w_env w" "deliveries v = deliveries w @ [row]" "w_http v = w_http w" "wd_Status row \<noteq> DeliveryDelivered"
    "wd_URL row = url" "url \<in> U"
  then show "dispatch_trace U 1 w v" unfolding dispatch_trace_def by (intro conjI exI [of _ "[row]"] exI [of _ "[]"]) auto
next
  fix row
  assume "w_env v = w_env w" "deliveries v = deliveries w @ [row]" "w_http v = w_http w @ [delivery_request url body]"
    "wd_Status row = DeliveryDelivered \<longrightarrow> (\<exists>k. accepted (o_http (w_env w) k (delivery_request url body)))"
    "wd_URL row = url" "wd_RequestBody row = body" "url \<in> U"
  then show "dispatch_trace U 1 w v" unfolding dispatch_trace_def
    by (intro conjI exI [of _ "[row]"] exI [of _ "[delivery_request url body]"]) (auto simp: delivery_request_def)
qed (rule dispatch_trace_refl)

lemma foreach_deliver_trace:
  assumes "dispatch_trace U n w u" "\<And>ep. ep \<in> set eps \<Longrightarrow> ep_Status ep = ''active'' \<Longrightarrow> ep_URL ep \<in> U"
  shows "wp (foreach (\<lambda>ep. if ep_Status ep \<noteq> ''active'' then ret () else deliver ep ev body 1) eps)
    (\<lambda>_ v. dispatch_trace U (n + length (filter (\<lambda>ep. ep_Status ep = ''active'') eps)) w v) u"
  using assms
proof (induction eps arbitrary: n u)
  case Nil
  then show ?case by (simp add: wp_return)
next
  case (Cons ep eps)
  show ?case
  proof (cases "ep_Status ep = ''active''")
    case False
    with Cons show ?thesis by (simp add: wp_bind wp_return)
  next
    case True
    then have url: "ep_URL ep \<in> U" using Cons.prems(2) by simp
    have "wp (foreach (\<lambda>ep. if ep_Status ep \<noteq> ''active'' then ret () else deliver ep ev body 1) eps)
        (\<lambda>_ v. dispatch_trace U (n + 1 + length (filter (\<lambda>ep. ep_Status ep = ''active'') eps)) w v) v"
      if "delivery_trace (ep_URL ep) body 1 u v" for v
      by (rule Cons.IH)
        (use dispatch_trace_trans [OF Cons.prems(1) delivery_dispatch_trace [OF that url]] Cons.prems(2) in simp_all)
    then have "wp (deliver ep ev body 1) (\<lambda>_. wp (foreach (\<lambda>ep. if ep_Status ep \<noteq> ''active'' then ret () else deliver ep ev body 1) eps)
        (\<lambda>_ v. dispatch_trace U (n + 1 + length (filter (\<lambda>ep. ep_Status ep = ''active'') eps)) w v)) u"
      by (intro wp_mono [OF deliver_trace [OF refl refl refl]])
    then show ?thesis using True by (simp add: wp_bind)
  qed
qed

text \<open>The endpoints a dispatch may reach.\<close>

definition active_endpoints :: "string \<Rightarrow> world \<Rightarrow> webhook_endpoint list" where
  "active_endpoints m w =
     filter (\<lambda>e. ep_MerchantID e = m \<and> ep_Status e = ''active'') (t_webhook_endpoints (w_db w))"

lemma length_order_desc [simp]: "length (filter P (order_desc k xs)) = length (filter P xs)"
  by (simp add: order_desc_def filter_sort)

lemma set_order_desc [simp]: "set (order_desc k xs) = set xs"
  by (simp add: order_desc_def)

lemma Dispatch_trace:
  "wp (Dispatch event m i) (\<lambda>_ v. dispatch_trace (ep_URL ` set (active_endpoints m w)) (length (active_endpoints m w)) w v) w"
proof -
  let ?eps = "order_desc ep_CreatedAt (filter (\<lambda>e. ep_MerchantID e = m) (t_webhook_endpoints (w_db w)))"
  let ?U = "ep_URL ` set (active_endpoints m w)"
  have len: "length (filter (\<lambda>ep. ep_Status ep = ''active'') ?eps) = length (active_endpoints m w)"
    by (simp add: active_endpoints_def conj_commute)
  have "wp (foreach (\<lambda>ep. if ep_Status ep \<noteq> ''active'' then ret () else deliver ep i body 1) ?eps)
      (\<lambda>_ v. dispatch_trace ?U (0 + length (filter (\<lambda>ep. ep_Status ep = ''active'') ?eps)) w v) (next_step (next_step w))" for body
    by (rule foreach_deliver_trace) (auto simp: active_endpoints_def deliveries_def intro: dispatch_trace_refl)
  then have loop: "wp (foreach (\<lambda>ep. if ep_Status ep \<noteq> ''active'' then ret () else deliver ep i body 1) ?eps)
      (\<lambda>_ v. dispatch_trace ?U (length (active_endpoints m w)) w v) (next_step (next_step w))" for body
    unfolding len by simp
  have skip: "dispatch_trace ?U n w (next_step w)" for n by (rule dispatch_trace_refl) (simp_all add: deliveries_def)
  show ?thesis
    unfolding Dispatch_def Endpoint_ListByMerchant_def
    using loop skip by (auto simp: wp_simps split: outcome.split)
qed

subsection \<open>Payments are untouched by deliveries\<close>

lemma keeps_core_deliver: "keeps core (deliver ep i body att)"
  unfolding deliver_def sendAndRecord_def failDelivery_def Delivery_Create_def Delivery_UpdateStatus_def Let_def
  by (intro keeps_intros; auto intro!: keeps_intros split: http_reply.split)

lemma keeps_core_Dispatch: "keeps core (Dispatch event m i)"
  unfolding Dispatch_def Endpoint_ListByMerchant_def
  by (intro keeps_intros keeps_core_deliver) simp_all

lemma keeps_core_dispatch_for: "keeps core (dispatch_for event i)"
  unfolding dispatch_for_def GetAttemptByPSPReference_def GetPaymentIntent_def Attempt_GetByPSPReference_def PI_GetByID_def
  by (intro keeps_intros keeps_core_Dispatch) simp_all

lemma keeps_core_Ingest_steps:
  "keeps core (conn_ParseWebhook conn b)" "keeps core (WebhookEvent_Create e)" "keeps core (Dedup_Mark k)" "keeps core (Publish p ev)"
  unfolding conn_ParseWebhook_def WebhookEvent_Create_def Dedup_Mark_def Publish_def by (intro keeps_intros; simp)+

subsection \<open>The properties\<close>

text \<open>A dispatch reaches only active endpoints of the event's merchant: whatever fails, every
  request goes to the URL of one, no request is sent without a delivery record created before it,
  there is at most one record per active endpoint, older records are untouched, and a record is
  marked delivered only when its endpoint answered with a 2xx status.\<close>

theorem Dispatch_only_active:
  assumes "run_state (Dispatch event m i) w = ((), v)"
  shows "\<exists>rows reqs. deliveries v = deliveries w @ rows \<and> w_http v = w_http w @ reqs \<and>
    length reqs \<le> length rows \<and> length rows \<le> length (active_endpoints m w) \<and>
    wd_URL ` set rows \<subseteq> ep_URL ` set (active_endpoints m w) \<and> hr_URL ` set reqs \<subseteq> ep_URL ` set (active_endpoints m w) \<and>
    (\<forall>row \<in> set rows. wd_Status row = DeliveryDelivered \<longrightarrow>
       (\<exists>k. accepted (o_http (w_env w) k (delivery_request (wd_URL row) (wd_RequestBody row)))))"
  using wp_run [OF Dispatch_trace assms] unfolding dispatch_trace_def by blast

definition ok_http :: "nat \<Rightarrow> http_request \<Rightarrow> http_reply" where
  "ok_http k r = HttpResp 200 NilBytes 0"

definition sample_endpoint :: webhook_endpoint where
  "sample_endpoint = \<lparr>ep_ID = ''ep-1'', ep_MerchantID = ''m-1'', ep_URL = ''https://shop/hook'', ep_Events = 0,
     ep_Status = ''active'', ep_CreatedAt = 0\<rparr>"

definition hooked :: "environment \<Rightarrow> world" where
  "hooked env = start_world env (empty_db\<lparr>t_payment_intents := [card_intent], t_attempts := [card_attempt],
     t_webhook_endpoints := [sample_endpoint, sample_endpoint\<lparr>ep_ID := ''ep-2'', ep_Status := ''Healthy''\<rparr>]\<rparr>)"

lemma hooked_dispatch:
  "wp (Dispatch charge_event ''m-1'' ''we-1'') (\<lambda>_ v. map wd_Status (deliveries v) = [DeliveryDelivered] \<and> length (w_http v) = 1)
     (hooked (calm_env ok_http []))"
  by (simp add: Dispatch_def deliver_def sendAndRecord_def ok_http_def hooked_def sample_endpoint_def deliveries_def
      wp_simps webhook_repo_defs run_stmt_def table_insert_def table_update_def calm_env_def start_world_def empty_db_def
      order_desc_def charge_event_def Let_def)

theorem Dispatch_only_active_witness:
  "\<exists>v rows. run_state (Dispatch charge_event ''m-1'' ''we-1'') (hooked (calm_env ok_http [])) = ((), v) \<and>
     deliveries v = rows \<and> length rows = 1 \<and> wd_URL ` set rows \<subseteq> {''https://shop/hook''}"
proof -
  let ?w = "hooked (calm_env ok_http [])"
  define v where "v = snd (run_state (Dispatch charge_event ''m-1'' ''we-1'') ?w)"
  have run: "run_state (Dispatch charge_event ''m-1'' ''we-1'') ?w = ((), v)" by (simp add: v_def prod_eq_iff)
  have one: "length (deliveries v) = 1" using wp_run [OF hooked_dispatch run] by (cases "deliveries v") auto
  have "deliveries ?w = []" "ep_URL ` set (active_endpoints ''m-1'' ?w) = {''https://shop/hook''}"
    by (simp_all add: deliveries_def hooked_def start_world_def empty_db_def active_endpoints_def sample_endpoint_def)
  then show ?thesis using Dispatch_only_active [OF run] run one by force
qed

text \<open>A retry never looks at the number of attempts: with a database that carries out every call a
  failed delivery is posted once more and recorded as the next attempt, however many attempts it
  already had and whatever its maximum says.\<close>

theorem Retry_ignores_limit:
  assumes "filter (\<lambda>d. wd_ID d = i) (deliveries w) = [del]" "wd_Status del = DeliveryFailed"
    "wd_ResponseStatus del = Some code" "wd_DurationMs del = Some ms" "db_reliable w" "o_url_ok (w_env w) (wd_URL del)"
    "\<forall>k \<ge> w_step w. o_uuid (w_env w) k \<notin> wd_ID ` set (deliveries w)"
  shows "\<exists>v row. run_state (Retry i) w = (Inr (), v) \<and>
    w_http v = w_http w @ [delivery_request (wd_URL del) (wd_RequestBody del)] \<and>
    deliveries v = deliveries w @ [row] \<and> wd_Attempt row = wd_Attempt del + 1 \<and> wd_MaxAttempts row = 3"
proof -
  have ok: "o_db (w_env w) k = Done" if "w_step w \<le> k" for k using assms(5) that by (simp add: db_reliable_def)
  have id: "o_uuid (w_env w) k \<notin> wd_ID ` set (deliveries w)" if "w_step w \<le> k" for k using assms(7) that by simp
  have new: "wd_ID x \<noteq> o_uuid (w_env w) (Suc (w_step w))" if "x \<in> set (t_webhook_deliveries (w_db w))" for x
    using id [of "Suc (w_step w)"] that unfolding deliveries_def by (metis imageI le_Suc_eq order_refl)
  have clash: "\<not> list_ex (\<lambda>x. wd_ID x = o_uuid (w_env w) (Suc (w_step w))) (t_webhook_deliveries (w_db w))"
    by (auto simp: list_ex_iff new)
  have old: "map (\<lambda>d. if wd_ID d = o_uuid (w_env w) (Suc (w_step w)) then f d else d) (t_webhook_deliveries (w_db w)) =
      t_webhook_deliveries (w_db w)" for f
    by (rule map_idI) (simp add: new)
  have "wp (Retry i) (\<lambda>r v. r = Inr () \<and> (\<exists>row. w_http v = w_http w @ [delivery_request (wd_URL del) (wd_RequestBody del)] \<and>
      deliveries v = deliveries w @ [row] \<and> wd_Attempt row = wd_Attempt del + 1 \<and> wd_MaxAttempts row = 3)) w"
    using assms(1) ok
    by (auto simp: Retry_def deliver_def sendAndRecord_def failDelivery_def wp_simps webhook_repo_defs run_stmt_def
        table_insert_def table_update_def scan_delivery_def assms(2-4,6) clash old deliveries_def delivery_request_def maxRetries_def
        Let_def split: http_reply.split)
  then show ?thesis by (auto simp: wp_def split: prod.splits)
qed

definition failed_delivery :: webhook_delivery where
  "failed_delivery = \<lparr>wd_ID = ''d-1'', wd_WebhookEventID = None, wd_EndpointID = ''ep-1'', wd_URL = ''https://shop/hook'',
     wd_Status = DeliveryFailed, wd_RequestHeaders = NilBytes, wd_RequestBody = NilBytes, wd_ResponseStatus = Some 500,
     wd_ResponseBody = NilBytes, wd_DurationMs = Some 12, wd_Attempt = 7, wd_MaxAttempts = 3, wd_NextRetryAt = None,
     wd_CreatedAt = 0, wd_UpdatedAt = 0\<rparr>"

lemma show_nat_dash: "CHR ''-'' \<in> set s \<Longrightarrow> show_nat k \<noteq> s"
  using show_nat_no_punctuation(2) by blast

theorem Retry_ignores_limit_witness:
  "\<exists>v. run_state (Retry ''d-1'') (start_world (calm_env ok_http []) (empty_db\<lparr>t_webhook_deliveries := [failed_delivery]\<rparr>)) =
      (Inr (), v) \<and> map wd_Attempt (deliveries v) = [7, 8]"
proof -
  let ?w = "start_world (calm_env ok_http []) (empty_db\<lparr>t_webhook_deliveries := [failed_delivery]\<rparr>)"
  have "\<exists>v row. run_state (Retry ''d-1'') ?w = (Inr (), v) \<and>
      w_http v = w_http ?w @ [delivery_request (wd_URL failed_delivery) (wd_RequestBody failed_delivery)] \<and>
      deliveries v = deliveries ?w @ [row] \<and> wd_Attempt row = wd_Attempt failed_delivery + 1 \<and> wd_MaxAttempts row = 3"
    by (rule Retry_ignores_limit [where code = 500 and ms = 12])
      (auto simp: show_nat_dash deliveries_def start_world_def empty_db_def failed_delivery_def db_reliable_def calm_env_def)
  then show ?thesis by (auto simp: deliveries_def start_world_def empty_db_def failed_delivery_def)
qed

text \<open>An event that matches no attempt is never acknowledged, whatever its kind: the consumer
  returns it to the stream without any effect on payments, database, bus or merchants, so it is
  redelivered for good. Among them is every Paystack event the parser does not know.\<close>

theorem unmatched_never_acknowledged:
  assumes "\<forall>a \<in> set (t_attempts (w_db w)). \<not> (att_PSP a = ev_PSP event \<and> att_PSPReference a = ev_PSPReference event)"
  shows "fst (run_state (consume_webhook p event) w) = False \<and>
    w_db (snd (run_state (consume_webhook p event) w)) = w_db w \<and>
    w_bus (snd (run_state (consume_webhook p event) w)) = w_bus w \<and>
    w_http (snd (run_state (consume_webhook p event) w)) = w_http w"
proof -
  have none: "filter (\<lambda>a. att_PSP a = ev_PSP event \<and> att_PSPReference a = ev_PSPReference event) (t_attempts (w_db w)) = []"
    using assms by (simp add: filter_empty_conv)
  have "wp (consume_webhook p event) (\<lambda>r v. r = False \<and> w_db v = w_db w \<and> w_bus v = w_bus w \<and> w_http v = w_http w) w"
    by (simp add: consume_webhook_def HandleWebhookEvent_def Attempt_GetByPSPReference_def wp_simps none split: outcome.split)
  then show ?thesis by (simp add: wp_def split: prod.splits)
qed

definition dispute_body :: bytes where
  "dispute_body = Doc (JObj [(''event'', JStr ''charge.dispute.create''), (''data'', JObj [(''id'', JInt 7)])])"

theorem unmatched_never_acknowledged_witness:
  "\<exists>event. paystack_ParseWebhook dispute_body = Inr event \<and> ev_DedupKey event = [] \<and>
     fst (run_state (consume_webhook \<lparr>proc_Orc = sample_orch, proc_Dispatcher = True, proc_JS = True\<rparr> event)
       (card_waiting (calm_env no_http []))) = False"
proof -
  obtain event where e: "paystack_ParseWebhook dispute_body = Inr event" "ev_DedupKey event = []" "ev_PSPReference event = []"
    by (simp add: paystack_ParseWebhook_def dispute_body_def unmarshal_fields_def key_match_def lower_char_def)
  have "\<forall>a \<in> set (t_attempts (w_db (card_waiting (calm_env no_http [])))).
      \<not> (att_PSP a = ev_PSP event \<and> att_PSPReference a = ev_PSPReference event)"
    using e(3) by (simp add: card_waiting_def start_world_def card_attempt_def)
  then show ?thesis using unmatched_never_acknowledged e(1,2) by blast
qed

text \<open>C17: When the bus accepts messages, a webhook of a known provider that parses is answered 200 and
  put on the bus exactly as parsed, and intents, ledger and attempts stay as they are; whether the
  event could be stored, or its dedup key was seen before, makes no difference.\<close>

theorem Ingest_publishes:
  assumes "psp \<noteq> []" "Registry_Get (or_registry (proc_Orc p)) psp = Some conn" "proc_JS p" "\<forall>k. o_nats (w_env w) k"
    "run_state (conn_ParseWebhook conn b) w = (Inr event, u)"
  shows "\<exists>v. run_state (Ingest p psp (Some b)) w = (200, v) \<and> w_bus v = w_bus w @ [BusWebhook event] \<and>
    core v = core w \<and> t_attempts (w_db v) = t_attempts (w_db w)"
proof -
  have u: "u = w" using assms(5) by (simp add: conn_ParseWebhook_def gets_def)
  have parse: "wp (conn_ParseWebhook conn b) Q w = Q (Inr event) w" for Q
    using assms(5) u by (simp add: wp_def)
  let ?f = "\<lambda>w. (core w, t_attempts (w_db w), w_bus w, w_env w)"
  have store: "keeps ?f (WebhookEvent_Create e)" "keeps ?f (Dedup_Mark k)" for e k
    unfolding WebhookEvent_Create_def Dedup_Mark_def by (rule keeps_intros; simp)+
  have pub: "wp (Publish p event) (\<lambda>q t. wp (case q of Inl err \<Rightarrow> HandleEventAndDispatch p event i | Inr _ \<Rightarrow> ret ())
      (\<lambda>_. wp (ret 200) (\<lambda>r v. r = 200 \<and> w_bus v = w_bus w @ [BusWebhook event] \<and> core v = core w \<and>
        t_attempts (w_db v) = t_attempts (w_db w))) t) t" if "?f t = ?f w" for i t
    using assms(3,4) that by (simp add: Publish_def wp_simps)
  have mark: "wp (case c of Inl err \<Rightarrow> ret () | Inr _ \<Rightarrow> do { m \<leftarrow> Dedup_Mark k; ret () })
      (\<lambda>_ t. wp (Publish p event) (\<lambda>q t. wp (case q of Inl err \<Rightarrow> HandleEventAndDispatch p event i | Inr _ \<Rightarrow> ret ())
      (\<lambda>_. wp (ret 200) (\<lambda>r v. r = 200 \<and> w_bus v = w_bus w @ [BusWebhook event] \<and> core v = core w \<and>
        t_attempts (w_db v) = t_attempts (w_db w))) t) t) t" if "?f t = ?f w" for c :: "error + unit" and k i t
  proof (rule wp_keepsI [where f = ?f])
    show "keeps ?f (case c of Inl err \<Rightarrow> ret () | Inr _ \<Rightarrow> do { m \<leftarrow> Dedup_Mark k; ret () })"
      by (intro keeps_intros store)
    fix x and t' :: world
    assume "?f t' = ?f t"
    with that have "?f t' = ?f w" by simp
    then show "wp (Publish p event) (\<lambda>q t. wp (case q of Inl err \<Rightarrow> HandleEventAndDispatch p event i | Inr _ \<Rightarrow> ret ())
      (\<lambda>_. wp (ret 200) (\<lambda>r v. r = 200 \<and> w_bus v = w_bus w @ [BusWebhook event] \<and> core v = core w \<and>
        t_attempts (w_db v) = t_attempts (w_db w))) t) t'" by (rule pub)
  qed
  have create: "wp (WebhookEvent_Create e) (\<lambda>c. wp (case c of Inl err \<Rightarrow> ret () | Inr _ \<Rightarrow> do { m \<leftarrow> Dedup_Mark k; ret () })
      (\<lambda>_ t. wp (Publish p event) (\<lambda>q t. wp (case q of Inl err \<Rightarrow> HandleEventAndDispatch p event i | Inr _ \<Rightarrow> ret ())
      (\<lambda>_. wp (ret 200) (\<lambda>r v. r = 200 \<and> w_bus v = w_bus w @ [BusWebhook event] \<and> core v = core w \<and>
        t_attempts (w_db v) = t_attempts (w_db w))) t) t)) t" if "?f t = ?f w" for e k i t
  proof (rule wp_keepsI [OF store(1)])
    fix c :: "error + unit" and t' :: world
    assume "?f t' = ?f t"
    with that have "?f t' = ?f w" by simp
    then show "wp (case c of Inl err \<Rightarrow> ret () | Inr _ \<Rightarrow> do { m \<leftarrow> Dedup_Mark k; ret () })
      (\<lambda>_ t. wp (Publish p event) (\<lambda>q t. wp (case q of Inl err \<Rightarrow> HandleEventAndDispatch p event i | Inr _ \<Rightarrow> ret ())
      (\<lambda>_. wp (ret 200) (\<lambda>r v. r = 200 \<and> w_bus v = w_bus w @ [BusWebhook event] \<and> core v = core w \<and>
        t_attempts (w_db v) = t_attempts (w_db w))) t) t) t'" by (rule mark)
  qed
  have "wp (Ingest p psp (Some b)) (\<lambda>r v. r = 200 \<and> w_bus v = w_bus w @ [BusWebhook event] \<and> core v = core w \<and>
      t_attempts (w_db v) = t_attempts (w_db w)) w"
    unfolding Ingest_def if_not_P [OF assms(1)] assms(2) option.case wp_bind parse sum.case wp_time_Now wp_uuid_New
    by (rule create) simp
  then show ?thesis by (auto simp: wp_def split: prod.splits)
qed

text \<open>The same webhook a second time: its dedup key is already stored.\<close>

definition charge_body :: bytes where
  "charge_body = Doc (JObj [(''event'', JStr ''charge.success''), (''data'', JObj [(''reference'', JStr ''ref-1''),
     (''amount'', JInt 500000), (''currency'', JStr ''NGN''), (''id'', JInt 7)])])"

definition seen_before :: world where
  "seen_before = (card_waiting (calm_env no_http []))\<lparr>w_db := empty_db\<lparr>t_webhook_events := [\<lparr>we_ID = ''w-1'',
     we_PSP = ''paystack'', we_EventType = ''charge.success'', we_PSPReference = ''ref-1'', we_DedupKey = ''charge.success:7'',
     we_Payload = charge_body, we_ProcessingStatus = WebhookReceived, we_ReceivedAt = 0\<rparr>]\<rparr>\<rparr>"

lemma charge_parse:
  "run_state (conn_ParseWebhook paystack_conn charge_body) seen_before =
     (Inr (charge_event\<lparr>ev_RawPayload := charge_body\<rparr>), seen_before)"
proof -
  have "paystack_ParseWebhook charge_body = Inr (charge_event\<lparr>ev_RawPayload := charge_body\<rparr>)" by code_simp
  then show ?thesis by (simp add: conn_ParseWebhook_def paystack_conn_def gets_def)
qed

theorem Ingest_publishes_witness:
  "\<exists>v. run_state (Ingest \<lparr>proc_Orc = sample_orch, proc_Dispatcher = True, proc_JS = True\<rparr> ''paystack'' (Some charge_body)) seen_before =
     (200, v) \<and> w_bus v = [BusWebhook (charge_event\<lparr>ev_RawPayload := charge_body\<rparr>)]"
  using Ingest_publishes [OF _ _ _ _ charge_parse, of "''paystack''" "\<lparr>proc_Orc = sample_orch, proc_Dispatcher = True, proc_JS = True\<rparr>"]
  by (auto simp: sample_orch_def Registry_Get_def seen_before_def card_waiting_def start_world_def calm_env_def)

text \<open>The consumer does record deliveries: it dispatches without an event identifier, and the
  dispatcher creates the record all the same, with an empty reference to the event.\<close>

theorem consumer_records_deliveries:
  "\<exists>w v. run_state (consume_webhook \<lparr>proc_Orc = sample_orch, proc_Dispatcher = True, proc_JS = True\<rparr> charge_event) w = (True, v) \<and>
     deliveries w = [] \<and> map (\<lambda>d. (wd_WebhookEventID d, wd_URL d, wd_Status d)) (deliveries v) =
       [(None, ''https://shop/hook'', DeliveryDelivered)]"
proof -
  let ?w = "hooked (calm_env ok_http [])"
  have "wp (consume_webhook \<lparr>proc_Orc = sample_orch, proc_Dispatcher = True, proc_JS = True\<rparr> charge_event)
      (\<lambda>r v. map (\<lambda>d. (wd_WebhookEventID d, wd_URL d, wd_Status d)) (deliveries v) =
       [(None, ''https://shop/hook'', DeliveryDelivered)] \<and> r = True) ?w"
    by (simp add: consume_webhook_def dispatch_for_def HandleWebhookEvent_def apply_webhook_def Dispatch_def deliver_def
        GetAttemptByPSPReference_def GetPaymentIntent_def sendAndRecord_def ok_http_def hooked_def sample_endpoint_def
        deliveries_def run_defs card_intent_def card_attempt_def charge_event_def order_desc_def)
  from wp_ex [OF this] obtain v where run: "run_state (consume_webhook \<lparr>proc_Orc = sample_orch, proc_Dispatcher = True,
      proc_JS = True\<rparr> charge_event) ?w = (True, v) \<and>
      map (\<lambda>d. (wd_WebhookEventID d, wd_URL d, wd_Status d)) (deliveries v) = [(None, ''https://shop/hook'', DeliveryDelivered)]" ..
  have "deliveries ?w = []" by (simp add: deliveries_def hooked_def start_world_def empty_db_def)
  then show ?thesis by (intro exI [of _ ?w] exI [of _ v] conjI conjunct1 [OF run] conjunct2 [OF run])
qed

end
