(* ===== verification/Settlement.thy ===== *)
theory Settlement
  imports Webhook
begin

section \<open>Settlement (\<open>internal/settlement/runner.go\<close>)\<close>

text \<open>
  The cron job that pays the merchants out: for every merchant whose available balance reaches the
  policy's threshold it starts a payout over the first rail that pays in the merchant's currency,
  records it, and moves the amount to the in-transit account; a payout the provider reports as
  done at once is completed. A failed merchant is logged and the run goes on. Logging is left out.
\<close>

record settlement_policy =
  sp_MinBalanceMinor :: int64
  sp_MaxPayoutMinor :: int64

definition DefaultPolicy :: settlement_policy where
  "DefaultPolicy = \<lparr>sp_MinBalanceMinor = 50000, sp_MaxPayoutMinor = 1000000\<rparr>"

text \<open>The loop over the registered names; \<open>Registry_Get\<close> finds each of them.\<close>

fun rail_for :: "registry \<Rightarrow> string \<Rightarrow> string list \<Rightarrow> string" where
  "rail_for reg currency [] = []"
| "rail_for reg currency (name # names) =
     (case Registry_Get reg name of
        None \<Rightarrow> rail_for reg currency names
      | Some conn \<Rightarrow>
          (let caps = conn_Capabilities conn in
           if \<not> cap_SupportsPayout caps then rail_for reg currency names
           else if currency \<in> set (cap_SupportedCurrencies caps) then name
           else rail_for reg currency names))"

definition selectRail :: "registry \<Rightarrow> merchant \<Rightarrow> string" where
  "selectRail reg m = rail_for reg (mch_DefaultCurrency m) (Registry_Names reg)"

text \<open>After the payout was sent: the record, the postings, the status.\<close>

definition complete_payout :: "merchant \<Rightarrow> string \<Rightarrow> int64 \<Rightarrow> unit goE" where
  "complete_payout m payoutID amt =
     call ''update payout status'' (Payout_UpdateStatus payoutID PayoutSucceeded) (\<lambda>_. do {
       r \<leftarrow> PostPayoutComplete (mch_ID m) payoutID amt (mch_DefaultCurrency m);
       ok () })"

definition record_payout :: "merchant \<Rightarrow> string \<Rightarrow> int64 \<Rightarrow> string \<Rightarrow> payout_result \<Rightarrow> unit goE" where
  "record_payout m payoutID amt rail result = do {
     created \<leftarrow> time_Now;
     updated \<leftarrow> time_Now;
     call ''save payout'' (Payout_Create \<lparr>po_ID = payoutID, po_MerchantID = mch_ID m, po_Amount = amt,
         po_Currency = mch_DefaultCurrency m, po_Rail = rail, po_Status = PayoutPending,
         po_PSPReference = (if pr_PSPReference result \<noteq> [] then Some (pr_PSPReference result) else None),
         po_CreatedAt = created, po_UpdatedAt = updated\<rparr>) (\<lambda>_. do {
       r \<leftarrow> PostPayoutInit (mch_ID m) payoutID amt (mch_DefaultCurrency m);
       (if pr_Status result = ''succeeded'' then complete_payout m payoutID amt else ok ()) }) }"

definition settleMerchant :: "registry \<Rightarrow> settlement_policy \<Rightarrow> merchant \<Rightarrow> unit goE" where
  "settleMerchant reg policy m =
     (let acct = MerchantAvailable (mch_ID m) in
      call (''get balance for '' @ acct) (Balance acct) (\<lambda>balance.
        if balance < sp_MinBalanceMinor policy then ok ()
        else (let amt = (if balance > sp_MaxPayoutMinor policy then sp_MaxPayoutMinor policy else balance);
                  rail = selectRail reg m in
          (case Registry_Get reg rail of
             None \<Rightarrow> fail (ErrMsg (''no connector registered for rail '' @ rail))
           | Some conn \<Rightarrow> do {
               payoutID \<leftarrow> uuid_New;
               try_call (conn_InitiatePayout conn \<lparr>pq_MerchantID = mch_ID m, pq_Amount = amt,
                   pq_Currency = mch_DefaultCurrency m, pq_TargetCurrency = mch_DefaultCurrency m,
                   pq_BankAccountRef = mch_ID m, pq_IdempotencyKey = payoutID\<rparr>)
                 (record_payout m payoutID amt rail) }))))"

definition Settle :: "registry \<Rightarrow> settlement_policy \<Rightarrow> unit goE" where
  "Settle reg policy =
     call ''list merchants'' Merchant_ListAll (\<lambda>ms. do {
       foreach (\<lambda>m. do { r \<leftarrow> settleMerchant reg policy m; ret () }) ms;
       ok () })"

subsection \<open>What one merchant's settlement does\<close>

definition payouts :: "world \<Rightarrow> payout list" where
  "payouts w = t_payouts (w_db w)"

definition available :: "string \<Rightarrow> world \<Rightarrow> int" where
  "available i w = account_sum (MerchantAvailable i) (ledger w)"

text \<open>The money part of the state.\<close>

definition money :: "world \<Rightarrow> payment_intent list \<times> payout list \<times> ledger_entry list" where
  "money w = (pis w, payouts w, ledger w)"

text \<open>A prefix of the two lines of a payout posting was posted.\<close>

definition pays_prefix :: "string \<Rightarrow> string \<Rightarrow> int64 \<Rightarrow> world \<Rightarrow> world \<Rightarrow> bool" where
  "pays_prefix src dst amt u v \<longleftrightarrow>
     (\<exists>es. money v = (pis u, payouts u, ledger u @ es) \<and> prefix (map line_of es) (pair_lines src dst amt))"

definition payout_trace :: "settlement_policy \<Rightarrow> string \<Rightarrow> world \<Rightarrow> world \<Rightarrow> bool" where
  "payout_trace policy i w v \<longleftrightarrow> money v = money w \<or>
     (\<exists>po es fs. let amt = min (available i w) (sp_MaxPayoutMinor policy) in
        sp_MinBalanceMinor policy \<le> available i w \<and> po_MerchantID po = i \<and> po_Amount po = amt \<and>
        money v = (pis w, payouts w @ [po], ledger w @ es @ fs) \<and>
        prefix (map line_of es) (pair_lines (MerchantAvailable i) (MerchantInTransit i) amt) \<and>
        prefix (map line_of fs) (pair_lines (MerchantInTransit i) AccountPlatformOperating amt))"

lemma money_db: "w_db v = w_db w \<Longrightarrow> money v = money w"
  by (simp add: money_def pis_def payouts_def ledger_def)

lemma money_frames [simp]:
  "money (next_step w) = money w" "money (w\<lparr>w_http := h\<rparr>) = money w"
  by (simp_all add: money_def pis_def payouts_def ledger_def)

lemma keeps_money_InitiatePayout: "keeps money (conn_InitiatePayout conn req)"
  by (cases conn)
    (auto simp: mpesa_InitiatePayout_def paystack_InitiatePayout_def Let_def split: option.split
      intro!: keeps_intros)

lemma wp_post_payout:
  assumes "\<And>res v. pays_prefix src dst amt u v \<Longrightarrow> Q res v"
  shows "wp (post_pair ''payout'' i src dst amt cur) Q u"
proof (rule wp_mono [OF pair.grows])
  fix res and v :: world
  assume "\<exists>es. ledger v = ledger u @ es \<and> prefix (map line_of es) (pair_lines src dst amt) \<and>
    w_db v = (w_db u)\<lparr>t_ledger_entries := ledger v\<rparr>"
  then obtain es where es: "ledger v = ledger u @ es" "prefix (map line_of es) (pair_lines src dst amt)"
    "w_db v = (w_db u)\<lparr>t_ledger_entries := ledger v\<rparr>" by blast
  have "pis v = pis u" "payouts v = payouts u" by (simp_all add: pis_def payouts_def es(3))
  then show "Q res v" by (intro assms) (auto simp: pays_prefix_def money_def es(1) intro!: exI [of _ es] es(2))
qed

lemma wp_Payout_Create:
  assumes "\<And>e v. money v = money u \<Longrightarrow> Q (Inl e) v"
    and "\<And>res v. money v = (pis u, payouts u @ [po], ledger u) \<Longrightarrow> po_ID po \<notin> po_ID ` set (payouts u) \<Longrightarrow> Q res v"
  shows "wp (Payout_Create po) Q u"
proof -
  have stay: "Q (Inl e) (next_step (u\<lparr>w_db := w_db u\<rparr>))" for e by (rule assms(1)) simp
  have grow: "Q res (next_step (u\<lparr>w_db := t_payouts_update (\<lambda>rs. rs @ [po]) (w_db u)\<rparr>))"
    if "\<forall>x \<in> set (t_payouts (w_db u)). po_ID x \<noteq> po_ID po" for res
    by (rule assms(2)) (use that in \<open>auto simp: money_def pis_def payouts_def ledger_def\<close>)
  show ?thesis
    unfolding Payout_Create_def
    using stay grow by (auto simp: wp_simps run_stmt_def table_insert_def list_ex_iff split: outcome.split)
qed

lemma wp_Payout_UpdateStatus:
  assumes "money u = (ps, pos @ [po], es)" "po_ID po \<notin> po_ID ` set pos"
    and "\<And>res po' v. money v = (ps, pos @ [po'], es) \<Longrightarrow> po_MerchantID po' = po_MerchantID po \<Longrightarrow>
      po_Amount po' = po_Amount po \<Longrightarrow> Q res v"
  shows "wp (Payout_UpdateStatus (po_ID po) st) Q u"
proof -
  let ?f = "\<lambda>now p. p\<lparr>po_Status := st, po_UpdatedAt := now\<rparr>"
  have "map (\<lambda>p. if po_ID p = po_ID po then ?f now p else p) pos = pos" for now
    by (rule map_idI) (use assms(2) in \<open>metis imageI\<close>)
  then have upd: "map (\<lambda>p. if po_ID p = po_ID po then ?f now p else p) (payouts u) = pos @ [?f now po]" for now
    using assms(1) by (simp add: money_def)
  have kept: "money (next_step (u\<lparr>w_db := w_db u\<rparr>)) = (ps, pos @ [po], es)" using assms(1) by simp
  have changed: "money (next_step (u\<lparr>w_db := t_payouts_update (map (\<lambda>p. if po_ID p = po_ID po then ?f now p else p)) (w_db u)\<rparr>)) =
      (ps, pos @ [?f now po], es)" for now
    using assms(1) upd [of now] by (simp add: money_def pis_def payouts_def ledger_def)
  show ?thesis
    unfolding Payout_UpdateStatus_def
    using assms(3) [OF kept refl refl] assms(3) [OF changed]
    by (auto simp: wp_simps run_stmt_def table_update_def split: outcome.split)
qed

lemma complete_payout_trace:
  assumes "money u = (pis w, payouts w @ [po], ledger w @ es)" "po_ID po \<notin> po_ID ` set (payouts w)"
    and "sp_MinBalanceMinor policy \<le> available (mch_ID m) w" "po_MerchantID po = mch_ID m" "po_Amount po = amt"
      "amt = min (available (mch_ID m) w) (sp_MaxPayoutMinor policy)"
    and "prefix (map line_of es) (pair_lines (MerchantAvailable (mch_ID m)) (MerchantInTransit (mch_ID m)) amt)"
  shows "wp (complete_payout m (po_ID po) amt) (\<lambda>_ v. payout_trace policy (mch_ID m) w v) u"
  unfolding complete_payout_def wp_call
proof (rule wp_Payout_UpdateStatus [OF assms(1,2)])
  fix res :: "error + unit" and po' :: payout and v :: world
  assume v: "money v = (pis w, payouts w @ [po'], ledger w @ es)" "po_MerchantID po' = po_MerchantID po"
    "po_Amount po' = po_Amount po"
  have traced: "payout_trace policy (mch_ID m) w t"
    if "pays_prefix (MerchantInTransit (mch_ID m)) AccountPlatformOperating amt v t" for t
  proof -
    from that obtain fs where fs: "money t = (pis w, payouts w @ [po'], ledger w @ es @ fs)"
      "prefix (map line_of fs) (pair_lines (MerchantInTransit (mch_ID m)) AccountPlatformOperating amt)"
      using v(1) by (auto simp: pays_prefix_def money_def)
    show ?thesis
      unfolding payout_trace_def Let_def
      by (intro disjI2 exI [of _ po'] exI [of _ es] exI [of _ fs] conjI) (use assms v fs in simp_all)
  qed
  have "payout_trace policy (mch_ID m) w v"
    by (rule traced) (use v(1) in \<open>auto simp: pays_prefix_def money_def\<close>)
  moreover have "wp (do { r \<leftarrow> PostPayoutComplete (mch_ID m) (po_ID po) amt (mch_DefaultCurrency m); ok () })
      (\<lambda>_ v. payout_trace policy (mch_ID m) w v) v"
    unfolding wp_bind wp_ok PostPayoutComplete_def by (rule wp_post_payout) (rule traced)
  ultimately show "case res of Inl e \<Rightarrow> payout_trace policy (mch_ID m) w v
    | Inr x \<Rightarrow> wp (do { r \<leftarrow> PostPayoutComplete (mch_ID m) (po_ID po) amt (mch_DefaultCurrency m); ok () })
        (\<lambda>_ v. payout_trace policy (mch_ID m) w v) v"
    by (cases res) simp_all
qed

lemma record_payout_trace:
  assumes u: "money u = money w"
    and enough: "sp_MinBalanceMinor policy \<le> available (mch_ID m) w"
      "amt = min (available (mch_ID m) w) (sp_MaxPayoutMinor policy)"
  shows "wp (record_payout m i amt rail result) (\<lambda>_ v. payout_trace policy (mch_ID m) w v) u"
proof -
  have created: "wp (do { r \<leftarrow> PostPayoutInit (mch_ID m) i amt (mch_DefaultCurrency m);
        (if pr_Status result = ''succeeded'' then complete_payout m i amt else ok ()) })
      (\<lambda>_ v. payout_trace policy (mch_ID m) w v) t"
    if t: "money t = (pis w, payouts w @ [po], ledger w)" "po_ID po \<notin> po_ID ` set (payouts w)"
      and po: "po_ID po = i" "po_MerchantID po = mch_ID m" "po_Amount po = amt" for t po
    unfolding wp_bind PostPayoutInit_def
  proof (rule wp_post_payout)
    fix r and v :: world
    assume "pays_prefix (MerchantAvailable (mch_ID m)) (MerchantInTransit (mch_ID m)) amt t v"
    then obtain es where es: "money v = (pis w, payouts w @ [po], ledger w @ es)"
      "prefix (map line_of es) (pair_lines (MerchantAvailable (mch_ID m)) (MerchantInTransit (mch_ID m)) amt)"
      using t(1) by (auto simp: pays_prefix_def money_def)
    have "payout_trace policy (mch_ID m) w v"
      unfolding payout_trace_def Let_def
      by (intro disjI2 exI [of _ po] exI [of _ es] exI [of _ "[]"] conjI) (use enough po es in simp_all)
    moreover note complete_payout_trace [OF es(1) t(2) enough(1) po(2,3) enough(2) es(2), unfolded po(1)]
    ultimately show "wp (if pr_Status result = ''succeeded'' then complete_payout m i amt else ok ())
        (\<lambda>_ v. payout_trace policy (mch_ID m) w v) v"
      by (simp add: wp_ok)
  qed
  have saved: "wp (call ''save payout'' (Payout_Create po) (\<lambda>_. do {
        r \<leftarrow> PostPayoutInit (mch_ID m) i amt (mch_DefaultCurrency m);
        (if pr_Status result = ''succeeded'' then complete_payout m i amt else ok ()) }))
      (\<lambda>_ v. payout_trace policy (mch_ID m) w v) t"
    if t: "money t = money w" and po: "po_ID po = i" "po_MerchantID po = mch_ID m" "po_Amount po = amt" for t po
    unfolding wp_call
  proof (rule wp_Payout_Create)
    fix e and v :: world
    assume "money v = money t"
    then show "case Inl e of Inl e \<Rightarrow> payout_trace policy (mch_ID m) w v
      | Inr x \<Rightarrow> wp (do { r \<leftarrow> PostPayoutInit (mch_ID m) i amt (mch_DefaultCurrency m);
          (if pr_Status result = ''succeeded'' then complete_payout m i amt else ok ()) })
        (\<lambda>_ v. payout_trace policy (mch_ID m) w v) v"
      using t by (simp add: payout_trace_def)
  next
    fix res :: "error + unit" and v :: world
    assume v: "money v = (pis t, payouts t @ [po], ledger t)" "po_ID po \<notin> po_ID ` set (payouts t)"
    then have v': "money v = (pis w, payouts w @ [po], ledger w)" "po_ID po \<notin> po_ID ` set (payouts w)"
      using t by (simp_all add: money_def)
    have "payout_trace policy (mch_ID m) w v"
      unfolding payout_trace_def Let_def
      by (intro disjI2 exI [of _ po] exI [of _ "[]"] conjI) (use enough v' po in simp_all)
    with created [OF v' po] show "case res of Inl e \<Rightarrow> payout_trace policy (mch_ID m) w v
      | Inr x \<Rightarrow> wp (do { r \<leftarrow> PostPayoutInit (mch_ID m) i amt (mch_DefaultCurrency m);
          (if pr_Status result = ''succeeded'' then complete_payout m i amt else ok ()) })
        (\<lambda>_ v. payout_trace policy (mch_ID m) w v) v"
      by (cases res) simp_all
  qed
  show ?thesis
    unfolding record_payout_def wp_bind [of time_Now] wp_time_Now by (rule saved) (use u in simp_all)
qed

lemma settleMerchant_trace: "wp (settleMerchant reg policy m) (\<lambda>_ v. payout_trace policy (mch_ID m) w v) w"
proof -
  let ?P = "\<lambda>(_ :: error + unit) v. payout_trace policy (mch_ID m) w v"
  have same: "payout_trace policy (mch_ID m) w v" if "money v = money w" for v
    using that by (simp add: payout_trace_def)
  have sent: "wp (try_call (conn_InitiatePayout conn req) (record_payout m i amt rail)) ?P u"
    if "money u = money w" "sp_MinBalanceMinor policy \<le> available (mch_ID m) w"
      "amt = min (available (mch_ID m) w) (sp_MaxPayoutMinor policy)" for conn req i amt rail u
    unfolding wp_try_call
    by (rule wp_keepsI [OF keeps_money_InitiatePayout])
      (use that same record_payout_trace [OF _ that(2,3)] in \<open>auto split: sum.split\<close>)
  have paid: "wp (if b < sp_MinBalanceMinor policy then ok ()
      else (let amt = (if b > sp_MaxPayoutMinor policy then sp_MaxPayoutMinor policy else b); rail = selectRail reg m in
        (case Registry_Get reg rail of
           None \<Rightarrow> fail (ErrMsg (''no connector registered for rail '' @ rail))
         | Some conn \<Rightarrow> do {
             payoutID \<leftarrow> uuid_New;
             try_call (conn_InitiatePayout conn \<lparr>pq_MerchantID = mch_ID m, pq_Amount = amt,
                 pq_Currency = mch_DefaultCurrency m, pq_TargetCurrency = mch_DefaultCurrency m,
                 pq_BankAccountRef = mch_ID m, pq_IdempotencyKey = payoutID\<rparr>)
               (record_payout m payoutID amt rail) }))) ?P u"
    if u: "money u = money w" and b: "b = available (mch_ID m) w" for b u
    using same [OF u] sent [where u = "next_step u"] u b
    by (auto simp: Let_def wp_ok wp_fail wp_bind wp_uuid_New min_def split: option.split)
  show ?thesis
    unfolding settleMerchant_def Balance_def Ledger_Balance_def Let_def [of "MerchantAvailable _"] wp_call wp_db_Query
    using same [of "next_step w"] paid [of "next_step w"]
    by (auto simp: scan_int64_def available_def ledger_def split: outcome.split sum.split if_splits)
qed

subsection \<open>What a run does\<close>

lemma prefix_pair_lines:
  "prefix ls (pair_lines src dst amt) \<longleftrightarrow>
     ls = [] \<or> ls = [line src ''debit'' amt] \<or> ls = [line src ''debit'' amt, line dst ''credit'' amt]"
  by (auto simp: pair_lines_def prefix_Cons)

lemma payout_lines_available:
  "prefix (map line_of es) (pair_lines (MerchantAvailable i) (MerchantInTransit i) amt) \<Longrightarrow>
     account_sum (MerchantAvailable j) es = (if j = i \<and> es \<noteq> [] then - amt else 0)"
  "prefix (map line_of es) (pair_lines (MerchantInTransit i) AccountPlatformOperating amt) \<Longrightarrow>
     account_sum (MerchantAvailable j) es = 0"
  by (auto simp: account_sum_lines prefix_pair_lines line_signed_def)

lemma payout_lines_posted:
  assumes "prefix (map line_of es) (pair_lines (MerchantAvailable i) (MerchantInTransit i) amt) \<or>
    prefix (map line_of es) (pair_lines (MerchantInTransit i) AccountPlatformOperating amt)"
  shows "posted j es = 0"
proof -
  have "\<forall>l \<in> set (map line_of es). \<not> clearing_debit l"
    using assms by (auto simp del: set_map simp: prefix_pair_lines clearing_debit_accounts)
  then have "filter (\<lambda>e. le_ReferenceID e = j \<and> clearing_debit (line_of e)) es = []" by (simp add: filter_empty_conv)
  then show ?thesis by (simp add: posted_def)
qed

text \<open>Between two states of a run that went through the merchants \<open>ids\<close>.\<close>

definition run_trace :: "settlement_policy \<Rightarrow> string list \<Rightarrow> world \<Rightarrow> world \<Rightarrow> bool" where
  "run_trace policy ids w v \<longleftrightarrow> pis v = pis w \<and> (\<forall>i. posted i (ledger v) = posted i (ledger w)) \<and>
     (\<forall>i. available i v \<le> available i w \<and> (0 \<le> available i w \<longrightarrow> 0 \<le> available i v)) \<and>
     (\<exists>new. payouts v = payouts w @ new \<and>
        (\<forall>i. length (filter (\<lambda>po. po_MerchantID po = i) new) \<le> count_list ids i) \<and>
        (\<forall>po \<in> set new. min (sp_MinBalanceMinor policy) (sp_MaxPayoutMinor policy) \<le> po_Amount po \<and>
           po_Amount po \<le> sp_MaxPayoutMinor policy \<and> po_Amount po \<le> available (po_MerchantID po) w))"

lemma run_trace_refl: "money v = money w \<Longrightarrow> run_trace policy ids w v"
  by (simp add: run_trace_def money_def available_def)

lemma payout_run_trace:
  assumes policy: "0 \<le> sp_MinBalanceMinor policy" "0 \<le> sp_MaxPayoutMinor policy" and step: "payout_trace policy i w v"
  shows "run_trace policy [i] w v"
  using step unfolding payout_trace_def
proof
  assume "\<exists>po es fs. let amt = min (available i w) (sp_MaxPayoutMinor policy) in
      sp_MinBalanceMinor policy \<le> available i w \<and> po_MerchantID po = i \<and> po_Amount po = amt \<and>
      money v = (pis w, payouts w @ [po], ledger w @ es @ fs) \<and>
      prefix (map line_of es) (pair_lines (MerchantAvailable i) (MerchantInTransit i) amt) \<and>
      prefix (map line_of fs) (pair_lines (MerchantInTransit i) AccountPlatformOperating amt)"
  then obtain po es fs amt where amt: "amt = min (available i w) (sp_MaxPayoutMinor policy)"
    and po: "sp_MinBalanceMinor policy \<le> available i w" "po_MerchantID po = i" "po_Amount po = amt"
    and v: "pis v = pis w" "payouts v = payouts w @ [po]" "ledger v = ledger w @ es @ fs"
    and es: "prefix (map line_of es) (pair_lines (MerchantAvailable i) (MerchantInTransit i) amt)"
    and fs: "prefix (map line_of fs) (pair_lines (MerchantInTransit i) AccountPlatformOperating amt)"
    unfolding Let_def by (auto simp: money_def)
  have avail: "available j v = available j w - (if j = i \<and> es \<noteq> [] then amt else 0)" for j
    by (simp add: available_def v(3) payout_lines_available(1) [OF es] payout_lines_available(2) [OF fs])
  have "posted j (ledger v) = posted j (ledger w)" for j
    using payout_lines_posted [OF disjI1 [OF es]] payout_lines_posted [OF disjI2 [OF fs]] by (simp add: v(3))
  then show ?thesis
    unfolding run_trace_def avail
    using amt po policy v(1,2) by (auto simp: min_def)
qed (rule run_trace_refl)

lemma run_trace_trans:
  assumes "run_trace policy ids w u" "run_trace policy ids' u v"
  shows "run_trace policy (ids @ ids') w v"
proof -
  from assms(1) obtain new where new: "payouts u = payouts w @ new"
    "\<And>i. length (filter (\<lambda>po. po_MerchantID po = i) new) \<le> count_list ids i"
    "\<forall>po \<in> set new. min (sp_MinBalanceMinor policy) (sp_MaxPayoutMinor policy) \<le> po_Amount po \<and>
       po_Amount po \<le> sp_MaxPayoutMinor policy \<and> po_Amount po \<le> available (po_MerchantID po) w"
    and u: "pis u = pis w" "\<And>i. posted i (ledger u) = posted i (ledger w)"
      "\<And>i. available i u \<le> available i w" "\<And>i. 0 \<le> available i w \<Longrightarrow> 0 \<le> available i u"
    unfolding run_trace_def by blast
  from assms(2) obtain new' where new': "payouts v = payouts u @ new'"
    "\<And>i. length (filter (\<lambda>po. po_MerchantID po = i) new') \<le> count_list ids' i"
    "\<forall>po \<in> set new'. min (sp_MinBalanceMinor policy) (sp_MaxPayoutMinor policy) \<le> po_Amount po \<and>
       po_Amount po \<le> sp_MaxPayoutMinor policy \<and> po_Amount po \<le> available (po_MerchantID po) u"
    and v: "pis v = pis u" "\<And>i. posted i (ledger v) = posted i (ledger u)"
      "\<And>i. available i v \<le> available i u" "\<And>i. 0 \<le> available i u \<Longrightarrow> 0 \<le> available i v"
    unfolding run_trace_def by blast
  have amounts: "\<forall>po \<in> set (new @ new'). min (sp_MinBalanceMinor policy) (sp_MaxPayoutMinor policy) \<le> po_Amount po \<and>
       po_Amount po \<le> sp_MaxPayoutMinor policy \<and> po_Amount po \<le> available (po_MerchantID po) w"
    using new(3) new'(3) u(3) by (auto intro: order_trans)
  show ?thesis
    unfolding run_trace_def
  proof (intro conjI allI impI exI [of _ "new @ new'"])
    show "available i v \<le> available i w" for i using u(3) v(3) order_trans by blast
    show "length (filter (\<lambda>po. po_MerchantID po = i) (new @ new')) \<le> count_list (ids @ ids') i" for i
      using add_mono [OF new(2) new'(2)] by simp
  qed (use u v new(1) new'(1) amounts in simp_all)
qed

lemma foreach_settle_trace:
  assumes "0 \<le> sp_MinBalanceMinor policy" "0 \<le> sp_MaxPayoutMinor policy"
  shows "wp (foreach (\<lambda>m. do { r \<leftarrow> settleMerchant reg policy m; ret () }) ms)
    (\<lambda>_ v. run_trace policy (map mch_ID ms) w v) w"
proof (induction ms arbitrary: w)
  case Nil
  show ?case by (simp add: wp_return run_trace_refl)
next
  case (Cons m ms)
  show ?case
    unfolding foreach.simps wp_bind wp_return
  proof (rule wp_mono [OF settleMerchant_trace])
    fix r :: "error + unit" and u :: world
    assume "payout_trace policy (mch_ID m) w u"
    then have step: "run_trace policy [mch_ID m] w u" by (rule payout_run_trace [OF assms])
    show "wp (foreach (\<lambda>m. do { r \<leftarrow> settleMerchant reg policy m; ret () }) ms)
        (\<lambda>_ v. run_trace policy (map mch_ID (m # ms)) w v) u"
      by (rule wp_mono [OF Cons.IH]) (use run_trace_trans [OF step] in simp)
  qed
qed

lemma Settle_trace:
  assumes "0 \<le> sp_MinBalanceMinor policy" "0 \<le> sp_MaxPayoutMinor policy"
  shows "wp (Settle reg policy) (\<lambda>_ v. run_trace policy (map mch_ID (sort_key mch_LegalName (t_merchants (w_db w)))) w v) w"
proof -
  let ?ids = "map mch_ID (sort_key mch_LegalName (t_merchants (w_db w)))"
  have start: "run_trace policy ?ids w v" if "money v = money w" for v by (rule run_trace_refl [OF that])
  have loop: "wp (foreach (\<lambda>m. do { r \<leftarrow> settleMerchant reg policy m; ret () }) (sort_key mch_LegalName (t_merchants (w_db w))))
      (\<lambda>_ v. run_trace policy ?ids w v) (next_step w)"
    by (rule wp_mono [OF foreach_settle_trace [OF assms]]) (use run_trace_refl [of "next_step w" w policy "[]"]
        run_trace_trans [of policy "[]" w "next_step w" ?ids] in simp)
  show ?thesis
    unfolding Settle_def Merchant_ListAll_def wp_call wp_db_Query
    using start [of "next_step w"] loop by (auto simp: wp_bind ok_def wp_ret split: outcome.split)
qed

subsection \<open>A merchant with a balance\<close>

text \<open>One document answers every transfer: accepted and done.\<close>

definition transfer_reply :: bytes where
  "transfer_reply = Doc (JObj [(''status'', JBool True), (''message'', JStr ''ok''),
     (''data'', JObj [(''reference'', JStr ''r-1''), (''amount'', JInt 10000000), (''currency'', JStr ''NGN''),
        (''status'', JStr ''success''), (''transfer_code'', JStr ''TRF-1'')])])"

lemma transfer_reply_decoded: "decode_transfer transfer_reply = Some (True, ''ok'', ''success'', ''TRF-1'')"
  by code_simp

definition transfer_http :: "nat \<Rightarrow> http_request \<Rightarrow> http_reply" where
  "transfer_http k r = HttpResp 200 transfer_reply 100"

definition shop :: merchant where
  "shop = \<lparr>mch_ID = ''m-1'', mch_Code = ''shop'', mch_LegalName = ''Shop'', mch_Country = ''NG'',
     mch_DefaultCurrency = ''NGN'', mch_Status = MerchantActive, mch_SettlementConfig = NilBytes, mch_CreatedAt = 0\<rparr>"

definition shop_world :: "nat list \<Rightarrow> world" where
  "shop_world bad = start_world (calm_env transfer_http bad) (empty_db\<lparr>t_merchants := [shop],
     t_ledger_entries := [entry (show_nat 1000) 0 ''NGN'' ''attempt'' ''pi-1'' (MerchantAvailable ''m-1'') ''credit'' 100000]\<rparr>)"

definition paystack_registry :: registry where
  "paystack_registry = [(''paystack'', paystack_conn)]"

definition settle_twice :: "registry \<Rightarrow> settlement_policy \<Rightarrow> ((error + unit) \<times> (error + unit)) go" where
  "settle_twice reg policy = do { r1 \<leftarrow> Settle reg policy; r2 \<leftarrow> Settle reg policy; ret (r1, r2) }"

lemmas settle_run_defs = Settle_def settleMerchant_def record_payout_def complete_payout_def Balance_def post_defs post_pair_def
  selectRail_def Registry_Names_def Registry_Get_def paystack_registry_def paystack_conn_def paystack_InitiatePayout_def
  http_send_def transfer_http_def transfer_reply_decoded paystack_Capabilities_def scan_int64_def DefaultPolicy_def
  payouts_def available_def MerchantInTransit_eq AccountPlatformOperating_def signed_amount_def shop_world_def shop_def

lemma settled_at_once:
  "wp (Settle paystack_registry DefaultPolicy)
     (\<lambda>r v. (map po_Amount (payouts v) = [100000] \<and> map po_Status (payouts v) = [PayoutSucceeded] \<and>
        available ''m-1'' v = 0 \<and> account_sum AccountPlatformOperating (ledger v) = 100000 \<and> length (w_http v) = 1) \<and> r = Inr ())
     (shop_world [])"
  by (simp add: run_defs settle_run_defs)

lemma posting_refused_pays_twice:
  "wp (settle_twice paystack_registry DefaultPolicy)
     (\<lambda>r v. (map po_Amount (payouts v) = [100000, 100000] \<and> map po_Status (payouts v) = [PayoutSucceeded, PayoutSucceeded] \<and>
        account_sum (MerchantInTransit ''m-1'') (ledger v) = - 100000 \<and> length (w_http v) = 2) \<and> r = (Inr (), Inr ()))
     (shop_world [10])"
  by (simp add: settle_twice_def run_defs settle_run_defs)

lemma record_refused_pays_twice:
  "wp (settle_twice paystack_registry DefaultPolicy)
     (\<lambda>r v. (map po_Amount (payouts v) = [100000] \<and> length (w_http v) = 2) \<and> r = (Inr (), Inr ()))
     (shop_world [6])"
  by (simp add: settle_twice_def run_defs settle_run_defs)

subsection \<open>The rail of a merchant\<close>

lemma rail_for_kes:
  "rail_for reg ''KES'' names \<noteq> [] \<Longrightarrow> \<exists>c. Registry_Get reg (rail_for reg ''KES'' names) = Some (MpesaConn c)"
proof (induction names)
  case (Cons n names)
  show ?case
  proof (cases "Registry_Get reg n")
    case None
    then show ?thesis using Cons by simp
  next
    case (Some conn)
    then show ?thesis
      using Cons by (cases conn) (auto simp: mpesa_Capabilities_def paystack_Capabilities_def Let_def)
  qed
qed simp

lemma distinct_count_list: "distinct xs \<Longrightarrow> count_list xs i \<le> 1"
  by (induction xs) (auto simp: count_list_0_iff)

lemma at_most_one_distinct:
  assumes "\<And>i. length (filter (\<lambda>x. f x = i) xs) \<le> 1"
  shows "distinct (map f xs)"
  using assms
proof (induction xs)
  case (Cons x xs)
  have "filter (\<lambda>y. f y = f x) xs = []" using Cons.prems [of "f x"] by simp
  then have "f x \<notin> f ` set xs" by (force simp: filter_empty_conv)
  moreover have "distinct (map f xs)"
    by (rule Cons.IH) (use Cons.prems in \<open>metis (mono_tags, lifting) Suc_le_eq filter.simps(2) le_SucI length_Cons not_less_eq_eq order_refl\<close>)
  ultimately show ?case by simp
qed simp

subsection \<open>The properties\<close>

text \<open>C11: A settlement run pays no merchant more than it has. Whatever fails, a run adds at most one
  payout per merchant, of at least the smaller and at most the larger of the policy's two amounts
  and never above the merchant's available balance; no available balance that was not negative
  becomes negative or grows, no payment intent changes, and no collection is posted or lost.\<close>

theorem Settle_never_overdraws:
  assumes "0 \<le> sp_MinBalanceMinor policy" "sp_MinBalanceMinor policy \<le> sp_MaxPayoutMinor policy"
    and unique: "distinct (map mch_ID (t_merchants (w_db w)))"
    and run: "run_state (Settle reg policy) w = (res, v)"
  shows "pis v = pis w \<and> (\<forall>i. posted i (ledger v) = posted i (ledger w)) \<and>
    (\<forall>i. available i v \<le> available i w \<and> (0 \<le> available i w \<longrightarrow> 0 \<le> available i v)) \<and>
    (\<exists>new. payouts v = payouts w @ new \<and> distinct (map po_MerchantID new) \<and>
       (\<forall>po \<in> set new. sp_MinBalanceMinor policy \<le> po_Amount po \<and> po_Amount po \<le> sp_MaxPayoutMinor policy \<and>
          po_Amount po \<le> available (po_MerchantID po) w))"
proof -
  let ?ids = "map mch_ID (sort_key mch_LegalName (t_merchants (w_db w)))"
  have "0 \<le> sp_MaxPayoutMinor policy" using assms(1,2) by simp
  from wp_run [OF Settle_trace [OF assms(1) this] run]
  have trace: "run_trace policy ?ids w v" .
  then obtain new where new: "payouts v = payouts w @ new"
    "\<And>i. length (filter (\<lambda>po. po_MerchantID po = i) new) \<le> count_list ?ids i"
    "\<forall>po \<in> set new. min (sp_MinBalanceMinor policy) (sp_MaxPayoutMinor policy) \<le> po_Amount po \<and>
       po_Amount po \<le> sp_MaxPayoutMinor policy \<and> po_Amount po \<le> available (po_MerchantID po) w"
    unfolding run_trace_def by blast
  have "distinct ?ids" using unique by (simp add: distinct_map)
  then have "count_list ?ids i \<le> 1" for i by (rule distinct_count_list)
  then have "length (filter (\<lambda>po. po_MerchantID po = i) new) \<le> 1" for i using new(2) order_trans by blast
  then have "distinct (map po_MerchantID new)" by (rule at_most_one_distinct)
  with trace new assms(2) show ?thesis
    unfolding run_trace_def by (intro conjI exI [of _ new]) auto
qed

theorem Settle_never_overdraws_witness:
  "\<exists>v. run_state (Settle paystack_registry DefaultPolicy) (shop_world []) = (Inr (), v) \<and>
     map po_Amount (payouts v) = [100000] \<and> available ''m-1'' v = 0 \<and> pis v = pis (shop_world [])"
proof -
  obtain v where run: "run_state (Settle paystack_registry DefaultPolicy) (shop_world []) = (Inr (), v) \<and>
      map po_Amount (payouts v) = [100000] \<and> map po_Status (payouts v) = [PayoutSucceeded] \<and>
      available ''m-1'' v = 0 \<and> account_sum AccountPlatformOperating (ledger v) = 100000 \<and> length (w_http v) = 1"
    by (rule exE [OF wp_ex [OF settled_at_once]])
  have "pis v = pis (shop_world [])"
    using Settle_never_overdraws [of DefaultPolicy "shop_world []", OF _ _ _ conjunct1 [OF run]]
    by (simp add: DefaultPolicy_def shop_world_def start_world_def)
  with run show ?thesis by (intro exI [of _ v]) simp
qed


text \<open>A merchant whose currency is KES is never paid out. M-Pesa, the only rail for that
  currency, announces payouts and refuses every one of them: a settlement changes neither the
  database nor sends anything, and unless the balance is below the threshold it fails.\<close>

theorem KES_never_paid:
  assumes "mch_DefaultCurrency m = ''KES''" "Registry_Get reg [] = None"
    and run: "run_state (settleMerchant reg policy m) w = (res, v)"
  shows "w_db v = w_db w \<and> w_http v = w_http w \<and>
    (res = Inr () \<longrightarrow> available (mch_ID m) w < sp_MinBalanceMinor policy)"
proof (rule wp_run [OF _ run])
  let ?rail = "selectRail reg m"
  have "Registry_Get reg ?rail = None \<or> (\<exists>c. Registry_Get reg ?rail = Some (MpesaConn c))"
    using rail_for_kes assms(1,2) by (cases "?rail = []") (auto simp: selectRail_def)
  then show "wp (settleMerchant reg policy m) (\<lambda>res v. w_db v = w_db w \<and> w_http v = w_http w \<and>
      (res = Inr () \<longrightarrow> available (mch_ID m) w < sp_MinBalanceMinor policy)) w"
    by (auto simp: settleMerchant_def Balance_def Ledger_Balance_def Let_def wp_simps mpesa_InitiatePayout_def
        scan_int64_def available_def ledger_def split: outcome.split sum.split)
qed

theorem KES_never_paid_witness:
  "\<exists>res v. run_state (settleMerchant (or_registry mobile_orch) DefaultPolicy (shop\<lparr>mch_DefaultCurrency := ''KES''\<rparr>))
     (shop_world []) = (res, v) \<and> w_http v = [] \<and> res \<noteq> Inr ()"
proof -
  obtain res v where run: "run_state (settleMerchant (or_registry mobile_orch) DefaultPolicy
      (shop\<lparr>mch_DefaultCurrency := ''KES''\<rparr>)) (shop_world []) = (res, v)" by fastforce
  have "w_http v = w_http (shop_world [])" "res = Inr () \<longrightarrow> available ''m-1'' (shop_world []) < 50000"
    using KES_never_paid [OF _ _ run] by (simp_all add: mobile_orch_def Registry_Get_def shop_def DefaultPolicy_def)
  then have "w_http v = [] \<and> res \<noteq> Inr ()"
    by (auto simp: shop_world_def start_world_def available_def ledger_def entry_def signed_amount_def)
  then show ?thesis by (intro exI [of _ res] exI [of _ v] conjI [OF run])
qed

end
