(* ===== verification/Reconciliation.thy ===== *)
theory Reconciliation
  imports Settlement Incidents
begin

section \<open>Reconciliation (\<open>internal/reconciliation/runner.go\<close>)\<close>

text \<open>
  The cron job that compares yesterday's attempts with what the providers say. For every provider
  it counts matched, unmatched and failed comparisons; the counts go to the log and nowhere else,
  so in the model they are the result. The other log lines are left out. The date is a UTC time,
  as the cron program passes it.
\<close>

datatype comparison = Matched | Unmatched | Errored

text \<open>One iteration of the loop, for an attempt of this provider.\<close>

definition compare_attempt :: "connector \<Rightarrow> attempt_row \<Rightarrow> comparison go" where
  "compare_attempt conn att =
     (if ar_PSPReference att = [] then ret Unmatched
      else if \<not> cap_SupportsCollection (conn_Capabilities conn) \<and> \<not> cap_SupportsPayout (conn_Capabilities conn)
      then ret Matched
      else do {
        r \<leftarrow> conn_GetStatus conn (ar_PSPReference att);
        (case r of
           Inl err \<Rightarrow> ret Errored
         | Inr s \<Rightarrow>
             (if \<not> sr_Supported s then ret Matched
              else if attempt_status_str (ar_Status att) = ''succeeded'' \<and> sr_Status s \<noteq> ''succeeded'' then ret Unmatched
              else if sr_Amount s > 0 \<and> sr_Amount s \<noteq> ar_Amount att then ret Unmatched
              else ret Matched)) })"

record tally =
  ta_matched :: int
  ta_unmatched :: int
  ta_errors :: int

fun count_comparison :: "comparison \<Rightarrow> tally \<Rightarrow> tally" where
  "count_comparison Matched t = t\<lparr>ta_matched := ta_matched t + 1\<rparr>"
| "count_comparison Unmatched t = t\<lparr>ta_unmatched := ta_unmatched t + 1\<rparr>"
| "count_comparison Errored t = t\<lparr>ta_errors := ta_errors t + 1\<rparr>"

fun reconcilePSP :: "string \<Rightarrow> connector \<Rightarrow> attempt_row list \<Rightarrow> tally \<Rightarrow> tally go" where
  "reconcilePSP name conn [] t = ret t"
| "reconcilePSP name conn (att # atts) t =
     (if ar_PSP att \<noteq> name then reconcilePSP name conn atts t
      else do { c \<leftarrow> compare_attempt conn att; reconcilePSP name conn atts (count_comparison c t) })"

definition no_tally :: tally where
  "no_tally = \<lparr>ta_matched = 0, ta_unmatched = 0, ta_errors = 0\<rparr>"

fun reconcile_names :: "registry \<Rightarrow> attempt_row list \<Rightarrow> string list \<Rightarrow> (string \<times> tally) list go" where
  "reconcile_names reg atts [] = ret []"
| "reconcile_names reg atts (name # names) =
     (case Registry_Get reg name of
        None \<Rightarrow> reconcile_names reg atts names
      | Some conn \<Rightarrow> do {
          t \<leftarrow> reconcilePSP name conn atts no_tally;
          ts \<leftarrow> reconcile_names reg atts names;
          ret ((name, t) # ts) })"

definition start_of_day :: "time \<Rightarrow> time" where
  "start_of_day date = day_of date * (24 * Hour)"

definition Reconcile :: "registry \<Rightarrow> time \<Rightarrow> (string \<times> tally) list goE" where
  "Reconcile reg date =
     (let startOfDay = start_of_day date; endOfDay = startOfDay + 24 * Hour in
      call ''list attempts by date'' (Attempt_ListByDateRange startOfDay endOfDay) (\<lambda>attempts. do {
        ts \<leftarrow> reconcile_names reg attempts (Registry_Names reg);
        ok ts }))"

text \<open>The cron program (\<open>cmd/cron/main.go\<close>) after its set-up: yesterday is reconciled, whatever
  comes out of that, then the merchants are settled; an error there ends the process.\<close>

definition cron_run :: "registry \<Rightarrow> unit goE" where
  "cron_run reg = do {
     now \<leftarrow> time_Now;
     r \<leftarrow> Reconcile reg (now - 24 * Hour);
     Settle reg DefaultPolicy }"

subsection \<open>The day\<close>

lemma block_iff_div: "0 < c \<Longrightarrow> q * c \<le> t \<and> t < q * c + c \<longleftrightarrow> t div c = (q :: int)"
proof
  assume c: "0 < c" and "q * c \<le> t \<and> t < q * c + c"
  then show "t div c = q" by (intro int_div_pos_eq [of _ _ _ "t - q * c"]) (simp_all add: mult.commute)
next
  assume c: "0 < c" and "t div c = q"
  then have "t = q * c + t mod c" by (metis div_mult_mod_eq)
  then show "q * c \<le> t \<and> t < q * c + c" using pos_mod_bound [OF c, of t] pos_mod_sign [OF c, of t] by linarith
qed

lemma in_day: "start_of_day date \<le> t \<and> t < start_of_day date + 24 * Hour \<longleftrightarrow> day_of t = day_of date"
  unfolding start_of_day_def day_of_def by (rule block_iff_div) (simp add: duration_defs)

subsection \<open>What a run does\<close>

definition compared :: "tally \<Rightarrow> int" where
  "compared t = ta_matched t + ta_unmatched t + ta_errors t"

lemma keeps_db_compare: "keeps w_db (compare_attempt conn att)"
proof -
  have "keeps w_db (conn_GetStatus conn ref)" for ref
    using conn.status_frame [of conn ref] by (simp add: keeps_def)
  then show ?thesis unfolding compare_attempt_def by (intro keeps_if keeps_return keeps_bind keeps_sum)
qed

lemma reconcilePSP_law:
  "wp (reconcilePSP name conn atts t) (\<lambda>s v. w_db v = w_db w \<and>
     compared s = compared t + int (length (filter (\<lambda>a. ar_PSP a = name) atts)) \<and>
     ta_matched t \<le> ta_matched s \<and> ta_unmatched t \<le> ta_unmatched s \<and> ta_errors t \<le> ta_errors s) u"
  if "w_db u = w_db w" for u w :: world
  using that
proof (induction atts arbitrary: t u)
  case (Cons att atts)
  have rest: "wp (reconcilePSP name conn atts (count_comparison c t)) (\<lambda>s v. w_db v = w_db w \<and>
      compared s = compared t + 1 + int (length (filter (\<lambda>a. ar_PSP a = name) atts)) \<and>
      ta_matched t \<le> ta_matched s \<and> ta_unmatched t \<le> ta_unmatched s \<and> ta_errors t \<le> ta_errors s) x"
    if "w_db x = w_db u" for c and x :: world
    by (rule wp_mono [OF Cons.IH]) (use that Cons.prems in \<open>cases c; simp add: compared_def\<close>)+
  show ?case
  proof (cases "ar_PSP att = name")
    case True
    then show ?thesis
      using rest by (auto simp: wp_bind algebra_simps intro!: wp_keepsI [OF keeps_db_compare])
  qed (use Cons in simp)
qed (simp add: wp_return)

lemma reconcile_names_law:
  fixes u w :: world
  assumes "w_db u = w_db w" "\<forall>n \<in> set names. Registry_Get reg n \<noteq> None"
  shows "wp (reconcile_names reg atts names) (\<lambda>ts v. w_db v = w_db w \<and> map fst ts = names \<and>
     list_all (\<lambda>(n, t). 0 \<le> ta_matched t \<and> 0 \<le> ta_unmatched t \<and> 0 \<le> ta_errors t \<and>
       compared t = int (length (filter (\<lambda>a. ar_PSP a = n) atts))) ts) u"
  using assms
proof (induction names arbitrary: u)
  case (Cons n names)
  show ?case
  proof (cases "Registry_Get reg n")
    case (Some conn)
    show ?thesis
      unfolding reconcile_names.simps Some option.case wp_bind
      by (rule wp_mono [OF reconcilePSP_law [OF Cons.prems(1)]], rule wp_mono [OF Cons.IH])
        (use Cons.prems(2) in \<open>auto simp: wp_return no_tally_def compared_def\<close>)
  qed (use Cons in simp)
qed (simp add: wp_return)

lemma Reconcile_law:
  "wp (Reconcile reg date) (\<lambda>res v. w_db v = w_db w \<and>
     (case res of Inl e \<Rightarrow> True | Inr ts \<Rightarrow> map fst ts = Registry_Names reg \<and>
        list_all (\<lambda>(n, t). 0 \<le> ta_matched t \<and> 0 \<le> ta_unmatched t \<and> 0 \<le> ta_errors t \<and>
          compared t = int (length (filter (\<lambda>a. ar_PSP a = n)
            (attempt_rows (start_of_day date) (start_of_day date + 24 * Hour) (w_db w))))) ts)) w"
proof -
  have names: "\<forall>n \<in> set (Registry_Names reg). Registry_Get reg n \<noteq> None"
    by (simp only: Registry_Names_def Registry_Get_def map_of_eq_None_iff set_map) simp
  have run: "wp (do { ts \<leftarrow> reconcile_names reg atts (Registry_Names reg); ok ts })
      (\<lambda>res v. w_db v = w_db w \<and> (case res of Inl e \<Rightarrow> True | Inr ts \<Rightarrow> map fst ts = Registry_Names reg \<and>
        list_all (\<lambda>(n, t). 0 \<le> ta_matched t \<and> 0 \<le> ta_unmatched t \<and> 0 \<le> ta_errors t \<and>
          compared t = int (length (filter (\<lambda>a. ar_PSP a = n) atts))) ts)) (next_step w)" for atts
    unfolding wp_bind wp_ok by (rule wp_mono [OF reconcile_names_law [OF _ names, of "next_step w" w]]) simp_all
  show ?thesis
    unfolding Reconcile_def Let_def wp_call Attempt_ListByDateRange_def wp_db_Query
    using run by (auto split: outcome.split)
qed

lemma Settle_safe:
  assumes "0 \<le> sp_MinBalanceMinor policy" "0 \<le> sp_MaxPayoutMinor policy"
  shows "safe (Settle reg policy)"
  by (rule safeI, rule wp_mono [OF Settle_trace [OF assms]]) (simp add: run_trace_def good_def pay_inv_def)

subsection \<open>A lost payment\<close>

text \<open>The provider answers the early query that it does not know yet, and later that the customer paid.\<close>

definition paid_later :: "nat \<Rightarrow> http_request \<Rightarrow> http_reply" where
  "paid_later k r = (if k < 8 then pending_http k r else mpesa_http k r)"

definition query_callback_reconcile :: "(error + (string \<times> tally) list) go" where
  "query_callback_reconcile = do { qs \<leftarrow> query_then_callback; Reconcile (or_registry mobile_orch) 0 }"

lemma reconciled_after_query:
  "wp query_callback_reconcile
     (\<lambda>r v. (ledger v = [] \<and> map pi_Status (pis v) = [PIFailed] \<and> map att_Status (t_attempts (w_db v)) = [AttemptFailed]) \<and>
       r = Inr [(''mpesa'', \<lparr>ta_matched = 1, ta_unmatched = 0, ta_errors = 0\<rparr>)])
     (mobile_waiting\<lparr>w_env := calm_env paid_later []\<rparr>)"
  by (simp add: numeral_replicate query_callback_reconcile_def query_then_callback_def)
    (simp add: run_defs mobile_waiting_def mobile_orch_def stk_event_def card_intent_def card_attempt_def charge_event_def
      Registry_Get_def Registry_Names_def pis_def mpesa_GetStatus_def Token_def fetchToken_def http_send_def pending_http_def
      mpesa_http_def paid_later_def pending_reply_decoded mpesa_reply_decoded query_status_def duration_defs
      Reconcile_def compare_attempt_def mpesa_Capabilities_def no_tally_def start_of_day_def day_of_def attempt_rows_def)

subsection \<open>The properties\<close>




end
