(* ===== verification/Httpsign.thy ===== *)
theory Httpsign
  imports Prelude "HOL-Library.Word"
begin

section \<open>SHA-256 (\<open>crypto/sha256\<close>, \<open>crypto/hmac\<close>, \<open>encoding/hex\<close>)\<close>

text \<open>
  The API stores the SHA-256 of a key and signs with HMAC. The standard library's functions are
  written out here as FIPS 180-4 and RFC 2104 define them, on lists of bytes (\<open>char\<close>).
\<close>

unbundle bit_operations_syntax

type_synonym word32 = "32 word"

text \<open>The constants are the first 32 bits of the fractional parts of the roots of the first primes:
  the cube roots for the rounds, the square roots for the initial state.\<close>

fun root_bits :: "nat \<Rightarrow> int \<Rightarrow> nat \<Rightarrow> int \<Rightarrow> int" where
  "root_bits k n 0 r = r"
| "root_bits k n (Suc b) r = root_bits k n b (if (r + 2 ^ b) ^ k \<le> n then r + 2 ^ b else r)"

definition primes_to :: "int \<Rightarrow> int list" where
  "primes_to n = filter (\<lambda>p. list_all (\<lambda>d. p mod d \<noteq> 0) [2..p - 1]) [2..n]"

definition sha_k :: "word32 list" where
  "sha_k = map (\<lambda>p. word_of_int (root_bits 3 (p * 2 ^ 96) 36 0)) (primes_to 311)"

definition rotr :: "nat \<Rightarrow> word32 \<Rightarrow> word32" where
  "rotr n x = (drop_bit n x OR push_bit (32 - n) x)"

definition sigma0 :: "word32 \<Rightarrow> word32" where "sigma0 x = (rotr 7 x XOR rotr 18 x XOR drop_bit 3 x)"
definition sigma1 :: "word32 \<Rightarrow> word32" where "sigma1 x = (rotr 17 x XOR rotr 19 x XOR drop_bit 10 x)"
definition Sigma0 :: "word32 \<Rightarrow> word32" where "Sigma0 x = (rotr 2 x XOR rotr 13 x XOR rotr 22 x)"
definition Sigma1 :: "word32 \<Rightarrow> word32" where "Sigma1 x = (rotr 6 x XOR rotr 11 x XOR rotr 25 x)"
definition sha_ch :: "word32 \<Rightarrow> word32 \<Rightarrow> word32 \<Rightarrow> word32" where "sha_ch x y z = ((x AND y) XOR (NOT x AND z))"
definition sha_maj :: "word32 \<Rightarrow> word32 \<Rightarrow> word32 \<Rightarrow> word32" where "sha_maj x y z = ((x AND y) XOR (x AND z) XOR (y AND z))"

fun word_of_bytes :: "char list \<Rightarrow> word32" where
  "word_of_bytes cs = foldl (\<lambda>w c. push_bit 8 w OR word_of_int (of_char c)) 0 cs"

text \<open>The message schedule: the window of the last sixteen words, the rounds done so far.\<close>

fun sha_rounds :: "word32 list \<Rightarrow> word32 list \<Rightarrow> word32 list \<Rightarrow> word32 list" where
  "sha_rounds [] w [a, b, c, d, e, f, g, h] = [a, b, c, d, e, f, g, h]"
| "sha_rounds (k # ks) (w0 # w) [a, b, c, d, e, f, g, h] =
     (let t1 = h + Sigma1 e + sha_ch e f g + k + w0; t2 = Sigma0 a + sha_maj a b c;
          wn = sigma1 (w ! 13) + w ! 8 + sigma0 (w ! 0) + w0
      in sha_rounds ks (w @ [wn]) [t1 + t2, a, b, c, d + t1, e, f, g])"
| "sha_rounds ks w hs = hs"

definition sha_init :: "word32 list" where
  "sha_init = map (\<lambda>p. word_of_int (root_bits 2 (p * 2 ^ 64) 36 0)) (primes_to 19)"

definition char_of_word :: "word32 \<Rightarrow> char" where
  "char_of_word w = char_of (uint w mod 256)"

definition bytes_of_word :: "word32 \<Rightarrow> char list" where
  "bytes_of_word w = map (\<lambda>n. char_of_word (drop_bit n w)) [24, 16, 8, 0]"

text \<open>Padding: a one bit, zeros, and the length in bits as 64-bit big endian.\<close>

definition len_bytes :: "int \<Rightarrow> char list" where
  "len_bytes n = map (\<lambda>i. char_of (n div 256 ^ i mod 256)) [7, 6, 5, 4, 3, 2, 1, 0]"

definition sha_pad :: "char list \<Rightarrow> char list" where
  "sha_pad m = m @ [CHR 0x80] @ replicate ((119 - length m mod 64) mod 64) (CHR 0x00) @ len_bytes (8 * int (length m))"

fun chunks :: "nat \<Rightarrow> 'a list \<Rightarrow> 'a list list" where
  "chunks n xs = (if n = 0 \<or> xs = [] then [] else take n xs # chunks n (drop n xs))"

declare chunks.simps [simp del]

definition sha_block :: "char list \<Rightarrow> word32 list \<Rightarrow> word32 list" where
  "sha_block b hs = map2 (+) hs (sha_rounds sha_k (map word_of_bytes (chunks 4 b)) hs)"

definition sha256 :: "char list \<Rightarrow> char list" where
  "sha256 m = concat (map bytes_of_word (fold sha_block (chunks 64 (sha_pad m)) sha_init))"

definition hex_digit :: "nat \<Rightarrow> char" where
  "hex_digit n = ''0123456789abcdef'' ! n"

definition hex :: "char list \<Rightarrow> string" where
  "hex bs = concat (map (\<lambda>c. [hex_digit (of_char c div 16), hex_digit (of_char c mod 16)]) bs)"

text \<open>HMAC with a block of 64 bytes.\<close>

definition hmac_key :: "char list \<Rightarrow> char list" where
  "hmac_key key = (let k = (if 64 < length key then sha256 key else key) in k @ replicate (64 - length k) (CHR 0x00))"

definition xor_char :: "int \<Rightarrow> char \<Rightarrow> char" where
  "xor_char b c = char_of (b XOR of_char c)"

definition hmac_sha256 :: "char list \<Rightarrow> char list \<Rightarrow> char list" where
  "hmac_sha256 key m =
     sha256 (map (xor_char 92) (hmac_key key) @ sha256 (map (xor_char 54) (hmac_key key) @ m))"

subsection \<open>Request signatures (\<open>pkg/httpsign/sign.go\<close>)\<close>

text \<open>The time is given in nanoseconds; \<open>Unix()\<close> is its second.\<close>

definition sign_input :: "int \<Rightarrow> string \<Rightarrow> char list \<Rightarrow> char list" where
  "sign_input timestamp nonce body = show_int (timestamp div 1000000000) @ ''.'' @ nonce @ ''.'' @ body"

definition Sign :: "string \<Rightarrow> int \<Rightarrow> string \<Rightarrow> char list \<Rightarrow> string" where
  "Sign secret timestamp nonce body = hex (hmac_sha256 secret (sign_input timestamp nonce body))"

definition Verify :: "string \<Rightarrow> string \<Rightarrow> int \<Rightarrow> string \<Rightarrow> char list \<Rightarrow> error + unit" where
  "Verify secret signature timestamp nonce body =
     (if signature \<noteq> Sign secret timestamp nonce body then Inl (ErrMsg ''signature mismatch'') else Inr ())"

text \<open>The separator may occur in the nonce: moving a part of the body into the nonce, or back, keeps
  the signature. Without a dot in the nonces the signed bytes determine second, nonce and body.\<close>

lemma Sign_ambiguous: "Sign secret t (n @ ''.'' @ n') body = Sign secret t n (n' @ ''.'' @ body)"
  by (simp add: Sign_def sign_input_def)

lemma split_at_dot: "xs @ CHR ''.'' # ys = xs' @ CHR ''.'' # ys' \<Longrightarrow> CHR ''.'' \<notin> set xs \<Longrightarrow> CHR ''.'' \<notin> set xs' \<Longrightarrow>
    xs = xs' \<and> ys = ys'"
  by (induction xs arbitrary: xs') (auto simp: Cons_eq_append_conv append_eq_Cons_conv)

lemma show_int_no_dot: "CHR ''.'' \<notin> set (show_int i)"
  by (simp add: show_int_def show_nat_no_punctuation)

lemma show_int_inj: "show_int i = show_int j \<longleftrightarrow> i = j"
proof -
  have no_dash: "show_nat n \<noteq> CHR ''-'' # s" for n s
    using show_nat_no_punctuation(2) [of n] by auto
  show ?thesis
    using no_dash no_dash [symmetric] by (auto simp: show_int_def show_nat_inj)
qed

lemma sign_input_inj:
  assumes "CHR ''.'' \<notin> set n" "CHR ''.'' \<notin> set n'"
  shows "sign_input t n body = sign_input t' n' body' \<longleftrightarrow>
    t div 1000000000 = t' div 1000000000 \<and> n = n' \<and> body = body'"
proof
  assume "sign_input t n body = sign_input t' n' body'"
  then have "show_int (t div 1000000000) = show_int (t' div 1000000000) \<and> n @ ''.'' @ body = n' @ ''.'' @ body'"
    unfolding sign_input_def by (intro split_at_dot) (simp_all add: show_int_no_dot)
  then show "t div 1000000000 = t' div 1000000000 \<and> n = n' \<and> body = body'"
    using split_at_dot [of n body n' body'] assms by (simp add: show_int_inj)
qed (simp add: sign_input_def)

end
