(* ===== verification/Http.thy ===== *)
theory Http
  imports Reconciliation Httpsign
begin

section \<open>Requests, responses and middleware (\<open>internal/api\<close>, \<open>internal/authn\<close>)\<close>

text \<open>
  A request is what the handlers read of it: two headers, the length and the body (\<open>None\<close> when
  reading it fails; a body is one document or does not parse), the values of the query and of the
  path, and the values the middleware puts into its context. A response is its status, the
  headers set and the body; \<open>FileBody\<close> is an embedded file, by its name. A handler that panics returns \<open>None\<close>. The tracing and logging
  middleware changes neither; what it records is in theory \<open>Telemetry\<close>.
\<close>

record api_request =
  aq_Authorization :: string
  aq_XRequestID :: string
  aq_ContentLength :: int
  aq_Body :: "bytes option"
  aq_Query :: "string \<Rightarrow> string"
  aq_Param :: "string \<Rightarrow> string"
  aq_ReqID :: string
  aq_ConversationID :: "string option"
  aq_MerchantID :: "string option"
  aq_PortalUserID :: "string option"
  aq_PortalMerchantID :: "string option"

datatype payload = JsonBody json | TextBody string | FileBody string

record api_response =
  rp_Status :: int
  rp_Header :: "(string \<times> string) list"
  rp_Body :: payload

type_synonym handler = "api_request \<Rightarrow> api_response option go"

subsection \<open>The response envelope (\<open>response.go\<close>)\<close>

record error_info =
  ei_ErrorCode :: string
  ei_ErrorMessage :: string
  ei_FieldErrors :: "(string \<times> string) list"

definition error_info_json :: "error_info \<Rightarrow> json" where
  "error_info_json e = JObj ([(''errorCode'', JStr (ei_ErrorCode e)), (''errorMessage'', JStr (ei_ErrorMessage e))] @
     (if ei_FieldErrors e = [] then []
      else [(''fieldErrors'', JArr (map (\<lambda>(f, m). JObj [(''field'', JStr f), (''message'', JStr m)]) (ei_FieldErrors e)))]))"

definition GetReqID :: "api_request \<Rightarrow> string" where
  "GetReqID r = aq_ReqID r"

definition GetConversationID :: "api_request \<Rightarrow> string option" where
  "GetConversationID r = (case aq_ConversationID r of None \<Rightarrow> None | Some i \<Rightarrow> if i \<noteq> [] then Some i else None)"

definition buildEnvelope :: "api_request \<Rightarrow> string \<Rightarrow> string \<Rightarrow> string \<Rightarrow> string \<Rightarrow> json \<Rightarrow> error_info option \<Rightarrow> json" where
  "buildEnvelope r statusCode statusDesc msgCode msgDesc data errInfo =
     JObj [(''statusCode'', JStr statusCode), (''statusDescription'', JStr statusDesc), (''messageCode'', JStr msgCode),
       (''messageDescription'', JStr msgDesc),
       (''errorInfo'', (case errInfo of None \<Rightarrow> JNull | Some e \<Rightarrow> error_info_json e)),
       (''messageID'', JStr (GetReqID r)),
       (''conversationID'', (case GetConversationID r of None \<Rightarrow> JNull | Some i \<Rightarrow> JStr i)),
       (''additionalData'', JNull), (''primaryData'', data)]"

definition StatusText :: "int \<Rightarrow> string" where
  "StatusText code = (if code = 200 then ''OK'' else if code = 201 then ''Created'' else [])"

definition json_response :: "int \<Rightarrow> json \<Rightarrow> api_response" where
  "json_response status j = \<lparr>rp_Status = status, rp_Header = [(''Content-Type'', ''application/json'')], rp_Body = JsonBody j\<rparr>"

definition respond :: "api_request \<Rightarrow> int \<Rightarrow> json \<Rightarrow> api_response option go" where
  "respond r status data =
     ret (Some (json_response status (buildEnvelope r ''0'' ''Success'' (show_int status) (StatusText status) data None)))"

definition respondError :: "api_request \<Rightarrow> int \<Rightarrow> string \<Rightarrow> string \<Rightarrow> api_response option go" where
  "respondError r status code msg =
     ret (Some (json_response status (buildEnvelope r code ''BusinessError'' (show_int status) msg JNull
       (Some \<lparr>ei_ErrorCode = code, ei_ErrorMessage = msg, ei_FieldErrors = []\<rparr>))))"

definition respondValidationError :: "api_request \<Rightarrow> (string \<times> string) list \<Rightarrow> api_response option go" where
  "respondValidationError r fieldErrors =
     ret (Some (json_response 400 (buildEnvelope r ''1001'' ''Validation error'' ''400'' ''One or more fields failed validation'' JNull
       (Some \<lparr>ei_ErrorCode = ''1001'', ei_ErrorMessage = ''One or more fields failed validation'',
          ei_FieldErrors = fieldErrors\<rparr>))))"

subsection \<open>The request envelope\<close>

record request_envelope =
  re_MessageID :: string
  re_ConversationID :: "string option"
  re_PrimaryData :: "json option"
  re_AdditionalData :: "(string \<times> string) list"

definition decode_pair :: "json \<Rightarrow> (string \<times> string) option" where
  "decode_pair j = do { fs \<leftarrow> as_fields j; k \<leftarrow> dec_string ''key'' fs; v \<leftarrow> dec_string ''value'' fs; Some (k, v) }"

definition decode_envelope :: "bytes \<Rightarrow> request_envelope option" where
  "decode_envelope b = do {
     fs \<leftarrow> unmarshal_fields b;
     i \<leftarrow> dec_string ''messageID'' fs;
     c \<leftarrow> dec_str_ptr ''conversationID'' fs;
     xs \<leftarrow> dec_list ''additionalData'' fs;
     ps \<leftarrow> those (map decode_pair xs);
     Some \<lparr>re_MessageID = i, re_ConversationID = c, re_PrimaryData = dec_any ''primaryData'' fs, re_AdditionalData = ps\<rparr> }"

text \<open>\<open>json.Unmarshal(env.PrimaryData, &req)\<close>: an absent field is no document, \<open>null\<close> leaves
  the zero request.\<close>

definition primary_fields :: "request_envelope \<Rightarrow> fields option" where
  "primary_fields env = Option.bind (re_PrimaryData env) as_fields"

text \<open>The two decodings every handler with a body starts with.\<close>

definition with_primary :: "api_request \<Rightarrow> (fields \<Rightarrow> 'a option) \<Rightarrow> (request_envelope \<Rightarrow> 'a \<Rightarrow> api_response option go) \<Rightarrow>
    api_response option go" where
  "with_primary r dec k =
     (case Option.bind (aq_Body r) decode_envelope of
        None \<Rightarrow> respondValidationError r [(''body'', ''invalid JSON'')]
      | Some env \<Rightarrow>
          (case Option.bind (primary_fields env) dec of
             None \<Rightarrow> respondValidationError r [(''primaryData'', ''invalid payload'')]
           | Some q \<Rightarrow> k env q))"

subsection \<open>Middleware (\<open>middleware.go\<close>)\<close>

definition RequestID :: "handler \<Rightarrow> handler" where
  "RequestID next r = do {
     i \<leftarrow> (if aq_XRequestID r = [] then do { now \<leftarrow> time_Now; ret (''req_'' @ show_int now) } else ret (aq_XRequestID r));
     p \<leftarrow> next (r\<lparr>aq_ReqID := i\<rparr>);
     ret (map_option (\<lambda>p. p\<lparr>rp_Header := (''X-Request-ID'', i) # rp_Header p\<rparr>) p) }"

definition ConversationID :: "handler \<Rightarrow> handler" where
  "ConversationID next r =
     (if aq_ContentLength r = 0 then next r
      else (case aq_Body r of
        None \<Rightarrow> next r
      | Some b \<Rightarrow>
          (case Option.bind (unmarshal_fields b) (dec_str_ptr ''conversationID'') of
             Some (Some i) \<Rightarrow> next (r\<lparr>aq_ConversationID := Some i\<rparr>)
           | _ \<Rightarrow> next r)))"

definition http_Error :: "int \<Rightarrow> string \<Rightarrow> api_response" where
  "http_Error status msg = \<lparr>rp_Status = status,
     rp_Header = [(''Content-Type'', ''text/plain; charset=utf-8''), (''X-Content-Type-Options'', ''nosniff'')],
     rp_Body = TextBody (msg @ [CHR 0x0A])\<rparr>"

definition Recoverer :: "handler \<Rightarrow> handler" where
  "Recoverer next r = do {
     p \<leftarrow> next r;
     ret (case p of None \<Rightarrow> Some (http_Error 500 ''Internal Server Error'') | Some q \<Rightarrow> Some q) }"

subsection \<open>API keys (\<open>authn/middleware.go\<close>)\<close>

definition writeUnauthorized :: api_response where
  "writeUnauthorized = json_response 401 (JObj
     [(''errorInfo'', JObj [(''errorCode'', JStr ''1002''), (''errorMessage'', JStr ''unauthorized'')]),
      (''messageCode'', JStr ''401''), (''messageDescription'', JStr ''Invalid or missing credentials''),
      (''primaryData'', JNull), (''statusCode'', JStr ''1002''), (''statusDescription'', JStr ''Authentication failed'')])"

definition Bearer :: string where "Bearer = ''Bearer ''"

definition AuthMiddleware :: "handler \<Rightarrow> handler" where
  "AuthMiddleware next r =
     (if aq_Authorization r = [] \<or> \<not> has_prefix (aq_Authorization r) Bearer then ret (Some writeUnauthorized)
      else do {
        k \<leftarrow> Merchant_GetAPIKeyByHash (hex (sha256 (drop (length Bearer) (aq_Authorization r))));
        (case k of
           Inl err \<Rightarrow> ret (Some writeUnauthorized)
         | Inr key \<Rightarrow> next (r\<lparr>aq_MerchantID := Some (ak_MerchantID key)\<rparr>)) })"

end
