(* ===== verification/Api.thy ===== *)
theory Api
  imports Http
begin

section \<open>The merchant API (\<open>internal/api\<close>, \<open>internal/service\<close>)\<close>

text \<open>
  The handlers for payment intents, checkout and merchants over the orchestrator and the
  repositories, and the table of endpoints with the middleware each of them runs behind. What
  \<open>encoding/json\<close> prints is given as a document: structs in the order of their fields, maps
  sorted by key. Logging is left out.
\<close>

subsection \<open>Documents\<close>

text \<open>The printers of times and documents, read from the environment.\<close>

definition RFC3339Nano :: string where "RFC3339Nano = ''2006-01-02T15:04:05.999999999Z07:00''"
definition zulu :: string where "zulu = ''2006-01-02T15:04:05Z''"

type_synonym printers = "(string \<Rightarrow> time \<Rightarrow> string) \<times> (json \<Rightarrow> string)"

definition printers :: "printers go" where
  "printers = gets (\<lambda>w. (o_fmt_time (w_env w), o_fmt (w_env w)))"

definition time_json :: "printers \<Rightarrow> time \<Rightarrow> json" where
  "time_json pr t = JStr (fst pr RFC3339Nano t)"

definition bytes_json :: "printers \<Rightarrow> bytes \<Rightarrow> json" where
  "bytes_json pr b = (case b of NilBytes \<Rightarrow> JNull | Doc j \<Rightarrow> JStr (base64_encode (snd pr j)) | Junk s \<Rightarrow> JStr (base64_encode s))"

text \<open>A nil slice is \<open>null\<close>; the repositories return nil when no row matches.\<close>

definition slice_json :: "('a \<Rightarrow> json) \<Rightarrow> 'a list \<Rightarrow> json" where
  "slice_json f xs = (if xs = [] then JNull else JArr (map f xs))"

fun payout_status_str :: "payout_status \<Rightarrow> string" where
  "payout_status_str PayoutPending = ''pending''"
| "payout_status_str PayoutSucceeded = ''succeeded''"
| "payout_status_str PayoutFailed = ''failed''"

fun merchant_status_str :: "merchant_status \<Rightarrow> string" where
  "merchant_status_str MerchantActive = ''active''"
| "merchant_status_str MerchantInactive = ''inactive''"

definition pi_json :: "printers \<Rightarrow> payment_intent \<Rightarrow> json" where
  "pi_json pr p = JObj ([(''id'', JStr (pi_ID p)), (''merchantId'', JStr (pi_MerchantID p)), (''amountMinor'', JInt (pi_Amount p)),
     (''currency'', JStr (pi_Currency p)), (''status'', JStr (pi_status_str (pi_Status p))), (''method'', JStr (pi_Method p)),
     (''customerRef'', JStr (pi_CustomerRef p)), (''customerPhone'', JStr (pi_CustomerPhone p)),
     (''customerEmail'', JStr (pi_CustomerEmail p))] @
     (if pi_Metadata p = NilBytes then [] else [(''metadata'', bytes_json pr (pi_Metadata p))]) @
     (case pi_ExpiresAt p of None \<Rightarrow> [] | Some t \<Rightarrow> [(''expiresAt'', time_json pr t)]) @
     [(''createdAt'', time_json pr (pi_CreatedAt p)), (''updatedAt'', time_json pr (pi_UpdatedAt p))])"

definition payout_json :: "printers \<Rightarrow> payout \<Rightarrow> json" where
  "payout_json pr p = JObj [(''id'', JStr (po_ID p)), (''merchantId'', JStr (po_MerchantID p)), (''amountMinor'', JInt (po_Amount p)),
     (''currency'', JStr (po_Currency p)), (''rail'', JStr (po_Rail p)), (''status'', JStr (payout_status_str (po_Status p))),
     (''pspReference'', (case po_PSPReference p of None \<Rightarrow> JNull | Some s \<Rightarrow> JStr s)),
     (''createdAt'', time_json pr (po_CreatedAt p)), (''updatedAt'', time_json pr (po_UpdatedAt p))]"

definition merchant_json :: "printers \<Rightarrow> merchant \<Rightarrow> json" where
  "merchant_json pr m = JObj [(''id'', JStr (mch_ID m)), (''code'', JStr (mch_Code m)), (''legalName'', JStr (mch_LegalName m)),
     (''country'', JStr (mch_Country m)), (''defaultCurrency'', JStr (mch_DefaultCurrency m)),
     (''status'', JStr (merchant_status_str (mch_Status m))), (''settlementConfig'', bytes_json pr (mch_SettlementConfig m)),
     (''createdAt'', time_json pr (mch_CreatedAt m))]"

definition opt_str :: "string \<Rightarrow> string \<Rightarrow> (string \<times> json) list" where
  "opt_str k v = (if v = [] then [] else [(k, JStr v)])"

text \<open>\<open>piResponse\<close>.\<close>

definition pi_response :: "printers \<Rightarrow> payment_intent \<Rightarrow> next_action option \<Rightarrow> json" where
  "pi_response pr p na = JObj ([(''id'', JStr (pi_ID p)), (''merchantId'', JStr (pi_MerchantID p)), (''amount'', JInt (pi_Amount p)),
     (''currency'', JStr (pi_Currency p)), (''status'', JStr (pi_status_str (pi_Status p))), (''method'', JStr (pi_Method p))] @
     opt_str ''customerPhone'' (pi_CustomerPhone p) @ opt_str ''customerEmail'' (pi_CustomerEmail p) @
     opt_str ''customerRef'' (pi_CustomerRef p) @
     (case na of None \<Rightarrow> [] | Some a \<Rightarrow> [(''nextAction'', JObj ((''type'', JStr (na_Type a)) # opt_str ''url'' (na_URL a)))]) @
     [(''createdAt'', JStr (fst pr zulu (pi_CreatedAt p))), (''updatedAt'', JStr (fst pr zulu (pi_UpdatedAt p)))])"

subsection \<open>Payment intents (\<open>paymentintent.go\<close>)\<close>

definition Service_Create :: "orch \<Rightarrow> create_pi_request \<Rightarrow> create_pi_result goE" where
  "Service_Create orc req = CreatePaymentIntent orc req"

definition Service_GetByID :: "string \<Rightarrow> payment_intent goE" where
  "Service_GetByID i = GetPaymentIntent i"

record create_body =
  cb_Amount :: int64
  cb_Currency :: string
  cb_Method :: string
  cb_CustomerPhone :: string
  cb_CustomerEmail :: string
  cb_CustomerRef :: string

definition decode_create :: "fields \<Rightarrow> create_body option" where
  "decode_create fs = do {
     a \<leftarrow> dec_int ''amount'' fs;
     c \<leftarrow> dec_string ''currency'' fs;
     m \<leftarrow> dec_string ''method'' fs;
     p \<leftarrow> dec_string ''customerPhone'' fs;
     e \<leftarrow> dec_string ''customerEmail'' fs;
     r \<leftarrow> dec_string ''customerRef'' fs;
     Some \<lparr>cb_Amount = a, cb_Currency = c, cb_Method = m, cb_CustomerPhone = p, cb_CustomerEmail = e, cb_CustomerRef = r\<rparr> }"

text \<open>The merchant of the request's context, if the middleware put a non-empty one there.\<close>

definition merchantID :: "api_request \<Rightarrow> string option" where
  "merchantID r = (case aq_MerchantID r of None \<Rightarrow> None | Some i \<Rightarrow> if i \<noteq> [] then Some i else None)"

definition PIHandler_Create :: "orch \<Rightarrow> handler" where
  "PIHandler_Create orc r = with_primary r decode_create (\<lambda>env q.
     if cb_Amount q \<le> 0 then respondValidationError r [(''primaryData.amountMinor'', ''must be greater than 0'')]
     else if cb_Currency q = [] then respondValidationError r [(''primaryData.currency'', ''required'')]
     else if cb_Method q = [] then respondValidationError r [(''primaryData.method'', ''required'')]
     else (case merchantID r of
        None \<Rightarrow> respondError r 401 ''1002'' ''unauthorized''
      | Some m \<Rightarrow> do {
          res \<leftarrow> Service_Create orc \<lparr>cp_MerchantID = m, cp_Amount = cb_Amount q, cp_Currency = cb_Currency q,
            cp_Method = cb_Method q, cp_CustomerRef = cb_CustomerRef q, cp_CustomerPhone = cb_CustomerPhone q,
            cp_CustomerEmail = cb_CustomerEmail q, cp_IdempotencyKey = re_MessageID env, cp_Metadata = NilBytes\<rparr>;
          (case res of
             Inl err \<Rightarrow> respondError r 422 ''1005'' ''payment initiation failed''
           | Inr x \<Rightarrow> do {
               pr \<leftarrow> printers;
               respond r 200 (pi_response pr (res_PaymentIntent x) (res_NextAction x)) }) }))"

definition PIHandler_Get :: handler where
  "PIHandler_Get r =
     (let i = aq_Param r ''id'' in
      if i = [] then respondError r 400 ''1001'' ''missing payment intent id''
      else do {
        res \<leftarrow> Service_GetByID i;
        (case res of
           Inl err \<Rightarrow> respondError r 404 ''1003'' ''payment intent not found''
         | Inr p \<Rightarrow> do { pr \<leftarrow> printers; respond r 200 (pi_response pr p None) }) })"

subsection \<open>Checkout (\<open>checkout.go\<close>)\<close>

record checkout_body =
  kb_Amount :: int64
  kb_Currency :: string
  kb_Method :: string
  kb_CustomerEmail :: string
  kb_CustomerPhone :: string
  kb_CallbackURL :: string

definition decode_checkout :: "fields \<Rightarrow> checkout_body option" where
  "decode_checkout fs = do {
     a \<leftarrow> dec_int ''amount'' fs;
     c \<leftarrow> dec_string ''currency'' fs;
     m \<leftarrow> dec_string ''method'' fs;
     e \<leftarrow> dec_string ''customerEmail'' fs;
     p \<leftarrow> dec_string ''customerPhone'' fs;
     u \<leftarrow> dec_string ''callbackUrl'' fs;
     Some \<lparr>kb_Amount = a, kb_Currency = c, kb_Method = m, kb_CustomerEmail = e, kb_CustomerPhone = p, kb_CallbackURL = u\<rparr> }"

definition buildPIRequest :: "string \<Rightarrow> string \<Rightarrow> checkout_body \<Rightarrow> create_pi_request" where
  "buildPIRequest m idempotencyKey q = \<lparr>cp_MerchantID = m, cp_Amount = kb_Amount q, cp_Currency = kb_Currency q,
     cp_Method = (if kb_Method q = [] then ''mpesa_stk'' else kb_Method q), cp_CustomerRef = [],
     cp_CustomerPhone = kb_CustomerPhone q, cp_CustomerEmail = kb_CustomerEmail q, cp_IdempotencyKey = idempotencyKey,
     cp_Metadata = NilBytes\<rparr>"

definition next_action_json :: "next_action option \<Rightarrow> json" where
  "next_action_json na = (case na of None \<Rightarrow> JNull | Some a \<Rightarrow> JObj [(''Type'', JStr (na_Type a)), (''URL'', JStr (na_URL a))])"

text \<open>The unchecked type assertion on the context's merchant panics without one.\<close>

definition CheckoutHandler_Create :: "orch \<Rightarrow> handler" where
  "CheckoutHandler_Create orc r =
     (case aq_MerchantID r of
        None \<Rightarrow> ret None
      | Some m \<Rightarrow> with_primary r decode_checkout (\<lambda>env q.
          if kb_Amount q \<le> 0 then respondValidationError r [(''amountMinor'', ''must be positive'')]
          else if kb_Currency q = [] then respondValidationError r [(''currency'', ''required'')]
          else do {
            res \<leftarrow> Service_Create orc (buildPIRequest m (re_MessageID env) q);
            (case res of
               Inl err \<Rightarrow> respondError r 500 ''500'' ''failed to create payment''
             | Inr x \<Rightarrow> do {
                 now \<leftarrow> time_Now;
                 t \<leftarrow> uuid_New;
                 i \<leftarrow> uuid_New;
                 let token = ''cs_'' @ t;
                 let expires = now + 30 * Minute;
                 c \<leftarrow> Checkout_Create \<lparr>cs_ID = i, cs_PaymentIntentID = pi_ID (res_PaymentIntent x), cs_PublicToken = token,
                   cs_UIConfig = Doc (JObj [(''amount'', JInt (kb_Amount q)), (''currency'', JStr (kb_Currency q))]),
                   cs_ExpiresAt = expires, cs_CreatedAt = now\<rparr>;
                 (case c of
                    Inl err \<Rightarrow> respondError r 500 ''500'' ''failed to create checkout session''
                  | Inr _ \<Rightarrow> do {
                      pr \<leftarrow> printers;
                      respond r 201 (JObj [(''expiresAt'', time_json pr expires),
                        (''nextAction'', next_action_json (res_NextAction x)),
                        (''paymentIntentId'', JStr (pi_ID (res_PaymentIntent x))),
                        (''status'', JStr (pi_status_str (pi_Status (res_PaymentIntent x)))), (''token'', JStr token)]) }) }) }))"

definition CheckoutHandler_Status :: handler where
  "CheckoutHandler_Status r =
     (let token = aq_Param r ''token'' in do {
        s \<leftarrow> Checkout_GetByToken token;
        (case s of
           Inl err \<Rightarrow> respondError r 404 ''404'' ''checkout session not found''
         | Inr session \<Rightarrow> do {
             res \<leftarrow> PI_GetByID (cs_PaymentIntentID session);
             (case res of
                Inl err \<Rightarrow> respondError r 404 ''404'' ''payment not found''
              | Inr p \<Rightarrow> respond r 200 (JObj [(''amountMinor'', JInt (pi_Amount p)), (''currency'', JStr (pi_Currency p)),
                  (''paymentIntentId'', JStr (pi_ID p)), (''status'', JStr (pi_status_str (pi_Status p))),
                  (''token'', JStr token)])) }) })"

subsection \<open>Merchants (\<open>merchant.go\<close>)\<close>

definition with_merchant :: "api_request \<Rightarrow> (string \<Rightarrow> api_response option go) \<Rightarrow> api_response option go" where
  "with_merchant r k = (case merchantID r of None \<Rightarrow> respondError r 401 ''1002'' ''unauthorized'' | Some m \<Rightarrow> k m)"

text \<open>\<open>x, _ := Balance(...)\<close>: a failed query counts as zero.\<close>

definition balance_or_zero :: "string \<Rightarrow> int64 go" where
  "balance_or_zero acct = do { r \<leftarrow> Ledger_Balance acct; ret (case r of Inl err \<Rightarrow> 0 | Inr b \<Rightarrow> b) }"

definition query_limit :: "api_request \<Rightarrow> int" where
  "query_limit r = (let n = ParseInt_value (aq_Query r ''limit'') in if n \<le> 0 \<or> 100 < n then 20 else n)"

definition query_offset :: "api_request \<Rightarrow> int" where
  "query_offset r = (let n = ParseInt_value (aq_Query r ''offset'') in if n < 0 then 0 else n)"

definition MerchantHandler_Dashboard :: handler where
  "MerchantHandler_Dashboard r = with_merchant r (\<lambda>m. do {
     x \<leftarrow> Merchant_GetByID m;
     (case x of
        Inl err \<Rightarrow> respondError r 404 ''404'' ''merchant not found''
      | Inr mch \<Rightarrow> do {
          y \<leftarrow> PI_ListByMerchant m 5 0;
          (case y of
             Inl err \<Rightarrow> respondError r 500 ''500'' ''internal error''
           | Inr ps \<Rightarrow> do {
               av \<leftarrow> balance_or_zero (MerchantAvailable m);
               tr \<leftarrow> balance_or_zero (MerchantInTransit m);
               pr \<leftarrow> printers;
               respond r 200 (JObj
                 [(''balances'', JObj [(''available'', JInt av), (''inTransit'', JInt tr)]),
                  (''merchant'', JObj [(''country'', JStr (mch_Country mch)), (''defaultCurrency'', JStr (mch_DefaultCurrency mch)),
                     (''id'', JStr (mch_ID mch)), (''legalName'', JStr (mch_LegalName mch)),
                     (''status'', JStr (merchant_status_str (mch_Status mch)))]),
                  (''recentTransactions'', slice_json (pi_json pr) ps)]) }) }) })"

definition MerchantHandler_ListTransactions :: handler where
  "MerchantHandler_ListTransactions r = with_merchant r (\<lambda>m. do {
     x \<leftarrow> PI_ListByMerchant m (query_limit r) (query_offset r);
     (case x of
        Inl err \<Rightarrow> respondError r 500 ''500'' ''internal error''
      | Inr ps \<Rightarrow> do {
          pr \<leftarrow> printers;
          respond r 200 (JObj [(''limit'', JInt (query_limit r)), (''offset'', JInt (query_offset r)),
            (''transactions'', slice_json (pi_json pr) ps)]) }) })"

definition MerchantHandler_GetBalance :: handler where
  "MerchantHandler_GetBalance r = with_merchant r (\<lambda>m. do {
     av \<leftarrow> balance_or_zero (MerchantAvailable m);
     tr \<leftarrow> balance_or_zero (MerchantInTransit m);
     respond r 200 (JObj [(''available'', JInt av), (''inTransit'', JInt tr)]) })"

definition MerchantHandler_ListPayouts :: handler where
  "MerchantHandler_ListPayouts r = with_merchant r (\<lambda>m. do {
     x \<leftarrow> Payout_ListByMerchant m (query_limit r) (query_offset r);
     (case x of
        Inl err \<Rightarrow> respondError r 500 ''500'' ''internal error''
      | Inr ps \<Rightarrow> do {
          pr \<leftarrow> printers;
          respond r 200 (JObj [(''limit'', JInt (query_limit r)), (''offset'', JInt (query_offset r)),
            (''payouts'', slice_json (payout_json pr) ps)]) }) })"

definition MerchantHandler_UpdateSettings :: handler where
  "MerchantHandler_UpdateSettings r = with_merchant r (\<lambda>m.
     with_primary r (dec_string ''webhookUrl'') (\<lambda>env url. do {
       x \<leftarrow> Merchant_UpdateSettlementConfig m (Doc (JObj [(''webhook_url'', JStr url)]));
       (case x of
          Inl err \<Rightarrow> respondError r 500 ''500'' ''failed to save settings''
        | Inr _ \<Rightarrow> respond r 200 (JObj [(''status'', JStr ''updated''), (''webhookUrl'', JStr url)])) }))"

definition MerchantHandler_GetSettings :: handler where
  "MerchantHandler_GetSettings r = with_merchant r (\<lambda>m. do {
     x \<leftarrow> Merchant_GetByID m;
     (case x of
        Inl err \<Rightarrow> respondError r 404 ''404'' ''merchant not found''
      | Inr mch \<Rightarrow> do {
          pr \<leftarrow> printers;
          let url = (case Option.bind (unmarshal_fields (mch_SettlementConfig mch)) (dec_string ''webhook_url'') of
            None \<Rightarrow> [] | Some u \<Rightarrow> u);
          respond r 200 (JObj [(''merchant'', merchant_json pr mch), (''settings'', JObj [(''webhookUrl'', JStr url)])]) }) })"

subsection \<open>The endpoints (\<open>router.go\<close>)\<close>

text \<open>One constructor per route of the API without the merchant portal; matching a path to its route
  is chi's. \<open>Ingest\<close> answers with a status and at most a line of text.\<close>

datatype endpoint =
    EHealth | EWebhook | EPaymentCreate | EPaymentGet | EDashboard | ETransactions | EBalance | EPayouts
  | EGetSettings | EPutSettings | ECheckoutCreate | ECheckoutStatus | ECheckoutScript

definition WebhookHandler_Ingest :: "processor \<Rightarrow> handler" where
  "WebhookHandler_Ingest p r = do {
     st \<leftarrow> Ingest p (aq_Param r ''psp'') (aq_Body r);
     ret (Some (if st = 404 then http_Error 404 ''unknown psp'' else if st = 400 then http_Error 400 ''bad request''
       else \<lparr>rp_Status = st, rp_Header = [], rp_Body = TextBody []\<rparr>)) }"

definition checkout_script :: handler where
  "checkout_script r = ret (Some \<lparr>rp_Status = 200, rp_Header = [(''Content-Type'', ''application/javascript'')],
     rp_Body = FileBody ''checkout.js''\<rparr>)"

fun routed :: "processor \<Rightarrow> endpoint \<Rightarrow> handler" where
  "routed p EHealth = (\<lambda>r. respond r 200 (JObj [(''status'', JStr ''ok'')]))"
| "routed p EWebhook = WebhookHandler_Ingest p"
| "routed p EPaymentCreate = AuthMiddleware (PIHandler_Create (proc_Orc p))"
| "routed p EPaymentGet = AuthMiddleware PIHandler_Get"
| "routed p EDashboard = AuthMiddleware MerchantHandler_Dashboard"
| "routed p ETransactions = AuthMiddleware MerchantHandler_ListTransactions"
| "routed p EBalance = AuthMiddleware MerchantHandler_GetBalance"
| "routed p EPayouts = AuthMiddleware MerchantHandler_ListPayouts"
| "routed p EGetSettings = AuthMiddleware MerchantHandler_GetSettings"
| "routed p EPutSettings = AuthMiddleware MerchantHandler_UpdateSettings"
| "routed p ECheckoutCreate = AuthMiddleware (CheckoutHandler_Create (proc_Orc p))"
| "routed p ECheckoutStatus = CheckoutHandler_Status"
| "routed p ECheckoutScript = checkout_script"

definition NewRouter :: "processor \<Rightarrow> endpoint \<Rightarrow> handler" where
  "NewRouter p ep = RequestID (ConversationID (Recoverer (routed p ep)))"

end
