(* ===== verification/Views.thy ===== *)
theory Views
  imports Api
begin

section \<open>Requests through the middleware, and views of the state\<close>

text \<open>
  Two tools for properties of the API as a whole. The first reduces a property of a request that
  goes through the middleware chain to the handler. The second is noninterference: a view is a
  relation between states that an observer cannot tell apart; a body is confined to it if from related
  states it returns the same result and ends in related states. A handler is a composition of
  repository calls, and so is the proof that it is confined to a view.
\<close>

subsection \<open>Through the middleware\<close>

text \<open>The middleware only sets the request and conversation id.\<close>

definition same_request :: "api_request \<Rightarrow> api_request \<Rightarrow> bool" where
  "same_request r' r \<longleftrightarrow> r'\<lparr>aq_ReqID := aq_ReqID r, aq_ConversationID := aq_ConversationID r\<rparr> = r"

lemma same_request_simps:
  assumes "same_request r' r"
  shows "aq_Authorization r' = aq_Authorization r" "aq_Body r' = aq_Body r" "aq_Query r' = aq_Query r" "aq_Param r' = aq_Param r"
    "aq_MerchantID r' = aq_MerchantID r" "aq_PortalUserID r' = aq_PortalUserID r" "aq_PortalMerchantID r' = aq_PortalMerchantID r"
proof -
  have r: "r'\<lparr>aq_ReqID := aq_ReqID r, aq_ConversationID := aq_ConversationID r\<rparr> = r" using assms by (simp add: same_request_def)
  show "aq_Authorization r' = aq_Authorization r" using arg_cong [OF r, of aq_Authorization] by simp
  show "aq_Body r' = aq_Body r" using arg_cong [OF r, of aq_Body] by simp
  show "aq_Query r' = aq_Query r" using arg_cong [OF r, of aq_Query] by simp
  show "aq_Param r' = aq_Param r" using arg_cong [OF r, of aq_Param] by simp
  show "aq_MerchantID r' = aq_MerchantID r" using arg_cong [OF r, of aq_MerchantID] by simp
  show "aq_PortalUserID r' = aq_PortalUserID r" using arg_cong [OF r, of aq_PortalUserID] by simp
  show "aq_PortalMerchantID r' = aq_PortalMerchantID r" using arg_cong [OF r, of aq_PortalMerchantID] by simp
qed

definition recovered :: "api_response option \<Rightarrow> api_response" where
  "recovered p = (case p of None \<Rightarrow> http_Error 500 ''Internal Server Error'' | Some q \<Rightarrow> q)"

definition with_request_id :: "string \<Rightarrow> api_response \<Rightarrow> api_response" where
  "with_request_id i q = q\<lparr>rp_Header := (''X-Request-ID'', i) # rp_Header q\<rparr>"

lemma with_request_id_simps [simp]:
  "rp_Status (with_request_id i q) = rp_Status q" "rp_Body (with_request_id i q) = rp_Body q"
  by (simp_all add: with_request_id_def)

text \<open>The data of a response's envelope.\<close>

definition primary_data :: "api_response \<Rightarrow> json option" where
  "primary_data q = (case rp_Body q of JsonBody (JObj env) \<Rightarrow> map_of env ''primaryData'' | _ \<Rightarrow> None)"

lemma primary_data_simps [simp]:
  "primary_data (with_request_id i q) = primary_data q"
  "primary_data (json_response st (buildEnvelope r c d mc md data e)) = Some data" "rp_Status (json_response st j) = st"
  by (simp_all add: primary_data_def json_response_def buildEnvelope_def)

lemma wp_chain:
  assumes "\<And>r' u. same_request r' r \<Longrightarrow> u = w \<or> u = next_step w \<Longrightarrow>
    wp (h r') (\<lambda>p v. \<forall>i. P (Some (with_request_id i (recovered p))) v) u"
  shows "wp (RequestID (ConversationID (Recoverer h)) r) P w"
proof -
  let ?next = "\<lambda>i. do { p \<leftarrow> ConversationID (Recoverer h) (r\<lparr>aq_ReqID := i\<rparr>);
      ret (map_option (\<lambda>p. p\<lparr>rp_Header := (''X-Request-ID'', i) # rp_Header p\<rparr>) p) }"
  have rec: "wp (Recoverer h r') (\<lambda>p v. P (map_option (\<lambda>p. p\<lparr>rp_Header := (''X-Request-ID'', i) # rp_Header p\<rparr>) p) v) u"
    if "same_request r' r" "u = w \<or> u = next_step w" for r' u i
    unfolding Recoverer_def wp_bind
    by (rule wp_mono [OF assms [OF that]])
      (auto simp: wp_return recovered_def with_request_id_def split: option.split)
  have "wp (?next i) P u" if u: "u = w \<or> u = next_step w" for u i
  proof -
    have 1: "same_request (r\<lparr>aq_ReqID := i\<rparr>) r" "same_request (r\<lparr>aq_ReqID := i, aq_ConversationID := c\<rparr>) r" for c
      by (simp_all add: same_request_def)
    show ?thesis unfolding wp_bind wp_return ConversationID_def
      using rec [OF 1(1) u] rec [OF 1(2) u] by (auto split: option.split)
  qed
  then show ?thesis
    unfolding RequestID_def by (simp add: wp_bind [of "if _ then _ else _"] wp_bind [of time_Now] wp_time_Now wp_return)
qed

subsection \<open>Views\<close>

definition confined :: "(world \<Rightarrow> world \<Rightarrow> bool) \<Rightarrow> 'a go \<Rightarrow> bool" where
  "confined R c \<longleftrightarrow> (\<forall>w1 w2. R w1 w2 \<longrightarrow> (case (run_state c w1, run_state c w2) of
     ((a1, v1), (a2, v2)) \<Rightarrow> a1 = a2 \<and> R v1 v2))"

lemma confinedI:
  assumes "\<And>w1 w2 a1 v1 a2 v2. R w1 w2 \<Longrightarrow> run_state c w1 = (a1, v1) \<Longrightarrow> run_state c w2 = (a2, v2) \<Longrightarrow>
    a1 = a2 \<and> R v1 v2"
  shows "confined R c"
  unfolding confined_def
proof (intro allI impI)
  fix w1 w2
  assume w: "R w1 w2"
  obtain a1 v1 a2 v2 where "run_state c w1 = (a1, v1)" "run_state c w2 = (a2, v2)" by fastforce
  then show "case (run_state c w1, run_state c w2) of ((a1, v1), (a2, v2)) \<Rightarrow> a1 = a2 \<and> R v1 v2"
    using assms [OF w] by simp
qed

lemma confined_run: "confined R c \<Longrightarrow> R w1 w2 \<Longrightarrow> run_state c w1 = (a1, v1) \<Longrightarrow> run_state c w2 = (a2, v2) \<Longrightarrow>
    a1 = a2 \<and> R v1 v2"
  unfolding confined_def by (drule spec [of _ w1], drule spec [of _ w2]) simp

named_theorems confined_intros "bodies confined to a view"

lemma confined_ret [confined_intros]: "confined R (ret x)"
  by (simp add: confined_def)

lemma confined_bind [confined_intros]: "confined R c \<Longrightarrow> (\<And>a. confined R (k a)) \<Longrightarrow> confined R (State_Monad.bind c k)"
proof (rule confinedI)
  fix w1 w2 a1 v1 a2 v2
  assume c: "confined R c" and k: "\<And>a. confined R (k a)" and w: "R w1 w2"
    and run: "run_state (State_Monad.bind c k) w1 = (a1, v1)" "run_state (State_Monad.bind c k) w2 = (a2, v2)"
  obtain b1 u1 b2 u2 where u: "run_state c w1 = (b1, u1)" "run_state c w2 = (b2, u2)" by fastforce
  from confined_run [OF c w u] have same: "b1 = b2" "R u1 u2" by blast+
  show "a1 = a2 \<and> R v1 v2"
    by (rule confined_run [OF k same(2), of b1]) (use run u same(1) in simp_all)
qed

text \<open>The continuation may rely on what the first body returns.\<close>

lemma confined_bind_strong:
  assumes "confined R c" and "\<And>a w1 w2 v. R w1 w2 \<Longrightarrow> run_state c w1 = (a, v) \<Longrightarrow> P a" and "\<And>a. P a \<Longrightarrow> confined R (k a)"
  shows "confined R (State_Monad.bind c k)"
proof (rule confinedI)
  fix w1 w2 a1 v1 a2 v2
  assume w: "R w1 w2"
    and run: "run_state (State_Monad.bind c k) w1 = (a1, v1)" "run_state (State_Monad.bind c k) w2 = (a2, v2)"
  obtain b1 u1 b2 u2 where u: "run_state c w1 = (b1, u1)" "run_state c w2 = (b2, u2)" by fastforce
  from confined_run [OF assms(1) w u] have same: "b1 = b2" "R u1 u2" by blast+
  show "a1 = a2 \<and> R v1 v2"
    by (rule confined_run [OF assms(3) [OF assms(2) [OF w u(1)]] same(2)]) (use run u same(1) in simp_all)
qed

lemma confined_if [confined_intros]: "confined R c \<Longrightarrow> confined R d \<Longrightarrow> confined R (if b then c else d)"
  by simp

lemma confined_sum [confined_intros]:
  "(\<And>e. confined R (f e)) \<Longrightarrow> (\<And>x. confined R (g x)) \<Longrightarrow> confined R (case r of Inl e \<Rightarrow> f e | Inr x \<Rightarrow> g x)"
  by (cases r) simp_all

lemma confined_option [confined_intros]:
  "confined R c \<Longrightarrow> (\<And>x. confined R (g x)) \<Longrightarrow> confined R (case r of None \<Rightarrow> c | Some x \<Rightarrow> g x)"
  by (cases r) simp_all

lemma confined_prod [confined_intros]: "(\<And>a b. confined R (f a b)) \<Longrightarrow> confined R (case p of (a, b) \<Rightarrow> f a b)"
  by (cases p) simp

lemma confined_respond [confined_intros]: "confined R (respond r st j)" "confined R (respondError r st code msg)"
    "confined R (respondValidationError r fes)"
  unfolding respond_def respondError_def respondValidationError_def by (rule confined_ret)+

lemma confined_Recoverer: "confined R (next r) \<Longrightarrow> confined R (Recoverer next r)"
  unfolding Recoverer_def by (intro confined_intros)

lemma confined_ConversationID:
  assumes "confined R (next r)" "\<And>i. confined R (next (r\<lparr>aq_ConversationID := i\<rparr>))"
  shows "confined R (ConversationID next r)"
  unfolding ConversationID_def using assms by (auto split: option.split)

text \<open>A view of the rows with a property, and an update that keeps the property.\<close>

lemma filter_map_same: "(\<And>x. P (f x) = P x) \<Longrightarrow> filter P (map f xs) = map f (filter P xs)"
  by (induction xs) simp_all

text \<open>What a view must have in common: the environment, the number of the next external call; and it
  must not look at that number otherwise.\<close>

locale view =
  fixes R :: "world \<Rightarrow> world \<Rightarrow> bool"
  assumes same_env: "R w1 w2 \<Longrightarrow> w_env w1 = w_env w2"
    and same_step: "R w1 w2 \<Longrightarrow> w_step w1 = w_step w2"
    and stepped: "R w1 w2 \<Longrightarrow> R (next_step w1) (next_step w2)"
begin

lemma env_calls [confined_intros]:
  "confined R time_Now" "confined R uuid_New" "confined R (rand_Read n)" "confined R (bcrypt_Compare hash pw)"
  "confined R (bcrypt_Generate pw)" "confined R printers"
  by (rule confinedI, frule same_env, frule same_step, frule stepped, auto simp: time_Now_def uuid_New_def rand_Read_def
      bcrypt_Compare_def bcrypt_Generate_def printers_def gets_def)+

lemma query:
  assumes "\<And>now w1 w2. R w1 w2 \<Longrightarrow> q now (w_db w1) = q now (w_db w2)"
  shows "confined R (db_Query q)"
proof (rule confinedI)
  fix w1 w2 a1 v1 a2 v2
  assume w: "R w1 w2" and run: "run_state (db_Query q) w1 = (a1, v1)" "run_state (db_Query q) w2 = (a2, v2)"
  from run stepped [OF w] assms [OF w] same_env [OF w] same_step [OF w] show "a1 = a2 \<and> R v1 v2"
    by (auto simp: db_Query_def split: outcome.split)
qed

lemma query_row:
  assumes "\<And>now w1 w2. R w1 w2 \<Longrightarrow> q now (w_db w1) = q now (w_db w2)"
  shows "confined R (db_QueryRow q)"
proof (rule confinedI)
  fix w1 w2 a1 v1 a2 v2
  assume w: "R w1 w2" and run: "run_state (db_QueryRow q) w1 = (a1, v1)" "run_state (db_QueryRow q) w2 = (a2, v2)"
  from run stepped [OF w] assms [OF w] same_env [OF w] same_step [OF w] show "a1 = a2 \<and> R v1 v2"
    by (auto simp: db_QueryRow_def split: outcome.split)
qed

text \<open>A statement that changes related tables into related tables.\<close>

lemma exec:
  assumes "\<And>now w1 w2. R w1 w2 \<Longrightarrow> (case (st now (w_db w1), st now (w_db w2)) of
      (Inl e1, Inl e2) \<Rightarrow> e1 = e2
    | (Inr (d1, n1), Inr (d2, n2)) \<Rightarrow> R (w1\<lparr>w_db := d1\<rparr>) (w2\<lparr>w_db := d2\<rparr>)
    | _ \<Rightarrow> False)"
  shows "confined R (db_exec st)"
proof (rule confinedI)
  fix w1 w2 a1 v1 a2 v2
  assume w: "R w1 w2" and run: "run_state (db_exec st) w1 = (a1, v1)" "run_state (db_exec st) w2 = (a2, v2)"
  have kept: "R (next_step (w1\<lparr>w_db := w_db w1\<rparr>)) (next_step (w2\<lparr>w_db := w_db w2\<rparr>))" using stepped [OF w] by simp
  let ?now = "o_clock (w_env w2) (w_step w2)"
  show "a1 = a2 \<and> R v1 v2"
    using run assms [OF w, of ?now] kept same_env [OF w] same_step [OF w]
    by (auto simp: db_exec_def try_call_def db_Exec_def Let_def run_stmt_def ok_def fail_def stepped
        split: sum.splits prod.splits outcome.splits)
qed

lemma request_id:
  assumes "\<And>i. confined R (next (r\<lparr>aq_ReqID := i\<rparr>))"
  shows "confined R (RequestID next r)"
  unfolding RequestID_def by (intro confined_intros env_calls assms)

lemma chain:
  assumes "\<And>r'. same_request r' r \<Longrightarrow> confined R (h r')"
  shows "confined R (RequestID (ConversationID (Recoverer h)) r)"
  by (intro request_id confined_ConversationID confined_Recoverer assms) (simp_all add: same_request_def)

end

end
