(* ===== verification/Tenants.thy ===== *)
theory Tenants
  imports Views
begin

section \<open>Who sees what\<close>

text \<open>
  Two properties of the API as a whole: a request without a valid key is refused and changes
  nothing, and an answer of the \<open>/v1/merchant\<close> endpoints depends on the data of the calling
  merchant only. The second is noninterference: two states that agree on what belongs to the
  merchant give the same answer, and agree on it afterwards.
\<close>

subsection \<open>Keys\<close>

definition key_rows :: "api_request \<Rightarrow> world \<Rightarrow> api_key list" where
  "key_rows r w = filter (\<lambda>k. ak_KeyHash k = hex (sha256 (drop (length Bearer) (aq_Authorization r)))) (t_api_keys (w_db w))"

definition has_key :: "api_request \<Rightarrow> world \<Rightarrow> bool" where
  "has_key r w \<longleftrightarrow> has_prefix (aq_Authorization r) Bearer \<and> key_rows r w \<noteq> []"

definition effects :: "world \<Rightarrow> db \<times> (string \<rightharpoonup> json \<times> time) \<times> bus_message list \<times> http_request list \<times> timer list \<times>
    (string \<rightharpoonup> otp_entry)" where
  "effects w = (w_db w, w_redis w, w_bus w, w_http w, w_timers w, w_otp w)"

lemma effects_next_step [simp]: "effects (next_step w) = effects w"
  by (simp add: effects_def)

lemma AuthMiddleware_refuses:
  assumes "\<not> has_key r w"
  shows "wp (AuthMiddleware h r) (\<lambda>p v. p = Some writeUnauthorized \<and> effects v = effects w) w"
  using assms by (auto simp: AuthMiddleware_def Merchant_GetAPIKeyByHash_def wp_simps sql_one_def has_key_def key_rows_def
      split: outcome.split)

lemma key_rows_cong: "aq_Authorization r' = aq_Authorization r \<Longrightarrow> key_rows r' = key_rows r"
  by (simp add: key_rows_def fun_eq_iff)

lemma has_key_cong: "aq_Authorization r' = aq_Authorization r \<Longrightarrow> w_db v = w_db w \<Longrightarrow> has_key r' v = has_key r w"
  by (simp add: has_key_def key_rows_def)

subsection \<open>Noninterference\<close>

text \<open>The states agree on what belongs to the merchant, and a key with the hash \<open>h\<close> is the merchant's.\<close>

definition same_for :: "string \<Rightarrow> string \<Rightarrow> world \<Rightarrow> world \<Rightarrow> bool" where
  "same_for m h w1 w2 \<longleftrightarrow> w_env w1 = w_env w2 \<and> w_step w1 = w_step w2 \<and>
     t_api_keys (w_db w1) = t_api_keys (w_db w2) \<and> (\<forall>k \<in> set (t_api_keys (w_db w1)). ak_KeyHash k = h \<longrightarrow> ak_MerchantID k = m) \<and>
     filter (\<lambda>x. mch_ID x = m) (t_merchants (w_db w1)) = filter (\<lambda>x. mch_ID x = m) (t_merchants (w_db w2)) \<and>
     filter (\<lambda>p. pi_MerchantID p = m) (pis w1) = filter (\<lambda>p. pi_MerchantID p = m) (pis w2) \<and>
     filter (\<lambda>p. po_MerchantID p = m) (payouts w1) = filter (\<lambda>p. po_MerchantID p = m) (payouts w2) \<and>
     (\<forall>a \<in> {MerchantAvailable m, MerchantInTransit m}.
        filter (\<lambda>e. le_AccountID e = a) (ledger w1) = filter (\<lambda>e. le_AccountID e = a) (ledger w2))"

abbreviation sees :: "string \<Rightarrow> string \<Rightarrow> 'a go \<Rightarrow> bool" where
  "sees m h \<equiv> confined (same_for m h)"

interpretation shop: view "same_for m h" for m h
  by unfold_locales (auto simp: same_for_def pis_def payouts_def ledger_def)

text \<open>The queries of the merchant's handlers.\<close>

lemma sees_queries [confined_intros]:
  "sees m h (Merchant_GetAPIKeyByHash x)" "sees m h (Merchant_GetByID m)" "sees m h (PI_ListByMerchant m l off)"
  "sees m h (Payout_ListByMerchant m l off)"
  unfolding Merchant_GetAPIKeyByHash_def Merchant_GetByID_def PI_ListByMerchant_def Payout_ListByMerchant_def
  by (rule shop.query_row shop.query; simp add: same_for_def pis_def payouts_def)+

lemma sees_balance [confined_intros]:
  "sees m h (balance_or_zero (MerchantAvailable m))" "sees m h (balance_or_zero (MerchantInTransit m))"
  unfolding balance_or_zero_def Ledger_Balance_def
  by (intro confined_intros shop.query; simp add: same_for_def account_sum_def ledger_def)+

lemma sees_update_settings [confined_intros]: "sees m h (Merchant_UpdateSettlementConfig m cfg)"
  unfolding Merchant_UpdateSettlementConfig_def
proof (rule shop.exec)
  fix now w1 w2
  assume w: "same_for m h w1 w2"
  have rows: "filter (\<lambda>x. mch_ID x = m) (map (\<lambda>m'. if mch_ID m' = m then m'\<lparr>mch_SettlementConfig := cfg\<rparr> else m') xs) =
      map (\<lambda>m'. if mch_ID m' = m then m'\<lparr>mch_SettlementConfig := cfg\<rparr> else m') (filter (\<lambda>x. mch_ID x = m) xs)" for xs
    by (rule filter_map_same) simp
  let ?st = "\<lambda>d. if jsonb_ok cfg
     then table_update t_merchants t_merchants_update (\<lambda>m'. mch_ID m' = m) (\<lambda>now m'. m'\<lparr>mch_SettlementConfig := cfg\<rparr>) now d
     else Inl ErrDB"
  show "case (?st (w_db w1), ?st (w_db w2)) of (Inl e1, Inl e2) \<Rightarrow> e1 = e2
      | (Inr (d1, n1), Inr (d2, n2)) \<Rightarrow> same_for m h (w1\<lparr>w_db := d1\<rparr>) (w2\<lparr>w_db := d2\<rparr>) | _ \<Rightarrow> False"
    using w by (simp add: table_update_def same_for_def rows pis_def payouts_def ledger_def)
qed

subsection \<open>The handlers\<close>

lemma sees_with_merchant: "merchantID r \<in> {None, Some m} \<Longrightarrow> sees m h (f m) \<Longrightarrow> sees m h (with_merchant r f)"
  unfolding with_merchant_def by (auto intro: confined_intros)

lemma sees_with_primary: "(\<And>env q. sees m h (k env q)) \<Longrightarrow> sees m h (with_primary r dec k)"
  unfolding with_primary_def by (intro confined_intros)

lemma sees_merchant_handlers:
  assumes "merchantID r \<in> {None, Some m}"
  shows "sees m h (MerchantHandler_Dashboard r)" "sees m h (MerchantHandler_ListTransactions r)"
    "sees m h (MerchantHandler_GetBalance r)" "sees m h (MerchantHandler_ListPayouts r)"
    "sees m h (MerchantHandler_GetSettings r)" "sees m h (MerchantHandler_UpdateSettings r)"
  unfolding MerchantHandler_Dashboard_def MerchantHandler_ListTransactions_def MerchantHandler_GetBalance_def
    MerchantHandler_ListPayouts_def MerchantHandler_GetSettings_def MerchantHandler_UpdateSettings_def Let_def
  by (rule sees_with_merchant [OF assms], (rule sees_with_primary)?, intro confined_intros shop.env_calls)+

definition token_hash :: "api_request \<Rightarrow> string" where
  "token_hash r = hex (sha256 (drop (length Bearer) (aq_Authorization r)))"

lemma sees_AuthMiddleware:
  assumes "sees m (token_hash r) (next (r\<lparr>aq_MerchantID := Some m\<rparr>))"
  shows "sees m (token_hash r) (AuthMiddleware next r)"
proof (rule confinedI)
  fix w1 w2 a1 v1 a2 v2
  assume w: "same_for m (token_hash r) w1 w2"
    and run: "run_state (AuthMiddleware next r) w1 = (a1, v1)" "run_state (AuthMiddleware next r) w2 = (a2, v2)"
  obtain k1 u1 k2 u2 where u: "run_state (Merchant_GetAPIKeyByHash (token_hash r)) w1 = (k1, u1)"
    "run_state (Merchant_GetAPIKeyByHash (token_hash r)) w2 = (k2, u2)" by fastforce
  have same: "k2 = k1" "same_for m (token_hash r) u1 u2" using confined_run [OF sees_queries(1) w u] by simp_all
  have owner: "ak_MerchantID k = m" if "k1 = Inr k" for k
    using u(1) that w
    by (auto simp: Merchant_GetAPIKeyByHash_def db_QueryRow_def same_for_def split: outcome.splits dest!: sql_one_Inr)
  show "a1 = a2 \<and> same_for m (token_hash r) v1 v2"
  proof (cases "aq_Authorization r = [] \<or> \<not> has_prefix (aq_Authorization r) Bearer")
    case True
    then show ?thesis using run w by (auto simp: AuthMiddleware_def)
  next
    case False
    then have eq: "AuthMiddleware next r = do {
        k \<leftarrow> Merchant_GetAPIKeyByHash (token_hash r);
        (case k of Inl err \<Rightarrow> ret (Some writeUnauthorized) | Inr key \<Rightarrow> next (r\<lparr>aq_MerchantID := Some (ak_MerchantID key)\<rparr>)) }"
      by (simp add: AuthMiddleware_def token_hash_def)
    show ?thesis
    proof (cases k1)
      case (Inl e)
      with run u same show ?thesis by (simp add: eq)
    next
      case (Inr k)
      show ?thesis
        by (rule confined_run [OF assms same(2)]) (use run u same(1) Inr owner [OF Inr] in \<open>simp_all add: eq\<close>)
    qed
  qed
qed

definition merchant_endpoints :: "endpoint list" where
  "merchant_endpoints = [EDashboard, ETransactions, EBalance, EPayouts, EGetSettings, EPutSettings]"

lemma sees_routed:
  assumes "ep \<in> set merchant_endpoints" "h = token_hash r"
  shows "sees m h (routed p ep r)"
proof -
  have m: "merchantID (r\<lparr>aq_MerchantID := Some m\<rparr>) \<in> {None, Some m}" by (simp add: merchantID_def)
  show ?thesis
    using assms sees_merchant_handlers [OF m]
    by (auto simp: merchant_endpoints_def intro!: sees_AuthMiddleware)
qed

lemma sees_NewRouter:
  assumes "ep \<in> set merchant_endpoints"
  shows "sees m (token_hash r) (NewRouter p ep r)"
  unfolding NewRouter_def
proof (rule shop.chain)
  fix r' :: api_request
  assume "same_request r' r"
  then have "token_hash r = token_hash r'" by (simp add: token_hash_def same_request_simps)
  then show "sees m (token_hash r) (routed p ep r')" using sees_routed [OF assms] by simp
qed

subsection \<open>A shop's key\<close>

definition shop_key :: api_key where
  "shop_key = \<lparr>ak_ID = ''k-1'', ak_MerchantID = ''m-1'', ak_Name = ''shop'', ak_KeyHash = hex (sha256 ''tok''),
     ak_KeyPrefix = ''tok'', ak_Environment = ''live'', ak_CreatedAt = 0\<rparr>"

definition shop_request :: api_request where
  "shop_request = \<lparr>aq_Authorization = ''Bearer tok'', aq_XRequestID = ''q-1'', aq_ContentLength = 0, aq_Body = Some NilBytes,
     aq_Query = (\<lambda>_. []), aq_Param = (\<lambda>_. ''5''), aq_ReqID = [], aq_ConversationID = None, aq_MerchantID = None,
     aq_PortalUserID = None, aq_PortalMerchantID = None\<rparr>"

definition shop_processor :: processor where
  "shop_processor = \<lparr>proc_Orc = sample_orch, proc_Dispatcher = False, proc_JS = True\<rparr>"

text \<open>The shop's key and a payment intent of the given merchant.\<close>

definition shared_world :: "string \<Rightarrow> world" where
  "shared_world owner = start_world (calm_env no_http [])
     (empty_db\<lparr>t_api_keys := [shop_key], t_payment_intents := [card_intent\<lparr>pi_MerchantID := owner\<rparr>]\<rparr>)"

lemma shop_token: "drop (length Bearer) (aq_Authorization shop_request) = ''tok''"
  "has_prefix (aq_Authorization shop_request) Bearer"
  by (simp_all add: shop_request_def Bearer_def has_prefix_def)

lemma show_200: "show_int 200 = ''200''"
  by code_simp

subsection \<open>The properties\<close>

text \<open>C19: Without a valid key nothing happens. On every endpoint but the health check, the webhook, and
  the public checkout status and script, a request whose Authorization header is not \<open>Bearer\<close> followed by a
  token with a stored hash is answered with 401, and the database, Redis, the bus, the requests
  sent and the timers are as before, whatever its body.\<close>

theorem request_without_key_refused:
  assumes "ep \<notin> {EHealth, EWebhook, ECheckoutStatus, ECheckoutScript}" "\<not> has_key r w"
    and run: "run_state (NewRouter p ep r) w = (resp, v)"
  shows "(\<exists>q. resp = Some q \<and> rp_Status q = 401) \<and> effects v = effects w"
proof (rule wp_run [OF _ run])
  obtain h where h: "routed p ep = AuthMiddleware h" using assms(1) by (cases ep) auto
  show "wp (NewRouter p ep r) (\<lambda>resp v. (\<exists>q. resp = Some q \<and> rp_Status q = 401) \<and> effects v = effects w) w"
    unfolding NewRouter_def h
  proof (rule wp_chain)
    fix r' u
    assume r': "same_request r' r" and u: "u = w \<or> u = next_step w"
    then have eff: "effects u = effects w" by auto
    then have "has_key r' u = has_key r w" by (intro has_key_cong) (simp_all add: same_request_simps [OF r'] effects_def)
    with assms(2) have "\<not> has_key r' u" by simp
    then show "wp (AuthMiddleware h r') (\<lambda>p v. \<forall>i. (\<exists>q. Some (with_request_id i (recovered p)) = Some q \<and> rp_Status q = 401) \<and>
        effects v = effects w) u"
      by (rule wp_mono [OF AuthMiddleware_refuses]) (simp add: eff recovered_def writeUnauthorized_def json_response_def)
  qed
qed

theorem request_without_key_refused_witness:
  "\<exists>q v. run_state (NewRouter shop_processor EPaymentCreate (shop_request\<lparr>aq_Authorization := ''Basic tok''\<rparr>)) (shared_world ''m-1'') =
     (Some q, v) \<and> rp_Status q = 401 \<and> w_db v = w_db (shared_world ''m-1'')"
proof -
  let ?r = "shop_request\<lparr>aq_Authorization := ''Basic tok''\<rparr>"
  obtain resp v where run: "run_state (NewRouter shop_processor EPaymentCreate ?r) (shared_world ''m-1'') = (resp, v)" by fastforce
  have "\<not> has_key ?r (shared_world ''m-1'')" by (simp add: has_key_def Bearer_def has_prefix_def)
  from request_without_key_refused [OF _ this run]
  obtain q where "resp = Some q" "rp_Status q = 401" "w_db v = w_db (shared_world ''m-1'')" by (auto simp: effects_def)
  with run show ?thesis by (intro exI [of _ q] exI [of _ v]) simp
qed

text \<open>C20: A merchant's answers depend on its own data only. On the six endpoints under
  \<open>/v1/merchant\<close>, two states that agree on the merchant's row, its intents, payouts and ledger
  entries, and in which the token's key is the merchant's, give the same response, whatever the
  other merchants have, and agree on the merchant's data afterwards.\<close>

theorem merchant_endpoints_isolated:
  assumes "ep \<in> set merchant_endpoints" "same_for m (token_hash r) w1 w2"
    and "run_state (NewRouter p ep r) w1 = (resp1, v1)" "run_state (NewRouter p ep r) w2 = (resp2, v2)"
  shows "resp1 = resp2 \<and> same_for m (token_hash r) v1 v2"
  by (rule confined_run [OF sees_NewRouter [OF assms(1)] assms(2-4)])

theorem merchant_endpoints_isolated_witness:
  "fst (run_state (NewRouter shop_processor ETransactions shop_request) (shared_world ''m-2'')) =
     fst (run_state (NewRouter shop_processor ETransactions shop_request) (shared_world ''m-3'')) \<and>
   pis (shared_world ''m-2'') \<noteq> pis (shared_world ''m-3'')"
proof -
  obtain a1 v1 a2 v2 where run: "run_state (NewRouter shop_processor ETransactions shop_request) (shared_world ''m-2'') = (a1, v1)"
    "run_state (NewRouter shop_processor ETransactions shop_request) (shared_world ''m-3'') = (a2, v2)" by fastforce
  have same: "same_for ''m-1'' (token_hash shop_request) (shared_world ''m-2'') (shared_world ''m-3'')"
    by (simp add: same_for_def shared_world_def start_world_def empty_db_def pis_def payouts_def ledger_def shop_key_def)
  have "a1 = a2" using merchant_endpoints_isolated [OF _ same run] by (simp add: merchant_endpoints_def)
  moreover have "card_intent\<lparr>pi_MerchantID := ''m-2''\<rparr> \<noteq> card_intent\<lparr>pi_MerchantID := ''m-3''\<rparr>"
    by (auto dest: arg_cong [where f = pi_MerchantID])
  ultimately show ?thesis unfolding run by (simp add: shared_world_def start_world_def pis_def)
qed

text \<open>C21: Any merchant's key reads any merchant's payment intent. When the database answers, a
  request with a valid key for an existing intent is answered with 200 and the whole intent,
  whatever merchant the key and the intent belong to.\<close>

theorem payment_get_ignores_merchant:
  assumes "has_prefix (aq_Authorization r) Bearer" "key_rows r w = [k]" "aq_Param r ''id'' \<noteq> []"
    and "filter (\<lambda>p. pi_ID p = aq_Param r ''id'') (pis w) = [p]" "db_reliable w"
    and run: "run_state (NewRouter proc EPaymentGet r) w = (resp, v)"
  shows "\<exists>q r'. resp = Some q \<and> rp_Status q = 200 \<and> rp_Body q = JsonBody (buildEnvelope r' ''0'' ''Success'' ''200'' ''OK''
     (pi_response (o_fmt_time (w_env w), o_fmt (w_env w)) p None) None)"
proof (rule wp_run [OF _ run])
  let ?Q = "\<lambda>resp (v :: world). \<exists>q r'. resp = Some q \<and> rp_Status q = 200 \<and> rp_Body q = JsonBody (buildEnvelope r' ''0'' ''Success''
    ''200'' ''OK'' (pi_response (o_fmt_time (w_env w), o_fmt (w_env w)) p None) None)"
  have auth: "aq_Authorization r \<noteq> []" using assms(1) by (auto simp: has_prefix_def Bearer_def)
  have get: "wp (AuthMiddleware PIHandler_Get r') ?Q u"
    if r': "aq_Authorization r' = aq_Authorization r" "aq_Param r' = aq_Param r" and u: "w_db u = w_db w" "w_env u = w_env w" "w_step w \<le> w_step u" for r' u
  proof -
    have rows: "filter (\<lambda>k. ak_KeyHash k = hex (sha256 (drop (length Bearer) (aq_Authorization r)))) (t_api_keys (w_db w)) = [k]"
      "filter (\<lambda>p. pi_ID p = aq_Param r ''id'') (t_payment_intents (w_db w)) = [p]"
      using assms(2,4) by (simp_all add: key_rows_def pis_def)
    show ?thesis
      using assms(1,3,5) auth u
      by (auto simp: AuthMiddleware_def r' Merchant_GetAPIKeyByHash_def PIHandler_Get_def Let_def Service_GetByID_def
          GetPaymentIntent_def PI_GetByID_def printers_def respond_def json_response_def wp_simps rows db_reliable_def
          show_200 StatusText_def)
  qed
  show "wp (NewRouter proc EPaymentGet r) ?Q w"
    unfolding NewRouter_def routed.simps
  proof (rule wp_chain)
    fix r' u
    assume r': "same_request r' r" and u: "u = w \<or> u = next_step w"
    have "wp (AuthMiddleware PIHandler_Get r') ?Q u" by (rule get) (use u in \<open>auto simp: same_request_simps [OF r']\<close>)
    then show "wp (AuthMiddleware PIHandler_Get r') (\<lambda>p v. \<forall>i. ?Q (Some (with_request_id i (recovered p))) v) u"
      by (rule wp_mono) (force simp: recovered_def)
  qed
qed

theorem payment_get_ignores_merchant_witness:
  "ak_MerchantID shop_key = ''m-1'' \<and>
   (\<exists>q r' v. run_state (NewRouter shop_processor EPaymentGet shop_request) (shared_world ''m-2'') = (Some q, v) \<and> rp_Status q = 200 \<and>
      rp_Body q = JsonBody (buildEnvelope r' ''0'' ''Success'' ''200'' ''OK''
        (pi_response ((\<lambda>l t. show_int t), (\<lambda>_. [])) (card_intent\<lparr>pi_MerchantID := ''m-2''\<rparr>) None) None))"
proof -
  obtain resp v where run: "run_state (NewRouter shop_processor EPaymentGet shop_request) (shared_world ''m-2'') = (resp, v)" by fastforce
  have rows: "key_rows shop_request (shared_world ''m-2'') = [shop_key]"
    by (simp add: key_rows_def shop_token shared_world_def start_world_def) (simp add: shop_key_def)
  have ready: "aq_Param shop_request ''id'' \<noteq> []" "db_reliable (shared_world ''m-2'')"
    "filter (\<lambda>p. pi_ID p = aq_Param shop_request ''id'') (pis (shared_world ''m-2'')) = [card_intent\<lparr>pi_MerchantID := ''m-2''\<rparr>]"
    by (simp_all add: shop_request_def db_reliable_def shared_world_def start_world_def calm_env_def pis_def card_intent_def)
  have env: "o_fmt_time (w_env (shared_world ''m-2'')) = (\<lambda>l t. show_int t)" "o_fmt (w_env (shared_world ''m-2'')) = (\<lambda>_. [])"
    by (simp_all add: shared_world_def start_world_def calm_env_def)
  from payment_get_ignores_merchant [OF shop_token(2) rows ready(1,3,2) run]
  obtain q r' where q: "resp = Some q" "rp_Status q = 200" "rp_Body q = JsonBody (buildEnvelope r' ''0'' ''Success'' ''200'' ''OK''
      (pi_response ((\<lambda>l t. show_int t), (\<lambda>_. [])) (card_intent\<lparr>pi_MerchantID := ''m-2''\<rparr>) None) None)"
    unfolding env by blast
  show ?thesis
    by (intro conjI exI [of _ q] exI [of _ r'] exI [of _ v]) (simp_all add: run q shop_key_def)
qed

end
