(* ===== verification/PortalRepo.thy ===== *)
theory PortalRepo
  imports Repository
begin

section \<open>Repositories of the merchant portal (\<open>internal/repository/portal.go\<close>)\<close>

text \<open>
  Users, sessions, customers, team members, invitations and notification preferences, as the
  statements their methods execute. Besides the primary keys the migrations declare unique
  indexes on \<open>users(merchant_id, email)\<close>, \<open>sessions(token)\<close> and
  \<open>team_invitations(token)\<close>. \<open>ON CONFLICT (columns)\<close> is an error unless one of the
  table's unique indexes is on exactly these columns.
\<close>

subsection \<open>Statements\<close>

text \<open>\<open>ORDER BY t DESC LIMIT 1\<close>: any of the rows with the largest \<open>t\<close>.\<close>

definition newest :: "('r \<Rightarrow> int) \<Rightarrow> 'r list \<Rightarrow> 'r list" where
  "newest t rows = filter (\<lambda>r. list_all (\<lambda>x. t x \<le> t r) rows) rows"

definition table_upsert :: "string list list \<Rightarrow> string list \<Rightarrow> (db \<Rightarrow> 'r list) \<Rightarrow> (('r list \<Rightarrow> 'r list) \<Rightarrow> db \<Rightarrow> db) \<Rightarrow>
    ('r \<Rightarrow> bool) \<Rightarrow> ('r \<Rightarrow> 'r \<Rightarrow> bool) \<Rightarrow> ('r \<Rightarrow> 'r \<Rightarrow> bool) \<Rightarrow> ('r \<Rightarrow> 'r \<Rightarrow> 'r) \<Rightarrow> (time \<Rightarrow> 'r) \<Rightarrow> stmt" where
  "table_upsert indexes columns get upd chk clash target assign row now d =
     (let r = row now in
      if columns \<notin> set indexes \<or> \<not> chk r then Inl ErrDB
      else if list_ex (\<lambda>x. target x r) (get d)
      then table_update get upd (\<lambda>x. target x r) (\<lambda>_ x. assign x r) now d
      else table_insert get upd chk clash r now d)"

text \<open>
  \<open>x ILIKE pattern\<close>: \<open>%\<close> matches any string, an underscore one character of the UTF-8 text, a
  backslash takes the next character literally. Letters are folded in ASCII only; the folding of
  others is the database locale's.
\<close>

definition is_continuation :: "char \<Rightarrow> bool" where
  "is_continuation c \<longleftrightarrow> 128 \<le> (of_char c :: nat) \<and> (of_char c :: nat) < 192"

fun like_match :: "string \<Rightarrow> string \<Rightarrow> bool" where
  "like_match [] t = (t = [])"
| "like_match (c # p) [] = (c = CHR ''%'' \<and> like_match p [])"
| "like_match (c # p) (d # t) =
     (if c = CHR ''%'' then like_match p (d # t) \<or> like_match (c # p) t
      else if c = CHR ''_'' then like_match p (dropWhile is_continuation t)
      else if c = CHR 0x5C then (case p of [] \<Rightarrow> False | e # q \<Rightarrow> e = d \<and> like_match q t)
      else c = d \<and> like_match p t)"

definition ilike :: "string \<Rightarrow> string \<Rightarrow> bool" where
  "ilike x pattern = like_match (map lower_char pattern) (map lower_char x)"

subsection \<open>Users and sessions\<close>

definition User_Create :: "user \<Rightarrow> unit goE" where
  "User_Create u = db_exec (table_insert t_users t_users_update (\<lambda>_. True)
     (\<lambda>x r. us_ID x = us_ID r \<or> (us_MerchantID x = us_MerchantID r \<and> us_Email x = us_Email r)) u)"

definition User_GetByID :: "string \<Rightarrow> user goE" where
  "User_GetByID i = db_QueryRow (\<lambda>now d. filter (\<lambda>u. us_ID u = i) (t_users d))"

definition User_GetByEmail :: "string \<Rightarrow> string \<Rightarrow> user goE" where
  "User_GetByEmail m email = db_QueryRow (\<lambda>now d. filter (\<lambda>u. us_MerchantID u = m \<and> us_Email u = email) (t_users d))"

definition User_GetByEmailGlobal :: "string \<Rightarrow> user goE" where
  "User_GetByEmailGlobal email = db_QueryRow (\<lambda>now d. newest us_CreatedAt (filter (\<lambda>u. us_Email u = email) (t_users d)))"

definition User_UpdateProfile :: "string \<Rightarrow> string \<Rightarrow> string \<Rightarrow> string \<Rightarrow> unit goE" where
  "User_UpdateProfile i name title phone = db_exec (table_update t_users t_users_update (\<lambda>u. us_ID u = i)
     (\<lambda>now u. u\<lparr>us_Name := name, us_Title := title, us_Phone := phone\<rparr>))"

text \<open>The table has no merchant column; \<open>GetByToken\<close> takes the merchant from the session's user.\<close>

definition Session_Create :: "session \<Rightarrow> unit goE" where
  "Session_Create s = db_exec (table_insert t_sessions t_sessions_update (\<lambda>_. True)
     (\<lambda>x r. ss_ID x = ss_ID r \<or> ss_Token x = ss_Token r) (s\<lparr>ss_MerchantID := []\<rparr>))"

definition session_rows :: "string \<Rightarrow> time \<Rightarrow> db \<Rightarrow> session list" where
  "session_rows token now d = concat (map (\<lambda>s. map (\<lambda>u. s\<lparr>ss_MerchantID := us_MerchantID u\<rparr>)
       (filter (\<lambda>u. us_ID u = ss_UserID s) (t_users d)))
     (filter (\<lambda>s. ss_Token s = token \<and> now < ss_ExpiresAt s) (t_sessions d)))"

definition Session_GetByToken :: "string \<Rightarrow> session goE" where
  "Session_GetByToken token = db_QueryRow (session_rows token)"

definition Session_DeleteByUserID :: "string \<Rightarrow> unit goE" where
  "Session_DeleteByUserID i = db_exec (table_delete t_sessions t_sessions_update (\<lambda>s. ss_UserID s = i))"

subsection \<open>Customers\<close>

definition Customer_Create :: "customer \<Rightarrow> unit goE" where
  "Customer_Create c = db_exec (table_insert t_customers t_customers_update (\<lambda>_. True) (\<lambda>x r. cu_ID x = cu_ID r) c)"

definition Customer_GetByID :: "string \<Rightarrow> customer goE" where
  "Customer_GetByID i = db_QueryRow (\<lambda>now d. filter (\<lambda>c. cu_ID c = i) (t_customers d))"

definition customer_matches :: "string \<Rightarrow> string \<Rightarrow> string \<Rightarrow> customer \<Rightarrow> bool" where
  "customer_matches m search status c \<longleftrightarrow> cu_MerchantID c = m \<and>
     (search \<noteq> [] \<longrightarrow> list_ex (\<lambda>x. ilike x (''%'' @ search @ ''%'')) [cu_Name c, cu_Company c, cu_Email c]) \<and>
     (status \<noteq> [] \<and> status \<noteq> ''All'' \<longrightarrow> cu_Status c = status)"

definition Customer_ListByMerchant :: "string \<Rightarrow> string \<Rightarrow> string \<Rightarrow> int \<Rightarrow> int \<Rightarrow> customer list goE" where
  "Customer_ListByMerchant m search status limit offset = db_Query (\<lambda>now d.
     page limit offset (order_desc cu_CreatedAt (filter (customer_matches m search status) (t_customers d))))"

subsection \<open>Team members and invitations\<close>

text \<open>\<open>last_active\<close> is never written.\<close>

definition Member_Create :: "team_member \<Rightarrow> unit goE" where
  "Member_Create m = db_exec (table_insert t_team_members t_team_members_update (\<lambda>_. True)
     (\<lambda>x r. mb_ID x = mb_ID r) (m\<lparr>mb_LastActive := None\<rparr>))"

definition Member_ListByMerchant :: "string \<Rightarrow> team_member list goE" where
  "Member_ListByMerchant m = db_Query (\<lambda>now d.
     Inr (sort_key mb_CreatedAt (filter (\<lambda>x. mb_MerchantID x = m) (t_team_members d))))"

definition Member_GetByEmail :: "string \<Rightarrow> string \<Rightarrow> team_member goE" where
  "Member_GetByEmail m email = db_QueryRow (\<lambda>now d. filter (\<lambda>x. mb_MerchantID x = m \<and> mb_Email x = email) (t_team_members d))"

definition invitation_clash :: "team_invitation \<Rightarrow> team_invitation \<Rightarrow> bool" where
  "invitation_clash x r \<longleftrightarrow> iv_ID x = iv_ID r \<or> iv_Token x = iv_Token r"

text \<open>The table's unique indexes.\<close>

definition invitation_indexes :: "string list list" where
  "invitation_indexes = [[''id''], [''token'']]"

definition Invitation_Create :: "team_invitation \<Rightarrow> unit goE" where
  "Invitation_Create r = db_exec (table_insert t_team_invitations t_team_invitations_update (\<lambda>_. True) invitation_clash r)"

definition Invitation_Upsert :: "team_invitation \<Rightarrow> unit goE" where
  "Invitation_Upsert r = db_exec (table_upsert invitation_indexes [''merchant_id'', ''email'']
     t_team_invitations t_team_invitations_update (\<lambda>_. True) invitation_clash
     (\<lambda>x r. iv_MerchantID x = iv_MerchantID r \<and> iv_Email x = iv_Email r)
     (\<lambda>x r. x\<lparr>iv_Role := iv_Role r, iv_Token := iv_Token r, iv_ExpiresAt := iv_ExpiresAt r, iv_CreatedAt := iv_CreatedAt r\<rparr>)
     (\<lambda>_. r))"

definition Invitation_ListByMerchant :: "string \<Rightarrow> team_invitation list goE" where
  "Invitation_ListByMerchant m = db_Query (\<lambda>now d.
     Inr (order_desc iv_CreatedAt (filter (\<lambda>x. iv_MerchantID x = m) (t_team_invitations d))))"

definition Invitation_GetByEmail :: "string \<Rightarrow> string \<Rightarrow> team_invitation goE" where
  "Invitation_GetByEmail m email =
     db_QueryRow (\<lambda>now d. filter (\<lambda>x. iv_MerchantID x = m \<and> iv_Email x = email) (t_team_invitations d))"

definition Invitation_GetByEmailGlobal :: "string \<Rightarrow> team_invitation goE" where
  "Invitation_GetByEmailGlobal email = db_QueryRow (\<lambda>now d.
     newest iv_CreatedAt (filter (\<lambda>x. iv_Email x = email \<and> now < iv_ExpiresAt x) (t_team_invitations d)))"

definition Invitation_GetByToken :: "string \<Rightarrow> team_invitation goE" where
  "Invitation_GetByToken token = db_QueryRow (\<lambda>now d.
     filter (\<lambda>x. iv_Token x = token \<and> now < iv_ExpiresAt x) (t_team_invitations d))"

definition Invitation_DeleteByEmail :: "string \<Rightarrow> string \<Rightarrow> unit goE" where
  "Invitation_DeleteByEmail m email = db_exec (table_delete t_team_invitations t_team_invitations_update
     (\<lambda>x. iv_MerchantID x = m \<and> iv_Email x = email))"

subsection \<open>Notification preferences\<close>

definition preferences_indexes :: "string list list" where
  "preferences_indexes = [[''merchant_id'']]"

definition Notification_GetPreferences :: "string \<Rightarrow> notification_preferences goE" where
  "Notification_GetPreferences m =
     db_QueryRow (\<lambda>now d. filter (\<lambda>p. np_MerchantID p = m) (t_notification_preferences d))"

definition Notification_UpsertPreferences :: "string \<Rightarrow> bytes \<Rightarrow> unit goE" where
  "Notification_UpsertPreferences m prefs = db_exec (table_upsert preferences_indexes [''merchant_id'']
     t_notification_preferences t_notification_preferences_update
     (\<lambda>p. jsonb_ok (np_Preferences p) \<and> np_Preferences p \<noteq> NilBytes)
     (\<lambda>x r. np_MerchantID x = np_MerchantID r) (\<lambda>x r. np_MerchantID x = np_MerchantID r)
     (\<lambda>x r. x\<lparr>np_Preferences := np_Preferences r, np_UpdatedAt := np_UpdatedAt r\<rparr>)
     (\<lambda>now. \<lparr>np_MerchantID = m, np_Preferences = prefs, np_UpdatedAt = now\<rparr>))"

lemmas portal_repo_defs = User_Create_def User_GetByID_def User_GetByEmail_def User_GetByEmailGlobal_def
  User_UpdateProfile_def Session_Create_def Session_GetByToken_def Session_DeleteByUserID_def Customer_Create_def
  Customer_GetByID_def Customer_ListByMerchant_def Member_Create_def Member_ListByMerchant_def Member_GetByEmail_def
  Invitation_Create_def Invitation_Upsert_def Invitation_ListByMerchant_def Invitation_GetByEmail_def
  Invitation_GetByEmailGlobal_def Invitation_GetByToken_def Invitation_DeleteByEmail_def
  Notification_GetPreferences_def Notification_UpsertPreferences_def

subsection \<open>What the repositories promise\<close>

interpretation user_table: keyed_table "\<lambda>w. t_users (w_db w)" us_ID "\<lambda>r. r" User_Create User_GetByID
  by unfold_locales
    (simp_all only: User_Create_def User_GetByID_def,
     rule insert_law [where get = t_users and key = us_ID], simp, simp,
     rule select_law [where get = t_users], simp)

interpretation customer_table: keyed_table "\<lambda>w. t_customers (w_db w)" cu_ID "\<lambda>r. r" Customer_Create Customer_GetByID
  by unfold_locales
    (simp_all only: Customer_Create_def Customer_GetByID_def,
     rule insert_law [where get = t_customers and key = cu_ID], simp, simp,
     rule select_law [where get = t_customers], simp)

interpretation invitation_table: keyed_table "\<lambda>w. t_team_invitations (w_db w)" iv_Token "\<lambda>r. r"
  Invitation_Create Invitation_GetByToken
  by unfold_locales
    (simp_all only: Invitation_Create_def Invitation_GetByToken_def,
     rule insert_law [where get = t_team_invitations and key = iv_Token], simp, simp add: invitation_clash_def,
     rule select_law [where get = t_team_invitations], simp)

text \<open>Sending an invitation again is an error: no unique index is on the merchant and the address.\<close>

lemma wp_Invitation_Upsert [wp_simps]:
  "wp (Invitation_Upsert r) Q w = Q (Inl ErrDB) (next_step (w\<lparr>w_db := w_db w\<rparr>))"
  by (cases "o_db (w_env w) (w_step w)")
    (simp_all add: Invitation_Upsert_def wp_db_exec run_stmt_def table_upsert_def invitation_indexes_def)

text \<open>A search without wildcards finds the texts that contain it, whatever the case.\<close>

lemma like_literal:
  "list_all (\<lambda>c. c \<notin> {CHR ''%'', CHR ''_'', CHR 0x5C}) s \<Longrightarrow> like_match (s @ ''%'') t \<longleftrightarrow> (\<exists>u. t = s @ u)"
proof (induction s arbitrary: t)
  case Nil
  have "like_match ''%'' t" by (induction t) simp_all
  then show ?case by simp
next
  case (Cons c s)
  then show ?case by (cases t) auto
qed

lemma like_infix:
  assumes "list_all (\<lambda>c. c \<notin> {CHR ''%'', CHR ''_'', CHR 0x5C}) s"
  shows "like_match (''%'' @ s @ ''%'') t \<longleftrightarrow> (\<exists>a b. t = a @ s @ b)"
proof (induction t)
  case Nil
  then show ?case using like_literal [OF assms, of "[]"] by auto
next
  case (Cons d t)
  then show ?case using like_literal [OF assms, of "d # t"] by (auto simp: Cons_eq_append_conv)
qed

lemma of_lower_char:
  "(of_char (lower_char c) :: nat) = (if 65 \<le> (of_char c :: nat) \<and> (of_char c :: nat) \<le> 90 then of_char c + 32 else of_char c)"
  by (simp add: lower_char_def Let_def)

lemma lower_char_wild:
  assumes "c \<notin> {CHR ''%'', CHR ''_'', CHR 0x5C}"
  shows "lower_char c \<notin> {CHR ''%'', CHR ''_'', CHR 0x5C}"
proof -
  have eq: "x = y \<longleftrightarrow> (of_char x :: nat) = of_char y" for x y :: char by simp
  have "(of_char c :: nat) \<notin> {37, 95, 92}" using assms by (simp add: eq del: of_char_eq_iff)
  then have "(of_char (lower_char c) :: nat) \<notin> {37, 95, 92}" by (auto simp: of_lower_char)
  then show ?thesis by (auto simp: eq simp del: of_char_eq_iff)
qed

lemma ilike_infix:
  assumes "list_all (\<lambda>c. c \<notin> {CHR ''%'', CHR ''_'', CHR 0x5C}) s"
  shows "ilike x (''%'' @ s @ ''%'') \<longleftrightarrow> (\<exists>a b. map lower_char x = a @ map lower_char s @ b)"
proof -
  have "list_all (\<lambda>c. c \<notin> {CHR ''%'', CHR ''_'', CHR 0x5C}) (map lower_char s)"
    using assms lower_char_wild by (simp only: list_all_iff set_map ball_simps) blast
  moreover have "map lower_char ''%'' = ''%''" by (simp add: lower_char_def)
  ultimately show ?thesis unfolding ilike_def using like_infix by simp
qed

end
