(* ===== verification/Floats.thy ===== *)
theory Floats
  imports Json
begin

section \<open>float64 arithmetic\<close>

text \<open>
  The portal computes with float64 where it prints amounts and ages. A finite float64 is a pair of
  a mantissa and an exponent, standing for \<open>m * 2^e\<close>; an operation is the exact result rounded to
  53 bits, half to even. The exponents that occur are far from the limits of the format.
\<close>

type_synonym float64 = "int \<times> int"

definition fl_round :: "int \<Rightarrow> int \<Rightarrow> float64" where
  "fl_round m e = (let n = nat \<bar>m\<bar>; k = bit_len n - 53 in (sgn m * int (round_even n (2 ^ k)), e + int k))"

definition fl_of_int :: "int \<Rightarrow> float64" where
  "fl_of_int i = fl_round i 0"

fun fl_add :: "float64 \<Rightarrow> float64 \<Rightarrow> float64" where
  "fl_add (m1, e1) (m2, e2) = (let e = min e1 e2 in fl_round (m1 * 2 ^ nat (e1 - e) + m2 * 2 ^ nat (e2 - e)) e)"

fun fl_scale :: "float64 \<Rightarrow> int \<Rightarrow> float64" where
  "fl_scale (m, e) k = fl_round (m * k) e"

text \<open>Division by a positive integer: 56 bits of the quotient and a bit for the rest.\<close>

fun fl_div :: "float64 \<Rightarrow> nat \<Rightarrow> float64" where
  "fl_div (m, e) d =
     (let n = nat \<bar>m\<bar>; s = 56 + bit_len d - bit_len n; q = n * 2 ^ s div d; r = n * 2 ^ s mod d
      in fl_round (sgn m * int (2 * q + (if r = 0 then 0 else 1))) (e - int s - 1))"

text \<open>\<open>int(f)\<close> and \<open>int64(f)\<close>.\<close>

fun fl_int :: "float64 \<Rightarrow> int64" where
  "fl_int (m, e) = int64_of_float (trunc_float m e)"

text \<open>\<open>%.2f\<close>: the exact value rounded to hundredths, half to even.\<close>

definition show_hundredths :: "nat \<Rightarrow> string" where
  "show_hundredths h = show_nat (h div 100) @ ''.'' @ [digit_char (h div 10 mod 10), digit_char (h mod 10)]"

fun fmt_2f :: "float64 \<Rightarrow> string" where
  "fmt_2f (m, e) = (if m < 0 then ''-'' else []) @
     show_hundredths (if 0 \<le> e then nat \<bar>m\<bar> * 2 ^ nat e * 100 else round_even (nat \<bar>m\<bar> * 100) (2 ^ nat (- e)))"

text \<open>A float64 field of a struct, and a float64 printed by \<open>encoding/json\<close>.\<close>

fun dec_float_from :: "float64 \<Rightarrow> string \<Rightarrow> fields \<Rightarrow> float64 option" where
  "dec_float_from acc f [] = Some acc"
| "dec_float_from acc f ((k, v) # kvs) =
     (if key_match f k
      then (case v of JInt i \<Rightarrow> dec_float_from (fl_of_int i) f kvs
                    | JFloat m e \<Rightarrow> dec_float_from (m, e) f kvs
                    | JNull \<Rightarrow> dec_float_from acc f kvs
                    | _ \<Rightarrow> None)
      else dec_float_from acc f kvs)"

abbreviation dec_float :: "string \<Rightarrow> fields \<Rightarrow> float64 option" where
  "dec_float \<equiv> dec_float_from (0, 0)"

definition float_json :: "float64 \<Rightarrow> json" where
  "float_json x = JFloat (fst x) (snd x)"

text \<open>An integer of at most 53 bits is printed as it is.\<close>

lemma fl_of_int_exact: "\<bar>i\<bar> < 2 ^ 53 \<Longrightarrow> fl_of_int i = (i, 0)"
proof -
  assume "\<bar>i\<bar> < 2 ^ 53"
  then have "nat \<bar>i\<bar> < 2 ^ 53" by simp
  then have "bit_len (nat \<bar>i\<bar>) \<le> 53" by (rule bit_len_bound)
  then show ?thesis by (simp add: fl_of_int_def fl_round_def round_even_def Let_def mult_sgn_abs)
qed

lemma fmt_2f_int:
  assumes "0 \<le> i" "i < 2 ^ 53"
  shows "fmt_2f (fl_of_int i) = show_nat (nat i) @ ''.00''"
proof -
  have "\<bar>i\<bar> < 2 ^ 53" using assms by simp
  then show ?thesis using assms
    by (simp add: fl_of_int_exact show_hundredths_def digit_char_simps div_mult2_eq [of _ 10 10, simplified])
qed

end
