(* ===== verification/Times.thy ===== *)
theory Times
  imports Text
begin

section \<open>Dates and RFC 3339 (\<open>time.Parse\<close>)\<close>

text \<open>
  A \<open>time.Time\<close> is the number of nanoseconds since 1970 (type \<open>time\<close> of \<open>Domain\<close>); here are
  the proleptic Gregorian calendar and \<open>time.Parse(time.RFC3339, s)\<close>, which the portal applies to
  the date filters of a query: two digits per field except that one digit is enough for the hour, an
  optional fraction after the seconds, and \<open>Z\<close> or an offset.
\<close>

subsection \<open>The calendar\<close>

definition is_leap :: "int \<Rightarrow> bool" where
  "is_leap y \<longleftrightarrow> y mod 4 = 0 \<and> (y mod 100 \<noteq> 0 \<or> y mod 400 = 0)"

definition days_in :: "int \<Rightarrow> int \<Rightarrow> int" where
  "days_in y m = (if m = 2 then (if is_leap y then 29 else 28) else if m \<in> {4, 6, 9, 11} then 30 else 31)"

definition days_before :: "int \<Rightarrow> int" where
  "days_before y = 365 * y + y div 4 - y div 100 + y div 400"

text \<open>The day number of a date, counting from 1 January 1970; a year is taken to begin in March.\<close>

definition civil_day :: "int \<Rightarrow> int \<Rightarrow> int \<Rightarrow> int" where
  "civil_day y m d =
     (let y1 = (if m \<le> 2 then y - 1 else y); m1 = (if m \<le> 2 then m + 9 else m - 3)
      in days_before y1 + (153 * m1 + 2) div 5 + d - 719469)"

lemma civil_day_epoch: "civil_day 1970 1 1 = 0"
  by (simp add: civil_day_def days_before_def)

lemma civil_day_next: "civil_day y m (d + 1) = civil_day y m d + 1"
  by (simp add: civil_day_def Let_def)

lemma div_step:
  assumes "0 < (k :: int)"
  shows "y div k = (y - 1) div k + (if y mod k = 0 then 1 else 0)"
proof -
  have y: "y = k * (y div k) + y mod k" by simp
  show ?thesis
  proof (cases "y mod k = 0")
    case True
    then have "(y - 1) div k = y div k - 1"
      by (intro int_div_pos_eq [of _ _ _ "k - 1"]) (use y assms in \<open>simp_all add: algebra_simps\<close>)
    then show ?thesis using True by simp
  next
    case False
    moreover have "0 \<le> y mod k" "y mod k < k" using assms by simp_all
    ultimately have "(y - 1) div k = y div k"
      by (intro int_div_pos_eq [of _ _ _ "y mod k - 1"]) (use y in \<open>linarith+\<close>)
    then show ?thesis using False by simp
  qed
qed

lemma civil_day_next_month:
  assumes "1 \<le> m" "m < 12"
  shows "civil_day y (m + 1) 1 = civil_day y m 1 + days_in y m"
proof -
  have "m \<in> set [1..11]" using assms by (subst set_upto) simp
  then have m: "m \<in> {1, 2, 3, 4, 5, 6, 7, 8, 9, 10, 11}" by (simp add: upto_rec1 del: set_upto)
  have march: "civil_day y 3 1 = civil_day y 2 1 + days_in y 2"
  proof -
    have sum: "365 * y + a - b + c = 365 * (y - 1) + a1 - b1 + c1 + (if P \<and> (\<not> Q \<or> R) then 366 else 365)"
      if "a = a1 + (if P then 1 else 0)" "b = b1 + (if Q then 1 else 0)" "c = c1 + (if R then 1 else 0)" "R \<longrightarrow> Q" "Q \<longrightarrow> P"
      for a b c a1 b1 c1 :: int and P Q R using that by (cases P; cases Q; cases R) simp_all
    have "(100 :: int) dvd 400" "(4 :: int) dvd 100" by simp_all
    then have leap: "y mod 400 = 0 \<longrightarrow> y mod 100 = 0" "y mod 100 = 0 \<longrightarrow> y mod 4 = 0"
      unfolding mod_eq_0_iff_dvd by (metis dvd_trans)+
    have "days_before y = days_before (y - 1) + (if is_leap y then 366 else 365)"
      unfolding is_leap_def days_before_def by (rule sum [OF div_step div_step div_step leap]) simp_all
    then show ?thesis by (simp add: civil_day_def days_in_def Let_def)
  qed
  show ?thesis
  proof (cases "m = 2")
    case True
    then show ?thesis using march by simp
  next
    case False
    with m have "m \<in> {1, 3, 4, 5, 6, 7, 8, 9, 10, 11}" by simp
    then show ?thesis by (elim insertE emptyE) (simp_all add: civil_day_def days_in_def Let_def)
  qed
qed

lemma civil_day_next_year: "civil_day (y + 1) 1 1 = civil_day y 12 1 + days_in y 12"
  by (simp add: civil_day_def days_in_def Let_def)

subsection \<open>Parsing\<close>

text \<open>\<open>getnum\<close>: two digits, or one if that is allowed.\<close>

definition digit_value :: "char \<Rightarrow> int" where
  "digit_value c = of_char c - 48"

definition digits_value :: "string \<Rightarrow> int" where
  "digits_value s = foldl (\<lambda>n c. 10 * n + digit_value c) 0 s"

fun getnum :: "bool \<Rightarrow> string \<Rightarrow> (int \<times> string) option" where
  "getnum fixed (a # b # s) =
     (if \<not> is_digit a then None
      else if is_digit b then Some (10 * digit_value a + digit_value b, s)
      else if fixed then None else Some (digit_value a, b # s))"
| "getnum fixed [a] = (if is_digit a \<and> \<not> fixed then Some (digit_value a, []) else None)"
| "getnum fixed [] = None"

fun skip_char :: "char \<Rightarrow> string \<Rightarrow> string option" where
  "skip_char c (d # s) = (if c = d then Some s else None)"
| "skip_char c [] = None"

definition in_range :: "int \<Rightarrow> int \<Rightarrow> int \<times> string \<Rightarrow> (int \<times> string) option" where
  "in_range lo hi p = (if lo \<le> fst p \<and> fst p \<le> hi then Some p else None)"

definition get_year :: "string \<Rightarrow> (int \<times> string) option" where
  "get_year s = (if 4 \<le> length s \<and> list_all is_digit (take 4 s) then Some (digits_value (take 4 s), drop 4 s) else None)"

text \<open>The first nine digits of a fraction after a point or a comma, in nanoseconds.\<close>

definition get_fraction :: "string \<Rightarrow> int \<times> string" where
  "get_fraction s =
     (if 2 \<le> length s \<and> hd s \<in> {CHR ''.'', CHR '',''} \<and> is_digit (s ! 1)
      then (let ds = takeWhile is_digit (tl s)
            in (digits_value (take 9 (ds @ ''00000000'')), drop (Suc (length ds)) s))
      else (0, s))"

text \<open>The offset in seconds.\<close>

definition get_zone :: "string \<Rightarrow> (int \<times> string) option" where
  "get_zone s =
     (if s \<noteq> [] \<and> hd s = CHR ''Z'' then Some (0, tl s)
      else if length s < 6 \<or> s ! 3 \<noteq> CHR '':'' then None
      else do {
        h \<leftarrow> Option.bind (getnum True (take 2 (drop 1 s))) (in_range 0 24);
        n \<leftarrow> Option.bind (getnum True (take 2 (drop 4 s))) (in_range 0 60);
        let z = (fst h * 60 + fst n) * 60;
        if hd s = CHR ''+'' then Some (z, drop 6 s)
        else if hd s = CHR ''-'' then Some (- z, drop 6 s) else None })"

definition parse_RFC3339 :: "string \<Rightarrow> int option" where
  "parse_RFC3339 s0 = do {
     (y, s) \<leftarrow> get_year s0;
     s \<leftarrow> skip_char CHR ''-'' s;
     (m, s) \<leftarrow> Option.bind (getnum True s) (in_range 1 12);
     s \<leftarrow> skip_char CHR ''-'' s;
     (d, s) \<leftarrow> getnum True s;
     s \<leftarrow> skip_char CHR ''T'' s;
     (h, s) \<leftarrow> Option.bind (getnum False s) (in_range 0 23);
     s \<leftarrow> skip_char CHR '':'' s;
     (n, s) \<leftarrow> Option.bind (getnum True s) (in_range 0 59);
     s \<leftarrow> skip_char CHR '':'' s;
     (sec, s) \<leftarrow> Option.bind (getnum True s) (in_range 0 59);
     let (nano, s) = get_fraction s;
     (z, s) \<leftarrow> get_zone s;
     if s \<noteq> [] \<or> d < 1 \<or> days_in y m < d then None
     else Some (((civil_day y m d * 24 + h) * 60 + n) * 60 * 1000000000 + (sec - z) * 1000000000 + nano) }"

lemma parse_epoch: "parse_RFC3339 ''1970-01-01T00:00:00Z'' = Some 0"
  by code_simp

lemma parse_samples:
  "parse_RFC3339 ''2024-02-29T23:59:59.5+03:00'' = Some 1709240399500000000"
  "parse_RFC3339 ''2023-02-29T00:00:00Z'' = None" "parse_RFC3339 ''2024-01-01'' = None"
  by code_simp+

end
