(* ===== verification/Csv.thy ===== *)
theory Csv
  imports Text
begin

section \<open>Writing CSV (\<open>encoding/csv\<close>)\<close>

text \<open>
  \<open>csv.Writer\<close> with its defaults: fields separated by commas, records ended by a line feed; a
  field is quoted if it contains a comma, a quote, a carriage return or a line feed, starts with a
  space, or is \<open>\.\<close>; a quote inside is doubled. What is written determines the records
  (\<open>csv_rows_inj\<close>).
\<close>

text \<open>A leading \<open>unicode.IsSpace\<close> rune in UTF-8; \<open>strings.Fields\<close> splits at the same runes.\<close>

definition strip_space :: "string \<Rightarrow> string option" where
  "strip_space s =
     (let b = map (of_char :: char \<Rightarrow> nat) (take 3 s) in
      if b \<noteq> [] \<and> hd b \<in> {9, 10, 11, 12, 13, 32} then Some (drop 1 s)
      else if take 2 b \<in> {[0xC2, 0x85], [0xC2, 0xA0]} then Some (drop 2 s)
      else if b = [0xE1, 0x9A, 0x80] \<or> b = [0xE2, 0x81, 0x9F] \<or> b = [0xE3, 0x80, 0x80] \<or>
        (length b = 3 \<and> take 2 b = [0xE2, 0x80] \<and> (b ! 2 \<in> {0xA8, 0xA9, 0xAF} \<or> (0x80 \<le> b ! 2 \<and> b ! 2 \<le> 0x8A)))
      then Some (drop 3 s) else None)"

lemma strip_space_shorter: "strip_space s = Some u \<Longrightarrow> length u < length s"
  by (cases s) (auto simp: strip_space_def Let_def split: if_splits)

definition csv_special :: "char \<Rightarrow> bool" where
  "csv_special c \<longleftrightarrow> c \<in> {CHR '','', CHR 0x22, CHR 0x0D, CHR 0x0A}"

definition fieldNeedsQuotes :: "string \<Rightarrow> bool" where
  "fieldNeedsQuotes s \<longleftrightarrow> s \<noteq> [] \<and> (s = [CHR 0x5C, CHR ''.''] \<or> list_ex csv_special s \<or> strip_space s \<noteq> None)"

definition quote_char :: "char \<Rightarrow> string" where
  "quote_char c = (if c = CHR 0x22 then [c, c] else [c])"

definition csv_field :: "string \<Rightarrow> string" where
  "csv_field s = (if fieldNeedsQuotes s then CHR 0x22 # concat (map quote_char s) @ [CHR 0x22] else s)"

fun csv_record :: "string list \<Rightarrow> string" where
  "csv_record [] = [CHR 0x0A]"
| "csv_record [s] = csv_field s @ [CHR 0x0A]"
| "csv_record (s # t # ss) = csv_field s @ CHR '','' # csv_record (t # ss)"

definition csv_rows :: "string list list \<Rightarrow> string" where
  "csv_rows rows = concat (map csv_record rows)"

subsection \<open>The text determines the records\<close>

text \<open>A field ends at the first comma or line feed outside quotes.\<close>

definition delimiter :: "char \<Rightarrow> bool" where
  "delimiter c \<longleftrightarrow> c = CHR '','' \<or> c = CHR 0x0A"

lemma plain_field_inj:
  assumes "\<not> list_ex csv_special s" "\<not> list_ex csv_special t" "delimiter c" "delimiter d" "s @ c # u = t @ d # v"
  shows "s = t \<and> c = d \<and> u = v"
  using assms
proof (induction s arbitrary: t)
  case Nil
  then show ?case by (cases t) (auto simp: delimiter_def csv_special_def)
next
  case (Cons a s)
  then show ?case by (cases t) (auto simp: delimiter_def csv_special_def)
qed

lemma quoted_inj:
  assumes "concat (map quote_char s) @ CHR 0x22 # c # u = concat (map quote_char t) @ CHR 0x22 # d # v"
    and "c \<noteq> CHR 0x22" "d \<noteq> CHR 0x22"
  shows "s = t \<and> c = d \<and> u = v"
  using assms
proof (induction s arbitrary: t)
  case Nil
  then show ?case by (cases t) (auto simp: quote_char_def split: if_splits)
next
  case (Cons a s)
  then show ?case by (cases t) (auto simp: quote_char_def split: if_splits)
qed

lemma csv_field_inj:
  assumes "csv_field s @ c # u = csv_field t @ d # v" "delimiter c" "delimiter d"
  shows "s = t \<and> c = d \<and> u = v"
proof -
  have nq: "c \<noteq> CHR 0x22" "d \<noteq> CHR 0x22" using assms by (auto simp: delimiter_def)
  have plain: "\<not> list_ex csv_special x" "x = [] \<or> hd x \<noteq> CHR 0x22" if "\<not> fieldNeedsQuotes x" for x
    using that by (cases x; auto simp: fieldNeedsQuotes_def csv_special_def)+
  consider "fieldNeedsQuotes s" "fieldNeedsQuotes t" | "\<not> fieldNeedsQuotes s" "\<not> fieldNeedsQuotes t"
    | "fieldNeedsQuotes s" "\<not> fieldNeedsQuotes t" | "\<not> fieldNeedsQuotes s" "fieldNeedsQuotes t" by blast
  then show ?thesis
  proof cases
    case 1
    then show ?thesis using assms quoted_inj [OF _ nq, of s u t v] by (simp add: csv_field_def)
  next
    case 2
    then show ?thesis using assms plain_field_inj [OF plain(1) plain(1), of s t c d u v] by (simp add: csv_field_def)
  next
    case 3
    then show ?thesis using assms plain(2) [of t] nq by (cases t) (auto simp: csv_field_def)
  next
    case 4
    then show ?thesis using assms plain(2) [of s] nq by (cases s) (auto simp: csv_field_def)
  qed
qed

lemma csv_record_Cons:
  assumes "rec \<noteq> []"
  shows "csv_record (s # rec) = csv_field s @ CHR '','' # csv_record rec"
  using assms by (cases rec) simp_all

lemma csv_record_inj:
  assumes "csv_record r @ u = csv_record q @ v" "r \<noteq> []" "q \<noteq> []"
  shows "r = q \<and> u = v"
  using assms
proof (induction r arbitrary: q)
  case (Cons s r)
  obtain t q1 where q: "q = t # q1" using Cons.prems(3) by (cases q) auto
  let ?c = "\<lambda>r. if r = [] then CHR 0x0A else CHR '','' " and ?rest = "\<lambda>r u. if r = [] then u else csv_record r @ u"
  have d: "delimiter (?c x)" for x :: "string list" by (simp add: delimiter_def)
  have "csv_field s @ ?c r # ?rest r u = csv_field t @ ?c q1 # ?rest q1 v"
    using Cons.prems(1) by (auto simp: q csv_record_Cons)
  from csv_field_inj [OF this d d] have "s = t" "?c r = ?c q1" "?rest r u = ?rest q1 v" by blast+
  then show ?case using Cons.IH [of q1] by (auto simp: q split: if_splits)
qed simp

lemma csv_rows_inj:
  assumes "csv_rows xs = csv_rows ys" "[] \<notin> set xs" "[] \<notin> set ys"
  shows "xs = ys"
  using assms
proof (induction xs arbitrary: ys)
  case Nil
  have "csv_record r \<noteq> []" for r by (cases r rule: csv_record.cases) simp_all
  then show ?case using Nil by (cases ys) (auto simp: csv_rows_def)
next
  case (Cons x xs)
  have ne: "csv_record r \<noteq> []" for r by (cases r rule: csv_record.cases) simp_all
  then obtain y ys1 where ys: "ys = y # ys1" using Cons.prems(1) by (cases ys) (auto simp: csv_rows_def)
  have "csv_record x @ csv_rows xs = csv_record y @ csv_rows ys1" using Cons.prems(1) by (simp add: csv_rows_def ys)
  then have "x = y \<and> csv_rows xs = csv_rows ys1" using Cons.prems(2,3) ys by (intro csv_record_inj) auto
  then show ?case using Cons.IH [of ys1] Cons.prems(2,3) by (simp add: ys)
qed

end
