(* ===== verification/Portal.thy ===== *)
theory Portal
  imports Api PortalRepo Floats Times Csv
begin

section \<open>Merchant portal: accounts and sessions (\<open>internal/api/portal.go\<close>)\<close>

text \<open>
  Sign-up with a code sent by SMS, login, and the middleware that turns a session token into a user
  and a merchant. The sign-up codes live in memory (\<open>w_otp\<close>). The SMS is sent by a goroutine whose
  result nobody reads; it runs here at the point where it is started. \<open>bcrypt\<close> and
  \<open>crypto/rand\<close> are answered by the environment.
\<close>

subsection \<open>Texts\<close>

definition respondPortalError :: "api_request \<Rightarrow> int \<Rightarrow> string \<Rightarrow> string \<Rightarrow> api_response option go" where
  "respondPortalError r status code msg = respondError r status code msg"

text \<open>\<open>strings.ToUpper\<close> of the first byte of a string: a byte that only starts a rune is not valid
  UTF-8 by itself and becomes the replacement character.\<close>

definition upper_byte :: "char \<Rightarrow> string" where
  "upper_byte c = (let n = (of_char c :: nat) in
     if 97 \<le> n \<and> n \<le> 122 then [char_of (n - 32)]
     else if n < 128 then [c] else [CHR 0xEF, CHR 0xBF, CHR 0xBD])"

text \<open>\<open>strings.Fields\<close>.\<close>

function fields_from :: "string \<Rightarrow> string \<Rightarrow> string list" where
  "fields_from acc s =
     (case s of
        [] \<Rightarrow> (if acc = [] then [] else [acc])
      | c # t \<Rightarrow>
          (case strip_space s of
             None \<Rightarrow> fields_from (acc @ [c]) t
           | Some u \<Rightarrow> (if acc = [] then [] else [acc]) @ fields_from [] u))"
  by pat_completeness auto
termination
  by (relation "measure (\<lambda>(acc, s). length s)") (auto dest: strip_space_shorter)

declare fields_from.simps [simp del]

definition Fields :: "string \<Rightarrow> string list" where
  "Fields s = fields_from [] s"

definition memberInitials :: "string \<Rightarrow> string" where
  "memberInitials name =
     (case Fields name of
        [] \<Rightarrow> []
      | [p] \<Rightarrow> upper_byte (hd p)
      | p # ps \<Rightarrow> upper_byte (hd p) @ upper_byte (hd (last ps)))"

definition title_of :: "string \<Rightarrow> string" where
  "title_of role = upper_byte (hd role) @ tl role"

subsection \<open>Codes\<close>

definition otpCode :: "int go" where
  "otpCode = do {
     b \<leftarrow> rand_Read 3;
     (case b of
        None \<Rightarrow> ret 123456
      | Some bs \<Rightarrow> ret (100000 + int (bs ! 0 * 65536 + bs ! 1 * 256 + bs ! 2) mod 900000)) }"

text \<open>\<open>%06d\<close>.\<close>

definition pad6 :: "int \<Rightarrow> string" where
  "pad6 i = (let s = show_int i in replicate (6 - length s) CHR ''0'' @ s)"

definition merchant_charset :: string where
  "merchant_charset = ''ABCDEFGHJKLMNPQRSTUVWXYZ23456789''"

definition generateMerchantCode :: "string option go" where
  "generateMerchantCode = do {
     b \<leftarrow> rand_Read 6;
     ret (map_option (\<lambda>bs. ''M-'' @ map (\<lambda>x. merchant_charset ! (x mod length merchant_charset)) bs) b) }"

subsection \<open>The store of sign-up codes (\<open>otpStore\<close>)\<close>

definition otp_delete :: "string \<Rightarrow> unit go" where
  "otp_delete phone = modify (\<lambda>w. w\<lparr>w_otp := (w_otp w)(phone := None)\<rparr>)"

definition otp_set :: "string \<Rightarrow> string \<Rightarrow> signup_data \<Rightarrow> unit go" where
  "otp_set phone code data = do {
     now \<leftarrow> time_Now;
     modify (\<lambda>w. w\<lparr>w_otp := (w_otp w)(phone \<mapsto>
       \<lparr>oe_Code = code, oe_ExpiresAt = now + 10 * Minute, oe_Data = data\<rparr>)\<rparr>) }"

definition otp_get :: "string \<Rightarrow> otp_entry option go" where
  "otp_get phone = do {
     m \<leftarrow> gets w_otp;
     (case m phone of
        None \<Rightarrow> ret None
      | Some e \<Rightarrow> do {
          now \<leftarrow> time_Now;
          if oe_ExpiresAt e < now then do { otp_delete phone; ret None } else ret (Some e) }) }"

subsection \<open>SMS\<close>

text \<open>The API token and the sender id, when both are configured.\<close>

type_synonym sms_sender = "string \<times> string"

record portal =
  ph_SMS :: "sms_sender option"

definition NewPortalHandler :: "string \<Rightarrow> string \<Rightarrow> portal" where
  "NewPortalHandler tok sender = \<lparr>ph_SMS = (if tok \<noteq> [] \<and> sender \<noteq> [] then Some (tok, sender) else None)\<rparr>"

definition bytes_text :: "printers \<Rightarrow> bytes \<Rightarrow> string" where
  "bytes_text pr b = (case b of NilBytes \<Rightarrow> [] | Doc j \<Rightarrow> snd pr j | Junk s \<Rightarrow> s)"

definition sms_send :: "sms_sender \<Rightarrow> string \<Rightarrow> string \<Rightarrow> unit goE" where
  "sms_send s recipient message =
     try_call (http_NewRequest ''POST'' ''https://opensms.co.ke/api/v3/sms/send''
         [(''Authorization'', ''Bearer '' @ fst s), (''Content-Type'', ''application/json''), (''Accept'', ''application/json'')]
         (Doc (JObj [(''message'', JStr message), (''recipient'', JStr recipient), (''sender_id'', JStr (snd s)),
           (''type'', JStr ''plain'')]))) (\<lambda>req. do {
       rep \<leftarrow> http_Do req;
       pr \<leftarrow> printers;
       (case rep of
          HttpFail \<Rightarrow> fail ErrHTTP
        | HttpResp status body len \<Rightarrow>
            if 300 \<le> status
            then fail (ErrMsg (''sms send failed ('' @ show_int status @ ''): '' @ bytes_text pr body)) else ok ()) })"

subsection \<open>Bodies\<close>

text \<open>The two decodings, with the message for a \<open>primaryData\<close> that does not fit.\<close>

definition with_body :: "api_request \<Rightarrow> (fields \<Rightarrow> 'a option) \<Rightarrow> string \<Rightarrow> ('a \<Rightarrow> api_response option go) \<Rightarrow>
    api_response option go" where
  "with_body r dec msg k =
     (case Option.bind (aq_Body r) decode_envelope of
        None \<Rightarrow> respondPortalError r 400 ''1001'' ''Invalid request''
      | Some env \<Rightarrow>
          (case Option.bind (primary_fields env) dec of
             None \<Rightarrow> respondPortalError r 400 ''1001'' msg
           | Some q \<Rightarrow> k q))"

definition success_json :: json where
  "success_json = JObj [(''success'', JBool True)]"

definition user_json :: "user \<Rightarrow> json" where
  "user_json u = JObj [(''email'', JStr (us_Email u)), (''id'', JStr (us_ID u)), (''name'', JStr (us_Name u)),
     (''role'', JStr (us_Role u)), (''title'', JStr (us_Title u))]"

definition workspace_json :: "printers \<Rightarrow> merchant \<Rightarrow> json" where
  "workspace_json pr m = JObj [(''code'', JStr (mch_Code m)), (''country'', JStr (mch_Country m)),
     (''createdAt'', time_json pr (mch_CreatedAt m)), (''defaultCurrency'', JStr (mch_DefaultCurrency m)),
     (''id'', JStr (mch_ID m)), (''legalName'', JStr (mch_LegalName m)), (''status'', JStr (merchant_status_str (mch_Status m)))]"

subsection \<open>Sessions\<close>

definition getUserID :: "api_request \<Rightarrow> string" where
  "getUserID r = (case aq_PortalUserID r of None \<Rightarrow> [] | Some i \<Rightarrow> i)"

definition getMerchantID :: "api_request \<Rightarrow> string" where
  "getMerchantID r = (case aq_PortalMerchantID r of None \<Rightarrow> [] | Some i \<Rightarrow> i)"

definition PortalAuth :: "handler \<Rightarrow> handler" where
  "PortalAuth next r =
     (if aq_Authorization r = [] \<or> \<not> has_prefix (aq_Authorization r) Bearer
      then respondError r 401 ''1002'' ''Authentication failed''
      else do {
        s \<leftarrow> Session_GetByToken (drop (length Bearer) (aq_Authorization r));
        (case s of
           Inl err \<Rightarrow> respondError r 401 ''1002'' ''Invalid or expired session''
         | Inr session \<Rightarrow> next (r\<lparr>aq_PortalUserID := Some (ss_UserID session),
             aq_PortalMerchantID := Some (ss_MerchantID session)\<rparr>)) })"

definition session_lifetime :: int where "session_lifetime = 24 * Hour"

definition new_session :: "string \<Rightarrow> session go" where
  "new_session userID = do {
     i \<leftarrow> uuid_New;
     t \<leftarrow> uuid_New;
     e \<leftarrow> time_Now;
     c \<leftarrow> time_Now;
     ret \<lparr>ss_ID = i, ss_UserID = userID, ss_MerchantID = [], ss_Token = t, ss_ExpiresAt = e + session_lifetime,
       ss_CreatedAt = c\<rparr> }"

definition decode_credentials :: "fields \<Rightarrow> (string \<times> string) option" where
  "decode_credentials fs = do { e \<leftarrow> dec_string ''email'' fs; p \<leftarrow> dec_string ''password'' fs; Some (e, p) }"

definition Login :: handler where
  "Login r = with_body r decode_credentials ''Email and password are required'' (\<lambda>(email, password).
     if email = [] \<or> password = [] then respondPortalError r 400 ''1001'' ''Email and password are required''
     else do {
       u \<leftarrow> User_GetByEmailGlobal email;
       (case u of
          Inl err \<Rightarrow> respondPortalError r 401 ''1002'' ''Invalid email or password''
        | Inr user \<Rightarrow> do {
            matches \<leftarrow> bcrypt_Compare (us_PasswordHash user) password;
            if \<not> matches then respondPortalError r 401 ''1002'' ''Invalid email or password''
            else do {
              Session_DeleteByUserID (us_ID user);
              session \<leftarrow> new_session (us_ID user);
              x \<leftarrow> Session_Create session;
              (case x of
                 Inl err \<Rightarrow> respondPortalError r 500 ''1007'' ''Internal error''
               | Inr _ \<Rightarrow> do {
                   m \<leftarrow> Merchant_GetByID (us_MerchantID user);
                   (case m of
                      Inl err \<Rightarrow> respondPortalError r 500 ''1007'' ''Internal error''
                    | Inr merchant \<Rightarrow> do {
                        pr \<leftarrow> printers;
                        respond r 200 (JObj [(''token'', JStr (ss_Token session)), (''user'', user_json user),
                          (''workspace'', workspace_json pr merchant)]) }) }) } }) })"

subsection \<open>Sign-up\<close>

definition decode_signup :: "fields \<Rightarrow> signup_data option" where
  "decode_signup fs = do {
     name \<leftarrow> dec_string ''name'' fs;
     role \<leftarrow> dec_string ''role'' fs;
     email \<leftarrow> dec_string ''email'' fs;
     company \<leftarrow> dec_string ''company'' fs;
     country \<leftarrow> dec_string ''country'' fs;
     currency \<leftarrow> dec_string ''currency'' fs;
     phone \<leftarrow> dec_string ''phone'' fs;
     password \<leftarrow> dec_string ''password'' fs;
     Some \<lparr>sd_Name = name, sd_Role = role, sd_Email = email, sd_Company = company, sd_Country = country,
       sd_Currency = currency, sd_Phone = phone, sd_Password = password\<rparr> }"

definition SendOTP :: "portal \<Rightarrow> handler" where
  "SendOTP h r = with_body r decode_signup ''Phone is required'' (\<lambda>data.
     if sd_Phone data = [] then respondPortalError r 400 ''1001'' ''Phone is required''
     else do {
       e \<leftarrow> otp_get (sd_Phone data);
       if e \<noteq> None then respondPortalError r 429 ''1001'' ''OTP already sent, please wait''
       else do {
         n \<leftarrow> otpCode;
         let code = pad6 n;
         otp_set (sd_Phone data) code data;
         (case ph_SMS h of
            None \<Rightarrow> ret (Inr ())
          | Some s \<Rightarrow> sms_send s (sd_Phone data) (''Your verification code is: '' @ code));
         respond r 200 success_json } })"

definition or_default :: "string \<Rightarrow> string \<Rightarrow> string" where
  "or_default s d = (if s = [] then d else s)"

text \<open>The merchant of a new user: the one that invited the address, or a new one.\<close>

definition signup_merchant :: "signup_data \<Rightarrow> (string + bool \<times> string) go" where
  "signup_merchant data = do {
     inv \<leftarrow> Invitation_GetByEmailGlobal (sd_Email data);
     (case inv of
        Inr i \<Rightarrow> ret (Inr (iv_MerchantID i \<noteq> [], iv_MerchantID i))
      | Inl err \<Rightarrow> do {
          mid \<leftarrow> uuid_New;
          code \<leftarrow> generateMerchantCode;
          (case code of
             None \<Rightarrow> ret (Inl ''Internal error'')
           | Some c \<Rightarrow> do {
               now \<leftarrow> time_Now;
               x \<leftarrow> Merchant_Create \<lparr>mch_ID = mid, mch_Code = c, mch_LegalName = sd_Company data,
                 mch_Country = or_default (sd_Country data) ''KE'', mch_DefaultCurrency = or_default (sd_Currency data) ''KES'',
                 mch_Status = MerchantActive, mch_SettlementConfig = NilBytes, mch_CreatedAt = now\<rparr>;
               (case x of Inl err2 \<Rightarrow> ret (Inl ''Failed to create workspace'') | Inr _ \<Rightarrow> ret (Inr (False, mid))) }) }) }"

text \<open>The team member an invited user becomes; errors are only logged.\<close>

definition join_team :: "user \<Rightarrow> unit go" where
  "join_team u = do {
     i \<leftarrow> uuid_New;
     now \<leftarrow> time_Now;
     Member_Create \<lparr>mb_ID = i, mb_MerchantID = us_MerchantID u, mb_UserID = us_ID u, mb_Name = us_Name u,
       mb_Email = us_Email u, mb_Role = us_Role u, mb_LastActive = None, mb_Initials = memberInitials (us_Name u),
       mb_CreatedAt = now\<rparr>;
     Invitation_DeleteByEmail (us_MerchantID u) (us_Email u);
     ret () }"

definition signup_session :: "api_request \<Rightarrow> user \<Rightarrow> api_response option go" where
  "signup_session r user = do {
     m \<leftarrow> Merchant_GetByID (us_MerchantID user);
     (case m of
        Inl err \<Rightarrow> respondPortalError r 500 ''1007'' ''Internal error''
      | Inr merchant \<Rightarrow> do {
          session \<leftarrow> new_session (us_ID user);
          x \<leftarrow> Session_Create session;
          (case x of
             Inl err \<Rightarrow> respond r 200 success_json
           | Inr _ \<Rightarrow> do {
               pr \<leftarrow> printers;
               respond r 200 (JObj [(''merchant'', workspace_json pr merchant), (''token'', JStr (ss_Token session)),
                 (''user'', user_json user), (''workspace'', workspace_json pr merchant)]) }) }) }"

definition signup_user :: "api_request \<Rightarrow> signup_data \<Rightarrow> bool \<Rightarrow> string \<Rightarrow> api_response option go" where
  "signup_user r data invited mid = do {
     hash \<leftarrow> bcrypt_Generate (sd_Password data);
     (case hash of
        None \<Rightarrow> respondPortalError r 500 ''1007'' ''Internal error''
      | Some h \<Rightarrow> do {
          let role = or_default (sd_Role data) ''owner'';
          i \<leftarrow> uuid_New;
          now \<leftarrow> time_Now;
          let user = \<lparr>us_ID = i, us_MerchantID = mid, us_Name = sd_Name data, us_Email = sd_Email data,
            us_PasswordHash = h, us_Title = title_of role, us_Phone = sd_Phone data, us_Role = role, us_CreatedAt = now\<rparr>;
          x \<leftarrow> User_Create user;
          (case x of
             Inl err \<Rightarrow> respondPortalError r 500 ''1007'' ''Failed to create user''
           | Inr _ \<Rightarrow> do {
               (if invited then join_team user else ret ());
               signup_session r user }) }) }"

definition decode_signup_otp :: "fields \<Rightarrow> (signup_data \<times> string) option" where
  "decode_signup_otp fs = do { data \<leftarrow> decode_signup fs; otp \<leftarrow> dec_string ''otp'' fs; Some (data, otp) }"

definition Signup :: handler where
  "Signup r = with_body r decode_signup_otp ''Invalid signup data'' (\<lambda>(data, otp).
     if sd_Name data = [] \<or> sd_Email data = [] \<or> sd_Password data = [] \<or> sd_Phone data = [] \<or> otp = []
     then respondPortalError r 400 ''1001'' ''Name, email, password, phone and otp are required''
     else if CHR ''@'' \<notin> set (sd_Email data) \<or> CHR ''.'' \<notin> set (sd_Email data)
     then respondPortalError r 400 ''1001'' ''Invalid email address''
     else do {
       e \<leftarrow> otp_get (sd_Phone data);
       (case e of
          None \<Rightarrow> respondPortalError r 400 ''1001'' ''Invalid or expired OTP''
        | Some pending \<Rightarrow>
            if oe_Code pending \<noteq> otp then respondPortalError r 400 ''1001'' ''Invalid or expired OTP''
            else if sd_Email (oe_Data pending) \<noteq> sd_Email data
            then respondPortalError r 400 ''1001'' ''Email does not match OTP request''
            else do {
              otp_delete (sd_Phone data);
              m \<leftarrow> signup_merchant data;
              (case m of
                 Inl msg \<Rightarrow> respondPortalError r 500 ''1007'' msg
               | Inr (invited, mid) \<Rightarrow> signup_user r data invited mid) }) })"

definition ForgotPassword :: handler where
  "ForgotPassword r = with_body r (dec_string ''email'') ''Valid email is required'' (\<lambda>email.
     if email = [] then respondPortalError r 400 ''1001'' ''Valid email is required'' else respond r 200 success_json)"

end
