(* ===== verification/PortalPages.thy ===== *)
theory PortalPages
  imports Portal
begin

section \<open>Merchant portal: dashboard, transactions, payouts, customers (\<open>internal/api/portal.go\<close>)\<close>

text \<open>
  The pages that show a merchant's money and customers, behind \<open>PortalAuth\<close>. An amount is printed
  by \<open>%.2f\<close> of its float64. \<open>ListCustomers\<close> and \<open>ListPayouts\<close> pass the offset of the query
  as it is, so a negative one is refused by the database. A slice made with \<open>make\<close> prints as an
  array even when it is empty.
\<close>

subsection \<open>Texts\<close>

definition middle_dot :: string where "middle_dot = [CHR 0xC2, CHR 0xB7]"
definition bullet :: string where "bullet = [CHR 0xE2, CHR 0x80, CHR 0xA2]"
definition layout_day_minute :: string where "layout_day_minute = ''Jan 2 '' @ middle_dot @ '' 15:04''"
definition layout_date :: string where "layout_date = ''2006-01-02''"
definition layout_RFC3339 :: string where "layout_RFC3339 = ''2006-01-02T15:04:05Z07:00''"

definition amount_text :: "int64 \<Rightarrow> string" where
  "amount_text a = fmt_2f (fl_of_int a)"

fun mapStatus :: "pi_status \<Rightarrow> string" where
  "mapStatus PISucceeded = ''Succeeded''"
| "mapStatus PIFailed = ''Failed''"
| "mapStatus PIRefunded = ''Refunded''"
| "mapStatus PIPartiallyRefunded = ''Refunded''"
| "mapStatus _ = ''Pending''"

definition sum64 :: "int list \<Rightarrow> int64" where
  "sum64 xs = foldl (\<lambda>a x. wrap64 (a + x)) 0 xs"

text \<open>\<open>x, _ := f()\<close>: the zero value on an error.\<close>

definition result_or :: "'a \<Rightarrow> error + 'a \<Rightarrow> 'a" where
  "result_or d r = (case r of Inl err \<Rightarrow> d | Inr x \<Rightarrow> x)"

definition query_raw_offset :: "api_request \<Rightarrow> int64" where
  "query_raw_offset r = ParseInt_value (aq_Query r ''offset'')"

subsection \<open>Dashboard\<close>

definition checklist :: json where
  "checklist = JArr (map (\<lambda>(task, completed). JObj [(''completed'', JBool completed), (''status'', JStr (if completed then ''Done'' else ''Pending'')),
       (''task'', JStr task)])
     [(''Verify business entity'', True), (''Connect payment method'', True), (''Invite team members'', False),
      (''Set up webhook'', False), (''API integration live'', False)])"

definition DashboardOverview :: handler where
  "DashboardOverview r = do {
     let m = getMerchantID r;
     x \<leftarrow> Merchant_GetByID m;
     (case x of
        Inl err \<Rightarrow> respondPortalError r 500 ''1007'' ''Internal error''
      | Inr mch \<Rightarrow> do {
          now \<leftarrow> time_Now;
          rows \<leftarrow> PI_DailyVolume m (day_of now * (24 * Hour));
          let vs = result_or [] rows;
          av \<leftarrow> balance_or_zero (MerchantAvailable m);
          ps \<leftarrow> Payout_ListByMerchant m 100 0;
          let due = filter (\<lambda>p. po_Status p = PayoutPending) (result_or [] ps);
          respond r 200 (JObj [(''checklist'', checklist), (''merchantCode'', JStr (mch_Code mch)),
            (''pendingPayouts'', float_json (fl_of_int (sum64 (map po_Amount due)))),
            (''successfulPayments'', JInt (sum64 (map dv_Successful vs))), (''todayTransactions'', JInt (sum64 (map dv_Count vs))),
            (''todayVolume'', float_json (fl_of_int (sum64 (map dv_Volume vs)))),
            (''treasuryBalance'', float_json (fl_of_int av))]) }) }"

definition volume_days :: "api_request \<Rightarrow> int" where
  "volume_days r = (if aq_Query r ''days'' = [] then 30
     else (case Atoi (aq_Query r ''days'') of None \<Rightarrow> 30 | Some n \<Rightarrow> if 0 < n \<and> n \<le> 365 then n else 30))"

definition DashboardVolume :: handler where
  "DashboardVolume r = do {
     now \<leftarrow> time_Now;
     rows \<leftarrow> PI_DailyVolume (getMerchantID r) (now - volume_days r * (24 * Hour));
     (case rows of
        Inl err \<Rightarrow> respondPortalError r 500 ''1007'' ''Internal error''
      | Inr vs \<Rightarrow> do {
          pr \<leftarrow> printers;
          respond r 200 (JObj [(''daily'', JArr (map (\<lambda>v. JObj [(''count'', JInt (dv_Count v)),
            (''date'', JStr (fst pr layout_date (dv_Date v * (24 * Hour)))), (''failed'', JInt (dv_Failed v)),
            (''successful'', JInt (dv_Successful v)), (''volume'', float_json (fl_of_int (dv_Volume v)))]) vs))]) }) }"

subsection \<open>Transactions\<close>

definition query_date :: "api_request \<Rightarrow> string \<Rightarrow> time option" where
  "query_date r key = (if aq_Query r key = [] then None else parse_RFC3339 (aq_Query r key))"

definition query_filter :: "api_request \<Rightarrow> int \<Rightarrow> int \<Rightarrow> transaction_filter" where
  "query_filter r limit offset = \<lparr>tf_Status = aq_Query r ''status'', tf_Method = aq_Query r ''method'',
     tf_DateFrom = query_date r ''date_from'', tf_DateTo = query_date r ''date_to'', tf_Limit = limit, tf_Offset = offset\<rparr>"

definition transaction_json :: "printers \<Rightarrow> payment_intent \<Rightarrow> json" where
  "transaction_json pr p = JObj [(''amount'', JStr (amount_text (pi_Amount p))), (''counterparty'', JStr (pi_CustomerRef p)),
     (''currency'', JStr (pi_Currency p)), (''date'', JStr (fst pr layout_day_minute (pi_CreatedAt p))), (''id'', JStr (pi_ID p)),
     (''method'', JStr (pi_Method p)), (''status'', JStr (mapStatus (pi_Status p)))]"

definition PortalListTransactions :: handler where
  "PortalListTransactions r = do {
     x \<leftarrow> PI_ListByMerchantFiltered (getMerchantID r) (query_filter r (query_limit r) (query_raw_offset r));
     (case x of
        Inl err \<Rightarrow> respondPortalError r 500 ''1007'' ''Internal error''
      | Inr ps \<Rightarrow> do { pr \<leftarrow> printers; respond r 200 (JObj [(''transactions'', JArr (map (transaction_json pr) ps))]) }) }"

definition csv_header :: "string list" where
  "csv_header = [''ID'', ''Date'', ''Amount'', ''Currency'', ''Method'', ''Status'', ''Customer'', ''Email'', ''Phone'']"

definition csv_line :: "printers \<Rightarrow> payment_intent \<Rightarrow> string list" where
  "csv_line pr p = [pi_ID p, fst pr layout_RFC3339 (pi_CreatedAt p), amount_text (pi_Amount p), pi_Currency p, pi_Method p,
     mapStatus (pi_Status p), pi_CustomerRef p, pi_CustomerEmail p, pi_CustomerPhone p]"

definition ExportTransactionsCSV :: handler where
  "ExportTransactionsCSV r = do {
     x \<leftarrow> PI_ListByMerchantFiltered (getMerchantID r) (query_filter r 5000 0);
     (case x of
        Inl err \<Rightarrow> respondPortalError r 500 ''1007'' ''Internal error''
      | Inr ps \<Rightarrow> do {
          pr \<leftarrow> printers;
          ret (Some \<lparr>rp_Status = 200,
            rp_Header = [(''Content-Type'', ''text/csv''), (''Content-Disposition'', ''attachment; filename=transactions.csv'')],
            rp_Body = TextBody (csv_rows (csv_header # map (csv_line pr) ps))\<rparr>) }) }"

definition attempt_json :: "printers \<Rightarrow> attempt \<Rightarrow> json" where
  "attempt_json pr a = JObj [(''createdAt'', time_json pr (att_CreatedAt a)), (''id'', JStr (att_ID a)), (''psp'', JStr (att_PSP a)),
     (''pspReference'', JStr (att_PSPReference a)), (''pspTransactionId'', JStr (att_PSPTransactionID a)),
     (''sequenceNo'', JInt (att_SequenceNo a)), (''status'', JStr (attempt_status_str (att_Status a))),
     (''updatedAt'', time_json pr (att_UpdatedAt a))]"

definition time_option_json :: "printers \<Rightarrow> time option \<Rightarrow> json" where
  "time_option_json pr t = (case t of None \<Rightarrow> JNull | Some x \<Rightarrow> time_json pr x)"

definition GetTransaction :: handler where
  "GetTransaction r = do {
     x \<leftarrow> PI_GetByID (aq_Param r ''id'');
     (case x of
        Inl err \<Rightarrow> respondPortalError r 404 ''1003'' ''Transaction not found''
      | Inr p \<Rightarrow>
          if pi_MerchantID p \<noteq> getMerchantID r then respondPortalError r 404 ''1003'' ''Transaction not found''
          else do {
            as \<leftarrow> Attempt_ListByPaymentIntent (aq_Param r ''id'');
            pr \<leftarrow> printers;
            respond r 200 (JObj [(''amount'', JInt (pi_Amount p)),
              (''attempts'', JArr (map (attempt_json pr) (result_or [] as))), (''createdAt'', time_json pr (pi_CreatedAt p)),
              (''currency'', JStr (pi_Currency p)), (''customerEmail'', JStr (pi_CustomerEmail p)),
              (''customerPhone'', JStr (pi_CustomerPhone p)), (''customerRef'', JStr (pi_CustomerRef p)),
              (''expiresAt'', time_option_json pr (pi_ExpiresAt p)), (''id'', JStr (pi_ID p)),
              (''metadata'', bytes_json pr (pi_Metadata p)), (''method'', JStr (pi_Method p)),
              (''status'', JStr (mapStatus (pi_Status p))), (''updatedAt'', time_json pr (pi_UpdatedAt p))]) }) }"

subsection \<open>Payouts\<close>

fun payout_label :: "payout_status \<Rightarrow> string" where
  "payout_label PayoutSucceeded = ''Succeeded''"
| "payout_label PayoutFailed = ''Failed''"
| "payout_label PayoutPending = ''Pending''"

definition payout_view :: "printers \<Rightarrow> payout \<Rightarrow> json" where
  "payout_view pr p = JObj [(''amount'', JStr (amount_text (po_Amount p))), (''bank'', JStr (po_Rail p)),
     (''currency'', JStr (po_Currency p)), (''date'', JStr (fst pr layout_day_minute (po_CreatedAt p))),
     (''destination'', JStr (''Bank '' @ middle_dot @ '' '' @ po_Rail p)), (''id'', JStr (po_ID p)),
     (''source'', JStr (''Operating '' @ middle_dot @ '' '' @ po_Currency p)), (''status'', JStr (payout_label (po_Status p)))]"

definition PortalListPayouts :: handler where
  "PortalListPayouts r = do {
     x \<leftarrow> Payout_ListByMerchant (getMerchantID r) (query_limit r) (query_raw_offset r);
     (case x of
        Inl err \<Rightarrow> respondPortalError r 500 ''1007'' ''Internal error''
      | Inr ps \<Rightarrow> do { pr \<leftarrow> printers; respond r 200 (JObj [(''payouts'', JArr (map (payout_view pr) ps))]) }) }"

record payout_body =
  pb_Source :: string
  pb_Bank :: string
  pb_Routing :: string
  pb_Account :: string
  pb_Amount :: float64
  pb_Currency :: string
  pb_Description :: string

definition decode_payout :: "fields \<Rightarrow> payout_body option" where
  "decode_payout fs = do {
     s \<leftarrow> dec_string ''source'' fs;
     b \<leftarrow> dec_string ''bank'' fs;
     ro \<leftarrow> dec_string ''routing'' fs;
     a \<leftarrow> dec_string ''account'' fs;
     x \<leftarrow> dec_float ''amount'' fs;
     c \<leftarrow> dec_string ''currency'' fs;
     d \<leftarrow> dec_string ''description'' fs;
     Some \<lparr>pb_Source = s, pb_Bank = b, pb_Routing = ro, pb_Account = a, pb_Amount = x, pb_Currency = c, pb_Description = d\<rparr> }"

definition last4 :: "string \<Rightarrow> string" where
  "last4 s = (if 4 < length s then drop (length s - 4) s else s)"

definition CreatePayout :: handler where
  "CreatePayout r = with_body r decode_payout ''Invalid payout data'' (\<lambda>q.
     if fst (pb_Amount q) \<le> 0 then respondPortalError r 400 ''1001'' ''Amount must be greater than zero''
     else do {
       i \<leftarrow> uuid_New;
       t1 \<leftarrow> time_Now;
       t2 \<leftarrow> time_Now;
       let po = \<lparr>po_ID = i, po_MerchantID = getMerchantID r, po_Amount = fl_int (pb_Amount q),
         po_Currency = or_default (pb_Currency q) ''KES'', po_Rail = pb_Bank q, po_Status = PayoutPending, po_PSPReference = None,
         po_CreatedAt = t1, po_UpdatedAt = t2\<rparr>;
       x \<leftarrow> Payout_Create po;
       (case x of
          Inl err \<Rightarrow> respondPortalError r 500 ''1007'' ''Failed to create payout''
        | Inr _ \<Rightarrow> do {
            pr \<leftarrow> printers;
            respond r 200 (JObj [(''amount'', JStr (fmt_2f (pb_Amount q))), (''bank'', JStr (pb_Bank q)),
              (''currency'', JStr (po_Currency po)), (''date'', JStr (fst pr layout_day_minute (po_CreatedAt po))),
              (''destination'', JStr (pb_Bank q @ '' '' @ bullet @ bullet @ bullet @ bullet @ '' '' @ last4 (pb_Account q))),
              (''id'', JStr (po_ID po)), (''source'', JStr (pb_Source q)), (''status'', JStr ''Pending'')]) }) })"

subsection \<open>Customers\<close>

definition hundredths_text :: "int64 \<Rightarrow> string" where
  "hundredths_text a = fmt_2f (fl_div (fl_of_int a) 100)"

definition formatCustomer :: "printers \<Rightarrow> customer \<Rightarrow> json" where
  "formatCustomer pr c = JObj [(''company'', JStr (cu_Company c)), (''email'', JStr (cu_Email c)), (''id'', JStr (cu_ID c)),
     (''joined'', JStr (fst pr ''Jan 2, 2006'' (cu_JoinedAt c))), (''location'', JStr (cu_Location c)),
     (''ltv'', JStr (hundredths_text (cu_LTVMinor c))), (''name'', JStr (cu_Name c)), (''paymentMethod'', JStr (cu_PaymentMethod c)),
     (''phone'', JStr (cu_Phone c)), (''status'', JStr (cu_Status c)), (''volume'', JStr (hundredths_text (cu_VolumeMinor c)))]"

definition ListCustomers :: handler where
  "ListCustomers r = do {
     x \<leftarrow> Customer_ListByMerchant (getMerchantID r) (aq_Query r ''search'') (aq_Query r ''status'') (query_limit r) (query_raw_offset r);
     (case x of
        Inl err \<Rightarrow> respondPortalError r 500 ''1007'' ''Internal error''
      | Inr cs \<Rightarrow> do { pr \<leftarrow> printers; respond r 200 (JObj [(''customers'', JArr (map (formatCustomer pr) cs))]) }) }"

record customer_body =
  cb1_Name :: string
  cb1_Company :: string
  cb1_Email :: string
  cb1_Phone :: string
  cb1_Location :: string
  cb1_InitialVolume :: float64

definition decode_customer :: "fields \<Rightarrow> customer_body option" where
  "decode_customer fs = do {
     n \<leftarrow> dec_string ''name'' fs;
     c \<leftarrow> dec_string ''company'' fs;
     e \<leftarrow> dec_string ''email'' fs;
     p \<leftarrow> dec_string ''phone'' fs;
     l \<leftarrow> dec_string ''location'' fs;
     v \<leftarrow> dec_float ''initialVolume'' fs;
     Some \<lparr>cb1_Name = n, cb1_Company = c, cb1_Email = e, cb1_Phone = p, cb1_Location = l, cb1_InitialVolume = v\<rparr> }"

definition CreateCustomer :: handler where
  "CreateCustomer r = with_body r decode_customer ''Invalid customer data'' (\<lambda>q.
     if cb1_Email q = [] then respondPortalError r 400 ''1001'' ''Email is required''
     else do {
       i \<leftarrow> uuid_New;
       t1 \<leftarrow> time_Now;
       t2 \<leftarrow> time_Now;
       let c = \<lparr>cu_ID = i, cu_MerchantID = getMerchantID r, cu_Name = cb1_Name q, cu_Company = cb1_Company q,
         cu_Email = cb1_Email q, cu_Phone = cb1_Phone q, cu_Location = cb1_Location q,
         cu_VolumeMinor = fl_int (fl_scale (cb1_InitialVolume q) 100), cu_LTVMinor = 0, cu_Status = ''Active'',
         cu_PaymentMethod = [], cu_JoinedAt = t1, cu_CreatedAt = t2\<rparr>;
       x \<leftarrow> Customer_Create c;
       (case x of
          Inl err \<Rightarrow> respondPortalError r 400 ''1001'' ''Duplicate or invalid customer''
        | Inr _ \<Rightarrow> do { pr \<leftarrow> printers; respond r 200 (formatCustomer pr c) }) })"

definition GetCustomer :: handler where
  "GetCustomer r = do {
     x \<leftarrow> Customer_GetByID (aq_Param r ''id'');
     (case x of
        Inl err \<Rightarrow> respondPortalError r 404 ''1003'' ''Customer not found''
      | Inr c \<Rightarrow>
          if cu_MerchantID c \<noteq> getMerchantID r then respondPortalError r 404 ''1003'' ''Customer not found''
          else do { pr \<leftarrow> printers; respond r 200 (formatCustomer pr c) }) }"

text \<open>The loop over the intents: those of other customers are passed over, the first \<open>offset\<close> of the
  customer's are skipped, and the loop breaks when \<open>limit\<close> charges are collected.\<close>

fun charge_loop :: "string \<Rightarrow> int \<Rightarrow> int \<Rightarrow> int \<Rightarrow> payment_intent list \<Rightarrow> payment_intent list \<Rightarrow> payment_intent list" where
  "charge_loop cid limit offset skipped charges [] = charges"
| "charge_loop cid limit offset skipped charges (p # ps) =
     (if pi_CustomerRef p \<noteq> cid then charge_loop cid limit offset skipped charges ps
      else if skipped < offset then charge_loop cid limit offset (skipped + 1) charges ps
      else if limit \<le> int (length charges) then charges
      else charge_loop cid limit offset skipped (charges @ [p]) ps)"

definition charge_json :: "printers \<Rightarrow> payment_intent \<Rightarrow> json" where
  "charge_json pr p = JObj [(''amount'', JStr (amount_text (pi_Amount p))), (''currency'', JStr (pi_Currency p)),
     (''date'', JStr (fst pr layout_day_minute (pi_CreatedAt p))), (''id'', JStr (pi_ID p)), (''method'', JStr (pi_Method p)),
     (''status'', JStr (mapStatus (pi_Status p)))]"

definition GetCustomerCharges :: handler where
  "GetCustomerCharges r = do {
     x \<leftarrow> PI_ListByMerchant (getMerchantID r) 500 0;
     (case x of
        Inl err \<Rightarrow> respondPortalError r 500 ''1007'' ''Internal error''
      | Inr ps \<Rightarrow> do {
          pr \<leftarrow> printers;
          respond r 200 (JObj [(''charges'', JArr (map (charge_json pr)
            (charge_loop (aq_Param r ''id'') (query_limit r) (query_raw_offset r) 0 [] ps)))]) }) }"

text \<open>The loop is a page of the customer's intents.\<close>

lemma charge_loop_page:
  "0 \<le> limit \<Longrightarrow> int (length charges) \<le> limit \<Longrightarrow> charge_loop cid limit offset skipped charges ps =
     charges @ take (nat limit - length charges) (drop (nat (offset - skipped)) (filter (\<lambda>p. pi_CustomerRef p = cid) ps))"
proof (induction cid limit offset skipped charges ps rule: charge_loop.induct)
  case (2 cid limit offset skipped charges p ps)
  show ?case
  proof (cases "pi_CustomerRef p = cid \<and> skipped < offset")
    case True
    then have "nat (offset - skipped) = Suc (nat (offset - (skipped + 1)))" by arith
    then show ?thesis using 2 True by simp
  next
    case False
    show ?thesis
    proof (cases "pi_CustomerRef p = cid \<and> int (length charges) < limit")
      case True
      then have "nat limit - length charges = Suc (nat limit - Suc (length charges))" by arith
      then show ?thesis using 2 True False by simp
    next
      case False
      then show ?thesis using 2 \<open>\<not> (pi_CustomerRef p = cid \<and> skipped < offset)\<close> by auto
    qed
  qed
qed simp

lemma export_limit: "filter_limit (query_filter r 5000 0) = 20"
  by (simp add: filter_limit_def query_filter_def)

end
