(* ===== verification/PortalAdmin.thy ===== *)
theory PortalAdmin
  imports PortalPages
begin

section \<open>Merchant portal: team, keys, webhooks, settings (\<open>internal/api/portal.go\<close>)\<close>

text \<open>
  The pages that manage a merchant's team, API keys, webhook endpoints, notifications and profile,
  and the table of the portal's endpoints with the middleware they run behind.
\<close>

subsection \<open>Team\<close>

definition layout_day :: string where "layout_day = ''Jan 2''"
definition layout_long_day :: string where "layout_long_day = ''Jan 2, 2006''"

definition member_json :: "printers \<Rightarrow> team_member \<Rightarrow> json" where
  "member_json pr m = JObj [(''email'', JStr (mb_Email m)), (''initials'', JStr (mb_Initials m)),
     (''last'', JStr (case mb_LastActive m of None \<Rightarrow> ''Never'' | Some t \<Rightarrow> fst pr layout_day t)), (''name'', JStr (mb_Name m)),
     (''role'', JStr (mb_Role m))]"

definition ListTeamMembers :: handler where
  "ListTeamMembers r = do {
     x \<leftarrow> Member_ListByMerchant (getMerchantID r);
     (case x of
        Inl err \<Rightarrow> respondPortalError r 500 ''1007'' ''Internal error''
      | Inr ms \<Rightarrow> do { pr \<leftarrow> printers; respond r 200 (JObj [(''members'', JArr (map (member_json pr) ms))]) }) }"

definition invitation_json :: "printers \<Rightarrow> team_invitation \<Rightarrow> json" where
  "invitation_json pr i = JObj [(''email'', JStr (iv_Email i)), (''invited'', JStr (fst pr layout_day (iv_CreatedAt i))),
     (''role'', JStr (iv_Role i))]"

definition ListInvitations :: handler where
  "ListInvitations r = do {
     x \<leftarrow> Invitation_ListByMerchant (getMerchantID r);
     (case x of
        Inl err \<Rightarrow> respondPortalError r 500 ''1007'' ''Internal error''
      | Inr ivs \<Rightarrow> do { pr \<leftarrow> printers; respond r 200 (JObj [(''invitations'', JArr (map (invitation_json pr) ivs))]) }) }"

definition invitation_lifetime :: int where "invitation_lifetime = 7 * (24 * Hour)"

definition decode_invite :: "fields \<Rightarrow> (string \<times> string) option" where
  "decode_invite fs = do { e \<leftarrow> dec_string ''email'' fs; ro \<leftarrow> dec_string ''role'' fs; Some (e, ro) }"

definition InviteMember :: handler where
  "InviteMember r = with_body r decode_invite ''Email and role are required'' (\<lambda>(email, role).
     if email = [] \<or> role = [] then respondPortalError r 400 ''1001'' ''Email and role are required''
     else do {
       m \<leftarrow> Member_GetByEmail (getMerchantID r) email;
       (case m of
          Inr _ \<Rightarrow> respondPortalError r 400 ''1001'' ''User is already a team member''
        | Inl err1 \<Rightarrow> do {
            old \<leftarrow> Invitation_GetByEmail (getMerchantID r) email;
            (case old of
               Inr _ \<Rightarrow> respondPortalError r 400 ''1001'' ''Invitation already sent''
             | Inl err2 \<Rightarrow> do {
                 i \<leftarrow> uuid_New;
                 t \<leftarrow> uuid_New;
                 e \<leftarrow> time_Now;
                 c \<leftarrow> time_Now;
                 let iv = \<lparr>iv_ID = i, iv_MerchantID = getMerchantID r, iv_Email = email, iv_Role = role, iv_Token = t,
                   iv_ExpiresAt = e + invitation_lifetime, iv_CreatedAt = c\<rparr>;
                 x \<leftarrow> Invitation_Create iv;
                 (case x of
                    Inl err3 \<Rightarrow> respondPortalError r 500 ''1007'' ''Failed to send invitation''
                  | Inr _ \<Rightarrow> do { pr \<leftarrow> printers; respond r 200 (invitation_json pr iv) }) }) }) })"

definition ResendInvitation :: handler where
  "ResendInvitation r = do {
     x \<leftarrow> Invitation_GetByEmail (getMerchantID r) (aq_Param r ''email'');
     (case x of
        Inl err \<Rightarrow> respondPortalError r 404 ''1003'' ''No active invitation found''
      | Inr iv \<Rightarrow> do {
          t \<leftarrow> uuid_New;
          e \<leftarrow> time_Now;
          c \<leftarrow> time_Now;
          y \<leftarrow> Invitation_Upsert (iv\<lparr>iv_Token := t, iv_ExpiresAt := e + invitation_lifetime, iv_CreatedAt := c\<rparr>);
          (case y of
             Inl err \<Rightarrow> respondPortalError r 500 ''1007'' ''Failed to resend''
           | Inr _ \<Rightarrow> respond r 200 success_json) }) }"

definition RevokeInvitation :: handler where
  "RevokeInvitation r = do {
     x \<leftarrow> Invitation_DeleteByEmail (getMerchantID r) (aq_Param r ''email'');
     (case x of
        Inl err \<Rightarrow> respondPortalError r 404 ''1003'' ''No invitation found''
      | Inr _ \<Rightarrow> respond r 200 success_json) }"

definition AcceptInvitation :: handler where
  "AcceptInvitation r = do {
     x \<leftarrow> Invitation_GetByToken (aq_Param r ''token'');
     (case x of
        Inl err \<Rightarrow> respondPortalError r 404 ''1003'' ''Invitation not found or expired''
      | Inr iv \<Rightarrow> do {
          y \<leftarrow> User_GetByID (getUserID r);
          (case y of
             Inl err \<Rightarrow> respondPortalError r 500 ''1007'' ''Internal error''
           | Inr user \<Rightarrow>
               if us_Email user \<noteq> iv_Email iv
               then respondPortalError r 403 ''1004'' ''This invitation is for a different email address''
               else do {
                 i \<leftarrow> uuid_New;
                 now \<leftarrow> time_Now;
                 z \<leftarrow> Member_Create \<lparr>mb_ID = i, mb_MerchantID = iv_MerchantID iv, mb_UserID = us_ID user, mb_Name = us_Name user,
                   mb_Email = us_Email user, mb_Role = iv_Role iv, mb_LastActive = None,
                   mb_Initials = memberInitials (us_Name user), mb_CreatedAt = now\<rparr>;
                 (case z of
                    Inl err \<Rightarrow> respondPortalError r 500 ''1007'' ''Failed to accept invitation''
                  | Inr _ \<Rightarrow> do {
                      Invitation_DeleteByEmail (iv_MerchantID iv) (iv_Email iv);
                      respond r 200 success_json }) }) }) }"

subsection \<open>API keys\<close>

definition key_json :: "printers \<Rightarrow> api_key \<Rightarrow> json" where
  "key_json pr k = JObj [(''createdAt'', JStr (fst pr layout_long_day (ak_CreatedAt k))), (''environment'', JStr (ak_Environment k)),
     (''id'', JStr (ak_ID k)), (''name'', JStr (ak_Name k)), (''prefix'', JStr (ak_KeyPrefix k))]"

definition PortalListAPIKeys :: handler where
  "PortalListAPIKeys r = do {
     x \<leftarrow> Merchant_ListAPIKeys (getMerchantID r);
     (case x of
        Inl err \<Rightarrow> respondPortalError r 500 ''1007'' ''Internal error''
      | Inr ks \<Rightarrow> do { pr \<leftarrow> printers; respond r 200 (JObj [(''keys'', JArr (map (key_json pr) ks))]) }) }"

definition decode_key :: "fields \<Rightarrow> (string \<times> string \<times> string) option" where
  "decode_key fs = do { n \<leftarrow> dec_string ''name'' fs; e \<leftarrow> dec_string ''env'' fs; t \<leftarrow> dec_string ''type'' fs; Some (n, e, t) }"

text \<open>The key as the client gets it, of 24 random bytes.\<close>

definition raw_key :: "string \<Rightarrow> string \<Rightarrow> nat list \<Rightarrow> string" where
  "raw_key env ty bs = (if ty = ''Publishable'' then ''pk'' else ''sk'') @ ''_'' @ env @ ''_'' @ hex (map char_of bs)"

definition PortalCreateAPIKey :: handler where
  "PortalCreateAPIKey r = with_body r decode_key ''Key name is required'' (\<lambda>(name, env, ty).
     if name = [] then respondPortalError r 400 ''1001'' ''Key name is required''
     else do {
       let env = or_default env ''live'';
       b \<leftarrow> rand_Read 24;
       (case b of
          None \<Rightarrow> respondPortalError r 500 ''1007'' ''Internal error''
        | Some bs \<Rightarrow> do {
            let raw = raw_key env ty bs;
            i \<leftarrow> uuid_New;
            now \<leftarrow> time_Now;
            let key = \<lparr>ak_ID = i, ak_MerchantID = getMerchantID r, ak_Name = name, ak_KeyHash = hex (sha256 raw),
              ak_KeyPrefix = (if 12 < length raw then take 12 raw else raw), ak_Environment = env, ak_CreatedAt = now\<rparr>;
            x \<leftarrow> Merchant_CreateAPIKey key;
            (case x of
               Inl err \<Rightarrow> respondPortalError r 500 ''1007'' ''Failed to create API key''
             | Inr _ \<Rightarrow> do {
                 pr \<leftarrow> printers;
                 respond r 200 (JObj [(''createdAt'', JStr (fst pr layout_long_day (ak_CreatedAt key))),
                   (''environment'', JStr (ak_Environment key)), (''id'', JStr (ak_ID key)), (''key'', JStr raw),
                   (''name'', JStr (ak_Name key)), (''prefix'', JStr (ak_KeyPrefix key))]) }) }) })"

definition RevokeAPIKey :: handler where
  "RevokeAPIKey r = do {
     x \<leftarrow> Merchant_DeleteAPIKey (aq_Param r ''id'') (getMerchantID r);
     (case x of
        Inl err \<Rightarrow> respondPortalError r 500 ''1007'' ''Internal error''
      | Inr _ \<Rightarrow> respond r 200 success_json) }"

subsection \<open>Webhook endpoints, events and deliveries\<close>

definition endpoint_json :: "webhook_endpoint \<Rightarrow> json" where
  "endpoint_json e = JObj [(''events'', JInt (ep_Events e)), (''id'', JStr (ep_ID e)), (''status'', JStr (ep_Status e)),
     (''url'', JStr (ep_URL e))]"

definition ListWebhookEndpoints :: handler where
  "ListWebhookEndpoints r = do {
     x \<leftarrow> Endpoint_ListByMerchant (getMerchantID r);
     (case x of
        Inl err \<Rightarrow> respondPortalError r 500 ''1007'' ''Internal error''
      | Inr es \<Rightarrow> respond r 200 (JObj [(''webhooks'', JArr (map endpoint_json es))])) }"

definition decode_endpoint :: "fields \<Rightarrow> (string \<times> string) option" where
  "decode_endpoint fs = do { u \<leftarrow> dec_string ''url'' fs; s \<leftarrow> dec_string ''status'' fs; Some (u, s) }"

definition CreateWebhookEndpoint :: handler where
  "CreateWebhookEndpoint r = with_body r decode_endpoint ''URL is required'' (\<lambda>(url, status).
     if url = [] then respondPortalError r 400 ''1001'' ''URL is required''
     else do {
       i \<leftarrow> uuid_New;
       now \<leftarrow> time_Now;
       let ep = \<lparr>ep_ID = i, ep_MerchantID = getMerchantID r, ep_URL = url, ep_Events = 0, ep_Status = or_default status ''active'',
         ep_CreatedAt = now\<rparr>;
       x \<leftarrow> Endpoint_Create ep;
       (case x of
          Inl err \<Rightarrow> respondPortalError r 400 ''1001'' ''Invalid URL or duplicate endpoint''
        | Inr _ \<Rightarrow> respond r 200 (endpoint_json ep)) })"

fun webhook_status_str :: "webhook_status \<Rightarrow> string" where
  "webhook_status_str WebhookReceived = ''received''"
| "webhook_status_str WebhookProcessed = ''processed''"
| "webhook_status_str WebhookFailed = ''failed''"
| "webhook_status_str WebhookIgnored = ''ignored''"

definition event_json :: "printers \<Rightarrow> webhook_event_row \<Rightarrow> json" where
  "event_json pr e = JObj [(''eventType'', JStr (we_EventType e)), (''id'', JStr (we_ID e)),
     (''processingStatus'', JStr (webhook_status_str (we_ProcessingStatus e))), (''psp'', JStr (we_PSP e)),
     (''pspReference'', JStr (we_PSPReference e)), (''receivedAt'', time_json pr (we_ReceivedAt e))]"

definition ListWebhookEvents :: handler where
  "ListWebhookEvents r = do {
     x \<leftarrow> WebhookEvent_ListByMerchant (getMerchantID r) 50;
     (case x of
        Inl err \<Rightarrow> respondPortalError r 500 ''1007'' ''Internal error''
      | Inr es \<Rightarrow> do { pr \<leftarrow> printers; respond r 200 (JObj [(''events'', JArr (map (event_json pr) es))]) }) }"

fun delivery_status_str :: "delivery_status \<Rightarrow> string" where
  "delivery_status_str DeliveryPending = ''pending''"
| "delivery_status_str DeliveryDelivered = ''delivered''"
| "delivery_status_str DeliveryFailed = ''failed''"

text \<open>The two numbers are not NULL in a delivery that was scanned.\<close>

definition number_json :: "int option \<Rightarrow> json" where
  "number_json n = JInt (case n of None \<Rightarrow> 0 | Some i \<Rightarrow> i)"

definition delivery_json :: "printers \<Rightarrow> webhook_delivery \<Rightarrow> json" where
  "delivery_json pr d = JObj [(''attempt'', JInt (wd_Attempt d)), (''createdAt'', time_json pr (wd_CreatedAt d)),
     (''durationMs'', number_json (wd_DurationMs d)), (''id'', JStr (wd_ID d)), (''maxAttempts'', JInt (wd_MaxAttempts d)),
     (''nextRetryAt'', time_option_json pr (wd_NextRetryAt d)), (''responseStatus'', number_json (wd_ResponseStatus d)),
     (''status'', JStr (delivery_status_str (wd_Status d))), (''url'', JStr (wd_URL d))]"

definition ListWebhookDeliveries :: handler where
  "ListWebhookDeliveries r = do {
     x \<leftarrow> WebhookEvent_GetByID (aq_Param r ''id'');
     (case x of
        Inl err \<Rightarrow> respondPortalError r 404 ''1003'' ''Webhook event not found''
      | Inr _ \<Rightarrow> do {
          y \<leftarrow> Delivery_ListByEvent (aq_Param r ''id'');
          (case y of
             Inl err \<Rightarrow> respondPortalError r 500 ''1007'' ''Internal error''
           | Inr ds \<Rightarrow> do { pr \<leftarrow> printers; respond r 200 (JObj [(''deliveries'', JArr (map (delivery_json pr) ds))]) }) }) }"

definition RetryWebhookDelivery :: handler where
  "RetryWebhookDelivery r = do {
     x \<leftarrow> Delivery_GetByID (aq_Param r ''deliveryId'');
     (case x of
        Inl err \<Rightarrow> respondPortalError r 404 ''1003'' ''Delivery not found''
      | Inr d \<Rightarrow>
          if wd_Status d \<noteq> DeliveryFailed then respondPortalError r 400 ''1001'' ''Delivery is not in failed state''
          else do {
            y \<leftarrow> Retry (aq_Param r ''deliveryId'');
            (case y of
               Inl err \<Rightarrow> respondPortalError r 500 ''1007'' ''Internal error''
             | Inr _ \<Rightarrow> respond r 200 success_json) }) }"

subsection \<open>Workspace\<close>

definition GetWorkspace :: handler where
  "GetWorkspace r = do {
     x \<leftarrow> Merchant_GetByID (getMerchantID r);
     (case x of
        Inl err \<Rightarrow> respondPortalError r 404 ''1003'' ''Workspace not found''
      | Inr m \<Rightarrow> do { pr \<leftarrow> printers; respond r 200 (workspace_json pr m) }) }"

definition decode_workspace :: "fields \<Rightarrow> (string \<times> string \<times> string) option" where
  "decode_workspace fs = do {
     n \<leftarrow> dec_string ''legalName'' fs;
     c \<leftarrow> dec_string ''country'' fs;
     d \<leftarrow> dec_string ''defaultCurrency'' fs;
     Some (n, c, d) }"

definition UpdateWorkspace :: handler where
  "UpdateWorkspace r = with_body r decode_workspace ''Invalid workspace data'' (\<lambda>(name, country, currency). do {
     x \<leftarrow> Merchant_GetByID (getMerchantID r);
     (case x of
        Inl err \<Rightarrow> respondPortalError r 404 ''1003'' ''Workspace not found''
      | Inr m0 \<Rightarrow> do {
          let m = m0\<lparr>mch_LegalName := or_default name (mch_LegalName m0), mch_Country := or_default country (mch_Country m0),
            mch_DefaultCurrency := or_default currency (mch_DefaultCurrency m0)\<rparr>;
          y \<leftarrow> Merchant_Update m;
          (case y of
             Inl err \<Rightarrow> respondPortalError r 500 ''1007'' ''Failed to update workspace''
           | Inr _ \<Rightarrow> do { pr \<leftarrow> printers; respond r 200 (workspace_json pr m) }) }) })"

subsection \<open>Notifications\<close>

text \<open>\<open>time.Duration\<close>: minutes and hours are floats.\<close>

definition d_in :: "int \<Rightarrow> int64 \<Rightarrow> float64" where
  "d_in unit d = fl_add (fl_of_int (d div unit)) (fl_div (fl_of_int (d mod unit)) (nat unit))"

definition durationAgo :: "int64 \<Rightarrow> string" where
  "durationAgo d =
     (if d < Minute then ''Just now''
      else if d < Hour then
        (let m = fl_int (d_in Minute d) in if m = 1 then ''1 min ago'' else show_int m @ '' min ago'')
      else if d < 24 * Hour then
        (let h = fl_int (d_in Hour d) in if h = 1 then ''1 hour ago'' else show_int h @ '' hours ago'')
      else
        (let n = fl_int (fl_div (d_in Hour d) 24) in if n = 1 then ''Yesterday'' else show_int n @ '' days ago''))"

definition notification_json :: "notification \<Rightarrow> string \<Rightarrow> json" where
  "notification_json n ago = JObj [(''body'', JStr (nt_Body n)), (''category'', JStr (nt_Category n)), (''id'', JStr (nt_ID n)),
     (''time'', JStr ago), (''title'', JStr (nt_Title n)), (''tone'', JStr (nt_Tone n)), (''unread'', JBool (nt_Unread n))]"

fun notification_list :: "notification list \<Rightarrow> json list go" where
  "notification_list [] = ret []"
| "notification_list (n # ns) = do {
     now \<leftarrow> time_Now;
     js \<leftarrow> notification_list ns;
     ret (notification_json n (durationAgo (time_Since now (nt_CreatedAt n))) # js) }"

definition ListNotifications :: handler where
  "ListNotifications r = do {
     x \<leftarrow> Notification_ListByMerchant (getMerchantID r);
     (case x of
        Inl err \<Rightarrow> respondPortalError r 500 ''1007'' ''Internal error''
      | Inr ns \<Rightarrow> do { js \<leftarrow> notification_list ns; respond r 200 (JObj [(''notifications'', JArr js)]) }) }"

definition MarkAllNotificationsRead :: handler where
  "MarkAllNotificationsRead r = do {
     x \<leftarrow> Notification_MarkAllRead (getMerchantID r);
     (case x of
        Inl err \<Rightarrow> respondPortalError r 500 ''1007'' ''Internal error''
      | Inr _ \<Rightarrow> respond r 200 success_json) }"

text \<open>
  A \<open>map[string]any\<close> is the list of its entries, sorted by key, which is also the order in which
  it is printed. Decoding makes every number a float64 and keeps the last of several equal keys.
\<close>

fun put :: "string \<Rightarrow> json \<Rightarrow> fields \<Rightarrow> fields" where
  "put k v [] = [(k, v)]"
| "put k v ((l, x) # m) = (if k = l then (k, v) # m else if k < l then (k, v) # (l, x) # m else (l, x) # put k v m)"

fun as_any :: "json \<Rightarrow> json" where
  "as_any (JInt i) = JFloat (float_of_int i) 0"
| "as_any (JArr xs) = JArr (map as_any xs)"
| "as_any (JObj kvs) = JObj (fold (\<lambda>(k, v). put k v) (map (\<lambda>(k, v). (k, as_any v)) kvs) [])"
| "as_any j = j"

definition any_map :: "fields \<Rightarrow> fields" where
  "any_map kvs = fold (\<lambda>(k, v). put k v) (map (\<lambda>(k, v). (k, as_any v)) kvs) []"

text \<open>Unmarshalling into a nil \<open>map[string]any\<close>: an error and \<open>null\<close> leave it nil (\<open>None\<close>).\<close>

fun decode_map :: "bytes \<Rightarrow> fields option" where
  "decode_map (Doc (JObj kvs)) = Some (any_map kvs)"
| "decode_map _ = None"

definition map_json :: "fields option \<Rightarrow> json" where
  "map_json m = (case m of None \<Rightarrow> JNull | Some kvs \<Rightarrow> JObj kvs)"

definition GetNotificationPreferences :: handler where
  "GetNotificationPreferences r = do {
     x \<leftarrow> Notification_GetPreferences (getMerchantID r);
     (case x of
        Inl err \<Rightarrow> respondPortalError r 500 ''1007'' ''Internal error''
      | Inr p \<Rightarrow>
          (let data = (if np_Preferences p = Doc JNull then None
             else (case decode_map (np_Preferences p) of None \<Rightarrow> Some [] | Some kvs \<Rightarrow> Some kvs))
           in respond r 200 (JObj [(''preferences'', map_json data)]))) }"

function (sequential) deepMerge :: "fields \<Rightarrow> fields \<Rightarrow> fields" where
  "deepMerge dst [] = dst"
| "deepMerge dst ((k, JObj s) # src) =
     deepMerge (put k (case map_of dst k of Some (JObj d) \<Rightarrow> JObj (deepMerge d s) | _ \<Rightarrow> JObj s) dst) src"
| "deepMerge dst ((k, v) # src) = deepMerge (put k v dst) src"
  by pat_completeness auto
termination by (relation "measure (\<lambda>(d, s). size_list (size_prod (\<lambda>_. 0) size) s)") auto

text \<open>Writing to a nil map panics; ranging over an empty one writes nothing.\<close>

definition merge_into :: "fields option \<Rightarrow> fields \<Rightarrow> fields option option" where
  "merge_into dst src = (case dst of Some d \<Rightarrow> Some (Some (deepMerge d src)) | None \<Rightarrow> if src = [] then Some None else None)"

definition UpdateNotificationPreferences :: handler where
  "UpdateNotificationPreferences r = with_body r (\<lambda>fs. Some (any_map fs)) ''Invalid primaryData'' (\<lambda>incoming. do {
     x \<leftarrow> Notification_GetPreferences (getMerchantID r);
     (case merge_into (case x of Inl err \<Rightarrow> Some [] | Inr p \<Rightarrow> decode_map (np_Preferences p)) incoming of
        None \<Rightarrow> ret None
      | Some merged \<Rightarrow> do {
          y \<leftarrow> Notification_UpsertPreferences (getMerchantID r) (Doc (map_json merged));
          (case y of
             Inl err \<Rightarrow> respondPortalError r 500 ''1007'' ''Failed to save preferences''
           | Inr _ \<Rightarrow> respond r 200 (JObj [(''preferences'', map_json merged), (''success'', JBool True)])) }) })"

subsection \<open>Profile\<close>

definition buildProfileResponse :: "printers \<Rightarrow> user \<Rightarrow> merchant \<Rightarrow> json" where
  "buildProfileResponse pr u m = JObj [(''merchant'', workspace_json pr m),
     (''preferences'', JObj [(''alertOnDisputes'', JBool True), (''betaFeatures'', JBool False), (''dailyDigest'', JBool True),
        (''weeklyTreasuryReport'', JBool False)]),
     (''security'', JObj [(''activeSessionsCount'', JInt 1), (''hardwareKeysCount'', JInt 0), (''twoFactorEnabled'', JBool False)]),
     (''user'', JObj [(''email'', JStr (us_Email u)), (''id'', JStr (us_ID u)), (''name'', JStr (us_Name u)),
        (''phone'', JStr (us_Phone u)), (''role'', JStr (us_Role u)), (''title'', JStr (us_Title u))]),
     (''workspace'', workspace_json pr m)]"

definition respond_profile :: "api_request \<Rightarrow> user \<Rightarrow> api_response option go" where
  "respond_profile r u = do {
     m \<leftarrow> Merchant_GetByID (us_MerchantID u);
     (case m of
        Inl err \<Rightarrow> respondPortalError r 500 ''1007'' ''Internal error''
      | Inr mch \<Rightarrow> do { pr \<leftarrow> printers; respond r 200 (buildProfileResponse pr u mch) }) }"

definition GetProfile :: handler where
  "GetProfile r = do {
     u \<leftarrow> User_GetByID (getUserID r);
     (case u of Inl err \<Rightarrow> respondPortalError r 404 ''1003'' ''User not found'' | Inr user \<Rightarrow> respond_profile r user) }"

definition decode_profile :: "fields \<Rightarrow> (string \<times> string \<times> string) option" where
  "decode_profile fs = do { n \<leftarrow> dec_string ''name'' fs; t \<leftarrow> dec_string ''title'' fs; p \<leftarrow> dec_string ''phone'' fs; Some (n, t, p) }"

definition UpdateProfile :: handler where
  "UpdateProfile r = with_body r decode_profile ''Invalid profile data'' (\<lambda>(name, title, phone). do {
     x \<leftarrow> User_UpdateProfile (getUserID r) name title phone;
     (case x of
        Inl err \<Rightarrow> respondPortalError r 500 ''1007'' ''Failed to update''
      | Inr _ \<Rightarrow> do {
          u \<leftarrow> User_GetByID (getUserID r);
          (case u of Inl err \<Rightarrow> respondPortalError r 500 ''1007'' ''Internal error'' | Inr user \<Rightarrow> respond_profile r user) }) })"

subsection \<open>The endpoints (\<open>router.go\<close>)\<close>

datatype public_page = PLogin | PSignup | PSendOTP | PForgotPassword

datatype portal_page =
    POverview | PVolume | PTransactions | PExport | PTransaction | PPayouts | PCreatePayout | PCustomers | PCreateCustomer
  | PCustomer | PCharges | PMembers | PInvitations | PInvite | PResend | PRevoke | PAccept | PKeys | PCreateKey | PRevokeKey
  | PEndpoints | PCreateEndpoint | PEvents | PDeliveries | PRetry | PNotifications | PMarkRead | PPreferences
  | PUpdatePreferences | PProfile | PUpdateProfile | PWorkspace | PUpdateWorkspace

datatype portal_endpoint = Public public_page | Page portal_page

fun page_handler :: "portal_page \<Rightarrow> handler" where
  "page_handler POverview = DashboardOverview"
| "page_handler PVolume = DashboardVolume"
| "page_handler PTransactions = PortalListTransactions"
| "page_handler PExport = ExportTransactionsCSV"
| "page_handler PTransaction = GetTransaction"
| "page_handler PPayouts = PortalListPayouts"
| "page_handler PCreatePayout = CreatePayout"
| "page_handler PCustomers = ListCustomers"
| "page_handler PCreateCustomer = CreateCustomer"
| "page_handler PCustomer = GetCustomer"
| "page_handler PCharges = GetCustomerCharges"
| "page_handler PMembers = ListTeamMembers"
| "page_handler PInvitations = ListInvitations"
| "page_handler PInvite = InviteMember"
| "page_handler PResend = ResendInvitation"
| "page_handler PRevoke = RevokeInvitation"
| "page_handler PAccept = AcceptInvitation"
| "page_handler PKeys = PortalListAPIKeys"
| "page_handler PCreateKey = PortalCreateAPIKey"
| "page_handler PRevokeKey = RevokeAPIKey"
| "page_handler PEndpoints = ListWebhookEndpoints"
| "page_handler PCreateEndpoint = CreateWebhookEndpoint"
| "page_handler PEvents = ListWebhookEvents"
| "page_handler PDeliveries = ListWebhookDeliveries"
| "page_handler PRetry = RetryWebhookDelivery"
| "page_handler PNotifications = ListNotifications"
| "page_handler PMarkRead = MarkAllNotificationsRead"
| "page_handler PPreferences = GetNotificationPreferences"
| "page_handler PUpdatePreferences = UpdateNotificationPreferences"
| "page_handler PProfile = GetProfile"
| "page_handler PUpdateProfile = UpdateProfile"
| "page_handler PWorkspace = GetWorkspace"
| "page_handler PUpdateWorkspace = UpdateWorkspace"

fun public_handler :: "portal \<Rightarrow> public_page \<Rightarrow> handler" where
  "public_handler h PLogin = Login"
| "public_handler h PSignup = Signup"
| "public_handler h PSendOTP = SendOTP h"
| "public_handler h PForgotPassword = ForgotPassword"

fun portal_routed :: "portal \<Rightarrow> portal_endpoint \<Rightarrow> handler" where
  "portal_routed h (Public p) = public_handler h p"
| "portal_routed h (Page p) = PortalAuth (page_handler p)"

definition PortalRouter :: "portal \<Rightarrow> portal_endpoint \<Rightarrow> handler" where
  "PortalRouter h ep = RequestID (ConversationID (Recoverer (portal_routed h ep)))"

end
