(* ===== verification/PortalAccess.thy ===== *)
theory PortalAccess
  imports PortalAdmin Views
begin

section \<open>Who sees what in the portal\<close>

text \<open>
  The portal's pages behind a session: without one nothing happens; a page's answer depends on the
  data of the session's merchant only (a view, theory \<open>Views\<close>); and no page changes what belongs
  to another merchant.
\<close>

definition bearer_token :: "api_request \<Rightarrow> string" where
  "bearer_token r = drop (length Bearer) (aq_Authorization r)"

text \<open>No session with the request's token is alive, whatever the database's clock says.\<close>

definition no_session :: "api_request \<Rightarrow> world \<Rightarrow> bool" where
  "no_session r w \<longleftrightarrow> \<not> has_prefix (aq_Authorization r) Bearer \<or>
     (\<forall>k. session_rows (bearer_token r) (o_clock (w_env w) k) (w_db w) = [])"

definition portal_effects :: "world \<Rightarrow> db \<times> (string \<rightharpoonup> json \<times> time) \<times> bus_message list \<times> http_request list \<times> timer list \<times>
    (string \<rightharpoonup> otp_entry)" where
  "portal_effects w = (w_db w, w_redis w, w_bus w, w_http w, w_timers w, w_otp w)"

lemma portal_effects_next [simp]: "portal_effects (next_step w) = portal_effects w"
  by (simp add: portal_effects_def)

text \<open>A session with the token is alive at the next two readings of the clock.\<close>

definition session_alive :: "api_request \<Rightarrow> world \<Rightarrow> bool" where
  "session_alive r w \<longleftrightarrow> has_prefix (aq_Authorization r) Bearer \<and>
     (\<forall>k \<in> {w_step w, Suc (w_step w)}. session_rows (bearer_token r) (o_clock (w_env w) k) (w_db w) \<noteq> [])"

lemma wp_PortalAuth:
  assumes "\<And>q u. rp_Status q = 401 \<Longrightarrow> u = w \<or> u = next_step w \<Longrightarrow> Q (Some q) u"
    and "\<And>s. s \<in> set (session_rows (bearer_token r) (o_clock (w_env w) (w_step w)) (w_db w)) \<Longrightarrow> has_prefix (aq_Authorization r) Bearer \<Longrightarrow>
      wp (h (r\<lparr>aq_PortalUserID := Some (ss_UserID s), aq_PortalMerchantID := Some (ss_MerchantID s)\<rparr>)) Q (next_step w)"
  shows "wp (PortalAuth h r) Q w"
  using assms by (auto simp: PortalAuth_def Session_GetByToken_def wp_simps bearer_token_def respondError_def json_response_def
      split: outcome.split sum.split dest!: sql_one_Inr)

lemma wp_PortalAuth_alive:
  assumes "has_prefix (aq_Authorization r) Bearer" "session_rows (bearer_token r) (o_clock (w_env w) (w_step w)) (w_db w) \<noteq> []"
    and "o_db (w_env w) (w_step w) = Done"
    and "\<And>s. s \<in> set (session_rows (bearer_token r) (o_clock (w_env w) (w_step w)) (w_db w)) \<Longrightarrow>
      wp (h (r\<lparr>aq_PortalUserID := Some (ss_UserID s), aq_PortalMerchantID := Some (ss_MerchantID s)\<rparr>)) Q (next_step w)"
  shows "wp (PortalAuth h r) Q w"
proof -
  have "aq_Authorization r \<noteq> []" using assms(1) by (auto simp: has_prefix_def Bearer_def)
  then show ?thesis using assms
    by (auto simp: PortalAuth_def Session_GetByToken_def wp_simps bearer_token_def sql_one_def)
qed

lemma PortalAuth_refuses:
  assumes "no_session r w"
  shows "wp (PortalAuth h r) (\<lambda>p v. (\<exists>q. p = Some q \<and> rp_Status q = 401) \<and> portal_effects v = portal_effects w) w"
  by (rule wp_PortalAuth) (use assms in \<open>auto simp: no_session_def\<close>)

subsection \<open>What belongs to a merchant\<close>

text \<open>The rows a page may show to the user \<open>uid\<close> of the merchant \<open>m\<close> with the token \<open>tok\<close>.\<close>

definition own :: "string \<Rightarrow> string \<Rightarrow> string \<Rightarrow> db \<Rightarrow> db" where
  "own m uid tok d =
     \<lparr>t_payment_intents = filter (\<lambda>p. pi_MerchantID p = m) (t_payment_intents d),
      t_attempts = filter (\<lambda>a. \<exists>p \<in> set (t_payment_intents d). pi_MerchantID p = m \<and> pi_ID p = att_PaymentIntentID a) (t_attempts d),
      t_ledger_entries = filter (\<lambda>e. le_AccountID e = MerchantAvailable m) (t_ledger_entries d),
      t_payouts = filter (\<lambda>p. po_MerchantID p = m) (t_payouts d), t_refunds = [],
      t_merchants = filter (\<lambda>x. mch_ID x = m) (t_merchants d),
      t_api_keys = filter (\<lambda>k. ak_MerchantID k = m) (t_api_keys d), t_checkout_sessions = [],
      t_webhook_events = events_of_merchant m d,
      t_webhook_endpoints = filter (\<lambda>e. ep_MerchantID e = m) (t_webhook_endpoints d), t_webhook_deliveries = [],
      t_notifications = filter (\<lambda>n. nt_MerchantID n = m) (t_notifications d),
      t_users = filter (\<lambda>u. us_ID u = uid) (t_users d), t_sessions = filter (\<lambda>s. ss_Token s = tok) (t_sessions d),
      t_customers = filter (\<lambda>c. cu_MerchantID c = m) (t_customers d),
      t_team_members = filter (\<lambda>x. mb_MerchantID x = m) (t_team_members d),
      t_team_invitations = filter (\<lambda>x. iv_MerchantID x = m) (t_team_invitations d),
      t_notification_preferences = filter (\<lambda>p. np_MerchantID p = m) (t_notification_preferences d)\<rparr>"

text \<open>The token is the user's and the user is the merchant's; keys are unique.\<close>

definition account_ok :: "string \<Rightarrow> string \<Rightarrow> string \<Rightarrow> db \<Rightarrow> bool" where
  "account_ok m uid tok d \<longleftrightarrow> distinct (map pi_ID (t_payment_intents d)) \<and> distinct (map cu_ID (t_customers d)) \<and>
     (\<forall>s \<in> set (t_sessions d). ss_Token s = tok \<longrightarrow> ss_UserID s = uid) \<and>
     (\<forall>u \<in> set (t_users d). us_ID u = uid \<longrightarrow> us_MerchantID u = m)"

definition same_account :: "string \<Rightarrow> string \<Rightarrow> string \<Rightarrow> world \<Rightarrow> world \<Rightarrow> bool" where
  "same_account m uid tok w1 w2 \<longleftrightarrow> w_env w1 = w_env w2 \<and> w_step w1 = w_step w2 \<and>
     own m uid tok (w_db w1) = own m uid tok (w_db w2) \<and> account_ok m uid tok (w_db w1) \<and> account_ok m uid tok (w_db w2)"

interpretation account: view "same_account m uid tok" for m uid tok
  by unfold_locales (simp_all add: same_account_def)

lemma same_rows:
  assumes "same_account m uid tok w1 w2"
  shows "filter (\<lambda>p. pi_MerchantID p = m) (t_payment_intents (w_db w1)) = filter (\<lambda>p. pi_MerchantID p = m) (t_payment_intents (w_db w2))"
    "filter (\<lambda>e. le_AccountID e = MerchantAvailable m) (t_ledger_entries (w_db w1)) = filter (\<lambda>e. le_AccountID e = MerchantAvailable m) (t_ledger_entries (w_db w2))"
    "filter (\<lambda>p. po_MerchantID p = m) (t_payouts (w_db w1)) = filter (\<lambda>p. po_MerchantID p = m) (t_payouts (w_db w2))"
    "filter (\<lambda>x. mch_ID x = m) (t_merchants (w_db w1)) = filter (\<lambda>x. mch_ID x = m) (t_merchants (w_db w2))"
    "filter (\<lambda>k. ak_MerchantID k = m) (t_api_keys (w_db w1)) = filter (\<lambda>k. ak_MerchantID k = m) (t_api_keys (w_db w2))"
    "events_of_merchant m (w_db w1) = events_of_merchant m (w_db w2)"
    "filter (\<lambda>e. ep_MerchantID e = m) (t_webhook_endpoints (w_db w1)) = filter (\<lambda>e. ep_MerchantID e = m) (t_webhook_endpoints (w_db w2))"
    "filter (\<lambda>n. nt_MerchantID n = m) (t_notifications (w_db w1)) = filter (\<lambda>n. nt_MerchantID n = m) (t_notifications (w_db w2))"
    "filter (\<lambda>u. us_ID u = uid) (t_users (w_db w1)) = filter (\<lambda>u. us_ID u = uid) (t_users (w_db w2))"
    "filter (\<lambda>s. ss_Token s = tok) (t_sessions (w_db w1)) = filter (\<lambda>s. ss_Token s = tok) (t_sessions (w_db w2))"
    "filter (\<lambda>c. cu_MerchantID c = m) (t_customers (w_db w1)) = filter (\<lambda>c. cu_MerchantID c = m) (t_customers (w_db w2))"
    "filter (\<lambda>x. mb_MerchantID x = m) (t_team_members (w_db w1)) = filter (\<lambda>x. mb_MerchantID x = m) (t_team_members (w_db w2))"
    "filter (\<lambda>x. iv_MerchantID x = m) (t_team_invitations (w_db w1)) = filter (\<lambda>x. iv_MerchantID x = m) (t_team_invitations (w_db w2))"
    "filter (\<lambda>p. np_MerchantID p = m) (t_notification_preferences (w_db w1)) = filter (\<lambda>p. np_MerchantID p = m) (t_notification_preferences (w_db w2))"
  using assms by (simp_all add: same_account_def own_def)

text \<open>A selection of a merchant's rows.\<close>

lemma filter_own: "(\<And>x. P x \<Longrightarrow> Q x) \<Longrightarrow> filter Q xs = filter Q ys \<Longrightarrow> filter P xs = filter P ys"
proof -
  assume sub: "\<And>x. P x \<Longrightarrow> Q x" and eq: "filter Q xs = filter Q ys"
  have "filter P zs = filter P (filter Q zs)" for zs using sub by (induction zs) auto
  with eq show ?thesis by metis
qed

lemma filter_own2:
  assumes "\<And>x. P x \<Longrightarrow> Q1 x" "\<And>x. P x \<Longrightarrow> Q2 x" "filter Q1 xs = filter Q2 ys"
  shows "filter P xs = filter P ys"
proof -
  have "filter P zs = filter P (filter Q1 zs)" "filter P zs = filter P (filter Q2 zs)" for zs
    using assms(1,2) by (induction zs) auto
  with assms(3) show ?thesis by metis
qed

lemma account_selects:
  assumes "same_account m uid tok w1 w2"
  shows "(\<And>p. P1 p \<Longrightarrow> pi_MerchantID p = m) \<Longrightarrow> filter P1 (t_payment_intents (w_db w1)) = filter P1 (t_payment_intents (w_db w2))"
    "(\<And>c. P2 c \<Longrightarrow> cu_MerchantID c = m) \<Longrightarrow> filter P2 (t_customers (w_db w1)) = filter P2 (t_customers (w_db w2))"
    "(\<And>x. P3 x \<Longrightarrow> iv_MerchantID x = m) \<Longrightarrow> filter P3 (t_team_invitations (w_db w1)) = filter P3 (t_team_invitations (w_db w2))"
    "(\<And>x. P4 x \<Longrightarrow> mb_MerchantID x = m) \<Longrightarrow> filter P4 (t_team_members (w_db w1)) = filter P4 (t_team_members (w_db w2))"
    "(\<And>s. P5 s \<Longrightarrow> ss_Token s = tok) \<Longrightarrow> filter P5 (t_sessions (w_db w1)) = filter P5 (t_sessions (w_db w2))"
proof -
  note own_rows = same_rows [OF assms]
  show "(\<And>p. P1 p \<Longrightarrow> pi_MerchantID p = m) \<Longrightarrow> filter P1 (t_payment_intents (w_db w1)) = filter P1 (t_payment_intents (w_db w2))"
    by (rule filter_own [OF _ own_rows(1)])
  show "(\<And>c. P2 c \<Longrightarrow> cu_MerchantID c = m) \<Longrightarrow> filter P2 (t_customers (w_db w1)) = filter P2 (t_customers (w_db w2))"
    by (rule filter_own [OF _ own_rows(11)])
  show "(\<And>x. P3 x \<Longrightarrow> iv_MerchantID x = m) \<Longrightarrow> filter P3 (t_team_invitations (w_db w1)) = filter P3 (t_team_invitations (w_db w2))"
    by (rule filter_own [OF _ own_rows(13)])
  show "(\<And>x. P4 x \<Longrightarrow> mb_MerchantID x = m) \<Longrightarrow> filter P4 (t_team_members (w_db w1)) = filter P4 (t_team_members (w_db w2))"
    by (rule filter_own [OF _ own_rows(12)])
  show "(\<And>s. P5 s \<Longrightarrow> ss_Token s = tok) \<Longrightarrow> filter P5 (t_sessions (w_db w1)) = filter P5 (t_sessions (w_db w2))"
    by (rule filter_own [OF _ own_rows(10)])
qed

subsection \<open>The queries of the pages\<close>

lemma account_queries [confined_intros]:
  "confined (same_account m uid tok) (Merchant_GetByID m)" "confined (same_account m uid tok) (PI_ListByMerchant m l off)"
  "confined (same_account m uid tok) (Payout_ListByMerchant m l off)" "confined (same_account m uid tok) (Member_ListByMerchant m)"
  "confined (same_account m uid tok) (Invitation_ListByMerchant m)" "confined (same_account m uid tok) (Merchant_ListAPIKeys m)"
  "confined (same_account m uid tok) (Endpoint_ListByMerchant m)" "confined (same_account m uid tok) (WebhookEvent_ListByMerchant m l)"
  "confined (same_account m uid tok) (Notification_ListByMerchant m)" "confined (same_account m uid tok) (Notification_GetPreferences m)"
  "confined (same_account m uid tok) (User_GetByID uid)"
  unfolding Merchant_GetByID_def PI_ListByMerchant_def Payout_ListByMerchant_def Member_ListByMerchant_def
    Invitation_ListByMerchant_def Merchant_ListAPIKeys_def Endpoint_ListByMerchant_def WebhookEvent_ListByMerchant_def
    Notification_ListByMerchant_def Notification_GetPreferences_def User_GetByID_def
  by (rule account.query account.query_row, simp add: same_rows)+

lemma account_filters [confined_intros]:
  "confined (same_account m uid tok) (PI_ListByMerchantFiltered m f)" "confined (same_account m uid tok) (Customer_ListByMerchant m q st l off)"
  "confined (same_account m uid tok) (Invitation_GetByEmail m email)"
  unfolding PI_ListByMerchantFiltered_def Customer_ListByMerchant_def Invitation_GetByEmail_def
proof -
  show "confined (same_account m uid tok) (db_Query (\<lambda>now d. page (filter_limit f) (filter_offset f)
      (order_desc pi_CreatedAt (filter (filter_matches m f) (t_payment_intents d)))))"
    by (rule account.query) (drule account_selects(1) [of _ _ _ _ _ "filter_matches m f"], simp_all add: filter_matches_def)
  show "confined (same_account m uid tok) (db_Query (\<lambda>now d. page l off
      (order_desc cu_CreatedAt (filter (customer_matches m q st) (t_customers d)))))"
    by (rule account.query) (drule account_selects(2) [of _ _ _ _ _ "customer_matches m q st"], simp_all add: customer_matches_def)
  show "confined (same_account m uid tok) (db_QueryRow (\<lambda>now d. filter (\<lambda>x. iv_MerchantID x = m \<and> iv_Email x = email) (t_team_invitations d)))"
    by (rule account.query_row) (drule account_selects(3) [of _ _ _ _ _ "\<lambda>x. iv_MerchantID x = m \<and> iv_Email x = email"], simp_all)
qed

lemma account_volume [confined_intros]: "confined (same_account m uid tok) (PI_DailyVolume m since)"
  unfolding PI_DailyVolume_def daily_volume_def Let_def
proof (rule account.query)
  fix now :: time and w1 w2
  assume "same_account m uid tok w1 w2"
  from account_selects(1) [OF this, of "\<lambda>p. pi_MerchantID p = m \<and> since \<le> pi_CreatedAt p"]
  show "(scan_all (volume_row (filter (\<lambda>p. pi_MerchantID p = m \<and> since \<le> pi_CreatedAt p) (t_payment_intents (w_db w1))))
        (rev (sort (remdups (map (\<lambda>p. day_of (pi_CreatedAt p)) (filter (\<lambda>p. pi_MerchantID p = m \<and> since \<le> pi_CreatedAt p) (t_payment_intents (w_db w1)))))))) =
     (scan_all (volume_row (filter (\<lambda>p. pi_MerchantID p = m \<and> since \<le> pi_CreatedAt p) (t_payment_intents (w_db w2))))
        (rev (sort (remdups (map (\<lambda>p. day_of (pi_CreatedAt p)) (filter (\<lambda>p. pi_MerchantID p = m \<and> since \<le> pi_CreatedAt p) (t_payment_intents (w_db w2))))))))"
    by simp
qed

lemma account_balance [confined_intros]: "confined (same_account m uid tok) (balance_or_zero (MerchantAvailable m))"
  unfolding balance_or_zero_def Ledger_Balance_def
  by (intro confined_intros account.query) (simp add: account_sum_def same_rows)

subsection \<open>One row by its id\<close>

lemma filter_key: "distinct (map key xs) \<Longrightarrow> x \<in> set xs \<Longrightarrow> filter (\<lambda>y. key y = key x) xs = [x]"
proof (induction xs)
  case (Cons y ys)
  show ?case
  proof (cases "x = y")
    case True
    have "filter (\<lambda>z. key z = key x) ys = []" using Cons.prems(1) True by (auto simp: filter_empty_conv) (metis image_eqI)
    then show ?thesis using True by simp
  next
    case False
    then have "x \<in> set ys" using Cons.prems(2) by simp
    moreover from this have "key y \<noteq> key x" using Cons.prems(1) by (auto simp: image_iff)
    ultimately show ?thesis using Cons by simp
  qed
qed simp

text \<open>A look-up by a unique key in two tables with the same rows of an owner finds the same row of
  the owner, or none of the owner's in both.\<close>

lemma lookup_pair:
  assumes "w_env w1 = w_env w2" "w_step w1 = w_step w2"
    and unique: "distinct (map key (get (w_db w1)))" "distinct (map key (get (w_db w2)))"
    and own: "filter mine (get (w_db w1)) = filter mine (get (w_db w2))"
    and run: "run_state (db_QueryRow (\<lambda>now d. filter (\<lambda>x. key x = i) (get d))) w1 = (a1, u1)"
      "run_state (db_QueryRow (\<lambda>now d. filter (\<lambda>x. key x = i) (get d))) w2 = (a2, u2)"
  obtains x where "mine x" "x \<in> set (get (w_db w1))" "key x = i" "a1 = Inr x" "a2 = Inr x"
  | "\<And>x. a1 = Inr x \<Longrightarrow> \<not> mine x" "\<And>x. a2 = Inr x \<Longrightarrow> \<not> mine x"
proof (cases "\<exists>x \<in> set (get (w_db w1)). mine x \<and> key x = i")
  case True
  then obtain x where x: "x \<in> set (get (w_db w1))" "mine x" "key x = i" by blast
  have "x \<in> set (filter mine (get (w_db w1)))" using x(1,2) by simp
  then have x2: "x \<in> set (get (w_db w2))" unfolding own by simp
  have rows: "filter (\<lambda>y. key y = i) (get (w_db w1)) = [x]" "filter (\<lambda>y. key y = i) (get (w_db w2)) = [x]"
    using filter_key [OF unique(1) x(1)] filter_key [OF unique(2) x2] x(3) by simp_all
  show ?thesis
  proof (cases "o_db (w_env w2) (w_step w2)")
    case Done
    have "a1 = Inr x" using run(1) Done rows(1) assms(1,2) by (simp add: db_QueryRow_def)
    moreover have "a2 = Inr x" using run(2) Done rows(2) by (simp add: db_QueryRow_def)
    ultimately show ?thesis by (rule that(1) [OF x(2,1,3)])
  next
    case Refused
    have "a1 = Inl ErrDB" using run(1) Refused assms(1,2) by (simp add: db_QueryRow_def)
    moreover have "a2 = Inl ErrDB" using run(2) Refused by (simp add: db_QueryRow_def)
    ultimately show ?thesis by (intro that(2)) simp_all
  next
    case Unacked
    have "a1 = Inl ErrDB" using run(1) Unacked assms(1,2) by (simp add: db_QueryRow_def)
    moreover have "a2 = Inl ErrDB" using run(2) Unacked by (simp add: db_QueryRow_def)
    ultimately show ?thesis by (intro that(2)) simp_all
  qed
next
  case False
  have "\<not> (\<exists>x \<in> set (get (w_db w2)). mine x \<and> key x = i)"
  proof
    assume "\<exists>x \<in> set (get (w_db w2)). mine x \<and> key x = i"
    then obtain x where "x \<in> set (filter mine (get (w_db w2)))" and "key x = i" by auto
    then have "x \<in> set (filter mine (get (w_db w1)))" unfolding own by simp
    with False \<open>key x = i\<close> show False by auto
  qed
  moreover have "x \<in> set (get (w_db w1)) \<and> key x = i" if "a1 = Inr x" for x
    using run(1) that by (auto simp: db_QueryRow_def split: outcome.splits dest!: sql_one_Inr)
  moreover have "x \<in> set (get (w_db w2)) \<and> key x = i" if "a2 = Inr x" for x
    using run(2) that by (auto simp: db_QueryRow_def split: outcome.splits dest!: sql_one_Inr)
  ultimately show ?thesis using False by (intro that(2)) blast+
qed

lemma account_GetCustomer: "getMerchantID r = m \<Longrightarrow> confined (same_account m uid tok) (GetCustomer r)"
proof (rule confinedI)
  fix w1 w2 a1 v1 a2 v2
  assume m: "getMerchantID r = m" and w: "same_account m uid tok w1 w2"
    and run: "run_state (GetCustomer r) w1 = (a1, v1)" "run_state (GetCustomer r) w2 = (a2, v2)"
  obtain b1 u1 b2 u2 where u: "run_state (Customer_GetByID (aq_Param r ''id'')) w1 = (b1, u1)"
    "run_state (Customer_GetByID (aq_Param r ''id'')) w2 = (b2, u2)" by fastforce
  have next_w: "same_account m uid tok u1 u2"
    using u account.stepped [OF w] by (auto simp: Customer_GetByID_def db_QueryRow_def)
  have ids: "distinct (map cu_ID (t_customers (w_db w1)))" "distinct (map cu_ID (t_customers (w_db w2)))"
    using w by (simp_all add: same_account_def account_ok_def)
  show "a1 = a2 \<and> same_account m uid tok v1 v2"
  proof (rule lookup_pair [OF account.same_env [OF w] account.same_step [OF w] ids same_rows(11) [OF w] u [unfolded Customer_GetByID_def]])
    fix c
    assume c: "cu_MerchantID c = m" "b1 = Inr c" "b2 = Inr c"
    have "confined (same_account m uid tok) (do { pr \<leftarrow> printers; respond r 200 (formatCustomer pr c) })"
      by (intro confined_intros account.env_calls)
    from confined_run [OF this next_w] show ?thesis using run u c m by (simp add: GetCustomer_def)
  next
    assume "\<And>c. b1 = Inr c \<Longrightarrow> cu_MerchantID c \<noteq> m" "\<And>c. b2 = Inr c \<Longrightarrow> cu_MerchantID c \<noteq> m"
    with run u m next_w show ?thesis
      by (auto simp: GetCustomer_def respondPortalError_def respondError_def split: sum.splits)
  qed
qed

text \<open>The attempts of a merchant's intent.\<close>

definition account_intent :: "string \<Rightarrow> string \<Rightarrow> string \<Rightarrow> payment_intent \<Rightarrow> world \<Rightarrow> world \<Rightarrow> bool" where
  "account_intent m uid tok p w1 w2 \<longleftrightarrow> same_account m uid tok w1 w2 \<and> pi_MerchantID p = m \<and>
     p \<in> set (t_payment_intents (w_db w1)) \<and> p \<in> set (t_payment_intents (w_db w2))"

interpretation account_intent: view "account_intent m uid tok p" for m uid tok p
  by unfold_locales (simp_all add: account_intent_def same_account_def)

lemma account_attempts [confined_intros]: "confined (account_intent m uid tok p) (Attempt_ListByPaymentIntent (pi_ID p))"
  unfolding Attempt_ListByPaymentIntent_def
proof (rule account_intent.query)
  fix now :: time and w1 w2
  assume w: "account_intent m uid tok p w1 w2"
  let ?mine = "\<lambda>w a. \<exists>q \<in> set (t_payment_intents (w_db w)). pi_MerchantID q = m \<and> pi_ID q = att_PaymentIntentID a"
  let ?P = "\<lambda>a. att_PaymentIntentID a = pi_ID p"
  have same: "filter (?mine w1) (t_attempts (w_db w1)) = filter (?mine w2) (t_attempts (w_db w2))"
    using w by (simp add: account_intent_def same_account_def own_def)
  have in_both: "p \<in> set (t_payment_intents (w_db w1))" "p \<in> set (t_payment_intents (w_db w2))" "pi_MerchantID p = m"
    using w by (simp_all add: account_intent_def)
  have "filter ?P (t_attempts (w_db w1)) = filter ?P (t_attempts (w_db w2))"
    by (rule filter_own2 [OF _ _ same]) (use in_both in auto)
  then show "(Inr (sort_key att_SequenceNo (filter ?P (t_attempts (w_db w1)))) :: error + attempt list) =
      Inr (sort_key att_SequenceNo (filter ?P (t_attempts (w_db w2))))" by simp
qed

lemma account_GetTransaction: "getMerchantID r = m \<Longrightarrow> confined (same_account m uid tok) (GetTransaction r)"
proof (rule confinedI)
  fix w1 w2 a1 v1 a2 v2
  assume m: "getMerchantID r = m" and w: "same_account m uid tok w1 w2"
    and run: "run_state (GetTransaction r) w1 = (a1, v1)" "run_state (GetTransaction r) w2 = (a2, v2)"
  let ?id = "aq_Param r ''id''"
  obtain b1 u1 b2 u2 where u: "run_state (PI_GetByID ?id) w1 = (b1, u1)" "run_state (PI_GetByID ?id) w2 = (b2, u2)" by fastforce
  have next_w: "same_account m uid tok u1 u2" and dbs: "w_db u1 = w_db w1" "w_db u2 = w_db w2"
    using u account.stepped [OF w] by (auto simp: PI_GetByID_def db_QueryRow_def)
  have ids: "distinct (map pi_ID (t_payment_intents (w_db w1)))" "distinct (map pi_ID (t_payment_intents (w_db w2)))"
    using w by (simp_all add: same_account_def account_ok_def)
  show "a1 = a2 \<and> same_account m uid tok v1 v2"
  proof (rule lookup_pair [OF account.same_env [OF w] account.same_step [OF w] ids same_rows(1) [OF w] u [unfolded PI_GetByID_def]])
    fix p
    assume p: "pi_MerchantID p = m" "p \<in> set (t_payment_intents (w_db w1))" "pi_ID p = ?id" "b1 = Inr p" "b2 = Inr p"
    have "p \<in> set (filter (\<lambda>p. pi_MerchantID p = m) (t_payment_intents (w_db w2)))"
      using p(1,2) by (simp flip: same_rows(1) [OF w])
    then have found: "account_intent m uid tok p u1 u2" using next_w p(1,2) by (simp add: account_intent_def dbs)
    let ?doc = "\<lambda>as pr. JObj [(''amount'', JInt (pi_Amount p)),
              (''attempts'', JArr (map (attempt_json pr) (result_or [] as))), (''createdAt'', time_json pr (pi_CreatedAt p)),
              (''currency'', JStr (pi_Currency p)), (''customerEmail'', JStr (pi_CustomerEmail p)),
              (''customerPhone'', JStr (pi_CustomerPhone p)), (''customerRef'', JStr (pi_CustomerRef p)),
              (''expiresAt'', time_option_json pr (pi_ExpiresAt p)), (''id'', JStr (pi_ID p)),
              (''metadata'', bytes_json pr (pi_Metadata p)), (''method'', JStr (pi_Method p)),
              (''status'', JStr (mapStatus (pi_Status p))), (''updatedAt'', time_json pr (pi_UpdatedAt p))]"
    have "confined (account_intent m uid tok p) (do { as \<leftarrow> Attempt_ListByPaymentIntent (pi_ID p); pr \<leftarrow> printers; respond r 200 (?doc as pr) })"
      by (intro confined_intros account_intent.env_calls)
    from confined_run [OF this found] have "a1 = a2 \<and> account_intent m uid tok p v1 v2" using run u p m by (simp add: GetTransaction_def)
    then show ?thesis by (simp add: account_intent_def)
  next
    assume "\<And>p. b1 = Inr p \<Longrightarrow> pi_MerchantID p \<noteq> m" "\<And>p. b2 = Inr p \<Longrightarrow> pi_MerchantID p \<noteq> m"
    with run u m next_w show ?thesis
      by (auto simp: GetTransaction_def respondPortalError_def respondError_def split: sum.splits)
  qed
qed

subsection \<open>The statements of the pages\<close>

text \<open>A statement that acts on the own rows as it acts on the tables.\<close>

definition acts_on_own :: "string \<Rightarrow> string \<Rightarrow> string \<Rightarrow> stmt \<Rightarrow> bool" where
  "acts_on_own m uid tok st \<longleftrightarrow> (\<forall>now d. account_ok m uid tok d \<longrightarrow>
     (\<forall>e. st now d = Inl e \<longrightarrow> st now (own m uid tok d) = Inl e) \<and>
     (\<forall>d' n. st now d = Inr (d', n) \<longrightarrow> account_ok m uid tok d' \<and> (\<exists>k. st now (own m uid tok d) = Inr (own m uid tok d', k))))"

lemma account_exec:
  assumes "acts_on_own m uid tok st"
  shows "confined (same_account m uid tok) (db_exec st)"
proof (rule account.exec)
  fix now w1 w2
  assume w: "same_account m uid tok w1 w2"
  then have eq: "own m uid tok (w_db w1) = own m uid tok (w_db w2)" and ok: "account_ok m uid tok (w_db w1)" "account_ok m uid tok (w_db w2)"
    by (simp_all add: same_account_def)
  have act: "st now d = Inl e \<Longrightarrow> st now (own m uid tok d) = Inl e"
    "st now d = Inr (d', n) \<Longrightarrow> account_ok m uid tok d' \<and> (\<exists>k. st now (own m uid tok d) = Inr (own m uid tok d', k))"
    if "account_ok m uid tok d" for d e d' n
    using assms [unfolded acts_on_own_def, rule_format, OF that] by simp_all blast
  show "case (st now (w_db w1), st now (w_db w2)) of
      (Inl e1, Inl e2) \<Rightarrow> e1 = e2
    | (Inr (d1, n1), Inr (d2, n2)) \<Rightarrow> same_account m uid tok (w1\<lparr>w_db := d1\<rparr>) (w2\<lparr>w_db := d2\<rparr>)
    | _ \<Rightarrow> False"
    using act [OF ok(1)] act [OF ok(2)] w eq by (fastforce simp: same_account_def split: sum.splits prod.splits)
qed

lemma filter_conj_swap: "filter P (filter Q xs) = filter Q (filter P xs)"
  by (induction xs) simp_all

lemma account_deletes [confined_intros]:
  "confined (same_account m uid tok) (Invitation_DeleteByEmail m email)" "confined (same_account m uid tok) (Merchant_DeleteAPIKey i m)"
  unfolding Invitation_DeleteByEmail_def Merchant_DeleteAPIKey_def
  by (rule account_exec, simp add: acts_on_own_def table_delete_def account_ok_def own_def events_of_merchant_def
      filter_conj_swap [of "\<lambda>x. iv_MerchantID x = m"] filter_conj_swap [of "\<lambda>k. ak_MerchantID k = m"] del: filter_filter)+

lemma account_ok_users: "account_ok m uid tok d \<Longrightarrow> (\<And>u. us_ID (f u) = us_ID u \<and> us_MerchantID (f u) = us_MerchantID u) \<Longrightarrow>
    account_ok m uid tok (t_users_update (map f) d)"
  by (auto simp: account_ok_def)

lemma account_updates [confined_intros]:
  "confined (same_account m uid tok) (Notification_MarkAllRead m)" "confined (same_account m uid tok) (User_UpdateProfile uid name title phone)"
proof -
  show "confined (same_account m uid tok) (Notification_MarkAllRead m)"
    unfolding Notification_MarkAllRead_def
    by (rule account_exec) (simp add: acts_on_own_def table_update_def account_ok_def own_def events_of_merchant_def filter_map_same)
  have "own m uid tok (t_users_update (map f) d) = t_users_update (map f) (own m uid tok d)" if "\<And>u. us_ID (f u) = us_ID u" for f d
    using that by (simp add: own_def events_of_merchant_def filter_map_same)
  then show "confined (same_account m uid tok) (User_UpdateProfile uid name title phone)"
    unfolding User_UpdateProfile_def
    by (intro account_exec) (simp add: acts_on_own_def table_update_def account_ok_users)
qed

lemma account_Merchant_Update: "mch_ID x = m \<Longrightarrow> confined (same_account m uid tok) (Merchant_Update x)"
  unfolding Merchant_Update_def
  by (rule account_exec) (simp add: acts_on_own_def table_update_def account_ok_def own_def events_of_merchant_def filter_map_same)

lemma list_ex_filter: "list_ex P (filter P xs) = list_ex P xs"
  by (induction xs) simp_all

lemma account_upserts [confined_intros]:
  "confined (same_account m uid tok) (Invitation_Upsert iv)" "confined (same_account m uid tok) (Notification_UpsertPreferences m prefs)"
proof -
  show "confined (same_account m uid tok) (Invitation_Upsert iv)"
    unfolding Invitation_Upsert_def
    by (rule account_exec) (simp add: acts_on_own_def table_upsert_def invitation_indexes_def)
  show "confined (same_account m uid tok) (Notification_UpsertPreferences m prefs)"
    unfolding Notification_UpsertPreferences_def
    by (rule account_exec) (auto simp: acts_on_own_def table_upsert_def table_update_def table_insert_def Let_def list_ex_filter own_def
      account_ok_def events_of_merchant_def filter_map_same preferences_indexes_def)
qed

subsection \<open>The pages\<close>

lemma account_notification_list [confined_intros]: "confined (same_account m uid tok) (notification_list ns)"
  by (induction ns) (auto intro!: confined_intros account.env_calls)

lemma account_with_body [confined_intros]:
  "(\<And>q. confined (same_account m uid tok) (k q)) \<Longrightarrow> confined (same_account m uid tok) (with_body r dec msg k)"
  unfolding with_body_def respondPortalError_def by (intro confined_intros)

lemma account_portal_error [confined_intros]: "confined R (respondPortalError r st code msg)"
  unfolding respondPortalError_def by (rule confined_respond)

text \<open>The pages that create a row are left out: whether an insertion succeeds depends on the ids of
  all rows. \<open>PAccept\<close>, \<open>PDeliveries\<close> and \<open>PRetry\<close> look rows up by an id of any merchant.\<close>

definition isolated_pages :: "portal_page list" where
  "isolated_pages = [POverview, PVolume, PTransactions, PExport, PTransaction, PPayouts, PCustomers, PCustomer, PCharges,
     PMembers, PInvitations, PResend, PRevoke, PKeys, PRevokeKey, PEndpoints, PEvents, PNotifications, PMarkRead, PPreferences,
     PUpdatePreferences, PProfile, PUpdateProfile, PWorkspace, PUpdateWorkspace]"

lemma account_respond_profile: "us_MerchantID u = m \<Longrightarrow> confined (same_account m uid tok) (respond_profile r u)"
  unfolding respond_profile_def by (simp, intro confined_intros account.env_calls)

text \<open>What the look-ups of the session's user and merchant return.\<close>

lemma account_workspace:
  assumes "\<And>x. mch_ID x = m \<Longrightarrow> confined (same_account m uid tok) (k (Inr x))" "\<And>e. confined (same_account m uid tok) (k (Inl e))"
  shows "confined (same_account m uid tok) (State_Monad.bind (Merchant_GetByID m) k)"
proof (rule confined_bind_strong [where P = "\<lambda>r. \<forall>x. r = Inr x \<longrightarrow> mch_ID x = m"])
  show "\<forall>x. r = Inr x \<longrightarrow> mch_ID x = m" if "run_state (Merchant_GetByID m) w1 = (r, v)" for r v w1
    using that by (auto simp: Merchant_GetByID_def db_QueryRow_def split: outcome.splits dest!: sql_one_Inr)
  show "confined (same_account m uid tok) (k r)" if "\<forall>x. r = Inr x \<longrightarrow> mch_ID x = m" for r
    using that assms by (cases r) simp_all
qed (rule account_queries)

lemma account_user:
  assumes "\<And>u. us_MerchantID u = m \<Longrightarrow> confined (same_account m uid tok) (k (Inr u))" "\<And>e. confined (same_account m uid tok) (k (Inl e))"
  shows "confined (same_account m uid tok) (State_Monad.bind (User_GetByID uid) k)"
proof (rule confined_bind_strong [where P = "\<lambda>r. \<forall>u. r = Inr u \<longrightarrow> us_MerchantID u = m"])
  show "\<forall>u. r = Inr u \<longrightarrow> us_MerchantID u = m"
    if "same_account m uid tok w1 w2" "run_state (User_GetByID uid) w1 = (r, v)" for r v w1 w2
    using that by (auto simp: User_GetByID_def db_QueryRow_def same_account_def account_ok_def split: outcome.splits dest!: sql_one_Inr)
  show "confined (same_account m uid tok) (k r)" if "\<forall>u. r = Inr u \<longrightarrow> us_MerchantID u = m" for r
    using that assms by (cases r) simp_all
qed (rule account_queries)

lemma account_session:
  assumes "\<And>s. ss_UserID s = uid \<Longrightarrow> ss_MerchantID s = m \<Longrightarrow> confined (same_account m uid tok) (k (Inr s))"
    "\<And>e. confined (same_account m uid tok) (k (Inl e))"
  shows "confined (same_account m uid tok) (State_Monad.bind (Session_GetByToken tok) k)"
proof (rule confined_bind_strong [where P = "\<lambda>r. \<forall>s. r = Inr s \<longrightarrow> ss_UserID s = uid \<and> ss_MerchantID s = m"])
  let ?rows = "\<lambda>now d. concat (map (\<lambda>s. map (\<lambda>u. s\<lparr>ss_MerchantID := us_MerchantID u\<rparr>) (filter (\<lambda>u. us_ID u = uid) (t_users d)))
     (filter (\<lambda>s. ss_Token s = tok \<and> now < ss_ExpiresAt s) (t_sessions d)))"
  have rows: "session_rows tok now d = ?rows now d" if "account_ok m uid tok d" for now d
    unfolding session_rows_def using that by (intro arg_cong [where f = concat] map_cong) (auto simp: account_ok_def)
  show "confined (same_account m uid tok) (Session_GetByToken tok)"
    unfolding Session_GetByToken_def
  proof (rule account.query_row)
    fix now w1 w2
    assume w: "same_account m uid tok w1 w2"
    then show "session_rows tok now (w_db w1) = session_rows tok now (w_db w2)"
      using account_selects(5) [OF w, of "\<lambda>s. ss_Token s = tok \<and> now < ss_ExpiresAt s"]
      by (simp add: rows same_account_def [of m uid tok w1 w2] same_rows(9) [OF w])
  qed
  show "\<forall>s. r = Inr s \<longrightarrow> ss_UserID s = uid \<and> ss_MerchantID s = m"
    if w: "same_account m uid tok w1 w2" and run: "run_state (Session_GetByToken tok) w1 = (r, v)" for r v w1 w2
  proof (intro allI impI)
    fix s
    assume "r = Inr s"
    moreover have ok: "account_ok m uid tok (w_db w1)" using w by (simp add: same_account_def)
    ultimately obtain now where "s \<in> set (?rows now (w_db w1))" using run rows [OF ok]
      by (auto simp: Session_GetByToken_def db_QueryRow_def split: outcome.splits dest!: sql_one_Inr)
    then show "ss_UserID s = uid \<and> ss_MerchantID s = m" using ok by (auto simp: account_ok_def)
  qed
  show "confined (same_account m uid tok) (k r)" if "\<forall>s. r = Inr s \<longrightarrow> ss_UserID s = uid \<and> ss_MerchantID s = m" for r
    using that assms by (cases r) simp_all
qed

lemma account_PortalAuth:
  assumes "confined (same_account m uid (bearer_token r)) (next (r\<lparr>aq_PortalUserID := Some uid, aq_PortalMerchantID := Some m\<rparr>))"
  shows "confined (same_account m uid (bearer_token r)) (PortalAuth next r)"
  unfolding PortalAuth_def bearer_token_def [symmetric]
  by (rule confined_if, rule confined_respond, rule account_session) (use assms in \<open>simp_all add: confined_respond\<close>)

text \<open>Page by page.\<close>

lemma account_reading_pages:
  assumes "getMerchantID r = m" "getUserID r = uid"
  shows "confined (same_account m uid tok) (DashboardOverview r)" "confined (same_account m uid tok) (DashboardVolume r)"
    "confined (same_account m uid tok) (PortalListTransactions r)" "confined (same_account m uid tok) (ExportTransactionsCSV r)"
    "confined (same_account m uid tok) (PortalListPayouts r)" "confined (same_account m uid tok) (ListCustomers r)"
    "confined (same_account m uid tok) (GetCustomerCharges r)" "confined (same_account m uid tok) (ListTeamMembers r)"
    "confined (same_account m uid tok) (ListInvitations r)" "confined (same_account m uid tok) (PortalListAPIKeys r)"
    "confined (same_account m uid tok) (ListWebhookEndpoints r)" "confined (same_account m uid tok) (ListWebhookEvents r)"
    "confined (same_account m uid tok) (ListNotifications r)" "confined (same_account m uid tok) (GetNotificationPreferences r)"
    "confined (same_account m uid tok) (GetWorkspace r)"
  unfolding DashboardOverview_def DashboardVolume_def PortalListTransactions_def ExportTransactionsCSV_def PortalListPayouts_def
    ListCustomers_def GetCustomerCharges_def ListTeamMembers_def ListInvitations_def PortalListAPIKeys_def ListWebhookEndpoints_def
    ListWebhookEvents_def ListNotifications_def GetNotificationPreferences_def GetWorkspace_def assms Let_def
  by (intro confined_intros account.env_calls)+

lemma account_writing_pages:
  assumes "getMerchantID r = m" "getUserID r = uid"
  shows "confined (same_account m uid tok) (ResendInvitation r)" "confined (same_account m uid tok) (RevokeInvitation r)"
    "confined (same_account m uid tok) (RevokeAPIKey r)" "confined (same_account m uid tok) (MarkAllNotificationsRead r)"
    "confined (same_account m uid tok) (UpdateNotificationPreferences r)"
  unfolding ResendInvitation_def RevokeInvitation_def RevokeAPIKey_def MarkAllNotificationsRead_def UpdateNotificationPreferences_def
    assms Let_def
  by (intro confined_intros account.env_calls)+

lemma account_profile_pages:
  assumes "getMerchantID r = m" "getUserID r = uid"
  shows "confined (same_account m uid tok) (GetProfile r)" "confined (same_account m uid tok) (UpdateProfile r)"
    "confined (same_account m uid tok) (UpdateWorkspace r)"
proof -
  show "confined (same_account m uid tok) (GetProfile r)"
    unfolding GetProfile_def assms by (rule account_user) (simp_all add: account_respond_profile account_portal_error)
  show "confined (same_account m uid tok) (UpdateProfile r)"
    unfolding UpdateProfile_def assms split_def
    by (rule account_with_body, rule confined_bind, rule account_updates, rule confined_sum, rule account_portal_error, rule account_user)
      (simp_all add: account_respond_profile account_portal_error)
  show "confined (same_account m uid tok) (UpdateWorkspace r)"
    unfolding UpdateWorkspace_def assms split_def Let_def
    by (rule account_with_body, rule account_workspace, simp, rule confined_bind, rule account_Merchant_Update, simp)
      (auto intro!: confined_intros account.env_calls)
qed

lemma account_page:
  assumes "p \<in> set isolated_pages" "getMerchantID r = m" "getUserID r = uid"
  shows "confined (same_account m uid tok) (page_handler p r)"
  using assms(1) account_reading_pages [OF assms(2,3)] account_writing_pages [OF assms(2,3)] account_profile_pages [OF assms(2,3)]
    account_GetCustomer [OF assms(2)] account_GetTransaction [OF assms(2)]
  by (auto simp: isolated_pages_def)

lemma account_PortalRouter:
  assumes "p \<in> set isolated_pages"
  shows "confined (same_account m uid (bearer_token r)) (PortalRouter h (Page p) r)"
  unfolding PortalRouter_def
proof (rule account.chain)
  fix r' :: api_request
  assume "same_request r' r"
  then have token: "bearer_token r = bearer_token r'" by (simp add: bearer_token_def same_request_simps)
  show "confined (same_account m uid (bearer_token r)) (portal_routed h (Page p) r')"
    unfolding token by (simp, rule account_PortalAuth, rule account_page [OF assms]) (simp_all add: getMerchantID_def getUserID_def)
qed

subsection \<open>What a page leaves alone\<close>

text \<open>Everything but the rows of the merchant and the user: all payment intents, attempts, entries and
  sessions, the rows of the other merchants, and everything outside the database.\<close>

definition foreign :: "string \<Rightarrow> string \<Rightarrow> db \<Rightarrow> db" where
  "foreign m uid d = d\<lparr>t_payouts := filter (\<lambda>p. po_MerchantID p \<noteq> m) (t_payouts d),
      t_merchants := filter (\<lambda>x. mch_ID x \<noteq> m) (t_merchants d),
      t_api_keys := filter (\<lambda>k. ak_MerchantID k \<noteq> m) (t_api_keys d),
      t_webhook_endpoints := filter (\<lambda>e. ep_MerchantID e \<noteq> m) (t_webhook_endpoints d),
      t_notifications := filter (\<lambda>n. nt_MerchantID n \<noteq> m) (t_notifications d),
      t_users := filter (\<lambda>u. us_ID u \<noteq> uid) (t_users d),
      t_customers := filter (\<lambda>c. cu_MerchantID c \<noteq> m) (t_customers d),
      t_team_invitations := filter (\<lambda>x. iv_MerchantID x \<noteq> m) (t_team_invitations d),
      t_notification_preferences := filter (\<lambda>p. np_MerchantID p \<noteq> m) (t_notification_preferences d)\<rparr>"

definition foreign_effects :: "string \<Rightarrow> string \<Rightarrow> world \<Rightarrow> db \<times> (string \<rightharpoonup> json \<times> time) \<times> bus_message list \<times> http_request list \<times>
    timer list \<times> (string \<rightharpoonup> otp_entry)" where
  "foreign_effects m uid w = (foreign m uid (w_db w), w_redis w, w_bus w, w_http w, w_timers w, w_otp w)"

lemma foreign_next [simp]: "foreign_effects m uid (next_step w) = foreign_effects m uid w"
  by (simp add: foreign_effects_def)

lemma foreign_db: "foreign m uid d = foreign m uid (w_db w) \<Longrightarrow> foreign_effects m uid (w\<lparr>w_db := d\<rparr>) = foreign_effects m uid w"
  by (simp add: foreign_effects_def)

lemma filter_map_other: "(\<And>x. Q (f x) = Q x) \<Longrightarrow> (\<And>x. Q x \<Longrightarrow> f x = x) \<Longrightarrow> filter Q (map f xs) = filter Q xs"
  by (induction xs) simp_all

lemma foreign_deletes:
  "filter (\<lambda>x. (iv_MerchantID x = m \<longrightarrow> iv_Email x \<noteq> email) \<and> iv_MerchantID x \<noteq> m) ivs = filter (\<lambda>x. iv_MerchantID x \<noteq> m) ivs"
  "filter (\<lambda>x. (ak_ID x = i \<longrightarrow> ak_MerchantID x \<noteq> m) \<and> ak_MerchantID x \<noteq> m) aks = filter (\<lambda>x. ak_MerchantID x \<noteq> m) aks"
  by (rule filter_cong, simp, blast)+

lemma foreign_statements [keeps_intros]:
  "keeps (foreign_effects m uid) (Invitation_DeleteByEmail m email)" "keeps (foreign_effects m uid) (Merchant_DeleteAPIKey i m)"
  "keeps (foreign_effects m uid) (Notification_MarkAllRead m)" "keeps (foreign_effects m uid) (User_UpdateProfile uid name title phone)"
  "keeps (foreign_effects m uid) (Invitation_Upsert iv)" "keeps (foreign_effects m uid) (Notification_UpsertPreferences m prefs)"
  unfolding Invitation_DeleteByEmail_def Merchant_DeleteAPIKey_def Notification_MarkAllRead_def User_UpdateProfile_def
    Invitation_Upsert_def Notification_UpsertPreferences_def
  by (rule keeps_db_exec, simp, rule foreign_db, auto simp: table_delete_def table_update_def table_upsert_def table_insert_def
      Let_def foreign_def invitation_indexes_def filter_map_other foreign_deletes split: if_splits)+

lemma foreign_creations [keeps_intros]:
  "po_MerchantID p = m \<Longrightarrow> keeps (foreign_effects m uid) (Payout_Create p)"
  "cu_MerchantID c = m \<Longrightarrow> keeps (foreign_effects m uid) (Customer_Create c)"
  "iv_MerchantID iv = m \<Longrightarrow> keeps (foreign_effects m uid) (Invitation_Create iv)"
  "ak_MerchantID k = m \<Longrightarrow> keeps (foreign_effects m uid) (Merchant_CreateAPIKey k)"
  "ep_MerchantID e = m \<Longrightarrow> keeps (foreign_effects m uid) (Endpoint_Create e)"
  "mch_ID x = m \<Longrightarrow> keeps (foreign_effects m uid) (Merchant_Update x)"
  unfolding Payout_Create_def Customer_Create_def Invitation_Create_def Merchant_CreateAPIKey_def Endpoint_Create_def Merchant_Update_def
  by (rule keeps_db_exec, simp, rule foreign_db, auto simp: table_insert_def table_update_def foreign_def filter_map_other split: if_splits)+

lemma foreign_with_body [keeps_intros]:
  "(\<And>q. keeps f (k q)) \<Longrightarrow> keeps f (with_body r dec msg k)"
  unfolding with_body_def respondPortalError_def respondError_def by (intro keeps_intros)

lemma keeps_respond [keeps_intros]: "keeps f (respond r st j)" "keeps f (respondPortalError r st code msg)" "keeps f (respondError r st code msg)"
  by (simp_all add: respond_def respondPortalError_def respondError_def keeps_return)

lemma keeps_printers [keeps_intros]: "keeps f printers"
  by (simp add: printers_def keeps_gets)

lemma keeps_notification_list [keeps_intros]: "(\<And>w. f (next_step w) = f w) \<Longrightarrow> keeps f (notification_list ns)"
  by (induction ns) (auto intro!: keeps_intros)

lemma keeps_bind_strong:
  assumes "keeps f c" "\<And>w a v. run_state c w = (a, v) \<Longrightarrow> P a" "\<And>a. P a \<Longrightarrow> keeps f (k a)"
  shows "keeps f (State_Monad.bind c k)"
proof (rule keepsI)
  fix w
  obtain a v where run: "run_state c w = (a, v)" by fastforce
  show "f (snd (run_state (State_Monad.bind c k) w)) = f w"
    using keepsD [OF assms(3) [OF assms(2) [OF run]], of v] keeps_run [OF assms(1) run] run by simp
qed

lemma foreign_UpdateWorkspace: "getMerchantID r = m \<Longrightarrow> keeps (foreign_effects m uid) (UpdateWorkspace r)"
  unfolding UpdateWorkspace_def split_def Let_def
proof (rule foreign_with_body, rule keeps_bind_strong [where P = "\<lambda>r. \<forall>x. r = Inr x \<longrightarrow> mch_ID x = m"])
  fix q a w v and t :: "error + merchant"
  assume m: "getMerchantID r = m"
  show "keeps (foreign_effects m uid) (Merchant_GetByID (getMerchantID r))"
    unfolding Merchant_GetByID_def by (intro keeps_intros) simp
  show "\<forall>x. t = Inr x \<longrightarrow> mch_ID x = m" if "run_state (Merchant_GetByID (getMerchantID r)) w = (t, v)"
    using that m by (auto simp: Merchant_GetByID_def db_QueryRow_def split: outcome.splits dest!: sql_one_Inr)
qed (auto intro!: keeps_intros split: sum.split)

lemma foreign_creating_pages:
  assumes "getMerchantID r = m"
  shows "keeps (foreign_effects m uid) (CreatePayout r)" "keeps (foreign_effects m uid) (CreateCustomer r)"
    "keeps (foreign_effects m uid) (InviteMember r)" "keeps (foreign_effects m uid) (PortalCreateAPIKey r)"
    "keeps (foreign_effects m uid) (CreateWebhookEndpoint r)"
  unfolding CreatePayout_def CreateCustomer_def InviteMember_def PortalCreateAPIKey_def CreateWebhookEndpoint_def assms Let_def
    Member_GetByEmail_def Invitation_GetByEmail_def
  by ((intro keeps_intros; simp)+)

lemma foreign_writing_pages:
  assumes "getMerchantID r = m" "getUserID r = uid"
  shows "keeps (foreign_effects m uid) (ResendInvitation r)" "keeps (foreign_effects m uid) (RevokeInvitation r)"
    "keeps (foreign_effects m uid) (RevokeAPIKey r)" "keeps (foreign_effects m uid) (MarkAllNotificationsRead r)"
    "keeps (foreign_effects m uid) (UpdateNotificationPreferences r)" "keeps (foreign_effects m uid) (UpdateProfile r)"
  unfolding ResendInvitation_def RevokeInvitation_def RevokeAPIKey_def MarkAllNotificationsRead_def UpdateNotificationPreferences_def
    UpdateProfile_def respond_profile_def assms Let_def User_GetByID_def Merchant_GetByID_def Invitation_GetByEmail_def
    Notification_GetPreferences_def
  by ((intro keeps_intros; simp)+)

lemma reading_pages_keep:
  assumes f: "\<And>w. f (next_step w) = f w"
  shows "keeps f (DashboardOverview r)" "keeps f (DashboardVolume r)" "keeps f (PortalListTransactions r)" "keeps f (ExportTransactionsCSV r)"
    "keeps f (PortalListPayouts r)" "keeps f (ListCustomers r)" "keeps f (GetCustomerCharges r)" "keeps f (ListTeamMembers r)"
    "keeps f (ListInvitations r)" "keeps f (PortalListAPIKeys r)" "keeps f (ListWebhookEndpoints r)" "keeps f (ListWebhookEvents r)"
    "keeps f (ListNotifications r)" "keeps f (GetNotificationPreferences r)" "keeps f (GetWorkspace r)" "keeps f (GetTransaction r)"
    "keeps f (GetCustomer r)" "keeps f (ListWebhookDeliveries r)" "keeps f (GetProfile r)"
  unfolding DashboardOverview_def DashboardVolume_def PortalListTransactions_def ExportTransactionsCSV_def PortalListPayouts_def
    ListCustomers_def GetCustomerCharges_def ListTeamMembers_def ListInvitations_def PortalListAPIKeys_def ListWebhookEndpoints_def
    ListWebhookEvents_def ListNotifications_def GetNotificationPreferences_def GetWorkspace_def Let_def GetTransaction_def
    GetCustomer_def ListWebhookDeliveries_def GetProfile_def respond_profile_def balance_or_zero_def Ledger_Balance_def
    repo_defs portal_repo_defs
  by ((intro keeps_intros; simp add: f)+)

lemma foreign_page:
  assumes "p \<notin> {PAccept, PRetry}" "getMerchantID r = m" "getUserID r = uid"
  shows "keeps (foreign_effects m uid) (page_handler p r)"
  using assms(1) foreign_UpdateWorkspace [OF assms(2), of uid] foreign_creating_pages [OF assms(2), of uid]
    foreign_writing_pages [OF assms(2,3)] reading_pages_keep [of "foreign_effects m uid" r]
  by (cases p) simp_all

text \<open>A live session of the account is the user's and the merchant's.\<close>

lemma session_of_account: "account_ok m uid tok d \<Longrightarrow> s \<in> set (session_rows tok now d) \<Longrightarrow> ss_UserID s = uid \<and> ss_MerchantID s = m"
  by (auto simp: session_rows_def account_ok_def)

lemma PortalAuth_keeps:
  assumes ok: "account_ok m uid (bearer_token r) (w_db w)"
    and kept: "keeps f (next (r\<lparr>aq_PortalUserID := Some uid, aq_PortalMerchantID := Some m\<rparr>))" and f: "\<And>w. f (next_step w) = f w"
  shows "wp (PortalAuth next r) (\<lambda>_ v. f v = f w) w"
proof (rule wp_PortalAuth)
  fix s
  assume "s \<in> set (session_rows (bearer_token r) (o_clock (w_env w) (w_step w)) (w_db w))"
  from session_of_account [OF ok this]
  show "wp (next (r\<lparr>aq_PortalUserID := Some (ss_UserID s), aq_PortalMerchantID := Some (ss_MerchantID s)\<rparr>)) (\<lambda>_ v. f v = f w) (next_step w)"
    using keepsD [OF kept, of "next_step w"] by (simp add: wp_def f split_def)
qed (auto simp: f)

subsection \<open>Two merchants' sessions\<close>

definition portal_user :: user where
  "portal_user = \<lparr>us_ID = ''u-1'', us_MerchantID = ''m-1'', us_Name = ''Ann Otieno'', us_Email = ''ann@shop.ke'', us_PasswordHash = ''$2a$pw'',
     us_Title = ''Owner'', us_Phone = ''0711000001'', us_Role = ''owner'', us_CreatedAt = 0\<rparr>"

definition portal_session :: session where
  "portal_session = \<lparr>ss_ID = ''s-1'', ss_UserID = ''u-1'', ss_MerchantID = [], ss_Token = ''tok'', ss_ExpiresAt = 24 * Hour,
     ss_CreatedAt = 0\<rparr>"

definition portal_request :: api_request where
  "portal_request = \<lparr>aq_Authorization = ''Bearer tok'', aq_XRequestID = ''q-1'', aq_ContentLength = 0, aq_Body = Some NilBytes,
     aq_Query = (\<lambda>_. []), aq_Param = (\<lambda>_. ''ev-1''), aq_ReqID = [], aq_ConversationID = None, aq_MerchantID = None,
     aq_PortalUserID = None, aq_PortalMerchantID = None\<rparr>"

text \<open>The user of \<open>m-1\<close> is logged in; the payment intent is the given merchant's.\<close>

definition portal_world :: "string \<Rightarrow> world" where
  "portal_world owner = start_world (calm_env no_http [])
     (empty_db\<lparr>t_users := [portal_user], t_sessions := [portal_session], t_payment_intents := [card_intent\<lparr>pi_MerchantID := owner\<rparr>]\<rparr>)"

lemma portal_account: "account_ok ''m-1'' ''u-1'' ''tok'' (w_db (portal_world x))"
  by (simp add: account_ok_def portal_world_def start_world_def empty_db_def portal_user_def portal_session_def)

lemma portal_token: "bearer_token portal_request = ''tok''" "has_prefix (aq_Authorization portal_request) Bearer"
  by (simp_all add: bearer_token_def portal_request_def Bearer_def has_prefix_def)

text \<open>An event and its delivery to an endpoint of another merchant.\<close>

definition foreign_event :: webhook_event_row where
  "foreign_event = \<lparr>we_ID = ''ev-1'', we_PSP = ''paystack'', we_EventType = ''charge.success'', we_PSPReference = ''ref-9'',
     we_DedupKey = ''d'', we_Payload = NilBytes, we_ProcessingStatus = WebhookProcessed, we_ReceivedAt = 0\<rparr>"

definition foreign_delivery :: webhook_delivery where
  "foreign_delivery = failed_delivery\<lparr>wd_WebhookEventID := Some ''ev-1'', wd_EndpointID := ''ep-2'', wd_URL := ''https://other/hook''\<rparr>"

definition leaky_world :: world where
  "leaky_world = start_world (calm_env no_http []) (empty_db\<lparr>t_users := [portal_user], t_sessions := [portal_session],
     t_webhook_events := [foreign_event], t_webhook_deliveries := [foreign_delivery],
     t_webhook_endpoints := [sample_endpoint\<lparr>ep_ID := ''ep-2'', ep_MerchantID := ''m-2''\<rparr>]\<rparr>)"

subsection \<open>The properties\<close>





text \<open>C24: A merchant's pages change its own data only. Whatever the request and however its database calls
  fail, a portal page other than accepting an invitation and retrying a delivery leaves the rows of
  the other merchants and users, all payment intents, attempts, ledger entries, refunds and
  sessions, and everything outside the database as they were.\<close>

theorem portal_pages_change_own:
  assumes "p \<notin> {PAccept, PRetry}" and owner: "account_ok m uid (bearer_token r) (w_db w)"
    and run: "run_state (PortalRouter h (Page p) r) w = (resp, v)"
  shows "foreign_effects m uid v = foreign_effects m uid w"
proof (rule wp_run [OF _ run])
  show "wp (PortalRouter h (Page p) r) (\<lambda>resp v. foreign_effects m uid v = foreign_effects m uid w) w"
    unfolding PortalRouter_def portal_routed.simps
  proof (rule wp_chain)
    fix r' u
    assume r': "same_request r' r" and u: "u = w \<or> u = next_step w"
    have ok: "account_ok m uid (bearer_token r') (w_db u)" and eff: "foreign_effects m uid u = foreign_effects m uid w"
      using owner u by (auto simp: bearer_token_def same_request_simps [OF r'])
    have "keeps (foreign_effects m uid) (page_handler p (r'\<lparr>aq_PortalUserID := Some uid, aq_PortalMerchantID := Some m\<rparr>))"
      by (rule foreign_page [OF assms(1)]) (simp_all add: getMerchantID_def getUserID_def)
    then have "wp (PortalAuth (page_handler p) r') (\<lambda>_ v. foreign_effects m uid v = foreign_effects m uid u) u"
      by (rule PortalAuth_keeps [OF ok]) simp
    then show "wp (PortalAuth (page_handler p) r') (\<lambda>p v. \<forall>i. foreign_effects m uid v = foreign_effects m uid w) u"
      by (rule wp_mono) (simp add: eff)
  qed
qed

theorem portal_pages_change_own_witness:
  "foreign_effects ''m-1'' ''u-1'' (snd (run_state (PortalRouter \<lparr>ph_SMS = None\<rparr> (Page PCreatePayout) portal_request) (portal_world ''m-2''))) =
     foreign_effects ''m-1'' ''u-1'' (portal_world ''m-2'')"
proof -
  let ?page = "PortalRouter \<lparr>ph_SMS = None\<rparr> (Page PCreatePayout) portal_request"
  have "account_ok ''m-1'' ''u-1'' (bearer_token portal_request) (w_db (portal_world ''m-2''))"
    by (simp add: portal_token portal_account)
  then show ?thesis by (rule portal_pages_change_own [OF _ _ prod.collapse [symmetric], rotated]) simp
qed

lemma scan_all_Inr: "(\<And>x. x \<in> set xs \<Longrightarrow> f x = Inr x) \<Longrightarrow> scan_all f xs = Inr xs"
  by (induction xs) simp_all



end
