(* ===== verification/PortalFlows.thy ===== *)
theory PortalFlows
  imports PortalAccess
begin

section \<open>What the portal's operations achieve\<close>

text \<open>
  From one request to a later one: a login and the session it opens, a sign-up and its code, an API
  key from its creation to its revocation, the preferences and the export, and where the pages
  do not do what they say.
\<close>

subsection \<open>Bodies\<close>

definition decoded :: "api_request \<Rightarrow> (fields \<Rightarrow> 'a option) \<Rightarrow> 'a option" where
  "decoded r dec = Option.bind (Option.bind (aq_Body r) decode_envelope) (\<lambda>env. Option.bind (primary_fields env) dec)"

lemma decoded_same: "same_request r' r \<Longrightarrow> decoded r' dec = decoded r dec"
  by (simp add: decoded_def same_request_simps)

lemma wp_with_body:
  assumes "\<And>q. rp_Status q = 400 \<Longrightarrow> Q (Some q) w" "\<And>x. decoded r dec = Some x \<Longrightarrow> wp (k x) Q w"
  shows "wp (with_body r dec msg k) Q w"
proof (cases "Option.bind (aq_Body r) decode_envelope")
  case None
  then show ?thesis using assms(1) by (simp add: with_body_def respondPortalError_def respondError_def wp_return)
next
  case (Some env)
  then show ?thesis using assms by (cases "Option.bind (primary_fields env) dec")
      (simp_all add: with_body_def decoded_def respondPortalError_def respondError_def wp_return del: bind_assoc)
qed

lemma with_body_decoded: "decoded r dec = Some x \<Longrightarrow> with_body r dec msg k = k x"
  by (auto simp: with_body_def decoded_def split: option.splits Option.bind_splits)

lemma wp_respond [wp_simps]:
  "wp (respond r st j) Q w = Q (Some (json_response st (buildEnvelope r ''0'' ''Success'' (show_int st) (StatusText st) j None))) w"
  by (simp add: respond_def wp_return)

lemma wp_portal_error: "(\<And>q. rp_Status q = st \<Longrightarrow> Q (Some q) w) \<Longrightarrow> wp (respondPortalError r st code msg) Q w"
  by (simp add: respondPortalError_def respondError_def wp_return)

text \<open>A page's request with the given data.\<close>

definition page_request :: "fields \<Rightarrow> api_request" where
  "page_request fs = portal_request\<lparr>aq_Body := Some (Doc (JObj [(''messageID'', JStr ''1''), (''primaryData'', JObj fs)])),
     aq_PortalUserID := Some ''u-1'', aq_PortalMerchantID := Some ''m-1''\<rparr>"

subsection \<open>Login\<close>

text \<open>A request with the token is handled as the user's, of the merchant.\<close>

definition admits :: "string \<Rightarrow> string \<Rightarrow> string \<Rightarrow> world \<Rightarrow> bool" where
  "admits tok uid m w \<longleftrightarrow> (\<forall>h r. aq_Authorization r = Bearer @ tok \<longrightarrow>
     run_state (PortalAuth h r) w = run_state (h (r\<lparr>aq_PortalUserID := Some uid, aq_PortalMerchantID := Some m\<rparr>)) (next_step w))"

definition rejects :: "string \<Rightarrow> world \<Rightarrow> bool" where
  "rejects tok w \<longleftrightarrow> (\<forall>h r. aq_Authorization r = Bearer @ tok \<longrightarrow>
     (\<exists>q. run_state (PortalAuth h r) w = (Some q, next_step w) \<and> rp_Status q = 401))"

definition logged_in :: "string \<Rightarrow> world \<Rightarrow> api_response \<Rightarrow> world \<Rightarrow> user \<Rightarrow> session \<Rightarrow> bool" where
  "logged_in pw w q v u s \<longleftrightarrow> u \<in> set (t_users (w_db w)) \<and> o_bcrypt_match (w_env w) (us_PasswordHash u) pw \<and>
     (\<forall>x \<in> set (t_users (w_db w)). us_Email x = us_Email u \<longrightarrow> us_CreatedAt x \<le> us_CreatedAt u) \<and> ss_UserID s = us_ID u \<and>
     (\<exists>fs. primary_data q = Some (JObj fs) \<and> map_of fs ''token'' = Some (JStr (ss_Token s))) \<and>
     (\<exists>k \<ge> w_step w. ss_ExpiresAt s = o_clock (w_env w) k + session_lifetime) \<and>
     filter (\<lambda>x. ss_UserID x = us_ID u \<or> ss_Token x = ss_Token s) (t_sessions (w_db v)) = [s] \<and> t_users (w_db v) = t_users (w_db w)"

text \<open>The session made by the calls from \<open>k\<close> on.\<close>

definition session_from :: "world \<Rightarrow> nat \<Rightarrow> string \<Rightarrow> session" where
  "session_from w k uid = \<lparr>ss_ID = o_uuid (w_env w) k, ss_UserID = uid, ss_MerchantID = [], ss_Token = o_uuid (w_env w) (Suc k),
     ss_ExpiresAt = o_clock (w_env w) (Suc (Suc k)) + session_lifetime, ss_CreatedAt = o_clock (w_env w) (Suc (Suc (Suc k)))\<rparr>"

lemma logged_inI:
  assumes "u \<in> set (t_users (w_db w))" "o_bcrypt_match (w_env w) (us_PasswordHash u) pw"
    and "\<forall>x. x \<in> set (t_users (w_db w)) \<and> us_Email x = us_Email u \<longrightarrow> us_CreatedAt x \<le> us_CreatedAt u"
    and "primary_data q = Some (JObj ((''token'', JStr (ss_Token (session_from w k (us_ID u)))) # fs))" "w_step w \<le> k"
    and rows: "t_sessions (w_db v) = filter (\<lambda>r. ss_UserID r \<noteq> us_ID u) (t_sessions (w_db w)) @ [session_from w k (us_ID u)]"
    and new: "\<not> list_ex (\<lambda>x. ss_ID x = ss_ID (session_from w k (us_ID u)) \<or> ss_Token x = ss_Token (session_from w k (us_ID u)))
      (filter (\<lambda>r. ss_UserID r \<noteq> us_ID u) (t_sessions (w_db w)))"
    and "t_users (w_db v) = t_users (w_db w)"
  shows "logged_in pw w q v u (session_from w k (us_ID u))"
proof -
  let ?s = "session_from w k (us_ID u)"
  have "filter (\<lambda>x. ss_UserID x = us_ID u \<or> ss_Token x = ss_Token ?s) (filter (\<lambda>r. ss_UserID r \<noteq> us_ID u) (t_sessions (w_db w))) = []"
    using new by (auto simp: filter_empty_conv list_ex_iff)
  then have "filter (\<lambda>x. ss_UserID x = us_ID u \<or> ss_Token x = ss_Token ?s) (t_sessions (w_db v)) = [?s]"
    by (simp add: rows session_from_def)
  moreover have "ss_UserID ?s = us_ID u" "\<exists>k \<ge> w_step w. ss_ExpiresAt ?s = o_clock (w_env w) k + session_lifetime"
    using assms(5) by (auto simp: session_from_def intro!: exI [of _ "Suc (Suc k)"])
  ultimately show ?thesis using assms(1-4,8) by (auto simp: logged_in_def)
qed

lemma newest_set: "x \<in> set (newest t rows) \<longleftrightarrow> x \<in> set rows \<and> (\<forall>y \<in> set rows. t y \<le> t x)"
  by (auto simp: newest_def list_all_iff)

lemma wp_Login:
  assumes "db_reliable w"
  shows "wp (Login r) (\<lambda>p v. \<forall>q. p = Some q \<and> rp_Status q = 200 \<longrightarrow> (\<exists>email pw u s. decoded r decode_credentials = Some (email, pw) \<and>
     us_Email u = email \<and> logged_in pw w q v u s)) w"
  unfolding Login_def
  apply (rule wp_with_body, simp)
  using assms apply (auto simp: User_GetByEmailGlobal_def Session_DeleteByUserID_def Session_Create_def new_session_def Merchant_GetByID_def
      wp_simps run_stmt_def table_insert_def table_delete_def db_reliable_def printers_def respondPortalError_def respondError_def
      newest_set split: sum.split if_splits dest!: sql_one_Inr)
  subgoal for pw u m
    apply (rule exI [of _ u], rule conjI, rule refl)
    apply (rule exI [of _ "session_from w (Suc (Suc (w_step w))) (us_ID u)"])
    apply (rule logged_inI, simp_all add: session_from_def)
    done
  done

text \<open>The session's token, on a state with the users and sessions of the login.\<close>

lemma logged_in_session_rows:
  assumes "logged_in pw w q v u s" "distinct (map us_ID (t_users (w_db w)))"
  shows "session_rows (ss_Token s) now (w_db v) = (if now < ss_ExpiresAt s then [s\<lparr>ss_MerchantID := us_MerchantID u\<rparr>] else [])"
proof -
  have rows: "filter (\<lambda>x. ss_UserID x = us_ID u \<or> ss_Token x = ss_Token s) (t_sessions (w_db v)) = [s]" and uid: "ss_UserID s = us_ID u"
    and u: "u \<in> set (t_users (w_db w))" "t_users (w_db v) = t_users (w_db w)"
    using assms(1) by (simp_all add: logged_in_def)
  have "filter (\<lambda>x. ss_Token x = ss_Token s \<and> now < ss_ExpiresAt x) (t_sessions (w_db v)) =
      filter (\<lambda>x. ss_Token x = ss_Token s \<and> now < ss_ExpiresAt x)
        (filter (\<lambda>x. ss_UserID x = us_ID u \<or> ss_Token x = ss_Token s) (t_sessions (w_db v)))"
    by (auto intro!: filter_cong)
  moreover have "filter (\<lambda>x. us_ID x = us_ID u) (t_users (w_db v)) = [u]" using filter_key [OF assms(2) u(1)] u(2) by simp
  ultimately show ?thesis unfolding rows by (simp add: session_rows_def uid)
qed


text \<open>C27: A newer account shadows an older one with the same e-mail address. Addresses are unique per merchant
  only, and \<open>Login\<close> looks at the newest account: when it has the address but not the password, the
  answer is 401 and no session is made, whatever older account the credentials belong to.\<close>

theorem newer_account_shadows:
  assumes "db_reliable w" and body: "decoded r decode_credentials = Some (email, pw)" "email \<noteq> []" "pw \<noteq> []"
    and newer: "\<forall>u \<in> set (t_users (w_db w)). us_Email u = email \<and> o_bcrypt_match (w_env w) (us_PasswordHash u) pw \<longrightarrow>
      (\<exists>x \<in> set (t_users (w_db w)). us_Email x = email \<and> us_CreatedAt u < us_CreatedAt x)"
    and run: "run_state (Login r) w = (resp, v)"
  shows "\<exists>q. resp = Some q \<and> rp_Status q = 401 \<and> w_db v = w_db w"
proof (rule wp_run [OF _ run])
  have none: "\<not> o_bcrypt_match (w_env w) (us_PasswordHash u) pw"
    if "u \<in> set (newest us_CreatedAt (filter (\<lambda>u. us_Email u = email) (t_users (w_db w))))" for u
    using newer that by (fastforce simp: newest_set)
  show "wp (Login r) (\<lambda>resp v. \<exists>q. resp = Some q \<and> rp_Status q = 401 \<and> w_db v = w_db w) w"
    unfolding Login_def with_body_decoded [OF body(1)]
    using assms(1) body(2,3) none
    by (auto simp: User_GetByEmailGlobal_def wp_simps db_reliable_def respondPortalError_def respondError_def split: sum.split
        dest!: sql_one_Inr)
qed

text \<open>A shop with an owner, and a newer account with the owner's address.\<close>

definition portal_merchant :: merchant where
  "portal_merchant = \<lparr>mch_ID = ''m-1'', mch_Code = ''M-7'', mch_LegalName = ''Shop'', mch_Country = ''KE'', mch_DefaultCurrency = ''KES'',
     mch_Status = MerchantActive, mch_SettlementConfig = NilBytes, mch_CreatedAt = 0\<rparr>"

definition shop_world :: "user list \<Rightarrow> world" where
  "shop_world us = start_world (calm_env no_http []) (empty_db\<lparr>t_merchants := [portal_merchant], t_users := us\<rparr>)"

definition login_request :: api_request where
  "login_request = page_request [(''email'', JStr ''ann@shop.ke''), (''password'', JStr ''pw'')]"

lemma login_body: "decoded login_request decode_credentials = Some (''ann@shop.ke'', ''pw'')"
  by code_simp

lemma shop_reliable: "db_reliable (shop_world us)"
  by (simp add: db_reliable_def shop_world_def start_world_def calm_env_def)


theorem newer_account_shadows_witness:
  "\<exists>q v. run_state (Login login_request) (shop_world [portal_user, portal_user\<lparr>us_ID := ''u-9'', us_MerchantID := ''m-9'',
     us_PasswordHash := ''$2a$other'', us_CreatedAt := 5\<rparr>]) = (Some q, v) \<and> rp_Status q = 401"
proof -
  let ?w = "shop_world [portal_user, portal_user\<lparr>us_ID := ''u-9'', us_MerchantID := ''m-9'', us_PasswordHash := ''$2a$other'', us_CreatedAt := 5\<rparr>]"
  obtain resp v where run: "run_state (Login login_request) ?w = (resp, v)" by fastforce
  from newer_account_shadows [OF shop_reliable login_body _ _ _ run] run show ?thesis
    by (auto simp: shop_world_def start_world_def empty_db_def calm_env_def portal_user_def)
qed

subsection \<open>Invitations\<close>

text \<open>An invitation is never sent again. Whatever the request, the state and the failures, \<open>ResendInvitation\<close>
  answers 404 or 500 and leaves the database as it was: the statement's \<open>ON CONFLICT (merchant_id,
  email)\<close> names columns no unique index is on.\<close>

theorem resend_never_succeeds:
  "\<exists>q v. run_state (ResendInvitation r) w = (Some q, v) \<and> rp_Status q \<in> {404, 500} \<and> w_db v = w_db w"
proof -
  have "wp (ResendInvitation r) (\<lambda>p v. \<exists>q. p = Some q \<and> rp_Status q \<in> {404, 500} \<and> w_db v = w_db w) w"
    by (auto simp: ResendInvitation_def Invitation_GetByEmail_def wp_simps respondPortalError_def respondError_def
        split: outcome.split sum.split)
  then show ?thesis by (cases "run_state (ResendInvitation r) w") (auto simp: wp_def)
qed

subsection \<open>Payouts\<close>

definition valid_payout :: "api_request \<Rightarrow> payout_body \<Rightarrow> bool" where
  "valid_payout r b \<longleftrightarrow> decoded r decode_payout = Some b \<and> 0 < fst (pb_Amount b)"

text \<open>C30: A payout is created whatever the balance. While the database answers and the generated id is new,
  \<open>CreatePayout\<close> answers a well-formed request with a positive amount with 200 and stores a pending
  payout of that amount, in whole units: the balance is not read, nothing is posted to the ledger
  and no provider is called.\<close>

theorem payout_ignores_balance:
  assumes up: "db_reliable w" and valid: "valid_payout r b"
    and fresh: "o_uuid (w_env w) (w_step w) \<notin> po_ID ` set (payouts w)"
    and run: "run_state (CreatePayout r) w = (resp, v)"
  shows "\<exists>q po. resp = Some q \<and> rp_Status q = 200 \<and> payouts v = payouts w @ [po] \<and> po_MerchantID po = getMerchantID r \<and>
     po_Amount po = fl_int (pb_Amount b) \<and> po_Status po = PayoutPending \<and> ledger v = ledger w \<and> w_http v = w_http w"
proof (rule wp_run [OF _ run])
  from valid have body: "decoded r decode_payout = Some b" and amount: "\<not> fst (pb_Amount b) \<le> 0" by (auto simp: valid_payout_def)
  have new: "\<not> list_ex (\<lambda>x. po_ID x = o_uuid (w_env w) (w_step w)) (t_payouts (w_db w))"
    using fresh unfolding list_ex_iff payouts_def by (metis imageI)
  show "wp (CreatePayout r) (\<lambda>resp v. \<exists>q po. resp = Some q \<and> rp_Status q = 200 \<and> payouts v = payouts w @ [po] \<and>
      po_MerchantID po = getMerchantID r \<and> po_Amount po = fl_int (pb_Amount b) \<and> po_Status po = PayoutPending \<and>
      ledger v = ledger w \<and> w_http v = w_http w) w"
    unfolding CreatePayout_def with_body_decoded [OF body]
    using up new amount
    by (simp add: Payout_Create_def Let_def wp_simps run_stmt_def table_insert_def db_reliable_def printers_def payouts_def ledger_def)
qed

theorem payout_ignores_balance_witness:
  "\<exists>q v po. run_state (CreatePayout (page_request [(''amount'', JInt 50)])) calm_world = (Some q, v) \<and> rp_Status q = 200 \<and>
     payouts v = [po] \<and> po_Amount po = 50 \<and> ledger calm_world = []"
proof -
  let ?r = "page_request [(''amount'', JInt 50)]"
  have "(case decoded ?r decode_payout of None \<Rightarrow> False | Some b \<Rightarrow> fl_int (pb_Amount b) = 50 \<and> 0 < fst (pb_Amount b))" by code_simp
  then obtain b where b: "valid_payout ?r b" "fl_int (pb_Amount b) = 50" by (auto simp: valid_payout_def split: option.splits)
  obtain resp v where run: "run_state (CreatePayout ?r) calm_world = (resp, v)" by fastforce
  from payout_ignores_balance [OF _ b(1) _ run] b(2) run show ?thesis
    by (auto simp: db_reliable_def calm_world_def start_world_def calm_env_def empty_db_def payouts_def ledger_def)
qed

subsection \<open>API keys\<close>

text \<open>The API's middleware takes the key for the merchant's, or refuses it.\<close>

definition accepts_key :: "string \<Rightarrow> string \<Rightarrow> world \<Rightarrow> bool" where
  "accepts_key raw m w \<longleftrightarrow> (\<forall>h r. aq_Authorization r = Bearer @ raw \<longrightarrow> o_db (w_env w) (w_step w) = Done \<longrightarrow>
     run_state (AuthMiddleware h r) w = run_state (h (r\<lparr>aq_MerchantID := Some m\<rparr>)) (next_step w))"

definition refuses_key :: "string \<Rightarrow> world \<Rightarrow> bool" where
  "refuses_key raw w \<longleftrightarrow> (\<forall>h r. aq_Authorization r = Bearer @ raw \<longrightarrow> fst (run_state (AuthMiddleware h r) w) = Some writeUnauthorized)"

definition hash_rows :: "string \<Rightarrow> world \<Rightarrow> api_key list" where
  "hash_rows raw w = filter (\<lambda>k. ak_KeyHash k = hex (sha256 raw)) (t_api_keys (w_db w))"

lemma accepts_keyI: "hash_rows raw w = [k] \<Longrightarrow> ak_MerchantID k = m \<Longrightarrow> accepts_key raw m w"
  by (auto simp: accepts_key_def AuthMiddleware_def Merchant_GetAPIKeyByHash_def db_QueryRow_def hash_rows_def Bearer_def has_prefix_def)

lemma refuses_keyI: "hash_rows raw w = [] \<Longrightarrow> refuses_key raw w"
  by (auto simp: refuses_key_def AuthMiddleware_def Merchant_GetAPIKeyByHash_def db_QueryRow_def hash_rows_def Bearer_def has_prefix_def
      split: outcome.split)

definition key_stored :: "api_request \<Rightarrow> world \<Rightarrow> api_response \<Rightarrow> world \<Rightarrow> api_key \<Rightarrow> string \<Rightarrow> fields \<Rightarrow> bool" where
  "key_stored r w q v k raw fs \<longleftrightarrow> primary_data q = Some (JObj fs) \<and> map_of fs ''key'' = Some (JStr raw) \<and>
     map_of fs ''id'' = Some (JStr (ak_ID k)) \<and> ak_KeyHash k = hex (sha256 raw) \<and> ak_MerchantID k = getMerchantID r \<and>
     t_api_keys (w_db v) = t_api_keys (w_db w) @ [k] \<and> ak_ID k \<notin> ak_ID ` set (t_api_keys (w_db w))"

lemma wp_PortalCreateAPIKey:
  "wp (PortalCreateAPIKey r) (\<lambda>p v. \<forall>q. p = Some q \<and> rp_Status q = 200 \<longrightarrow> (\<exists>k raw fs. key_stored r w q v k raw fs)) w"
  unfolding PortalCreateAPIKey_def
  by (rule wp_with_body) (auto simp: wp_simps Let_def Merchant_CreateAPIKey_def run_stmt_def table_insert_def list_ex_iff printers_def
      respondPortalError_def respondError_def key_stored_def split: option.split outcome.split, blast)

text \<open>C29: An API key works from its creation to its revocation. When \<open>CreateAPIKey\<close> of the portal answers
  200 with a key whose hash was not stored before, the API accepts that key as the merchant's; a
  revocation of its id by the merchant makes the API refuse it, and one by any other merchant
  leaves it accepted.\<close>

theorem api_key_lifecycle:
  assumes run: "run_state (PortalCreateAPIKey r) w = (Some q, v)" "rp_Status q = 200"
    and raw: "primary_data q = Some (JObj fs)" "map_of fs ''key'' = Some (JStr raw)" and new: "hash_rows raw w = []"
  shows "accepts_key raw (getMerchantID r) v \<and> (\<exists>i. map_of fs ''id'' = Some (JStr i) \<and>
     (\<forall>r2 u. w_db u = w_db v \<longrightarrow> o_db (w_env u) (w_step u) = Done \<longrightarrow> aq_Param r2 ''id'' = i \<longrightarrow>
       (let u' = snd (run_state (RevokeAPIKey r2) u) in
        if getMerchantID r2 = getMerchantID r then refuses_key raw u' else accepts_key raw (getMerchantID r) u')))"
proof -
  from wp_run [OF wp_PortalCreateAPIKey run(1)] run(2) raw
  obtain k where k: "key_stored r w q v k raw fs" by (auto simp: key_stored_def)
  have rows: "hash_rows raw v = [k]" using k new by (simp add: key_stored_def hash_rows_def)
  have after: "t_api_keys (w_db (snd (run_state (RevokeAPIKey r2) u))) =
      filter (\<lambda>x. \<not> (ak_ID x = aq_Param r2 ''id'' \<and> ak_MerchantID x = getMerchantID r2)) (t_api_keys (w_db v))"
    if "w_db u = w_db v" "o_db (w_env u) (w_step u) = Done" for r2 u
  proof -
    have "wp (RevokeAPIKey r2) (\<lambda>p u'. t_api_keys (w_db u') =
        filter (\<lambda>x. \<not> (ak_ID x = aq_Param r2 ''id'' \<and> ak_MerchantID x = getMerchantID r2)) (t_api_keys (w_db v))) u"
      using that by (simp add: RevokeAPIKey_def Merchant_DeleteAPIKey_def wp_simps run_stmt_def table_delete_def)
    then show ?thesis by (simp add: wp_def split_def)
  qed
  have "if getMerchantID r2 = getMerchantID r then refuses_key raw (snd (run_state (RevokeAPIKey r2) u))
      else accepts_key raw (getMerchantID r) (snd (run_state (RevokeAPIKey r2) u))"
    if u: "w_db u = w_db v" "o_db (w_env u) (w_step u) = Done" "aq_Param r2 ''id'' = ak_ID k" for r2 u
  proof -
    let ?u = "snd (run_state (RevokeAPIKey r2) u)"
    have "hash_rows raw ?u = filter (\<lambda>x. \<not> (ak_ID x = ak_ID k \<and> ak_MerchantID x = getMerchantID r2)) (hash_rows raw v)"
      using after [OF u(1,2)] u(3) by (auto simp: hash_rows_def intro!: filter_cong)
    then show ?thesis using k rows by (auto simp: key_stored_def intro: refuses_keyI accepts_keyI)
  qed
  then show ?thesis using k accepts_keyI [OF rows] by (auto simp: key_stored_def Let_def)
qed

theorem api_key_lifecycle_witness:
  "\<exists>q v fs raw. run_state (PortalCreateAPIKey (page_request [(''name'', JStr ''till'')])) calm_world = (Some q, v) \<and>
     primary_data q = Some (JObj fs) \<and> map_of fs ''key'' = Some (JStr raw) \<and> accepts_key raw ''m-1'' v"
proof -
  let ?r = "page_request [(''name'', JStr ''till'')]"
  have body: "decoded ?r decode_key = Some (''till'', [], [])" by code_simp
  have "wp (PortalCreateAPIKey ?r) (\<lambda>p v. \<exists>q fs raw. p = Some q \<and> rp_Status q = 200 \<and> primary_data q = Some (JObj fs) \<and>
      map_of fs ''key'' = Some (JStr raw)) calm_world"
    unfolding PortalCreateAPIKey_def with_body_decoded [OF body]
    by (simp add: wp_simps Let_def Merchant_CreateAPIKey_def run_stmt_def table_insert_def printers_def calm_world_def start_world_def
        calm_env_def empty_db_def)
  then obtain q v fs raw where run: "run_state (PortalCreateAPIKey ?r) calm_world = (Some q, v)" "rp_Status q = 200"
    "primary_data q = Some (JObj fs)" "map_of fs ''key'' = Some (JStr raw)"
    by (auto simp: wp_def split: prod.splits)
  have "hash_rows raw calm_world = []" by (simp add: hash_rows_def calm_world_def start_world_def empty_db_def)
  from api_key_lifecycle [OF run this] run show ?thesis by (auto simp: page_request_def getMerchantID_def)
qed

subsection \<open>Sign-up\<close>

lemma keeps_signup:
  "keeps w_otp (signup_merchant data)" "keeps w_otp (signup_user r data invited mid)"
  unfolding signup_merchant_def signup_user_def signup_session_def join_team_def new_session_def generateMerchantCode_def Let_def
    Merchant_GetByID_def Merchant_Create_def User_Create_def Session_Create_def Member_Create_def Invitation_DeleteByEmail_def
    Invitation_GetByEmailGlobal_def
  by ((intro keeps_intros; simp)+)

text \<open>The code the caller knows is stored for the phone number, with the same e-mail address, and has
  not expired.\<close>

definition code_known :: "signup_data \<Rightarrow> string \<Rightarrow> world \<Rightarrow> bool" where
  "code_known data otp w \<longleftrightarrow> (\<exists>e. w_otp w (sd_Phone data) = Some e \<and> oe_Code e = otp \<and> sd_Email (oe_Data e) = sd_Email data \<and>
     o_clock (w_env w) (w_step w) \<le> oe_ExpiresAt e)"

text \<open>C28: A sign-up needs the code that was sent, and uses it up. If a sign-up changes the database, its request
  carries the code stored for its phone number, for the same e-mail address and not expired; and
  that code is gone afterwards, whatever fails.\<close>

theorem signup_needs_code:
  assumes run: "run_state (Signup r) w = (resp, v)" and changed: "w_db v \<noteq> w_db w"
  shows "\<exists>data otp. decoded r decode_signup_otp = Some (data, otp) \<and> code_known data otp w \<and> w_otp v = (w_otp w)(sd_Phone data := None)"
proof -
  let ?Q = "\<lambda>resp v. w_db v \<noteq> w_db w \<longrightarrow> (\<exists>data otp. decoded r decode_signup_otp = Some (data, otp) \<and> code_known data otp w \<and>
     w_otp v = (w_otp w)(sd_Phone data := None))"
  have "wp (Signup r) ?Q w"
    unfolding Signup_def
  proof (rule wp_with_body, simp)
    fix x
    assume body: "decoded r decode_signup_otp = Some x"
    obtain data otp where x: "x = (data, otp)" by (cases x)
    have rest: "wp (do { m \<leftarrow> signup_merchant data; (case m of Inl msg \<Rightarrow> respondPortalError r 500 ''1007'' msg
        | Inr (invited, mid) \<Rightarrow> signup_user r data invited mid) }) ?Q (u\<lparr>w_otp := (w_otp w)(sd_Phone data := None)\<rparr>)"
      if "code_known data otp w" for u
    proof -
      have "keeps w_otp (do { m \<leftarrow> signup_merchant data; (case m of Inl msg \<Rightarrow> respondPortalError r 500 ''1007'' msg
        | Inr (invited, mid) \<Rightarrow> signup_user r data invited mid) })" by (intro keeps_intros keeps_signup)
      from keepsD [OF this, of "u\<lparr>w_otp := (w_otp w)(sd_Phone data := None)\<rparr>"] show ?thesis
        using that body x by (auto simp: wp_def split_def)
    qed
    show "wp (case x of (data, otp) \<Rightarrow> (if sd_Name data = [] \<or> sd_Email data = [] \<or> sd_Password data = [] \<or> sd_Phone data = [] \<or> otp = []
     then respondPortalError r 400 ''1001'' ''Name, email, password, phone and otp are required''
     else if CHR ''@'' \<notin> set (sd_Email data) \<or> CHR ''.'' \<notin> set (sd_Email data)
     then respondPortalError r 400 ''1001'' ''Invalid email address''
     else do {
       e \<leftarrow> otp_get (sd_Phone data);
       (case e of
          None \<Rightarrow> respondPortalError r 400 ''1001'' ''Invalid or expired OTP''
        | Some pending \<Rightarrow>
            if oe_Code pending \<noteq> otp then respondPortalError r 400 ''1001'' ''Invalid or expired OTP''
            else if sd_Email (oe_Data pending) \<noteq> sd_Email data
            then respondPortalError r 400 ''1001'' ''Email does not match OTP request''
            else do {
              otp_delete (sd_Phone data);
              m \<leftarrow> signup_merchant data;
              (case m of
                 Inl msg \<Rightarrow> respondPortalError r 500 ''1007'' msg
               | Inr t \<Rightarrow> (case t of (invited, mid) \<Rightarrow> signup_user r data invited mid)) }) })) ?Q w"
      using rest [of "next_step w"]
      by (auto simp: x otp_get_def otp_delete_def code_known_def wp_simps respondPortalError_def respondError_def not_less
          split: option.split)
  qed
  from wp_run [OF this run] changed show ?thesis by simp
qed

lemma keeps_users:
  "keeps (\<lambda>w. t_users (w_db w)) (join_team u)" "keeps (\<lambda>w. t_users (w_db w)) (signup_session r u)"
  unfolding signup_session_def join_team_def new_session_def Merchant_GetByID_def Session_Create_def Member_Create_def
    Invitation_DeleteByEmail_def
  by ((intro keeps_intros; simp)+)

definition signed_up :: "signup_data \<Rightarrow> string \<Rightarrow> world \<Rightarrow> bool" where
  "signed_up data m w \<longleftrightarrow> (\<exists>u \<in> set (t_users (w_db w)). us_MerchantID u = m \<and> us_Email u = sd_Email data \<and>
     us_Role u = or_default (sd_Role data) ''owner'')"

lemma signed_up_cong: "t_users (w_db v) = t_users (w_db w) \<Longrightarrow> signed_up data m v = signed_up data m w"
  by (simp add: signed_up_def)

text \<open>A body that keeps the users keeps who signed up.\<close>

lemma wp_signed_up:
  assumes "keeps (\<lambda>w. t_users (w_db w)) c" "signed_up data m x"
  shows "wp c (\<lambda>p v. Q p \<longrightarrow> signed_up data m v) x"
proof -
  have "signed_up data m (snd (run_state c x)) = signed_up data m x"
    by (rule signed_up_cong) (rule keepsD [OF assms(1)])
  with assms(2) show ?thesis by (simp add: wp_def split_def)
qed

lemma wp_signup_user:
  "wp (signup_user r data invited mid) (\<lambda>p v. (\<exists>q. p = Some q \<and> rp_Status q = 200) \<longrightarrow> signed_up data mid v) w"
proof (cases "o_bcrypt (w_env w) (w_step w) (sd_Password data)")
  case None
  then show ?thesis by (simp add: signup_user_def wp_simps respondPortalError_def respondError_def)
next
  case (Some h)
  have rest: "wp (do { join_team u; signup_session r u }) (\<lambda>p v. (\<exists>q. p = Some q \<and> rp_Status q = 200) \<longrightarrow> signed_up data mid v) x"
    "wp (signup_session r u) (\<lambda>p v. (\<exists>q. p = Some q \<and> rp_Status q = 200) \<longrightarrow> signed_up data mid v) x" if "signed_up data mid x" for u x
    by (rule wp_signed_up [OF _ that], intro keeps_intros keeps_users)+
  show ?thesis
  proof (cases "o_db (w_env w) (Suc (Suc (Suc (w_step w)))) = Done")
    case True
    then show ?thesis
      unfolding signup_user_def Let_def
      by (subst wp_bind, simp only: wp_bcrypt Some option.case, (subst wp_bind, simp only: wp_uuid_New wp_time_Now User_Create_def wp_db_exec)+)
        (auto simp: run_stmt_def table_insert_def respondPortalError_def respondError_def wp_return intro!: rest, simp_all add: signed_up_def)
  next
    case False
    then show ?thesis
      by (cases "o_db (w_env w) (Suc (Suc (Suc (w_step w))))")
        (simp_all add: signup_user_def Let_def wp_simps Some User_Create_def run_stmt_def respondPortalError_def respondError_def split: prod.split sum.split)
  qed
qed

text \<open>An invitation of the address that has not expired, and only of this merchant.\<close>

definition invited_by :: "string \<Rightarrow> string \<Rightarrow> world \<Rightarrow> bool" where
  "invited_by m email w \<longleftrightarrow> m \<noteq> [] \<and> (\<exists>i \<in> set (t_team_invitations (w_db w)). iv_Email i = email \<and> (\<forall>k. o_clock (w_env w) k < iv_ExpiresAt i)) \<and>
     (\<forall>i \<in> set (t_team_invitations (w_db w)). iv_Email i = email \<longrightarrow> iv_MerchantID i = m)"

lemma newest_not_Nil: "rows \<noteq> [] \<Longrightarrow> newest t rows \<noteq> []"
proof -
  assume "rows \<noteq> []"
  then have "Max (t ` set rows) \<in> t ` set rows" by (intro Max_in) simp_all
  then obtain x where "x \<in> set rows" "t x = Max (t ` set rows)" by auto
  then have "x \<in> set (newest t rows)" by (simp add: newest_set)
  then show ?thesis by auto
qed

text \<open>An invited user chooses the role. When a merchant has invited an address, a sign-up with that address
  that is answered with 200 makes a user of that merchant whose role is the request's, or owner
  without one; the role of the invitation is never read, its token is not asked for, and the code
  goes to the phone number of the request, not to the address.\<close>

theorem invited_user_chooses_role:
  assumes up: "db_reliable w" and invited: "invited_by m (sd_Email data) w" and body: "decoded r decode_signup_otp = Some (data, otp)"
    and run: "run_state (Signup r) w = (Some q, v)" "rp_Status q = 200"
  shows "signed_up data m v"
proof -
  let ?Q = "\<lambda>p v. (\<exists>q. p = Some q \<and> rp_Status q = 200) \<longrightarrow> signed_up data m v"
  have merchant: "wp (signup_merchant data) (\<lambda>t v. t = Inr (True, m)) u"
    if u: "w_env u = w_env w" "t_team_invitations (w_db u) = t_team_invitations (w_db w)" "w_step w \<le> w_step u" for u
  proof -
    let ?rows = "filter (\<lambda>x. iv_Email x = sd_Email data \<and> o_clock (w_env w) (w_step u) < iv_ExpiresAt x) (t_team_invitations (w_db w))"
    have "?rows \<noteq> []" using invited by (auto simp: invited_by_def filter_empty_conv)
    then have "newest iv_CreatedAt ?rows \<noteq> []" by (rule newest_not_Nil)
    then obtain i where "sql_one (o_row (w_env w) (w_step u)) (newest iv_CreatedAt ?rows) = Inr i" by (simp add: sql_one_def)
    moreover from this have "iv_MerchantID i = m" using invited by (auto simp: invited_by_def newest_set dest!: sql_one_Inr)
    ultimately show ?thesis using up u invited
      by (simp add: signup_merchant_def Invitation_GetByEmailGlobal_def wp_simps db_reliable_def invited_by_def)
  qed
  have "wp (Signup r) ?Q w"
    unfolding Signup_def with_body_decoded [OF body]
    by (auto simp: otp_get_def otp_delete_def wp_simps respondPortalError_def respondError_def split: option.split
        intro!: wp_mono [OF merchant] wp_signup_user)
  from wp_run [OF this run(1)] run(2) show ?thesis by simp
qed

text \<open>A viewer's invitation, and a sign-up as owner with a code sent to another phone.\<close>

definition viewer_invitation :: team_invitation where
  "viewer_invitation = \<lparr>iv_ID = ''i-1'', iv_MerchantID = ''m-1'', iv_Email = ''joe@shop.ke'', iv_Role = ''viewer'', iv_Token = ''t-1'',
     iv_ExpiresAt = 1000 * Hour, iv_CreatedAt = 0\<rparr>"

definition joe_data :: signup_data where
  "joe_data = \<lparr>sd_Name = ''Joe'', sd_Role = ''owner'', sd_Email = ''joe@shop.ke'', sd_Company = [], sd_Country = [], sd_Currency = [],
     sd_Phone = ''0722000002'', sd_Password = ''pw''\<rparr>"

definition joe_request :: api_request where
  "joe_request = page_request [(''name'', JStr ''Joe''), (''role'', JStr ''owner''), (''email'', JStr ''joe@shop.ke''),
     (''phone'', JStr ''0722000002''), (''password'', JStr ''pw''), (''otp'', JStr ''654321'')]"

definition joe_world :: world where
  "joe_world = (start_world ((calm_env no_http [])\<lparr>o_clock := \<lambda>_. 0\<rparr>)
     (empty_db\<lparr>t_merchants := [portal_merchant], t_team_invitations := [viewer_invitation]\<rparr>))
     \<lparr>w_otp := [''0722000002'' \<mapsto> \<lparr>oe_Code = ''654321'', oe_ExpiresAt = 10 * Minute, oe_Data = joe_data\<rparr>]\<rparr>"

lemma joe_body: "decoded joe_request decode_signup_otp = Some (joe_data, ''654321'')"
  by code_simp

lemma joe_joins: "wp (Signup joe_request) (\<lambda>p v. (\<exists>q. p = Some q \<and> rp_Status q = 200) \<and> t_users (w_db v) \<noteq> []) joe_world"
  unfolding Signup_def with_body_decoded [OF joe_body]
  by (simp add: joe_world_def joe_data_def viewer_invitation_def portal_merchant_def start_world_def calm_env_def empty_db_def duration_defs
      otp_get_def otp_delete_def signup_merchant_def Invitation_GetByEmailGlobal_def newest_def signup_user_def Let_def User_Create_def
      join_team_def Member_Create_def Invitation_DeleteByEmail_def signup_session_def new_session_def Session_Create_def
      Merchant_GetByID_def wp_simps run_stmt_def table_insert_def table_delete_def printers_def or_default_def)

theorem signup_needs_code_witness:
  "\<exists>resp v. run_state (Signup joe_request) joe_world = (resp, v) \<and> w_db v \<noteq> w_db joe_world \<and> w_otp v ''0722000002'' = None"
proof -
  obtain resp v where run: "run_state (Signup joe_request) joe_world = (resp, v)" by fastforce
  have "t_users (w_db v) \<noteq> t_users (w_db joe_world)"
    using wp_run [OF joe_joins run] by (simp add: joe_world_def start_world_def empty_db_def)
  then have "w_db v \<noteq> w_db joe_world" by (auto dest: arg_cong [where f = t_users])
  from signup_needs_code [OF run this] run this show ?thesis by (auto simp: joe_body joe_data_def)
qed

theorem invited_user_chooses_role_witness:
  "\<exists>q v. run_state (Signup joe_request) joe_world = (Some q, v) \<and> signed_up joe_data ''m-1'' v \<and> iv_Role viewer_invitation = ''viewer''"
proof -
  obtain q v where run: "run_state (Signup joe_request) joe_world = (Some q, v)" "rp_Status q = 200"
    using joe_joins by (auto simp: wp_def split: prod.splits)
  have "invited_by ''m-1'' (sd_Email joe_data) joe_world"
    by (simp add: invited_by_def joe_world_def joe_data_def start_world_def empty_db_def viewer_invitation_def duration_defs)
  moreover have "db_reliable joe_world" by (simp add: db_reliable_def joe_world_def start_world_def calm_env_def)
  ultimately have "signed_up joe_data ''m-1'' v" using invited_user_chooses_role [OF _ _ joe_body run] by blast
  with run show ?thesis by (simp add: viewer_invitation_def)
qed

end
