(* ===== verification/PortalData.thy ===== *)
theory PortalData
  imports PortalFlows
begin

section \<open>What the portal stores and exports\<close>

text \<open>
  The documents the portal stores (notification preferences) and writes (the CSV export), and the
  page of a customer's charges.
\<close>

subsection \<open>Preferences\<close>

text \<open>Every stored document of preferences is an object.\<close>

definition preferences_ok :: "world \<Rightarrow> bool" where
  "preferences_ok w \<longleftrightarrow> (\<forall>p \<in> set (t_notification_preferences (w_db w)). \<exists>kvs. np_Preferences p = Doc (JObj kvs))"

lemma preferences_ok_next [simp]: "preferences_ok (next_step w) = preferences_ok w"
  by (simp add: preferences_ok_def)

lemma upsert_preferences_ok:
  assumes "preferences_ok w"
  shows "wp (Notification_UpsertPreferences m (Doc (JObj kvs))) (\<lambda>_. preferences_ok) w"
  using assms
  by (auto simp: Notification_UpsertPreferences_def wp_simps run_stmt_def table_upsert_def table_update_def table_insert_def Let_def
      preferences_ok_def split: outcome.split prod.split sum.split if_splits)

lemma update_preferences_ok:
  assumes "preferences_ok w"
  shows "wp (UpdateNotificationPreferences r) (\<lambda>p v. p \<noteq> None \<and> preferences_ok v) w"
  unfolding UpdateNotificationPreferences_def
proof (rule wp_with_body)
  fix x
  have merged: "\<exists>kvs. merge_into (case y of Inl err \<Rightarrow> Some [] | Inr p \<Rightarrow> decode_map (np_Preferences p)) x = Some (Some kvs)"
    if "\<And>p. y = Inr p \<Longrightarrow> p \<in> set (t_notification_preferences (w_db w))" for y :: "error + notification_preferences"
  proof (cases y)
    case (Inr p)
    with that assms obtain kvs where "np_Preferences p = Doc (JObj kvs)" by (auto simp: preferences_ok_def)
    with Inr show ?thesis by (simp add: merge_into_def)
  qed (simp add: merge_into_def)
  have store: "wp (case merge_into (case y of Inl err \<Rightarrow> Some [] | Inr p \<Rightarrow> decode_map (np_Preferences p)) x of
        None \<Rightarrow> ret None
      | Some merged \<Rightarrow> do {
          z \<leftarrow> Notification_UpsertPreferences (getMerchantID r) (Doc (map_json merged));
          (case z of
             Inl err \<Rightarrow> respondPortalError r 500 ''1007'' ''Failed to save preferences''
           | Inr _ \<Rightarrow> respond r 200 (JObj [(''preferences'', map_json merged), (''success'', JBool True)])) })
      (\<lambda>p v. p \<noteq> None \<and> preferences_ok v) (next_step w)"
    if y: "\<And>p. y = Inr p \<Longrightarrow> p \<in> set (t_notification_preferences (w_db w))" for y :: "error + notification_preferences"
  proof -
    obtain kvs where kvs: "merge_into (case y of Inl err \<Rightarrow> Some [] | Inr p \<Rightarrow> decode_map (np_Preferences p)) x = Some (Some kvs)"
      using merged [OF y] by blast
    show ?thesis
      unfolding kvs
      by (simp add: wp_bind map_json_def, rule wp_mono [OF upsert_preferences_ok])
        (use assms in \<open>auto simp: wp_simps respondPortalError_def respondError_def split: sum.split\<close>)
  qed
  have got: "wp (Notification_GetPreferences (getMerchantID r)) (\<lambda>y v. v = next_step w \<and>
      (\<forall>p. y = Inr p \<longrightarrow> p \<in> set (t_notification_preferences (w_db w)))) w"
    by (auto simp: Notification_GetPreferences_def wp_simps split: outcome.split dest!: sql_one_Inr)
  show "wp (do { x' \<leftarrow> Notification_GetPreferences (getMerchantID r);
     (case merge_into (case x' of Inl err \<Rightarrow> Some [] | Inr p \<Rightarrow> decode_map (np_Preferences p)) x of
        None \<Rightarrow> ret None
      | Some merged \<Rightarrow> do {
          y \<leftarrow> Notification_UpsertPreferences (getMerchantID r) (Doc (map_json merged));
          (case y of
             Inl err \<Rightarrow> respondPortalError r 500 ''1007'' ''Failed to save preferences''
           | Inr _ \<Rightarrow> respond r 200 (JObj [(''preferences'', map_json merged), (''success'', JBool True)])) }) })
      (\<lambda>p v. p \<noteq> None \<and> preferences_ok v) w"
    by (subst wp_bind, rule wp_mono [OF got]) (use store in blast)
qed (use assms in simp_all)

lemma keeps_reply [keeps_intros]:
  "keeps f c \<Longrightarrow> (\<And>st b n. keeps f (k st b n)) \<Longrightarrow> keeps f (case rep of HttpFail \<Rightarrow> c | HttpResp st b n \<Rightarrow> k st b n)"
  by (cases rep) simp_all

text \<open>What no other endpoint touches: this table, the payment intents and the ledger.\<close>

definition kept_by_pages :: "world \<Rightarrow> notification_preferences list \<times> (payment_intent list \<times> ledger_entry list)" where
  "kept_by_pages w = (t_notification_preferences (w_db w), core w)"

lemmas kept_defs = kept_by_pages_def core_def pis_def ledger_def

lemma keeps_pair: "keeps kept_by_pages c \<Longrightarrow> keeps (\<lambda>w. t_notification_preferences (w_db w)) c" "keeps kept_by_pages c \<Longrightarrow> keeps core c"
  by (simp_all add: keeps_def kept_by_pages_def)

lemma keeps_Invitation_Upsert: "(\<And>w. f (next_step w) = f w) \<Longrightarrow> (\<And>w. f (w\<lparr>w_db := w_db w\<rparr>) = f w) \<Longrightarrow> keeps f (Invitation_Upsert iv)"
  using wp_Invitation_Upsert [of iv "\<lambda>_ v. f v = f _"] by (intro keepsI) (simp add: wp_def split_def)

lemma other_pages_keep:
  assumes "p \<noteq> PUpdatePreferences"
  shows "keeps kept_by_pages (page_handler p r)"
proof -
  let ?f = kept_by_pages
  have "keeps ?f (CreatePayout r)" "keeps ?f (CreateCustomer r)" "keeps ?f (InviteMember r)" "keeps ?f (PortalCreateAPIKey r)"
    "keeps ?f (CreateWebhookEndpoint r)" "keeps ?f (ResendInvitation r)" "keeps ?f (RevokeInvitation r)" "keeps ?f (RevokeAPIKey r)"
    "keeps ?f (MarkAllNotificationsRead r)" "keeps ?f (UpdateProfile r)" "keeps ?f (UpdateWorkspace r)" "keeps ?f (AcceptInvitation r)"
    unfolding CreatePayout_def CreateCustomer_def InviteMember_def PortalCreateAPIKey_def CreateWebhookEndpoint_def ResendInvitation_def
      RevokeInvitation_def RevokeAPIKey_def MarkAllNotificationsRead_def UpdateProfile_def UpdateWorkspace_def AcceptInvitation_def
      respond_profile_def Let_def split_def Payout_Create_def Customer_Create_def Member_GetByEmail_def Invitation_GetByEmail_def
      Invitation_Create_def Invitation_DeleteByEmail_def Merchant_CreateAPIKey_def Merchant_DeleteAPIKey_def Endpoint_Create_def
      Notification_MarkAllRead_def User_UpdateProfile_def User_GetByID_def Merchant_GetByID_def Merchant_Update_def
      Invitation_GetByToken_def Member_Create_def
    by ((intro keeps_intros keeps_Invitation_Upsert; simp add: kept_defs)+)
  moreover have "keeps ?f (RetryWebhookDelivery r)"
    unfolding RetryWebhookDelivery_def Delivery_GetByID_def Retry_def deliver_def sendAndRecord_def failDelivery_def Let_def
      Delivery_Create_def Delivery_UpdateStatus_def Delivery_ScheduleRetry_def
    by (intro keeps_intros; simp add: kept_defs)
  ultimately show ?thesis using assms reading_pages_keep [of ?f r] by (cases p) (simp_all add: kept_defs)
qed

lemma public_pages_keep: "keeps kept_by_pages (public_handler h p r)"
proof -
  let ?f = kept_by_pages
  have "keeps ?f (Login r)" "keeps ?f (ForgotPassword r)"
    unfolding Login_def ForgotPassword_def new_session_def split_def User_GetByEmailGlobal_def Session_DeleteByUserID_def
      Session_Create_def Merchant_GetByID_def
    by ((intro keeps_intros; simp add: kept_defs)+)
  moreover have "keeps ?f (Signup r)"
    unfolding Signup_def signup_merchant_def signup_user_def signup_session_def join_team_def new_session_def generateMerchantCode_def
      Let_def split_def Merchant_GetByID_def Merchant_Create_def User_Create_def Session_Create_def Member_Create_def
      Invitation_DeleteByEmail_def Invitation_GetByEmailGlobal_def otp_get_def otp_delete_def
    by (intro keeps_intros; simp add: kept_defs)
  moreover have "keeps ?f (SendOTP h r)"
    unfolding SendOTP_def sms_send_def otp_get_def otp_delete_def otp_set_def otpCode_def Let_def
    by (intro keeps_intros; simp add: kept_defs)
  ultimately show ?thesis by (cases p) simp_all
qed

lemma wp_keeps_preferences:
  assumes "keeps (\<lambda>w. t_notification_preferences (w_db w)) c" "preferences_ok w"
  shows "wp c (\<lambda>_. preferences_ok) w"
  using assms(2) keepsD [OF assms(1), of w] by (simp add: wp_def split_def preferences_ok_def)

lemma portal_keeps_preferences_ok:
  assumes "preferences_ok w"
  shows "wp (portal_routed h ep r) (\<lambda>resp v. preferences_ok v \<and> (ep = Page PUpdatePreferences \<longrightarrow> resp \<noteq> None)) w"
proof (cases ep)
  case (Public p)
  then show ?thesis using wp_keeps_preferences [OF keeps_pair(1) [OF public_pages_keep] assms, of h p r] by simp
next
  case (Page p)
  have ok: "preferences_ok (next_step w)" using assms by simp
  have "wp (page_handler p x) (\<lambda>resp v. preferences_ok v \<and> (p = PUpdatePreferences \<longrightarrow> resp \<noteq> None)) (next_step w)" for x
  proof (cases "p = PUpdatePreferences")
    case True
    then show ?thesis using update_preferences_ok [OF ok, of x] by (simp add: conj_commute)
  next
    case False
    then show ?thesis using wp_keeps_preferences [OF keeps_pair(1) [OF other_pages_keep [OF False]] ok, of x] by simp
  qed
  then show ?thesis using Page assms by (auto intro!: wp_PortalAuth)
qed

text \<open>C31: The stored preferences are objects, so that merging into them never fails. If every stored document
  of preferences is a JSON object, then so is every one after any request to the portal, whatever
  its body and whatever fails; and an update of the preferences does not panic (writing into the
  nil map that a stored \<open>null\<close> would decode to).\<close>

theorem portal_preferences_type:
  assumes "preferences_ok w" and run: "run_state (portal_routed h ep r) w = (resp, v)"
  shows "preferences_ok v \<and> (ep = Page PUpdatePreferences \<longrightarrow> resp \<noteq> None)"
  by (rule wp_run [OF portal_keeps_preferences_ok [OF assms(1)] run])

theorem portal_preferences_type_witness:
  "preferences_ok (snd (run_state (portal_routed \<lparr>ph_SMS = None\<rparr> (Page PUpdatePreferences) portal_request)
     ((portal_world ''m-1'')\<lparr>w_db := (w_db (portal_world ''m-1''))\<lparr>t_notification_preferences :=
        [\<lparr>np_MerchantID = ''m-1'', np_Preferences = Doc (JObj [(''email'', JBool True)]), np_UpdatedAt = 0\<rparr>]\<rparr>\<rparr>)))"
  by (rule conjunct1 [OF portal_preferences_type [OF _ prod.collapse [symmetric]]]) (simp add: preferences_ok_def)

subsection \<open>The export\<close>

definition exported :: "api_request \<Rightarrow> world \<Rightarrow> payment_intent list" where
  "exported r w = take 20 (order_desc pi_CreatedAt (filter (filter_matches (getMerchantID r) (query_filter r 5000 0)) (t_payment_intents (w_db w))))"

lemma ExportTransactionsCSV_run:
  assumes "o_db (w_env w) (w_step w) = Done"
  shows "fst (run_state (ExportTransactionsCSV r) w) = Some \<lparr>rp_Status = 200,
     rp_Header = [(''Content-Type'', ''text/csv''), (''Content-Disposition'', ''attachment; filename=transactions.csv'')],
     rp_Body = TextBody (csv_rows (csv_header # map (csv_line (o_fmt_time (w_env w), o_fmt (w_env w))) (exported r w)))\<rparr>"
proof -
  have "filter_offset (query_filter r 5000 0) = 0" by (simp add: filter_offset_def query_filter_def)
  then show ?thesis
    using assms by (simp add: ExportTransactionsCSV_def PI_ListByMerchantFiltered_def db_Query_def page_def export_limit printers_def
        gets_def exported_def)
qed


definition shouting_intent :: payment_intent where
  "shouting_intent = card_intent\<lparr>pi_CustomerRef := ''a,b \"c'' @ [CHR 0x0A]\<rparr>"

definition export_world :: "payment_intent \<Rightarrow> world" where
  "export_world p = start_world (calm_env no_http []) (empty_db\<lparr>t_payment_intents := [p]\<rparr>)"


end
