(* ===== verification/Telemetry.thy ===== *)
theory Telemetry
  imports Http Floats
begin

section \<open>Logs and telemetry set-up (\<open>internal/telemetry\<close>, the logging middleware)\<close>

text \<open>
  What is written to the log pipeline, and how it is set up. The OpenTelemetry SDK, its exporters
  and zap's own core are not part of the program: the values the code hands to them are what is
  modelled, and what they answer is a parameter.
\<close>

subsection \<open>\<open>time.Duration.String\<close>\<close>

fun decimals :: "nat \<Rightarrow> nat \<Rightarrow> string" where
  "decimals 0 v = []"
| "decimals (Suc k) v = decimals k (v div 10) @ [digit_char (v mod 10)]"

lemma decimals_numeral [simp]: "decimals (numeral k) v = decimals (pred_numeral k) (v div 10) @ [digit_char (v mod 10)]"
  by (subst numeral_eq_Suc) (rule decimals.simps(2))

definition fmtFrac :: "nat \<Rightarrow> nat \<Rightarrow> string" where
  "fmtFrac v prec = (let ds = rev (dropWhile (\<lambda>c. c = CHR ''0'') (rev (decimals prec (v mod 10 ^ prec)))) in
     if ds = [] then [] else CHR ''.'' # ds)"

definition Duration_String :: "int64 \<Rightarrow> string" where
  "Duration_String d =
     (let u = nat \<bar>d\<bar>; s = u div 10 ^ 9; m = s div 60 in
      (if d < 0 then ''-'' else []) @
      (if u = 0 then ''0s''
       else if u < 10 ^ 3 then show_nat u @ ''ns''
       else if u < 10 ^ 6 then show_nat (u div 10 ^ 3) @ fmtFrac u 3 @ [CHR 0xC2, CHR 0xB5, CHR ''s'']
       else if u < 10 ^ 9 then show_nat (u div 10 ^ 6) @ fmtFrac u 6 @ ''ms''
       else (if 0 < m div 60 then show_nat (m div 60) @ ''h'' else []) @ (if 0 < m then show_nat (m mod 60) @ ''m'' else []) @
         show_nat (s mod 60) @ fmtFrac u 9 @ ''s''))"

subsection \<open>Floats from their bits\<close>

datatype go_float = NaN | Inf bool | Finite bool nat int

text \<open>Sign, mantissa and exponent of a format with \<open>p\<close> fraction bits and \<open>w\<close> exponent bits.\<close>

definition float_from_bits :: "nat \<Rightarrow> nat \<Rightarrow> nat \<Rightarrow> go_float" where
  "float_from_bits p w n =
     (let f = n mod 2 ^ p; x = n div 2 ^ p mod 2 ^ w; neg = odd (n div 2 ^ (p + w)); bias = 2 ^ (w - 1) - 1 in
      if x = 2 ^ w - 1 then (if f = 0 then Inf neg else NaN)
      else if x = 0 then Finite neg f (1 - bias - int p)
      else Finite neg (2 ^ p + f) (int x - bias - int p))"

definition Float64frombits :: "int64 \<Rightarrow> go_float" where
  "Float64frombits i = float_from_bits 52 11 (nat (i mod 2 ^ 64))"

definition Float32frombits :: "int64 \<Rightarrow> go_float" where
  "Float32frombits i = float_from_bits 23 8 (nat (i mod 2 ^ 32))"

subsection \<open>From zap fields to attributes (\<open>otelzap.go\<close>)\<close>

text \<open>The kinds of field the code tells apart; all the others are \<open>OtherType\<close>.\<close>

datatype field_type = StringType | Int64Type | Int32Type | Int16Type | Int8Type | Uint64Type | Uint32Type | Uint16Type | Uint8Type
  | UintptrType | Float64Type | Float32Type | BoolType | DurationType | ErrorType | OtherType

text \<open>A field as zap stores it. Of the \<open>Interface\<close> only its text is read: \<open>Error()\<close> of an
  error, \<open>%v\<close> of anything else.\<close>

record zap_field =
  zf_Key :: string
  zf_Type :: field_type
  zf_Integer :: int64
  zf_String :: string
  zf_Interface :: "string option"

definition zap_String :: "string \<Rightarrow> string \<Rightarrow> zap_field" where
  "zap_String k s = \<lparr>zf_Key = k, zf_Type = StringType, zf_Integer = 0, zf_String = s, zf_Interface = None\<rparr>"

definition zap_Int :: "string \<Rightarrow> int64 \<Rightarrow> zap_field" where
  "zap_Int k i = \<lparr>zf_Key = k, zf_Type = Int64Type, zf_Integer = i, zf_String = [], zf_Interface = None\<rparr>"

definition zap_Duration :: "string \<Rightarrow> int64 \<Rightarrow> zap_field" where
  "zap_Duration k d = \<lparr>zf_Key = k, zf_Type = DurationType, zf_Integer = d, zf_String = [], zf_Interface = None\<rparr>"

datatype attr = AString string string | AInt64 string int64 | AFloat64 string go_float | ABool string bool

fun attr_key :: "attr \<Rightarrow> string" where
  "attr_key (AString k s) = k"
| "attr_key (AInt64 k i) = k"
| "attr_key (AFloat64 k x) = k"
| "attr_key (ABool k b) = k"

definition zapFieldToKV :: "zap_field \<Rightarrow> attr" where
  "zapFieldToKV f =
     (case zf_Type f of
        StringType \<Rightarrow> AString (zf_Key f) (zf_String f)
      | Float64Type \<Rightarrow> AFloat64 (zf_Key f) (Float64frombits (zf_Integer f))
      | Float32Type \<Rightarrow> AFloat64 (zf_Key f) (Float32frombits (zf_Integer f))
      | BoolType \<Rightarrow> ABool (zf_Key f) (zf_Integer f = 1)
      | DurationType \<Rightarrow> AString (zf_Key f) (Duration_String (zf_Integer f))
      | ErrorType \<Rightarrow> (case zf_Interface f of Some e \<Rightarrow> AString (zf_Key f) e | None \<Rightarrow> AString (zf_Key f) [])
      | OtherType \<Rightarrow>
          (case zf_Interface f of
             Some v \<Rightarrow> AString (zf_Key f) v
           | None \<Rightarrow> if zf_String f \<noteq> [] then AString (zf_Key f) (zf_String f) else AInt64 (zf_Key f) (zf_Integer f))
      | _ \<Rightarrow> AInt64 (zf_Key f) (zf_Integer f))"

definition zapFieldsToKV :: "zap_field list \<Rightarrow> attr list" where
  "zapFieldsToKV fs = map zapFieldToKV fs"

text \<open>Levels are zap's numbers: debug is \<open>-1\<close>, info 0, warn 1, error 2, and the fatal kinds above.\<close>

datatype severity = SeverityDebug | SeverityInfo | SeverityWarn | SeverityError | SeverityFatal

definition zapSeverity :: "int \<Rightarrow> severity" where
  "zapSeverity l = (if l = -1 then SeverityDebug else if l = 0 then SeverityInfo else if l = 1 then SeverityWarn
     else if l = 2 then SeverityError else SeverityFatal)"

record otel_core =
  oc_name :: string
  oc_fields :: "attr list"
  oc_minLevel :: int

definition newOtelCore :: "string \<Rightarrow> int \<Rightarrow> otel_core" where
  "newOtelCore name minLevel = \<lparr>oc_name = name, oc_fields = [], oc_minLevel = minLevel\<rparr>"

definition Enabled :: "otel_core \<Rightarrow> int \<Rightarrow> bool" where
  "Enabled c level \<longleftrightarrow> oc_minLevel c \<le> level"

definition With :: "otel_core \<Rightarrow> zap_field list \<Rightarrow> otel_core" where
  "With c fs = c\<lparr>oc_fields := oc_fields c @ zapFieldsToKV fs\<rparr>"

record log_entry =
  le_Level :: int
  le_Time :: time
  le_Message :: string

record log_record =
  lr_Timestamp :: time
  lr_Body :: string
  lr_Severity :: severity
  lr_Attributes :: "attr list"

text \<open>The severity's name is zap's. \<open>Check\<close> adds the core to those that write the entry.\<close>

definition Check :: "otel_core \<Rightarrow> log_entry \<Rightarrow> otel_core list \<Rightarrow> otel_core list" where
  "Check c e ce = (if Enabled c (le_Level e) then ce @ [c] else ce)"

definition Write :: "otel_core \<Rightarrow> log_entry \<Rightarrow> zap_field list \<Rightarrow> log_record" where
  "Write c e fs = \<lparr>lr_Timestamp = le_Time e, lr_Body = le_Message e, lr_Severity = zapSeverity (le_Level e),
     lr_Attributes = oc_fields c @ zapFieldsToKV fs\<rparr>"

text \<open>What reaches the pipeline through the core of \<open>BridgeLogger\<close>, whose level is info.\<close>

definition bridged :: "string \<Rightarrow> log_entry \<Rightarrow> zap_field list \<Rightarrow> log_record list" where
  "bridged serviceName e fs = map (\<lambda>c. Write c e fs) (Check (newOtelCore serviceName 0) e [])"

lemma zapFieldToKV_key [simp]: "attr_key (zapFieldToKV f) = zf_Key f"
  by (simp add: zapFieldToKV_def split: field_type.split option.split)

text \<open>Fields added to the core and fields of the entry end up in one list, in that order; nothing
  is dropped and no key changes.\<close>

lemma Write_With: "lr_Attributes (Write (With (With c fs) gs) e hs) = oc_fields c @ zapFieldsToKV (fs @ gs @ hs)"
  by (simp add: Write_def With_def zapFieldsToKV_def)

lemma Write_keys: "map attr_key (lr_Attributes (Write (With (newOtelCore n l) fs) e hs)) = map zf_Key (fs @ hs)"
  by (simp add: Write_def With_def newOtelCore_def zapFieldsToKV_def)

lemma bridged_iff: "bridged n e fs = (if 0 \<le> le_Level e then [Write (newOtelCore n 0) e fs] else [])"
  by (simp add: bridged_def Check_def Enabled_def newOtelCore_def)

text \<open>More serious levels are at least as severe, and what is enabled stays enabled above.\<close>

lemma Enabled_mono: "Enabled c l \<Longrightarrow> l \<le> k \<Longrightarrow> Enabled (With c fs) k"
  by (simp add: Enabled_def With_def)

text \<open>An unsigned field of \<open>2^63\<close> or more is stored as a negative integer, and exported so.\<close>

lemma unsigned_negative: "zapFieldToKV (zap_Int k (wrap64 (2 ^ 63))\<lparr>zf_Type := Uint64Type\<rparr>) = AInt64 k (- (2 ^ 63))"
  by (simp add: zapFieldToKV_def zap_Int_def wrap64_def)

lemma show_small: "show_nat (Suc 0) = ''1''" "show_nat 2 = ''2''" "show_nat 90 = ''90''"
  by code_simp+

lemma duration_examples:
  "Duration_String 0 = ''0s''" "Duration_String 1500 = [CHR ''1'', CHR ''.'', CHR ''5'', CHR 0xC2, CHR 0xB5, CHR ''s'']"
  "Duration_String 2000000 = ''2ms''" "Duration_String (-90) = ''-90ns''"
  by (simp_all add: Duration_String_def Let_def fmtFrac_def digit_char_simps show_small)

lemma float_examples: "Float64frombits (4607182418800017408) = Finite False (2 ^ 52) (- 52)" "Float32frombits 1065353216 = Finite False (2 ^ 23) (- 23)"
  by (simp_all add: Float64frombits_def Float32frombits_def float_from_bits_def Let_def)

subsection \<open>The logging and tracing middleware (\<open>api/middleware.go\<close>)\<close>

text \<open>The status written, 200 when the handler wrote none.\<close>

definition responseWriter_status :: "api_response option \<Rightarrow> int" where
  "responseWriter_status p = (case p of None \<Rightarrow> 200 | Some q \<Rightarrow> rp_Status q)"

definition Logger_fields :: "string \<Rightarrow> string \<Rightarrow> api_response option \<Rightarrow> int64 \<Rightarrow> api_request \<Rightarrow> zap_field list" where
  "Logger_fields meth path p dur r = [zap_String ''method'' meth, zap_String ''path'' path, zap_Int ''status'' (responseWriter_status p),
     zap_Duration ''duration'' dur, zap_String ''req_id'' (GetReqID r)]"

text \<open>The name and the attributes of a request's span; the pattern is empty where chi has none.\<close>

definition Tracing_route :: "string \<Rightarrow> string option \<Rightarrow> string" where
  "Tracing_route path rctx = (case rctx of Some pattern \<Rightarrow> if pattern \<noteq> [] then pattern else path | None \<Rightarrow> path)"

definition Tracing_name :: "string \<Rightarrow> string \<Rightarrow> string option \<Rightarrow> string" where
  "Tracing_name meth path rctx = meth @ '' '' @ Tracing_route path rctx"

definition Tracing_attributes :: "string \<Rightarrow> string \<Rightarrow> string \<Rightarrow> string option \<Rightarrow> api_response option \<Rightarrow> attr list" where
  "Tracing_attributes meth path url rctx p = [AString ''http.method'' meth, AString ''http.route'' (Tracing_route path rctx),
     AString ''http.url'' url, AInt64 ''http.status_code'' (responseWriter_status p)]"

lemma request_log:
  "map lr_Attributes (bridged n e (Logger_fields meth path p dur r)) =
    (if 0 \<le> le_Level e then [[AString ''method'' meth, AString ''path'' path, AInt64 ''status'' (responseWriter_status p),
       AString ''duration'' (Duration_String dur), AString ''req_id'' (GetReqID r)]] else [])"
  by (simp add: bridged_iff Write_def newOtelCore_def zapFieldsToKV_def Logger_fields_def zapFieldToKV_def zap_String_def zap_Int_def
      zap_Duration_def)

text \<open>A panic is recovered inside, so it is logged with its status.\<close>

lemma panic_logged: "wp (Recoverer (\<lambda>r. ret None) r) (\<lambda>p w. responseWriter_status p = 500) w"
  by (simp add: Recoverer_def wp_bind wp_ret responseWriter_status_def http_Error_def)

subsection \<open>The instruments (\<open>metrics.go\<close>)\<close>

text \<open>Name, kind and unit; an error of the constructors is discarded.\<close>

datatype instrument = Int64Counter string | Float64Histogram string string | Int64ObservableGauge string

definition instruments :: "instrument list" where
  "instruments = [Int64Counter ''zia.payment.attempts'', Int64Counter ''zia.payment.succeeded'', Int64Counter ''zia.payment.failed'',
     Float64Histogram ''zia.connector.latency_seconds'' ''s'', Float64Histogram ''zia.webhook.processing_lag_seconds'' ''s'',
     Int64Counter ''zia.ledger.imbalances'', Int64Counter ''zia.token_refresh.failures'', Int64Counter ''zia.reconciliation.exceptions'',
     Int64ObservableGauge ''zia.circuit_breaker.open'', Int64ObservableGauge ''zia.dlq.depth'']"

subsection \<open>Set-up (\<open>setup.go\<close>)\<close>

record telemetry_config =
  tc_Endpoint :: string
  tc_Username :: string
  tc_Password :: string
  tc_ServiceName :: string
  tc_Environment :: string
  tc_SampleRate :: float64

text \<open>The error handler remembers the messages it has printed.\<close>

record error_handler =
  eh_seen :: "string list"
  eh_printed :: "string list"

fun str_contains :: "string \<Rightarrow> string \<Rightarrow> bool" where
  "str_contains s sub \<longleftrightarrow> has_prefix s sub \<or> (case s of [] \<Rightarrow> False | c # t \<Rightarrow> str_contains t sub)"

definition quiet_Handle :: "string \<Rightarrow> error_handler \<Rightarrow> error_handler" where
  "quiet_Handle msg h =
     (if str_contains msg ''connection refused'' \<or> str_contains msg ''no such host'' then h
      else if msg \<notin> set (eh_seen h) then h\<lparr>eh_seen := msg # eh_seen h, eh_printed := eh_printed h @ [''otel: '' @ msg]\<rparr>
      else h)"

definition authHeader :: "string \<Rightarrow> string \<Rightarrow> (string \<times> string) list" where
  "authHeader username password =
     (if username = [] then [] else [(''Authorization'', ''Basic '' @ base64_encode (username @ '':'' @ password))])"

text \<open>What the SDK answers: a parsed URL as scheme and host, a resource, an exporter for given options,
  and what a provider says when it is shut down.\<close>

record exporter_options =
  xo_Endpoint :: string
  xo_URLPath :: string
  xo_Headers :: "(string \<times> string) list"
  xo_Insecure :: bool

record sdk =
  sdk_parse :: "string \<Rightarrow> string + string \<times> string"
  sdk_resource :: "string \<Rightarrow> string \<Rightarrow> string + unit"
  sdk_exporter :: "exporter_options \<Rightarrow> string + unit"

definition endpointParts :: "sdk \<Rightarrow> string \<Rightarrow> string + string \<times> bool" where
  "endpointParts lib endpoint = (case sdk_parse lib endpoint of Inl e \<Rightarrow> Inl e | Inr (scheme, host) \<Rightarrow> Inr (host, scheme = ''http''))"

text \<open>A provider is its exporter's options and its period in seconds (the log provider has none); the
  trace provider samples at the configured rate.\<close>

datatype provider = TraceProvider exporter_options int float64 | MeterProvider exporter_options int | LoggerProvider exporter_options

definition exporter_for :: "sdk \<Rightarrow> telemetry_config \<Rightarrow> string \<Rightarrow> string + exporter_options" where
  "exporter_for lib cfg path =
     (case endpointParts lib (tc_Endpoint cfg) of
        Inl e \<Rightarrow> Inl e
      | Inr (host, insecure) \<Rightarrow>
          (let opts = \<lparr>xo_Endpoint = host, xo_URLPath = path, xo_Headers = authHeader (tc_Username cfg) (tc_Password cfg), xo_Insecure = insecure\<rparr>
           in (case sdk_exporter lib opts of Inl e \<Rightarrow> Inl e | Inr _ \<Rightarrow> Inr opts)))"

definition newTraceProvider :: "sdk \<Rightarrow> telemetry_config \<Rightarrow> string + provider" where
  "newTraceProvider lib cfg =
     (case exporter_for lib cfg ''/api/default/v1/traces'' of Inl e \<Rightarrow> Inl e | Inr x \<Rightarrow> Inr (TraceProvider x 5 (tc_SampleRate cfg)))"

definition newMeterProvider :: "sdk \<Rightarrow> telemetry_config \<Rightarrow> string + provider" where
  "newMeterProvider lib cfg =
     (case exporter_for lib cfg ''/api/default/v1/metrics'' of Inl e \<Rightarrow> Inl e | Inr x \<Rightarrow> Inr (MeterProvider x 15))"

definition newLoggerProvider :: "sdk \<Rightarrow> telemetry_config \<Rightarrow> string + provider" where
  "newLoggerProvider lib cfg =
     (case exporter_for lib cfg ''/api/default/v1/logs'' of Inl e \<Rightarrow> Inl e | Inr x \<Rightarrow> Inr (LoggerProvider x))"

text \<open>The result (an error, or the providers that \<open>shutdown\<close> will stop) and the providers that are
  installed as the global ones.\<close>

definition Setup :: "sdk \<Rightarrow> telemetry_config \<Rightarrow> (string + provider list) \<times> provider list" where
  "Setup lib cfg =
     (case sdk_resource lib (tc_ServiceName cfg) (tc_Environment cfg) of
        Inl e \<Rightarrow> (Inl e, [])
      | Inr _ \<Rightarrow>
     (case newTraceProvider lib cfg of
        Inl e \<Rightarrow> (Inl e, [])
      | Inr tp \<Rightarrow>
     (case newMeterProvider lib cfg of
        Inl e \<Rightarrow> (Inl e, [tp])
      | Inr mp \<Rightarrow>
     (case newLoggerProvider lib cfg of
        Inl e \<Rightarrow> (Inl e, [tp, mp])
      | Inr lp \<Rightarrow> (Inr [tp, mp, lp], [tp, mp, lp])))))"

text \<open>\<open>shutdown\<close> stops every provider, and joins what they report (\<open>errors.Join\<close>: \<open>None\<close> when
  nothing is wrong, else the texts on lines of their own).\<close>

fun join_lines :: "string list \<Rightarrow> string" where
  "join_lines [] = []"
| "join_lines [s] = s"
| "join_lines (s # ss) = s @ CHR 0x0A # join_lines ss"

definition errors_Join :: "string option list \<Rightarrow> string option" where
  "errors_Join es = (case List.map_filter id es of [] \<Rightarrow> None | ss \<Rightarrow> Some (join_lines ss))"

definition Setup_shutdown :: "(provider \<Rightarrow> string option) \<Rightarrow> provider list \<Rightarrow> string option" where
  "Setup_shutdown stop ps = errors_Join (map stop ps)"

definition quiet :: "string \<Rightarrow> bool" where
  "quiet msg \<longleftrightarrow> str_contains msg ''connection refused'' \<or> str_contains msg ''no such host''"

definition handled :: "string list \<Rightarrow> error_handler" where
  "handled msgs = fold quiet_Handle msgs \<lparr>eh_seen = [], eh_printed = []\<rparr>"

text \<open>Whatever errors come, each text is printed once, at its first occurrence, and the suppressed
  ones never.\<close>

lemma handled_state: "eh_printed (handled msgs) = map ((@) ''otel: '') (rev (eh_seen (handled msgs))) \<and> distinct (eh_seen (handled msgs)) \<and>
    set (eh_seen (handled msgs)) = {m \<in> set msgs. \<not> quiet m}"
proof (induction msgs rule: rev_induct)
  case Nil
  then show ?case by (simp add: handled_def)
next
  case (snoc m ms)
  then show ?case by (auto simp: handled_def quiet_Handle_def quiet_def)
qed

lemma printed_once: "distinct (eh_printed (handled msgs)) \<and> set (eh_printed (handled msgs)) = (@) ''otel: '' ` {m \<in> set msgs. \<not> quiet m}"
  using handled_state [of msgs] by (simp add: distinct_map inj_on_def)

text \<open>Set-up succeeds iff the resource and the three exporters do; the exporters share host, credentials
  and protocol. When it fails, the providers already installed stay installed and are never stopped.\<close>

lemma Setup_installs: "Setup lib cfg = (Inr ps, qs) \<Longrightarrow> qs = ps \<and> length ps = 3"
  by (auto simp: Setup_def split: sum.splits)

lemma Setup_leaves:
  assumes "sdk_resource lib (tc_ServiceName cfg) (tc_Environment cfg) = Inr ()" "newTraceProvider lib cfg = Inr tp"
    "newMeterProvider lib cfg = Inl e"
  shows "Setup lib cfg = (Inl e, [tp])"
  using assms by (simp add: Setup_def)

lemma exporter_for_parts: "exporter_for lib cfg path = Inr x \<Longrightarrow> exporter_for lib cfg path' = Inr y \<Longrightarrow>
    y = x\<lparr>xo_URLPath := path'\<rparr> \<and> xo_URLPath x = path"
  by (auto simp: exporter_for_def Let_def split: sum.splits)

lemma shutdown_quiet: "Setup_shutdown stop ps = None \<longleftrightarrow> (\<forall>p \<in> set ps. stop p = None)"
  by (induction ps) (auto simp: Setup_shutdown_def errors_Join_def List.map_filter_def split: list.splits)

end
