(* ===== verification/Wire.thy ===== *)
theory Wire
  imports Text ConnectorTypes
begin

section \<open>Events on the wire\<close>

text \<open>
  The JSON documents in which the two kinds of event travel over the bus, and their decoding by
  the consumers. A \<open>[]byte\<close> field is written in base64 (\<open>null\<close> for nil) and read back
  by \<open>base64.StdEncoding\<close>, which is written out. The bytes of a document are a parameter:
  \<open>raw\<close> gives the bytes that a value of \<open>bytes\<close> stands for, \<open>parse\<close> reads them.
\<close>

subsection \<open>base64 (\<open>StdEncoding.DecodeString\<close>)\<close>

definition b64_value :: "char \<Rightarrow> nat option" where
  "b64_value c =
     (let n = (of_char c :: nat) in
      if 65 \<le> n \<and> n \<le> 90 then Some (n - 65) else if 97 \<le> n \<and> n \<le> 122 then Some (n - 71)
      else if 48 \<le> n \<and> n \<le> 57 then Some (n + 4) else if c = CHR ''+'' then Some 62
      else if c = CHR ''/'' then Some 63 else None)"

text \<open>Quartets; padding only at the very end. The spare bits of a padded quartet are not looked at.\<close>

fun b64_quartets :: "string \<Rightarrow> nat list option" where
  "b64_quartets [] = Some []"
| "b64_quartets (p # q # r # s # cs) =
     (case (b64_value p, b64_value q) of
        (Some a, Some b) \<Rightarrow>
          (let x = a * 4 + b div 16 in
           if r = CHR ''='' then (if s = CHR ''='' \<and> cs = [] then Some [x] else None)
           else (case b64_value r of
             None \<Rightarrow> None
           | Some c \<Rightarrow>
               (let y = b mod 16 * 16 + c div 4 in
                if s = CHR ''='' then (if cs = [] then Some [x, y] else None)
                else (case b64_value s of
                  None \<Rightarrow> None
                | Some d \<Rightarrow> map_option (\<lambda>ns. x # y # (c mod 4 * 64 + d) # ns) (b64_quartets cs)))))
      | _ \<Rightarrow> None)"
| "b64_quartets _ = None"

text \<open>Line ends are skipped.\<close>

definition base64_decode :: "string \<Rightarrow> string option" where
  "base64_decode s = map_option (map char_of) (b64_quartets (filter (\<lambda>c. c \<notin> {CHR 0x0A, CHR 0x0D}) s))"

lemma of_b64_char: "n < 64 \<Longrightarrow> (of_char (b64_char n) :: nat) =
    (if n < 26 then 65 + n else if n < 52 then 71 + n else if n < 62 then n - 4 else if n = 62 then 43 else 47)"
  by (simp add: b64_char_def)

lemma b64_char_simps [simp]:
  assumes "n < 64"
  shows "b64_value (b64_char n) = Some n" "b64_char n \<noteq> CHR ''=''" "b64_char n \<noteq> CHR 0x0A" "b64_char n \<noteq> CHR 0x0D"
proof -
  have signs: "of_char CHR ''='' = (61 :: nat)" "of_char CHR 0x0A = (10 :: nat)" "of_char CHR 0x0D = (13 :: nat)" by simp_all
  have "(of_char (b64_char n) :: nat) \<notin> {61, 10, 13}" using of_b64_char [OF assms] assms by (auto split: if_splits)
  then show "b64_char n \<noteq> CHR ''=''" "b64_char n \<noteq> CHR 0x0A" "b64_char n \<noteq> CHR 0x0D"
    unfolding signs [symmetric] by auto
  show "b64_value (b64_char n) = Some n"
  proof (cases "n < 62")
    case True
    then show ?thesis using of_b64_char [OF assms] by (auto simp: b64_value_def Let_def split: if_splits)
  next
    case False
    then have "n = 62 \<or> n = 63" using assms by linarith
    then show ?thesis by (auto simp: b64_value_def b64_char_def)
  qed
qed

lemma sextets:
  fixes a b c :: nat
  assumes "a < 256" "b < 256" "c < 256"
  shows "a div 4 < 64" "a mod 4 * 16 + b div 16 < 64" "b mod 16 * 4 + c div 64 < 64" "c mod 64 < 64" "a mod 4 * 16 < 64" "b mod 16 * 4 < 64"
    "a div 4 * 4 + (a mod 4 * 16 + b div 16) div 16 = a" "(a mod 4 * 16 + b div 16) mod 16 * 16 + (b mod 16 * 4 + c div 64) div 4 = b"
    "(b mod 16 * 4 + c div 64) mod 4 * 64 + c mod 64 = c" "a div 4 * 4 + a mod 4 * 16 div 16 = a"
    "(a mod 4 * 16 + b div 16) mod 16 * 16 + b mod 16 * 4 div 4 = b"
proof -
  have hi: "b div 16 < 16" "c div 64 < 4" "a div 4 < 64" using assms by auto
  have lo: "a mod 4 < 4" "b mod 16 < 16" "c mod 64 < 64" by simp_all
  show "a div 4 < 64" "a mod 4 * 16 + b div 16 < 64" "b mod 16 * 4 + c div 64 < 64" "c mod 64 < 64" "a mod 4 * 16 < 64" "b mod 16 * 4 < 64"
    using hi lo by linarith+
  have "(a mod 4 * 16 + b div 16) div 16 = a mod 4" "(a mod 4 * 16 + b div 16) mod 16 = b div 16"
    "(b mod 16 * 4 + c div 64) div 4 = b mod 16" "(b mod 16 * 4 + c div 64) mod 4 = c div 64"
    using hi by simp_all
  then show "a div 4 * 4 + (a mod 4 * 16 + b div 16) div 16 = a" "(a mod 4 * 16 + b div 16) mod 16 * 16 + (b mod 16 * 4 + c div 64) div 4 = b"
    "(b mod 16 * 4 + c div 64) mod 4 * 64 + c mod 64 = c" "a div 4 * 4 + a mod 4 * 16 div 16 = a"
    "(a mod 4 * 16 + b div 16) mod 16 * 16 + b mod 16 * 4 div 4 = b"
    by simp_all
qed

lemma b64_quartets_encode: "\<forall>n \<in> set ns. n < 256 \<Longrightarrow> b64_quartets (base64_nats ns) = Some ns"
proof (induction ns rule: base64_nats.induct)
  case (2 a)
  then show ?case using sextets [of a 0 0] by simp
next
  case (3 a b)
  then show ?case using sextets [of a b 0] by simp
next
  case (4 a b c r)
  then show ?case using sextets [of a b c] by (simp add: Let_def)
qed simp

lemma base64_one_line: "\<forall>n \<in> set ns. n < 256 \<Longrightarrow> filter (\<lambda>c. c \<notin> {CHR 0x0A, CHR 0x0D}) (base64_nats ns) = base64_nats ns"
proof (induction ns rule: base64_nats.induct)
  case (2 a)
  then show ?case using sextets [of a 0 0] by simp
next
  case (3 a b)
  then show ?case using sextets [of a b 0] by simp
next
  case (4 a b c r)
  then show ?case using sextets [of a b c] by simp
qed simp

lemma base64_roundtrip: "base64_decode (base64_encode s) = Some s"
  unfolding base64_decode_def base64_encode_def
  by (subst base64_one_line) (simp_all add: b64_quartets_encode o_def)

subsection \<open>Events as documents\<close>

text \<open>\<open>json.Marshal\<close> of the two structs; \<open>WebhookEvent\<close> has no tags.\<close>

definition payload_json :: "(bytes \<Rightarrow> string) \<Rightarrow> bytes \<Rightarrow> json" where
  "payload_json raw b = (if b = NilBytes then JNull else JStr (base64_encode (raw b)))"

definition webhook_document :: "(bytes \<Rightarrow> string) \<Rightarrow> webhook_event \<Rightarrow> json" where
  "webhook_document raw e = JObj [(''PSP'', JStr (ev_PSP e)), (''EventType'', JStr (ev_EventType e)), (''PSPReference'', JStr (ev_PSPReference e)),
     (''PSPTransactionID'', JStr (ev_PSPTransactionID e)), (''DedupKey'', JStr (ev_DedupKey e)), (''Status'', JStr (ev_Status e)),
     (''Amount'', JInt (ev_Amount e)), (''Currency'', JStr (ev_Currency e)), (''RawPayload'', payload_json raw (ev_RawPayload e))]"

definition notification_document :: "notification_event \<Rightarrow> json" where
  "notification_document e = JObj [(''event_type'', JStr (ne_EventType e)), (''pi_id'', JStr (ne_PIID e)), (''merchant_id'', JStr (ne_MerchantID e)),
     (''amountMinor'', JInt (ne_Amount e)), (''currency'', JStr (ne_Currency e)), (''psp'', JStr (ne_PSP e)),
     (''psp_reference'', JStr (ne_PSPReference e)), (''status'', JStr (ne_Status e)), (''timestamp'', JStr (ne_Timestamp e))]"

text \<open>A \<open>[]byte\<close> field: nil for \<open>null\<close>, an error for a string that is not base64.\<close>

fun dec_bytes_from :: "(string \<Rightarrow> bytes) \<Rightarrow> bytes \<Rightarrow> string \<Rightarrow> fields \<Rightarrow> bytes option" where
  "dec_bytes_from parse acc f [] = Some acc"
| "dec_bytes_from parse acc f ((k, v) # kvs) =
     (if key_match f k
      then (case v of JStr s \<Rightarrow> (case base64_decode s of None \<Rightarrow> None | Some t \<Rightarrow> dec_bytes_from parse (parse t) f kvs)
                    | JNull \<Rightarrow> dec_bytes_from parse NilBytes f kvs
                    | _ \<Rightarrow> None)
      else dec_bytes_from parse acc f kvs)"

definition decode_webhook_event :: "(string \<Rightarrow> bytes) \<Rightarrow> bytes \<Rightarrow> webhook_event option" where
  "decode_webhook_event parse b = Option.bind (unmarshal_fields b) (\<lambda>fs.
     Option.bind (dec_string ''PSP'' fs) (\<lambda>psp. Option.bind (dec_string ''EventType'' fs) (\<lambda>ty.
     Option.bind (dec_string ''PSPReference'' fs) (\<lambda>ref. Option.bind (dec_string ''PSPTransactionID'' fs) (\<lambda>txn.
     Option.bind (dec_string ''DedupKey'' fs) (\<lambda>key. Option.bind (dec_string ''Status'' fs) (\<lambda>st.
     Option.bind (dec_int ''Amount'' fs) (\<lambda>amt. Option.bind (dec_string ''Currency'' fs) (\<lambda>cur.
     Option.bind (dec_bytes_from parse NilBytes ''RawPayload'' fs) (\<lambda>raw.
       Some \<lparr>ev_PSP = psp, ev_EventType = ty, ev_PSPReference = ref, ev_PSPTransactionID = txn, ev_DedupKey = key, ev_Status = st,
         ev_Amount = amt, ev_Currency = cur, ev_RawPayload = raw\<rparr>))))))))))"

definition decode_notification_event :: "bytes \<Rightarrow> notification_event option" where
  "decode_notification_event b = Option.bind (unmarshal_fields b) (\<lambda>fs.
     Option.bind (dec_string ''event_type'' fs) (\<lambda>ty. Option.bind (dec_string ''pi_id'' fs) (\<lambda>i.
     Option.bind (dec_string ''merchant_id'' fs) (\<lambda>m. Option.bind (dec_int ''amountMinor'' fs) (\<lambda>amt.
     Option.bind (dec_string ''currency'' fs) (\<lambda>cur. Option.bind (dec_string ''psp'' fs) (\<lambda>psp.
     Option.bind (dec_string ''psp_reference'' fs) (\<lambda>ref. Option.bind (dec_string ''status'' fs) (\<lambda>st.
     Option.bind (dec_string ''timestamp'' fs) (\<lambda>ts.
       Some \<lparr>ne_EventType = ty, ne_PIID = i, ne_MerchantID = m, ne_Amount = amt, ne_Currency = cur, ne_PSP = psp,
         ne_PSPReference = ref, ne_Status = st, ne_Timestamp = ts\<rparr>))))))))))"

lemma webhook_wire:
  assumes "is_int64 (ev_Amount e)" "ev_RawPayload e \<noteq> NilBytes \<Longrightarrow> parse (raw (ev_RawPayload e)) = ev_RawPayload e"
  shows "decode_webhook_event parse (Doc (webhook_document raw e)) = Some e"
  using assms
  by (simp add: decode_webhook_event_def webhook_document_def payload_json_def unmarshal_fields_def key_match_def lower_char_def base64_roundtrip)

lemma notification_wire: "is_int64 (ne_Amount e) \<Longrightarrow> decode_notification_event (Doc (notification_document e)) = Some e"
  by (simp add: decode_notification_event_def notification_document_def unmarshal_fields_def key_match_def lower_char_def)

end
