(* ===== verification/Consumers.thy ===== *)
theory Consumers
  imports Webhook Wire
begin

section \<open>The consumers of the bus (\<open>StartConsumer\<close>)\<close>

text \<open>
  The two endless loops of the worker over what \<open>NextMsg\<close> returns until the process ends: a
  message, or nothing (a time-out, or an error that is logged). A message that does not decode or
  is not handled is answered with \<open>Nak\<close>, so that it comes again, any other with \<open>Ack\<close>; an
  answer that does not reach the server is only logged.
\<close>

datatype fetched = NoMessage | Message bytes

datatype acknowledgement = Ack | Nak

fun consumer_loop :: "(bytes \<Rightarrow> acknowledgement go) \<Rightarrow> fetched list \<Rightarrow> acknowledgement list go" where
  "consumer_loop handle [] = ret []"
| "consumer_loop handle (NoMessage # ms) = consumer_loop handle ms"
| "consumer_loop handle (Message b # ms) = do { a \<leftarrow> handle b; as \<leftarrow> consumer_loop handle ms; ret (a # as) }"

definition acknowledge :: "bool \<Rightarrow> acknowledgement" where
  "acknowledge handled = (if handled then Ack else Nak)"

definition webhook_message :: "(string \<Rightarrow> bytes) \<Rightarrow> processor \<Rightarrow> bytes \<Rightarrow> acknowledgement go" where
  "webhook_message parse p b =
     (case decode_webhook_event parse b of
        None \<Rightarrow> ret Nak
      | Some event \<Rightarrow> do { r \<leftarrow> consume_webhook p event; ret (acknowledge r) })"

definition notification_message :: "bytes \<Rightarrow> acknowledgement go" where
  "notification_message b =
     (case decode_notification_event b of
        None \<Rightarrow> ret Nak
      | Some event \<Rightarrow> do { r \<leftarrow> consume_notification event; ret (acknowledge r) })"

lemma wp_message: "wp (consumer_loop handle (Message b # ms)) Q w =
    wp (handle b) (\<lambda>a. wp (consumer_loop handle ms) (\<lambda>as. Q (a # as))) w"
proof -
  have "wp (do { as \<leftarrow> consumer_loop handle ms; ret (a # as) }) Q = wp (consumer_loop handle ms) (\<lambda>as. Q (a # as))" for a
    by (rule ext) (simp add: wp_bind wp_ret)
  then show ?thesis by (simp add: wp_bind)
qed

text \<open>Every message is answered once, in order.\<close>

lemma consumer_answers: "wp (consumer_loop handle ms) (\<lambda>as v. length as = length (filter (\<lambda>m. m \<noteq> NoMessage) ms)) w"
proof (induction handle ms arbitrary: w rule: consumer_loop.induct)
  case (3 handle b ms)
  show ?case unfolding wp_message by (rule wp_mono [where Q = "\<lambda>_ _. True"], simp add: wp_def split: prod.split)
    (rule wp_mono [OF 3], simp)
qed (simp_all add: wp_simps)

text \<open>What is published is what is consumed.\<close>

lemma published_webhook:
  assumes "is_int64 (ev_Amount e)" "ev_RawPayload e \<noteq> NilBytes \<Longrightarrow> parse (raw (ev_RawPayload e)) = ev_RawPayload e"
  shows "webhook_message parse p (Doc (webhook_document raw e)) = do { r \<leftarrow> consume_webhook p e; ret (acknowledge r) }"
  using webhook_wire [of e parse raw] assms by (simp add: webhook_message_def)

lemma published_notification:
  "is_int64 (ne_Amount e) \<Longrightarrow> notification_message (Doc (notification_document e)) = do { r \<leftarrow> consume_notification e; ret (acknowledge r) }"
  by (simp add: notification_message_def notification_wire)

subsection \<open>A message that comes again\<close>

text \<open>What the handler leaves as it is: the keys of the attempts, and the environment.\<close>

definition refs :: "world \<Rightarrow> (string \<times> string \<times> string \<times> string) list" where
  "refs w = map (\<lambda>a. (att_ID a, att_PSP a, att_PSPReference a, att_PaymentIntentID a)) (t_attempts (w_db w))"

definition db_up :: "world \<Rightarrow> bool" where
  "db_up w \<longleftrightarrow> (\<forall>k. o_db (w_env w) k = Done)"

lemma refs_frames [simp]:
  "refs (next_step w) = refs w" "refs (w\<lparr>w_http := h\<rparr>) = refs w" "refs (w\<lparr>w_bus := b\<rparr>) = refs w"
  "refs (w\<lparr>w_db := t_payment_intents_update g d\<rparr>) = refs (w\<lparr>w_db := d\<rparr>)"
  "refs (w\<lparr>w_db := t_ledger_entries_update g2 d\<rparr>) = refs (w\<lparr>w_db := d\<rparr>)"
  "refs (w\<lparr>w_db := t_webhook_deliveries_update g3 d\<rparr>) = refs (w\<lparr>w_db := d\<rparr>)" "refs (w\<lparr>w_db := w_db w\<rparr>) = refs w"
  by (simp_all add: refs_def)

lemma keeps_refs_attempts: "keeps (\<lambda>w. (refs w, w_env w)) (Attempt_UpdateStatus i st)"
  "keeps (\<lambda>w. (refs w, w_env w)) (Attempt_UpdatePSPTransactionID i t)" "keeps (\<lambda>w. (refs w, w_env w)) (Attempt_UpdateCallbackPayload i b)"
  unfolding Attempt_UpdateStatus_def Attempt_UpdatePSPTransactionID_def Attempt_UpdateCallbackPayload_def
  by (rule keeps_db_exec; auto simp: refs_def table_update_def split: if_splits)+

lemma keeps_refs: "keeps (\<lambda>w. (refs w, w_env w)) (HandleWebhookEvent e evt)" "keeps (\<lambda>w. (refs w, w_env w)) (dispatch_for evt i)"
  unfolding HandleWebhookEvent_def apply_webhook_def post_succeeded_def PostCollection_def publish_outcome_def Notif_Publish_def
    dispatch_for_def Dispatch_def deliver_def sendAndRecord_def failDelivery_def GetAttemptByPSPReference_def GetPaymentIntent_def
    Attempt_GetByPSPReference_def PI_GetByID_def PI_UpdateStatus_def Endpoint_ListByMerchant_def Delivery_Create_def Delivery_UpdateStatus_def Let_def
  by (intro keeps_intros keeps_refs_attempts; auto intro!: keeps_intros split: http_reply.split)+

definition one_attempt :: "webhook_event \<Rightarrow> world \<Rightarrow> attempt \<Rightarrow> bool" where
  "one_attempt evt w a \<longleftrightarrow> filter (\<lambda>a. att_PSP a = ev_PSP evt \<and> att_PSPReference a = ev_PSPReference evt) (t_attempts (w_db w)) = [a]"

definition one_intent :: "string \<Rightarrow> world \<Rightarrow> payment_intent \<Rightarrow> bool" where
  "one_intent i w p \<longleftrightarrow> filter (\<lambda>p. pi_ID p = i) (pis w) = [p]"

lemma one_attempt_kept:
  assumes "one_attempt evt w a" "refs v = refs w"
  shows "\<exists>b. one_attempt evt v b \<and> att_PaymentIntentID b = att_PaymentIntentID a"
proof -
  let ?key = "\<lambda>a. (att_ID a, att_PSP a, att_PSPReference a, att_PaymentIntentID a)"
  let ?P = "\<lambda>a. att_PSP a = ev_PSP evt \<and> att_PSPReference a = ev_PSPReference evt"
  have "map ?key (filter ?P xs) = filter (\<lambda>(_, s, r, _). s = ev_PSP evt \<and> r = ev_PSPReference evt) (map ?key xs)" for xs
    by (simp add: filter_map o_def)
  note key = this
  have "map ?key (filter ?P (t_attempts (w_db v))) = map ?key (filter ?P (t_attempts (w_db w)))"
    unfolding key assms(2) [unfolded refs_def] ..
  then show ?thesis using assms(1) by (auto simp: one_attempt_def map_eq_Cons_conv)
qed

lemma one_intent_paid:
  assumes "one_intent i w p" "pis v = set_pi_status (pi_ID p) st now (pis w)"
  shows "\<exists>q. one_intent i v q \<and> pi_Status q = st"
proof -
  have "p \<in> set (filter (\<lambda>p. pi_ID p = i) (pis w))" using assms(1) by (simp add: one_intent_def)
  then have "pi_ID p = i" by simp
  then show ?thesis using assms by (auto simp: one_intent_def set_pi_status_def filter_map o_def if_distrib cong: if_cong)
qed

definition settled :: "webhook_event \<Rightarrow> world \<Rightarrow> bool" where
  "settled evt w \<longleftrightarrow> db_up w \<and> (\<exists>a p. one_attempt evt w a \<and> one_intent (att_PaymentIntentID a) w p \<and> pi_Status p = PISucceeded)"

lemma no_second_success: "\<not> IsValidTransition PISucceeded PISucceeded"
  by (simp add: transition_simps)

lemma settled_kept:
  assumes "settled evt w" "core v = core w" "(refs v, w_env v) = (refs w, w_env w)"
  shows "settled evt v"
proof -
  obtain a p where w: "db_up w" "one_attempt evt w a" "one_intent (att_PaymentIntentID a) w p" "pi_Status p = PISucceeded"
    using assms(1) by (auto simp: settled_def)
  obtain b where b: "one_attempt evt v b" "att_PaymentIntentID b = att_PaymentIntentID a" using one_attempt_kept [OF w(2)] assms(3) by blast
  have "one_intent (att_PaymentIntentID b) v p" "db_up v" using w(1,3) assms(2,3) b(2) by (simp_all add: one_intent_def core_def db_up_def)
  then show ?thesis unfolding settled_def using b(1) w(4) by blast
qed

lemma handled_first:
  assumes up: "\<forall>k. o_db (w_env w) k = Done" and fresh: "ids_fresh w"
    and att: "filter (\<lambda>a. att_PSP a = ev_PSP evt \<and> att_PSPReference a = ev_PSPReference evt) (t_attempts (w_db w)) = [att]"
    and p: "filter (\<lambda>p. pi_ID p = att_PaymentIntentID att) (pis w) = [p]"
    and ev: "ev_Status evt = ''succeeded''" "jsonb_ok (ev_RawPayload evt)"
    and st: "IsValidTransition (pi_Status p) PISucceeded" "0 < pi_Amount p"
  shows "wp (HandleWebhookEvent e evt) (\<lambda>r v. r = Inr () \<and> outcome_effect e p att PISucceeded w v \<and> settled evt v) w"
proof -
  have st1: "outcome_statuses (ev_Status evt) = Some (PISucceeded, AttemptSucceeded)" by (simp add: ev outcome_statuses_def)
  have all: "att' = att" if "att' \<in> set (t_attempts (w_db w))" "att_PSP att' = ev_PSP evt" "att_PSPReference att' = ev_PSPReference evt" for att'
  proof -
    have "att' \<in> set (filter (\<lambda>a. att_PSP a = ev_PSP evt \<and> att_PSPReference a = ev_PSPReference evt) (t_attempts (w_db w)))" using that by simp
    then show ?thesis unfolding att by simp
  qed
  have one: "p' = p" if "p' \<in> set (pis w)" "pi_ID p' = att_PaymentIntentID att" for p'
  proof -
    have "p' \<in> set (filter (\<lambda>p. pi_ID p = att_PaymentIntentID att) (pis w))" using that by simp
    then show ?thesis unfolding p by simp
  qed
  have "fst (run_state (HandleWebhookEvent e evt) w) = Inr ()"
    by (rule success_completes [OF _ fresh att _ ev st]) (use up p in \<open>simp_all add: db_reliable_def pis_def\<close>)
  then have returns: "wp (HandleWebhookEvent e evt) (\<lambda>r v. r = Inr ()) w" by (auto simp: wp_def split: prod.splits)
  have effect: "wp (HandleWebhookEvent e evt) (\<lambda>r v. r = Inr () \<longrightarrow> outcome_effect e p att PISucceeded w v) w"
    by (rule wp_mono [OF HandleWebhookEvent_effect [OF st1]]) (metis all one)
  have kept: "wp (HandleWebhookEvent e evt) (\<lambda>r v. (refs v, w_env v) = (refs w, w_env w)) w"
    by (rule wp_keepsI [OF keeps_refs(1)])
  have "wp (HandleWebhookEvent e evt) (\<lambda>r v. r = Inr () \<and> (r = Inr () \<longrightarrow> outcome_effect e p att PISucceeded w v) \<and>
      (refs v, w_env v) = (refs w, w_env w)) w"
    using returns effect kept by (simp only: wp_conj)
  then show ?thesis
  proof (rule wp_mono)
    fix r :: "error + unit" and v :: world
    assume v: "r = Inr () \<and> (r = Inr () \<longrightarrow> outcome_effect e p att PISucceeded w v) \<and> (refs v, w_env v) = (refs w, w_env w)"
    obtain a where a: "one_attempt evt v a" "att_PaymentIntentID a = att_PaymentIntentID att"
      using one_attempt_kept [of evt w att v] att v by (auto simp: one_attempt_def)
    obtain now where "pis v = set_pi_status (pi_ID p) PISucceeded now (pis w)" using v st(1) by (auto simp: outcome_effect_def)
    then obtain q where "one_intent (att_PaymentIntentID a) v q" "pi_Status q = PISucceeded"
      using one_intent_paid [of _ w p] p a(2) by (metis one_intent_def)
    moreover have "db_up v" using up v by (simp add: db_up_def)
    ultimately show "r = Inr () \<and> outcome_effect e p att PISucceeded w v \<and> settled evt v"
      using v a(1) unfolding settled_def by blast
  qed
qed

lemma handled_again:
  assumes "settled evt w" "ev_Status evt = ''succeeded''" "jsonb_ok (ev_RawPayload evt)"
  shows "wp (HandleWebhookEvent e evt) (\<lambda>r v. r = Inr () \<and> core v = core w \<and> settled evt v) w"
proof -
  obtain a p where w: "db_up w" "one_attempt evt w a" "one_intent (att_PaymentIntentID a) w p" "pi_Status p = PISucceeded"
    using assms(1) by (auto simp: settled_def)
  have "wp (HandleWebhookEvent e evt) (\<lambda>r v. r = Inr () \<and> core v = core w) w"
    using w assms(2,3) no_second_success
    by (simp add: HandleWebhookEvent_def apply_webhook_def wp_simps repo_defs run_stmt_def table_update_def db_up_def one_attempt_def
        one_intent_def pis_def outcome_statuses_def core_def ledger_def)
  moreover have "wp (HandleWebhookEvent e evt) (\<lambda>r v. (refs v, w_env v) = (refs w, w_env w)) w"
    by (rule wp_keepsI [OF keeps_refs(1)])
  ultimately have "wp (HandleWebhookEvent e evt) (\<lambda>r v. (r = Inr () \<and> core v = core w) \<and> (refs v, w_env v) = (refs w, w_env w)) w"
    by (simp only: wp_conj)
  then show ?thesis by (rule wp_mono) (auto intro: settled_kept [OF assms(1)])
qed

lemma dispatched_again:
  assumes "settled evt w"
  shows "wp (dispatch_for evt i) (\<lambda>_ v. core v = core w \<and> settled evt v) w"
proof -
  have "wp (dispatch_for evt i) (\<lambda>_ v. core v = core w \<and> (refs v, w_env v) = (refs w, w_env w)) w"
    by (simp only: wp_conj) (intro conjI wp_keepsI [OF keeps_core_dispatch_for] wp_keepsI [OF keeps_refs(2)])
  then show ?thesis by (rule wp_mono) (auto intro: settled_kept [OF assms])
qed

text \<open>From the handler to the message.\<close>

lemma wp_webhook_message:
  assumes "decode_webhook_event parse b = Some evt"
    and "wp (HandleWebhookEvent (proc_Orc p) evt) (\<lambda>r v. r = Inr () \<and> R v \<and> settled evt v) w"
    and "\<And>u v. R u \<Longrightarrow> core v = core u \<Longrightarrow> R v"
  shows "wp (webhook_message parse p b) (\<lambda>a v. a = Ack \<and> R v \<and> settled evt v) w"
proof -
  have sent: "wp (if proc_Dispatcher p then dispatch_for evt [] else ret ()) (\<lambda>_ v. R v \<and> settled evt v) u" if "R u" "settled evt u" for u
    by (cases "proc_Dispatcher p") (use that in \<open>auto simp: wp_ret intro!: wp_mono [OF dispatched_again [OF that(2)]] intro: assms(3)\<close>)
  have "wp (consume_webhook p evt) (\<lambda>r v. r = True \<and> R v \<and> settled evt v) w"
    unfolding consume_webhook_def wp_bind
  proof (rule wp_mono [OF assms(2)])
    fix r :: "error + unit" and u
    assume u: "r = Inr () \<and> R u \<and> settled evt u"
    then show "wp (case r of Inl err \<Rightarrow> ret False | Inr _ \<Rightarrow> do { (if proc_Dispatcher p then dispatch_for evt [] else ret ()); ret True })
        (\<lambda>r v. r = True \<and> R v \<and> settled evt v) u"
      using sent [of u] by (simp add: wp_bind wp_ret)
  qed
  then show ?thesis
    unfolding webhook_message_def assms(1) option.case wp_bind by (rule wp_mono) (simp add: wp_ret acknowledge_def)
qed

text \<open>What \<open>NextMsg\<close> returns when one message comes again and again.\<close>

definition copies :: "bytes \<Rightarrow> fetched list \<Rightarrow> bool" where
  "copies b ms \<longleftrightarrow> set ms \<subseteq> {NoMessage, Message b}"

definition delivered :: "fetched list \<Rightarrow> nat" where
  "delivered ms = length (filter (\<lambda>m. m \<noteq> NoMessage) ms)"

lemma delivered_simps [simp]: "delivered [] = 0" "delivered (NoMessage # ms) = delivered ms" "delivered (Message b # ms) = Suc (delivered ms)"
  by (simp_all add: delivered_def)

lemma consumed_again:
  assumes "decode_webhook_event parse b = Some evt" "ev_Status evt = ''succeeded''" "jsonb_ok (ev_RawPayload evt)" "copies b ms" "settled evt w"
  shows "wp (consumer_loop (webhook_message parse p) ms) (\<lambda>as v. as = replicate (delivered ms) Ack \<and> core v = core w) w"
  using assms(4,5)
proof (induction ms arbitrary: w)
  case (Cons m ms)
  have ms: "copies b ms" using Cons.prems(1) by (simp add: copies_def)
  show ?case
  proof (cases m)
    case NoMessage
    then show ?thesis using Cons.IH [OF ms Cons.prems(2)] by simp
  next
    case (Message c)
    then have c: "c = b" using Cons.prems(1) by (simp add: copies_def)
    have "wp (webhook_message parse p b) (\<lambda>a v. a = Ack \<and> core v = core w \<and> settled evt v) w"
      by (rule wp_webhook_message [OF assms(1) handled_again [OF Cons.prems(2) assms(2,3)]]) simp
    then show ?thesis
      unfolding Message c wp_message by (rule wp_mono) (auto intro!: wp_mono [OF Cons.IH [OF ms]])
  qed
qed (simp add: wp_ret)

subsection \<open>The properties\<close>

text \<open>C7: A payment is posted exactly once however often its success message is delivered. With a database
  that carries out every call, fresh identifiers, one attempt with the event's reference and one
  intent of a positive amount that may still be paid: when the worker fetches the message one or
  more times, with nothing in between, every copy is acknowledged, and the ledger grows by one
  posting of the amount and the fee, whether or not merchants are told each time.\<close>

theorem redelivered_success_posts_once:
  assumes "\<forall>k. o_db (w_env w) k = Done" "ids_fresh w"
    "filter (\<lambda>a. att_PSP a = ev_PSP evt \<and> att_PSPReference a = ev_PSPReference evt) (t_attempts (w_db w)) = [att]"
    "filter (\<lambda>p. pi_ID p = att_PaymentIntentID att) (pis w) = [p]"
    "ev_Status evt = ''succeeded''" "jsonb_ok (ev_RawPayload evt)"
    "IsValidTransition (pi_Status p) PISucceeded" "0 < pi_Amount p"
    "decode_webhook_event parse b = Some evt" "set ms \<subseteq> {NoMessage, Message b}" "Message b \<in> set ms"
    "run_state (consumer_loop (webhook_message parse pr) ms) w = (as, v)"
  shows "as = replicate (length (filter (\<lambda>m. m \<noteq> NoMessage) ms)) Ack \<and>
    (\<exists>es. ledger v = ledger w @ es \<and> map line_of es =
       collection_lines (pi_MerchantID p) (att_PSP att) (pi_Amount p) (computeFee (proc_Orc pr) (pi_Amount p))) \<and>
    (\<exists>q \<in> set (pis v). pi_ID q = pi_ID p \<and> pi_Status q = PISucceeded)"
proof -
  let ?R = "\<lambda>v. outcome_effect (proc_Orc pr) p att PISucceeded w v"
  have R: "?R v" if "?R u" "core v = core u" for u v
    using that assms(7) by (simp add: outcome_effect_def core_def)
  have first: "wp (HandleWebhookEvent (proc_Orc pr) evt) (\<lambda>r v. r = Inr () \<and> ?R v \<and> settled evt v) w"
    by (rule handled_first [OF assms(1-8)])
  have loop: "wp (consumer_loop (webhook_message parse pr) ms) (\<lambda>as v. as = replicate (delivered ms) Ack \<and> ?R v) w"
    using assms(10,11)
  proof (induction ms)
    case (Cons m ms)
    have ms: "copies b ms" using Cons.prems(1) by (simp add: copies_def)
    show ?case
    proof (cases m)
      case NoMessage
      then show ?thesis using Cons by simp
    next
      case (Message c)
      then have c: "c = b" using Cons.prems(1) by simp
      have "wp (consumer_loop (webhook_message parse pr) ms) (\<lambda>as v. as = replicate (delivered ms) Ack \<and> ?R v) u"
        if "?R u" "settled evt u" for u
        by (rule wp_mono [OF consumed_again [OF assms(9,5,6) ms that(2)]]) (auto intro: R [OF that(1)])
      then show ?thesis
        unfolding Message c wp_message
        by (intro wp_mono [OF wp_webhook_message [OF assms(9) first R]]) (auto elim: wp_mono)
    qed
  qed simp
  have "as = replicate (delivered ms) Ack" "?R v" using wp_run [OF loop assms(12)] by simp_all
  moreover have "p \<in> set (pis w)" using assms(4) by (metis filter_eq_ConsD in_set_conv_decomp)
  ultimately show ?thesis using assms(7) set_status_new [of p "pis w" PISucceeded] by (auto simp: outcome_effect_def delivered_def)
qed

definition plain_raw :: "bytes \<Rightarrow> string" where "plain_raw b = ''{}''"
definition plain_parse :: "string \<Rightarrow> bytes" where "plain_parse s = (if s = ''{}'' then Doc (JObj []) else Junk s)"

definition charge_message :: bytes where
  "charge_message = Doc (webhook_document plain_raw charge_event)"

lemma charge_decodes: "decode_webhook_event plain_parse charge_message = Some charge_event"
  unfolding charge_message_def
  by (rule webhook_wire) (simp_all add: charge_event_def is_int64_def plain_raw_def plain_parse_def)

definition dispatching :: processor where
  "dispatching = \<lparr>proc_Orc = sample_orch, proc_Dispatcher = True, proc_JS = True\<rparr>"

theorem redelivered_success_posts_once_witness:
  "\<exists>v. run_state (consumer_loop (webhook_message plain_parse dispatching) [Message charge_message, NoMessage, Message charge_message])
       (card_waiting (calm_env no_http [])) = ([Ack, Ack], v) \<and>
     map line_of (ledger v) = collection_lines ''m-1'' ''paystack'' 5000 (computeFee sample_orch 5000)"
proof -
  let ?w = "card_waiting (calm_env no_http [])" and ?ms = "[Message charge_message, NoMessage, Message charge_message]"
  obtain as v where run: "run_state (consumer_loop (webhook_message plain_parse dispatching) ?ms) ?w = (as, v)" by (rule prod.exhaust)
  have up: "\<forall>k. o_db (w_env ?w) k = Done" "ledger ?w = []" "pis ?w = t_payment_intents (w_db ?w)"
    by (simp_all add: card_waiting_def start_world_def calm_env_def ledger_def pis_def empty_db_def)
  have f: "pi_MerchantID card_intent = ''m-1''" "pi_Amount card_intent = 5000" "att_PSP card_attempt = ''paystack''"
    by (simp_all add: card_intent_def card_attempt_def)
  have "as = [Ack, Ack] \<and> map line_of (ledger v) = collection_lines ''m-1'' ''paystack'' 5000 (computeFee sample_orch 5000)"
    using redelivered_success_posts_once [OF up(1) card_waiting_ready(2,3) _ _ _ card_waiting_ready(5) _ charge_decodes _ _ run]
      card_waiting_ready(4) up f
    by (auto simp: charge_event_def dispatching_def)
  then show ?thesis using run by blast
qed


definition paid_notice :: notification_event where
  "paid_notice = \<lparr>ne_EventType = ''payment.succeeded'', ne_PIID = ''5'', ne_MerchantID = ''m-1'', ne_Amount = 5000, ne_Currency = ''NGN'',
     ne_PSP = ''paystack'', ne_PSPReference = ''ref-1'', ne_Status = ''succeeded'', ne_Timestamp = ''2026-01-01T00:00:00Z''\<rparr>"


end
