(* ===== verification/Bookkeeping.thy ===== *)
theory Bookkeeping
  imports Program
begin

section \<open>The books of the whole program\<close>

text \<open>
  The ledger under every run of the program, as a second law of \<open>Program\<close>: entries are only
  added, each of them passes the table's check, and in no currency do the credits added exceed the
  debits, because every posting writes the debit of a pair before its credit.
\<close>

definition appended :: "world \<Rightarrow> world \<Rightarrow> bool" where
  "appended w v \<longleftrightarrow> (\<exists>es. ledger v = ledger w @ es \<and> (\<forall>e \<in> set es. entry_check e) \<and> (\<forall>c. 0 \<le> net c es))"

lemma appended_same: "ledger v = ledger w \<Longrightarrow> appended w v"
  by (auto simp: appended_def intro: exI [of _ "[]"])

lemma appended_trans: "appended u v \<Longrightarrow> appended v w \<Longrightarrow> appended u w"
  unfolding appended_def
proof (elim exE conjE)
  fix es fs
  assume "ledger v = ledger u @ es" "ledger w = ledger v @ fs" "\<forall>e \<in> set es. entry_check e" "\<forall>e \<in> set fs. entry_check e"
    "\<forall>c. 0 \<le> net c es" "\<forall>c. 0 \<le> net c fs"
  then show "\<exists>gs. ledger w = ledger u @ gs \<and> (\<forall>e \<in> set gs. entry_check e) \<and> (\<forall>c. 0 \<le> net c gs)"
    by (intro exI [of _ "es @ fs"]) auto
qed

lemma net_debits_credits: "\<forall>e \<in> set es. entry_check e \<Longrightarrow>
    net c es = sum_list (map le_Amount (filter (\<lambda>e. le_Currency e = c \<and> le_EntryType e = ''debit'') es)) -
      sum_list (map le_Amount (filter (\<lambda>e. le_Currency e = c \<and> le_EntryType e = ''credit'') es))"
  by (induction es) (auto simp: entry_check_def debit_amount_def)

subsection \<open>Postings\<close>

text \<open>A poster whose every prefix of positive lines debits at least as much as it credits.\<close>

locale debit_first = poster +
  assumes debit_first: "(\<And>l. l \<in> set (take n lines) \<Longrightarrow> 0 < pg_Amount l) \<Longrightarrow> sum_list (map line_signed (take n lines)) \<le> 0"
begin

lemma audited: "obeys appended post"
  unfolding obeys_def
proof (intro allI, rule wp_mono [OF post_law])
  fix w v :: world and res
  assume "posts_prefix lines cur ref w res v"
  then obtain es n where es: "map line_of es = lines" "\<forall>e \<in> set es. le_Currency e = cur \<and> le_ReferenceID e = ref"
    "w_db v = (w_db w)\<lparr>t_ledger_entries := t_ledger_entries (w_db w) @ take n es\<rparr>" "\<forall>e \<in> set (take n es). entry_check e"
    unfolding posts_prefix_def by blast
  have lines: "map line_of (take n es) = take n lines" by (simp add: es(1) [symmetric] take_map)
  have signs: "0 < pg_Amount l \<and> pg_EntryType l \<in> {''debit'', ''credit''}" if "l \<in> set (take n lines)" for l
  proof -
    have "l \<in> line_of ` set (take n es)" using that unfolding lines [symmetric] set_map .
    then obtain e where "e \<in> set (take n es)" "l = line_of e" by blast
    then show ?thesis using es(4) by (auto simp: entry_check_def line_of_def)
  qed
  have "net c (take n es) = (if c = cur then - sum_list (map line_signed (take n lines)) else 0)" for c
    unfolding lines [symmetric]
  proof (rule net_lines)
    show "\<forall>e \<in> set (take n es). le_Currency e = cur" using es(2) by (blast dest: in_set_takeD)
    show "\<forall>l \<in> set (map line_of (take n es)). pg_EntryType l \<in> {''debit'', ''credit''}" unfolding lines using signs by blast
  qed
  then have "\<forall>c. 0 \<le> net c (take n es)" using debit_first [of n] signs by simp
  then show "appended w v" using es(3,4) by (auto simp: appended_def ledger_def)
qed

end

interpretation collection_books: debit_first "PostCollection m piID psp amt cur fee" "collection_lines m psp amt fee" cur piID
  for m piID psp amt cur fee
proof unfold_locales
  fix n
  assume "\<And>l. l \<in> set (take n (collection_lines m psp amt fee)) \<Longrightarrow> 0 < pg_Amount l"
  then show "sum_list (map line_signed (take n (collection_lines m psp amt fee))) \<le> 0"
    by (auto simp: collection_lines_def line_signed_def take_Cons split: nat.splits if_splits)
qed

interpretation pair_books: debit_first "post_pair refty ref debit credit amt cur" "pair_lines debit credit amt" cur ref
  for refty ref debit credit amt cur
proof unfold_locales
  fix n
  assume "\<And>l. l \<in> set (take n (pair_lines debit credit amt)) \<Longrightarrow> 0 < pg_Amount l"
  then show "sum_list (map line_signed (take n (pair_lines debit credit amt))) \<le> 0"
    by (cases n; cases "n - 1") (auto simp: pair_lines_def line_signed_def)
qed

subsection \<open>The operations\<close>

lemma appended_keeps: "keeps ledger m \<Longrightarrow> obeys appended m"
  unfolding obeys_def by (auto elim!: wp_keepsI intro: appended_same)

interpretation appending: state_law appended
  by unfold_locales (auto simp: core_def intro: appended_same appended_trans)

lemma keeps_ledger_core: "keeps core m \<Longrightarrow> keeps ledger m"
  by (simp add: keeps_def core_def)

lemma keeps_ledger_intents: "keeps ledger (PI_Create p)" "keeps ledger (PI_UpdateStatus i st)" "keeps ledger (PI_UpdateStatusSafe i a b)"
  "keeps ledger (PI_GetByID i)" "keeps ledger (Attempt_GetByPSPReference psp ref)" "keeps ledger (Attempt_GetByID i)"
  unfolding PI_Create_def PI_UpdateStatus_def PI_UpdateStatusSafe_def PI_GetByID_def Attempt_GetByPSPReference_def Attempt_GetByID_def
  by (intro keeps_intros; simp add: ledger_def)+

lemmas kept = keeps_ledger_intents keeps_core_attempts [THEN keeps_ledger_core] keeps_core_publish [THEN keeps_ledger_core]
  keeps_core_schedule [THEN keeps_ledger_core] keeps_core_idempotency [THEN keeps_ledger_core] keeps_core_connector [THEN keeps_ledger_core]

lemma creation_keeps_ledger: "keeps ledger (CreatePaymentIntent e req)"
  unfolding CreatePaymentIntent_def create_new_def create_on_def collection_failed_def collection_started_def advance_intent_def Let_def
  by (intro keeps_intros kept; simp add: ledger_def)

lemma post_succeeded_appends: "obeys appended (post_succeeded e p att)"
  unfolding post_succeeded_def by (rule collection_books.audited)

lemma webhook_appends: "obeys appended (HandleWebhookEvent e event)"
  unfolding HandleWebhookEvent_def apply_webhook_def
  by (intro appending.steps post_succeeded_appends kept [THEN appended_keeps])

lemma query_appends: "obeys appended (delayed_query e i a psp)"
  unfolding delayed_query_def applyQueryResult_def
  by (intro appending.steps post_succeeded_appends kept [THEN appended_keeps])

lemma settling_keeps_ledger: "keeps ledger Merchant_ListAll" "keeps ledger (Balance acct)" "keeps ledger (conn_InitiatePayout conn q)"
  "keeps ledger (Payout_Create po)" "keeps ledger (Payout_UpdateStatus j st)"
proof -
  show "keeps ledger (conn_InitiatePayout conn q)" using keeps_money_InitiatePayout [of conn q] by (simp add: keeps_def money_def)
qed (unfold Merchant_ListAll_def Balance_def Ledger_Balance_def Payout_Create_def Payout_UpdateStatus_def,
    (intro keeps_intros; simp add: ledger_def)+)

lemma payout_appends: "obeys appended (PostPayoutInit m j amt cur)" "obeys appended (PostPayoutComplete m j amt cur)"
  unfolding post_defs by (rule pair_books.audited)+

lemma settle_appends: "obeys appended (Settle reg policy)"
  unfolding Settle_def settleMerchant_def record_payout_def complete_payout_def Let_def
  by (intro appending.steps payout_appends settling_keeps_ledger [THEN appended_keeps] appending.keeping keeps_core_queries)

interpretation books: program_law appended
  by unfold_locales (auto intro: webhook_appends query_appends settle_appends appended_keeps creation_keeps_ledger)

subsection \<open>The property\<close>

text \<open>C2: The books of the whole program only grow. Over any run of the program, whatever fails in it, the
  ledger keeps every entry it had, in order; what is added has a positive amount and is a debit or a
  credit; and in every currency at least as much has been debited as credited.\<close>

theorem program_books_only_grow:
  assumes "(program_step d)\<^sup>*\<^sup>* w v"
  shows "\<exists>es. ledger v = ledger w @ es \<and> (\<forall>e \<in> set es. 0 < le_Amount e \<and> le_EntryType e \<in> {''debit'', ''credit''}) \<and>
    (\<forall>c. sum_list (map le_Amount (filter (\<lambda>e. le_Currency e = c \<and> le_EntryType e = ''credit'') es)) \<le>
      sum_list (map le_Amount (filter (\<lambda>e. le_Currency e = c \<and> le_EntryType e = ''debit'') es)))"
proof -
  obtain es where es: "ledger v = ledger w @ es" "\<forall>e \<in> set es. entry_check e" "\<forall>c. 0 \<le> net c es"
    using books.all_steps [OF assms] by (auto simp: appended_def)
  show ?thesis using es net_debits_credits [OF es(2)] by (intro exI [of _ es]) (auto simp: entry_check_def)
qed

lemma paying_step: "program_step shop_deployment (card_waiting (calm_env no_http [])) card_paid"
proof (rule program_step.act)
  show "run_state (perform shop_deployment (WebhookMessage charge_message)) (card_waiting (calm_env no_http [])) = ((), card_paid)"
    by (simp add: shop_deployment_def shop_processor_def webhook_message_def charge_decodes consume_webhook_def card_paid_run)
qed

theorem program_books_only_grow_witness:
  "\<exists>es. ledger card_paid = ledger (card_waiting (calm_env no_http [])) @ es \<and> (\<forall>e \<in> set es. 0 < le_Amount e) \<and> posted ''5'' (ledger card_paid) = 1"
  using program_books_only_grow [OF r_into_rtranclp, OF paying_step] card_paid_posted by blast

end
