(* ===== verification/Amounts.thy ===== *)
theory Amounts
  imports Bookkeeping
begin

section \<open>The amounts of the whole program\<close>

text \<open>
  The amounts of the intents under every run of the program, as a third law of \<open>Program\<close>:
  they stay positive. Only a creation adds an intent, after the risk engine has refused an amount
  that is not.
\<close>

definition amounts :: "world \<Rightarrow> int64 list" where
  "amounts w = map pi_Amount (pis w)"

definition stays_positive :: "world \<Rightarrow> world \<Rightarrow> bool" where
  "stays_positive w v \<longleftrightarrow> (\<forall>a \<in> set (amounts w). 0 < a) \<longrightarrow> (\<forall>a \<in> set (amounts v). 0 < a)"

lemma positive_same: "amounts v = amounts w \<Longrightarrow> stays_positive w v"
  by (simp add: stays_positive_def)

interpretation positive: state_law stays_positive
proof unfold_locales
  show "stays_positive w v" if "core v = core w" for v w using that by (intro positive_same) (simp add: amounts_def core_def)
qed (unfold stays_positive_def, blast)

lemma positive_keeps: "keeps amounts m \<Longrightarrow> obeys stays_positive m"
  unfolding obeys_def by (auto elim!: wp_keepsI intro: positive_same)

lemma amounts_core: "keeps core m \<Longrightarrow> keeps amounts m"
  by (simp add: keeps_def core_def amounts_def)

lemma amounts_status: "keeps amounts (PI_UpdateStatus i st)" "keeps amounts (PI_UpdateStatusSafe i a b)"
  unfolding PI_UpdateStatus_def PI_UpdateStatusSafe_def
  by (intro keeps_db_exec keeps_try_call keeps_db_Exec keeps_ok; auto simp: amounts_def pis_def table_update_def o_def if_distrib cong: if_cong)+

lemmas amounts_kept = amounts_status keeps_core_attempts [THEN amounts_core] keeps_core_publish [THEN amounts_core]
  keeps_core_schedule [THEN amounts_core] keeps_core_idempotency [THEN amounts_core] keeps_core_connector [THEN amounts_core]

lemma positive_local: "obeys stays_positive (gets g)" "obeys stays_positive (with_router h)"
  by (intro positive.keeping keeps_intros; simp add: core_def pis_def ledger_def)+

lemmas positive_kept = positive_local amounts_kept [THEN positive_keeps] keeps_core_queries [THEN positive.keeping]

lemma amounts_operations: "keeps amounts (HandleWebhookEvent e event)" "keeps amounts (delayed_query e i a psp)"
  unfolding HandleWebhookEvent_def apply_webhook_def post_succeeded_def PostCollection_def delayed_query_def applyQueryResult_def
    Attempt_GetByPSPReference_def PI_GetByID_def Attempt_GetByID_def Let_def
  by (intro keeps_intros amounts_kept; simp add: amounts_def pis_def)+

lemma amounts_Settle: "keeps amounts (Settle reg DefaultPolicy)"
proof (rule keepsI)
  show "amounts (snd (run_state (Settle reg DefaultPolicy) w)) = amounts w" for w
    using Settle_trace [of DefaultPolicy reg w] by (auto simp: wp_def run_trace_def amounts_def DefaultPolicy_def split: prod.splits)
qed

lemma positive_Create: "0 < pi_Amount p \<Longrightarrow> obeys stays_positive (PI_Create p)"
  unfolding obeys_def by (intro allI wp_PI_Create) (auto simp: stays_positive_def amounts_def core_def)

lemma created_positive:
  assumes "0 < cp_Amount req"
  shows "obeys stays_positive (create_on req psp conn)"
  unfolding create_on_def collection_failed_def collection_started_def advance_intent_def
  by (intro positive.steps positive_Create positive_kept) (use assms in simp_all)

text \<open>The risk engine admits positive amounts only.\<close>

lemma new_positive: "obeys stays_positive (create_new e req)"
  unfolding create_new_def
proof (intro positive.bind positive_kept)
  let ?next = "\<lambda>_. do {
         now \<leftarrow> time_Now;
         call ''routing''
           (with_router (Route now \<lparr>rr_MerchantID = cp_MerchantID req, rr_Currency = cp_Currency req,
              rr_Country = [], rr_Method = cp_Method req, rr_Amount = cp_Amount req\<rparr>))
           (\<lambda>route.
             (case choose_connector (or_registry e) route of
                None \<Rightarrow> fail (ErrMsg (''no registered connector for method='' @ cp_Method req))
              | Some (psp, conn) \<Rightarrow> create_on req psp conn)) }"
  have going: "obeys stays_positive (?next x)" if "0 < cp_Amount req" for x :: unit
    by (intro positive.steps positive_kept created_positive [OF that])
  fix t1 t2
  let ?risk = "Evaluate t1 t2 \<lparr>rk_MerchantID = cp_MerchantID req, rk_Amount = cp_Amount req,
          rk_Currency = cp_Currency req, rk_Method = cp_Method req,
          rk_CustomerPhone = cp_CustomerPhone req, rk_CustomerEmail = cp_CustomerEmail req\<rparr>"
  show "obeys stays_positive (call ''risk check'' (with_risk ?risk) ?next)"
    unfolding obeys_def
  proof
    fix w :: world
    obtain r en where run: "?risk (w_risk w) = (r, en)" by (rule prod.exhaust)
    have same: "amounts (w\<lparr>w_risk := en\<rparr>) = amounts w" by (simp add: amounts_def pis_def)
    show "wp (call ''risk check'' (with_risk ?risk) ?next) (\<lambda>_ v. stays_positive w v) w"
    proof (cases r)
      case Inl
      then show ?thesis by (simp add: wp_call wp_with_risk run positive_same [OF same])
    next
      case (Inr x)
      have "fst (?risk (w_risk w)) = Inr x" by (simp add: run Inr)
      then have "0 < cp_Amount req" by (auto dest: Evaluate_amount)
      have "wp (?next x) (\<lambda>_ v. stays_positive (w\<lparr>w_risk := en\<rparr>) v) (w\<lparr>w_risk := en\<rparr>)"
        using going [OF \<open>0 < cp_Amount req\<close>] unfolding obeys_def by (rule spec)
      then have "wp (?next x) (\<lambda>_ v. stays_positive w v) (w\<lparr>w_risk := en\<rparr>)" by (simp only: stays_positive_def same)
      then show ?thesis by (simp add: wp_call wp_with_risk run Inr)
    qed
  qed
qed

lemma creation_positive: "obeys stays_positive (CreatePaymentIntent e req)"
  unfolding CreatePaymentIntent_def by (intro positive.steps positive_kept new_positive)

interpretation positive_amounts: program_law stays_positive
  by unfold_locales (intro creation_positive amounts_operations [THEN positive_keeps] amounts_Settle [THEN positive_keeps])+

lemma reach_runs: "program_reach d w \<Longrightarrow> \<exists>w0. pis w0 = [] \<and> ledger w0 = [] \<and> (program_step d)\<^sup>*\<^sup>* w0 w"
  by (induction rule: program_reach.induct) (blast intro: rtranclp.rtrancl_into_rtrancl)+

text \<open>C3: Only positive amounts. In every state the program can reach, whatever fails on the way, every
  payment intent has a positive amount, since the risk engine refuses any other before the intent is
  stored and nothing changes an amount afterwards; so has every entry of the ledger, and in no
  currency do the credits exceed the debits.\<close>

theorem program_amounts_positive:
  assumes "program_reach d w"
  shows "(\<forall>p \<in> set (pis w). 0 < pi_Amount p) \<and> (\<forall>e \<in> set (ledger w). 0 < le_Amount e) \<and> (\<forall>c. 0 \<le> net c (ledger w))"
proof -
  obtain w0 where w0: "pis w0 = []" "ledger w0 = []" "(program_step d)\<^sup>*\<^sup>* w0 w" using reach_runs [OF assms] by (elim exE conjE)
  show ?thesis
    using positive_amounts.all_steps [OF w0(3)] books.all_steps [OF w0(3)] w0(1,2)
    by (auto simp: stays_positive_def amounts_def appended_def entry_check_def)
qed

theorem program_amounts_positive_witness:
  "\<exists>w p. program_reach shop_deployment w \<and> pis w = [p] \<and> pi_ID p = ''6'' \<and> 0 < pi_Amount p"
proof -
  obtain w where w: "program_reach shop_deployment w" "map (\<lambda>p. (pi_ID p, pi_Amount p)) (pis w) = [(''6'', 5000)]"
    using shop_sells by (elim exE conjE)
  then show ?thesis using program_amounts_positive [OF w(1)] by (auto simp: map_eq_Cons_conv)
qed

end
