(* ===== verification/Money.thy ===== *)
theory Money
  imports Floats
begin

section \<open>Money helpers (\<open>pkg/moneyutil/money.go\<close>)\<close>

text \<open>Conversions between minor units and float64, which nothing in the program calls.\<close>

text \<open>\<open>math.Round\<close>: half away from zero.\<close>

fun math_Round :: "float64 \<Rightarrow> int" where
  "math_Round (m, e) = (if 0 \<le> e then m * 2 ^ nat e
     else let d = 2 ^ nat (- e) in sgn m * ((2 * \<bar>m\<bar> + d) div (2 * d)))"

definition ToMinor :: "float64 \<Rightarrow> string \<Rightarrow> int64" where
  "ToMinor amount currency =
     (if currency \<in> {''KES'', ''NGN'', ''GHS'', ''UGX'', ''TZS'', ''RWF''} then int64_of_float (math_Round (fl_scale amount 100))
      else if currency \<in> {''USD'', ''EUR'', ''GBP''} then int64_of_float (math_Round (fl_scale amount 100))
      else if currency = ''JPY'' then int64_of_float (math_Round amount)
      else int64_of_float (math_Round (fl_scale amount 100)))"

definition ToMajor :: "int64 \<Rightarrow> string \<Rightarrow> float64" where
  "ToMajor amountMinor currency =
     (if currency \<in> {''KES'', ''NGN'', ''GHS'', ''UGX'', ''TZS'', ''RWF''} then fl_div (fl_of_int amountMinor) 100
      else if currency \<in> {''USD'', ''EUR'', ''GBP''} then fl_div (fl_of_int amountMinor) 100
      else if currency = ''JPY'' then fl_of_int amountMinor
      else fl_div (fl_of_int amountMinor) 100)"

definition FormatMinor :: "int64 \<Rightarrow> string \<Rightarrow> string" where
  "FormatMinor amountMinor currency =
     (let major = ToMajor amountMinor currency in
      if currency \<in> {''KES'', ''UGX'', ''TZS'', ''RWF''} then ''KES '' @ fmt_2f major
      else if currency = ''USD'' then ''$'' @ fmt_2f major
      else if currency = ''EUR'' then [CHR 0xE2, CHR 0x82, CHR 0xAC] @ fmt_2f major
      else if currency = ''GBP'' then [CHR 0xC2, CHR 0xA3] @ fmt_2f major
      else if currency = ''NGN'' then [CHR 0xE2, CHR 0x82, CHR 0xA6] @ fmt_2f major
      else if currency = ''GHS'' then ''GH'' @ [CHR 0xE2, CHR 0x82, CHR 0xB5] @ fmt_2f major
      else currency @ '' '' @ fmt_2f major)"

text \<open>Shillings of four countries are printed as Kenyan ones.\<close>

lemma FormatMinor_shillings: "FormatMinor a ''UGX'' = FormatMinor a ''KES''" "FormatMinor a ''RWF'' = FormatMinor a ''KES''"
  by (simp_all add: FormatMinor_def ToMajor_def)

lemma yen_roundtrip: "\<bar>a\<bar> < 2 ^ 53 \<Longrightarrow> ToMinor (ToMajor a ''JPY'') ''JPY'' = a"
  by (simp add: ToMinor_def ToMajor_def fl_of_int_exact int64_of_float_def is_int64_def) linarith

end
