(* ===== verification/Spec2Isabelle.thy ===== *)
theory Spec2Isabelle
  imports Amounts Money
begin

section \<open>The payment orchestrator zia\<close>

text \<open>
  A verification library for the payment orchestrator zia (Go). A merchant's request creates a
  payment intent; the orchestrator assesses the risk, picks a payment service provider (PSP:
  M-Pesa or Paystack), starts the collection there, and later learns the outcome from the PSP's
  webhook or from a delayed status query. A collection that succeeds is posted to a double-entry
  ledger, the merchant is told by a webhook and a notification, a nightly settlement pays the
  balances out, and a nightly reconciliation compares the attempts with the PSP.

  \<^bold>\<open>How the program is modelled.\<close> A Go function that only computes is a HOL
  function. A function that reads the clock, the database, Redis, NATS or the network is a state
  transformer on \<open>world\<close> (theory \<open>World\<close>): the tables, the Redis store, the
  messages published, the HTTP requests sent, the timers started, the in-memory routing and risk
  engines, and an \<open>environment\<close> that answers each external call by its number: fresh
  UUIDs, clock readings, whether a statement is executed, refused, or executed without its
  acknowledgement, the HTTP replies, whether NATS accepts. Nothing is assumed of the environment
  unless a theorem says so, so a theorem about a handler covers every schedule of failures. Go's
  \<open>(T, error)\<close> is \<open>error + 'a\<close>, and \<open>try_call\<close> / \<open>call\<close> of
  \<open>Prelude\<close> are the idiom \<open>if err != nil { return ... }\<close>. An \<open>int64\<close> is an
  \<open>int\<close> with every arithmetic operation wrapped explicitly (\<open>wrap64\<close>); SHA-256 is on
  \<open>32 word\<close>. Struct fields keep their names with a prefix for the type (\<open>pi_Status\<close>
  is \<open>PaymentIntent.Status\<close>); a method keeps its name, with the receiver as a prefix where two
  types share it (\<open>PI_UpdateStatus\<close>, \<open>Attempt_UpdateStatus\<close>).

  \<^bold>\<open>Theories and sources.\<close>
  \<^item> \<open>Prelude\<close>: errors, 64-bit arithmetic, decimal printing, the effect combinators, and
    the calculus of the proofs: weakest preconditions (\<open>wp_simps\<close>) and preserved parts of the
    state (\<open>keeps_intros\<close>). \<open>Json\<close>: JSON documents and their decoding into
    structs, with Go's case-insensitive field matching and integer ranges. \<open>Text\<close>: the
    string functions of the standard library the code calls, \<open>pkg/phoneutil\<close>.
  \<^item> \<open>Domain\<close> (\<open>internal/domain\<close>), \<open>ConnectorTypes\<close>
    (\<open>internal/connector/connector.go\<close>): the records, status types and messages.
  \<^item> \<open>Routing\<close> (\<open>internal/routing\<close>): the circuit breaker as a state machine and
    the rule engine with its fallbacks. \<open>Risk\<close> (\<open>internal/risk\<close>): amount bounds and
    the sliding window per phone number.
  \<^item> \<open>World\<close>, \<open>Repository\<close> (\<open>internal/repository\<close>): the external calls
    and, for each repository method, the SQL statement it executes on lists of rows, with primary
    keys, unique columns, \<open>WHERE\<close>, \<open>ORDER BY\<close> and \<open>LIMIT\<close>. The locales
    \<open>keyed_table\<close> and \<open>status_table\<close> state what a table promises (insert, look up,
    update) and are interpreted on every table that has the operations.
  \<^item> \<open>Ledger\<close> (\<open>internal/ledger\<close>): accounts, \<open>validateBalanced\<close>, the
    five postings; an abstract \<open>book\<close> of balances and the refinement of the postings to it.
  \<^item> \<open>Stores\<close> (\<open>internal/idempotency\<close>, \<open>internal/webhook/dedup.go\<close>): the
    Redis stores, with the locale \<open>expiring_store\<close> they both satisfy.
  \<^item> \<open>Mpesa\<close>, \<open>Paystack\<close>, \<open>Connectors\<close>
    (\<open>internal/connector\<close>): the two PSP clients, requests and replies as JSON; the locale
    \<open>psp_connector\<close> is the Go interface with the frame the orchestrator relies on.
  \<^item> \<open>Notification\<close> (\<open>internal/notification\<close>): the notification of a merchant and the
    retry loop. \<open>Webhook\<close> (\<open>internal/webhook\<close>, \<open>internal/api/webhook.go\<close>):
    ingestion, an event from the bus, delivery to the merchants' endpoints. \<open>Wire\<close>: the JSON
    documents in which events travel over the bus, base64 included. \<open>Consumers\<close>: the two
    consumer loops, with their acknowledgements.
  \<^item> \<open>Orchestrator\<close> (\<open>internal/orchestrator\<close>): creation of an intent, the
    webhook handler, the delayed query, the state machine of an intent.
    \<open>Payments\<close>, \<open>Creation\<close>, \<open>Race\<close> and \<open>Incidents\<close> hold its
    theorems: sequential invariants by rule induction on \<open>pay_reach\<close>, what a successful
    creation leaves behind, the two handlers as small steps whose interleavings are schedules, and
    concrete runs in which a step fails.
  \<^item> \<open>Settlement\<close> (\<open>internal/settlement\<close>), \<open>Reconciliation\<close>
    (\<open>internal/reconciliation\<close>, \<open>cmd/cron\<close>): the two nightly runs.
  \<^item> \<open>Httpsign\<close> (\<open>pkg/httpsign\<close>): request signatures, with SHA-256 and HMAC
    written out. \<open>Http\<close> (\<open>internal/api/middleware.go\<close>, \<open>response.go\<close>,
    \<open>internal/authn\<close>): envelopes, request ids, panics, API keys. \<open>Api\<close>
    (\<open>internal/api/paymentintent.go\<close>, \<open>checkout.go\<close>, \<open>merchant.go\<close>,
    \<open>router.go\<close>, \<open>internal/service\<close>): the handlers and the middleware chain.
    \<open>Views\<close> holds two tools for properties of whole requests: the reduction of a request
    through the middleware to its handler, and noninterference with respect to a view of the state
    (locale \<open>view\<close>, interpreted for the two observers below). \<open>Tenants\<close>: which parts of
    the database an answer of the API may depend on.
  \<^item> The merchant portal (\<open>internal/api/portal.go\<close>, \<open>internal/repository/portal.go\<close>):
    \<open>PortalRepo\<close> (its tables), \<open>Portal\<close> (sign-up codes, login, sessions),
    \<open>PortalPages\<close> (dashboard, transactions, payouts, customers), \<open>PortalAdmin\<close> (team, API
    keys, webhooks, preferences, profile, and the table of its endpoints), with \<open>Floats\<close>
    (float64 and \<open>%.2f\<close>), \<open>Times\<close> (RFC 3339) and \<open>Csv\<close> (\<open>encoding/csv\<close>).
    \<open>PortalAccess\<close>, \<open>PortalFlows\<close> and \<open>PortalData\<close> hold its theorems.
  \<^item> \<open>Telemetry\<close> (\<open>internal/telemetry\<close>, the logging and tracing middleware): from a log
    entry to a record, the error handler, set-up and shutdown, with the SDK as a parameter.
    \<open>Money\<close> (\<open>pkg/moneyutil\<close>): the conversions, which have no caller.
  \<^item> \<open>Program\<close> (\<open>cmd/api\<close>, \<open>cmd/worker\<close>, \<open>cmd/cron\<close>): configuration from
    the environment, the assembly of the three processes, and the step relation \<open>program_step\<close>,
    whose actions are the requests to the API and the portal, the bytes of the messages to the
    worker, the delayed queries and the cron runs. \<open>Bookkeeping\<close> and \<open>Amounts\<close>: the ledger
    and the amounts in such runs.

  \<^bold>\<open>What the lemmas show.\<close>
  \<^item> The whole program: the locale \<open>state_law\<close> carries a relation between states through the
    control structures, and \<open>program_law\<close> from the four operations that touch intents and ledger
    to every run of the program, through the middleware, the pages and the consumers. Its three
    interpretations: a collection is posted at most once and
    only for a paid intent, and an intent keeps its merchant and amount and follows the state
    machine; the ledger only grows, by checked entries whose credits never exceed the debits
    (\<open>Bookkeeping\<close>); amounts stay positive (\<open>Amounts\<close>). They hold in every run, with any failures.
  \<^item> Payments: in every sequence of creations, webhooks and delayed queries a collection is posted
    at most once and intents move only along the transitions of the state machine; a success webhook
    for a waiting payment posts exactly its amount less the fee; with a working database it does
    complete, and however often the bus delivers it, it is acknowledged and the collection posted once. Delayed queries may interleave in any way and still post once, because they update the
    status conditionally; a webhook handler may not, and a schedule that posts twice is exhibited.
  \<^item> Money: the postings refine an abstract book of balances, debits equal credits after any run
    of them, a reversal undoes a reservation; one settlement run never pays a merchant more than the available balance;
    when the database fails between paying and booking, the next run pays the same balance again.
  \<^item> Decisions: routing refines \<open>first usable choice\<close>, never picks a PSP whose
    breaker is open, and the breaker recovers; the risk window admits at most its limit in any window.
  \<^item> Interfaces: an unauthenticated request is refused and changes nothing; a merchant's
    endpoints do not depend on the rows of other merchants (noninterference, relation
    \<open>same_for\<close>), except for reading a payment intent, where the code has no such check.
  \<^item> The portal: without a live session a page answers 401 and nothing happens; a page's answer
    depends on the rows of the session's merchant and user only, and a page changes no others
    (\<open>same_account\<close>, \<open>foreign\<close>), except for deliveries, which any session may read and
    retry; a login opens the one session of its user; a sign-up uses up its code, but chooses its own
    role; an API key works from its creation to its revocation; stored preferences stay objects.
  \<^item> Round trips: the CSV export, amounts to and from Paystack, phone numbers, the idempotency store, decimal
    numbers, events over the bus, and the ambiguity of the signed string.

  \<^bold>\<open>Bounds.\<close> No definition needs fuel. Loops over rows, rules or PSPs are
  \<open>foreach\<close> or recursion on the list; the notification retry loop recurses on the attempts that
  are left (three). Endless loops (the consumers, the HTTP server) are recursion on what they
  are given until the process ends, or the paths of a step relation. SHA-256 pads any
  message of fewer than \<open>2 ^ 61\<close> bytes the way the standard does.

  \<^bold>\<open>Not modelled.\<close> The OpenTelemetry SDK and zap; log calls and measurements inside
  handlers, which do not change what they do; \<open>url.Parse\<close> and \<open>strconv.ParseFloat\<close>,
  parameters where only a setting of the telemetry depends on them; the bytes of a JSON document,
  which are a parameter where a document is nested in another; time-outs of the server; the stub
  \<open>main.go\<close>; the pgx pool, whose answers are the environment; path matching, which is chi's.
  In \<open>Program\<close> an action runs to its end before the next begins; interleaved handlers are the
  subject of \<open>Race\<close>. A context is never cancelled. A database statement is atomic; the
  program uses no transactions, so a handler is the sequence of its statements. The portal's SMS
  is sent where its goroutine is started; \<open>bcrypt\<close> and \<open>crypto/rand\<close> are answered by the
  environment; \<open>ILIKE\<close> folds the case of ASCII letters only, since the rest depends on the
  database's locale.
\<close>

end
